(* ===== verification/Prelude.thy ===== *)
theory Prelude
  imports Main "HOL-Library.Product_Lexorder" "HOL-Library.Option_ord"
begin

text \<open>
  Shared vocabulary of the CryptoPulse development.

  \<^item> Time: PostgreSQL timestamps and Go \<^verbatim>\<open>time.Time\<close> values are integers, nanoseconds since
    the Unix epoch; Go's \<^verbatim>\<open>time.Duration\<close> is an integer number of nanoseconds. Integers of the
    code that are never the result of an arithmetic operation (chat ids, row ids) are plain
    \<^typ>\<open>int\<close>; where the code computes with \<^verbatim>\<open>int64\<close> values, \<open>wrap64\<close> writes the
    wrap-around out and \<open>go_rem\<close> is Go's truncated remainder.
  \<^item> Tables: a table is the list of its rows. \<open>sql_update\<close> is \<^verbatim>\<open>UPDATE ... SET ... WHERE\<close>,
    \<open>affected\<close> its \<^verbatim>\<open>RowsAffected()\<close>, \<open>sql_select\<close> is
    \<^verbatim>\<open>SELECT ... WHERE ... ORDER BY ... LIMIT\<close>.
  The generic lemmas about them carry the component proofs; the collection \<open>sql_simps\<close> holds the
  rewriting rules.
\<close>

named_theorems sql_simps "rewriting rules for the table operations"
named_theorems model_defs "definitions of the model that proofs unfold together"

section \<open>Integers and time\<close>

type_synonym time = int
type_synonym duration = int

definition second :: duration where
  [simp]: "second = 1000000000"

definition minute :: duration where
  [simp]: "minute = 60000000000"

definition hour :: duration where
  [simp]: "hour = 3600000000000"

text \<open>The value an \<^verbatim>\<open>int64\<close> holds after an operation whose exact result is \<open>x\<close>.\<close>

definition wrap64 :: "int \<Rightarrow> int" where
  "wrap64 x = (x + 2 ^ 63) mod 2 ^ 64 - 2 ^ 63"

definition int64_range :: "int \<Rightarrow> bool" where
  "int64_range x \<longleftrightarrow> - (2 ^ 63) \<le> x \<and> x < 2 ^ 63"

lemma wrap64_id: "int64_range x \<Longrightarrow> wrap64 x = x"
  by (simp add: wrap64_def int64_range_def)

lemma wrap64_range: "int64_range (wrap64 x)"
proof -
  have "0 \<le> (x + 2 ^ 63) mod 2 ^ 64" and "(x + 2 ^ 63) mod 2 ^ 64 < (2 ^ 64 :: int)"
    by simp_all
  then show ?thesis by (simp add: wrap64_def int64_range_def)
qed

text \<open>Go's \<^verbatim>\<open>%\<close> truncates towards zero: the remainder has the sign of the dividend.\<close>

definition go_rem :: "int \<Rightarrow> int \<Rightarrow> int" where
  "go_rem a b = sgn a * (\<bar>a\<bar> mod \<bar>b\<bar>)"

text \<open>Go's \<^verbatim>\<open>/\<close> on integers truncates towards zero.\<close>

definition go_div :: "int \<Rightarrow> int \<Rightarrow> int" where
  "go_div a b = sgn a * sgn b * (\<bar>a\<bar> div \<bar>b\<bar>)"

text \<open>Go's zero \<^verbatim>\<open>time.Time\<close> (1 January of the year 1), and the saturating \<^verbatim>\<open>t.Sub(u)\<close>.\<close>

definition zero_time :: time where
  "zero_time = - 62135596800000000000"

definition time_Sub :: "time \<Rightarrow> time \<Rightarrow> duration" where
  "time_Sub t u = max (- (2 ^ 63)) (min (2 ^ 63 - 1) (t - u))"

text \<open>PostgreSQL's \<^verbatim>\<open>date_trunc('minute', t)\<close>.\<close>

definition date_trunc_minute :: "time \<Rightarrow> time" where
  "date_trunc_minute t = t - t mod minute"

section \<open>Tables\<close>

definition sql_update :: "('r \<Rightarrow> bool) \<Rightarrow> ('r \<Rightarrow> 'r) \<Rightarrow> 'r list \<Rightarrow> 'r list" where
  "sql_update p f rows = map (\<lambda>r. if p r then f r else r) rows"

definition affected :: "('r \<Rightarrow> bool) \<Rightarrow> 'r list \<Rightarrow> nat" where
  "affected p rows = length (filter p rows)"

definition sql_select :: "('r \<Rightarrow> bool) \<Rightarrow> ('r \<Rightarrow> 'k::linorder) \<Rightarrow> nat \<Rightarrow> 'r list \<Rightarrow> 'r list" where
  "sql_select p k n rows = take n (sort_key k (filter p rows))"

definition sql_exists :: "('r \<Rightarrow> bool) \<Rightarrow> 'r list \<Rightarrow> bool" where
  "sql_exists p rows \<longleftrightarrow> list_ex p rows"

text \<open>The \<open>key\<close> columns of a table carry a unique index.\<close>

definition unique_on :: "('r \<Rightarrow> 'k) \<Rightarrow> 'r list \<Rightarrow> bool" where
  "unique_on k rows \<longleftrightarrow> distinct (map k rows)"

text \<open>A partial unique index: only the rows with \<open>p\<close> are indexed.\<close>

definition unique_where :: "('r \<Rightarrow> bool) \<Rightarrow> ('r \<Rightarrow> 'k) \<Rightarrow> 'r list \<Rightarrow> bool" where
  "unique_where p k rows \<longleftrightarrow> distinct (map k (filter p rows))"

lemma sql_update_Nil [simp]: "sql_update p f [] = []"
  by (simp add: sql_update_def)

lemma sql_update_Cons [simp]:
  "sql_update p f (r # rows) = (if p r then f r else r) # sql_update p f rows"
  by (simp add: sql_update_def)

lemma sql_update_append [simp]:
  "sql_update p f (xs @ ys) = sql_update p f xs @ sql_update p f ys"
  by (simp add: sql_update_def)

lemma length_sql_update [simp]: "length (sql_update p f rows) = length rows"
  by (simp add: sql_update_def)

lemma set_sql_update [sql_simps]:
  "set (sql_update p f rows) = (\<lambda>r. if p r then f r else r) ` set rows"
  by (simp add: sql_update_def)

lemma sql_update_none: "(\<And>r. r \<in> set rows \<Longrightarrow> \<not> p r) \<Longrightarrow> sql_update p f rows = rows"
  by (induction rows) auto

lemma affected_Nil [simp]: "affected p [] = 0"
  by (simp add: affected_def)

lemma affected_Cons [simp]: "affected p (r # rows) = (if p r then Suc (affected p rows) else affected p rows)"
  by (simp add: affected_def)

lemma affected_append [simp]: "affected p (xs @ ys) = affected p xs + affected p ys"
  by (simp add: affected_def)

lemma affected_0_iff [sql_simps]: "affected p rows = 0 \<longleftrightarrow> (\<forall>r \<in> set rows. \<not> p r)"
  by (simp add: affected_def filter_empty_conv)

lemma affected_pos_iff [sql_simps]: "0 < affected p rows \<longleftrightarrow> (\<exists>r \<in> set rows. p r)"
  by (simp add: affected_def filter_empty_conv)

lemma sql_exists_iff [sql_simps]: "sql_exists p rows \<longleftrightarrow> (\<exists>r \<in> set rows. p r)"
  by (simp add: sql_exists_def list_ex_iff)

lemma affected_0_update: "affected p rows = 0 \<Longrightarrow> sql_update p f rows = rows"
  by (rule sql_update_none) (simp add: affected_0_iff)

lemma sql_update_keys:
  "(\<And>r. r \<in> set rows \<Longrightarrow> p r \<Longrightarrow> k (f r) = k r) \<Longrightarrow> map k (sql_update p f rows) = map k rows"
  by (induction rows) auto

lemma unique_on_update:
  "unique_on k rows \<Longrightarrow> (\<And>r. r \<in> set rows \<Longrightarrow> p r \<Longrightarrow> k (f r) = k r) \<Longrightarrow> unique_on k (sql_update p f rows)"
  by (simp add: unique_on_def sql_update_keys)

lemma unique_onD:
  assumes "unique_on k rows" "r \<in> set rows" "r' \<in> set rows" "k r = k r'"
  shows "r = r'"
proof -
  from assms(1) have "inj_on k (set rows)"
    by (simp add: unique_on_def distinct_map)
  from inj_onD [OF this assms(4) assms(2) assms(3)] show ?thesis .
qed

lemma unique_on_snoc [simp]: "unique_on k (rows @ [r]) \<longleftrightarrow> unique_on k rows \<and> k r \<notin> k ` set rows"
  by (simp add: unique_on_def)

lemma unique_on_filter: "unique_on k rows \<Longrightarrow> unique_on k (filter p rows)"
  by (simp add: unique_on_def distinct_map_filter)

text \<open>An update whose guard fixes the key touches at most one row.\<close>

lemma affected_le_1:
  assumes "unique_on k rows" and "\<And>r. r \<in> set rows \<Longrightarrow> p r \<Longrightarrow> k r = c"
  shows "affected p rows \<le> 1"
  using assms
proof (induction rows)
  case Nil
  then show ?case by simp
next
  case (Cons r rows)
  from Cons.prems have IH: "affected p rows \<le> 1"
    by (intro Cons.IH) (auto simp: unique_on_def)
  show ?case
  proof (cases "p r")
    case True
    with Cons.prems have "affected p rows = 0"
      by (fastforce simp: affected_0_iff unique_on_def image_iff)
    with True show ?thesis by simp
  next
    case False
    with IH show ?thesis by simp
  qed
qed

text \<open>
  Partial unique indexes. An update keeps one when it takes rows out of the index or changes
  neither the membership nor the key of a row; an insert keeps it when its key is not indexed yet.
\<close>

lemma unique_where_update:
  assumes "unique_where q k rows"
    and "\<And>r. r \<in> set rows \<Longrightarrow> p r \<Longrightarrow> q (f r) \<Longrightarrow> q r \<and> k (f r) = k r"
  shows "unique_where q k (sql_update p f rows)"
proof -
  have keys: "k ` set (filter q (sql_update p f xs)) \<subseteq> k ` set (filter q xs)"
    if "set xs \<subseteq> set rows" for xs
    using that assms(2) by (fastforce simp: set_sql_update)
  have "set xs \<subseteq> set rows \<Longrightarrow> unique_where q k xs \<Longrightarrow> unique_where q k (sql_update p f xs)" for xs
  proof (induction xs)
    case Nil
    then show ?case by (simp add: unique_where_def)
  next
    case (Cons x xs)
    then have sub: "set xs \<subseteq> set rows" and x: "x \<in> set rows" by auto
    from Cons.prems(2) have uxs: "unique_where q k xs"
      by (simp add: unique_where_def split: if_splits)
    from Cons.IH [OF sub uxs] have IH: "unique_where q k (sql_update p f xs)" .
    show ?case
    proof (cases "q (if p x then f x else x)")
      case True
      then have qx: "q x" and kx: "k (if p x then f x else x) = k x"
        using assms(2) [OF x] by (auto split: if_splits)
      from qx Cons.prems(2) have "k x \<notin> k ` set (filter q xs)"
        by (simp add: unique_where_def)
      with keys [OF sub] have "k x \<notin> k ` set (filter q (sql_update p f xs))" by blast
      with True kx IH show ?thesis
        by (simp add: unique_where_def split: if_splits)
    next
      case False
      with IH show ?thesis by (simp add: unique_where_def split: if_splits)
    qed
  qed
  with assms(1) show ?thesis by blast
qed

lemma unique_where_snoc:
  "unique_where q k (rows @ [r]) \<longleftrightarrow>
     unique_where q k rows \<and> (q r \<longrightarrow> (\<forall>r' \<in> set rows. q r' \<longrightarrow> k r' \<noteq> k r))"
  by (auto simp: unique_where_def image_iff)

lemma unique_where_filter: "unique_where q k rows \<Longrightarrow> unique_where q k (filter p rows)"
  by (simp add: unique_where_def distinct_map_filter filter_filter [of q p]
        filter_filter [of p q, symmetric] conj_commute)
    (metis (no_types, lifting) distinct_map_filter filter_cong filter_filter)

section \<open>Ordered selection\<close>

lemma set_sql_select: "set (sql_select p k n rows) \<subseteq> {r \<in> set rows. p r}"
  using set_take_subset [of n "sort_key k (filter p rows)"] by (auto simp: sql_select_def)

lemma sql_selectD: "r \<in> set (sql_select p k n rows) \<Longrightarrow> r \<in> set rows \<and> p r"
  using set_sql_select by fastforce

lemma length_sql_select: "length (sql_select p k n rows) \<le> n"
  by (simp add: sql_select_def)

lemma sorted_sql_select: "sorted (map k (sql_select p k n rows))"
  by (simp add: sql_select_def take_map [symmetric] sorted_wrt_take)

lemma sql_select_all: "length (filter p rows) \<le> n \<Longrightarrow> set (sql_select p k n rows) = {r \<in> set rows. p r}"
  by (auto simp: sql_select_def)

lemma sql_select_Nil_iff: "0 < n \<Longrightarrow> sql_select p k n rows = [] \<longleftrightarrow> (\<forall>r \<in> set rows. \<not> p r)"
proof -
  have "sort_key k xs = [] \<longleftrightarrow> xs = []" for xs :: "'a list"
    by (metis length_0_conv length_sort)
  then show "0 < n \<Longrightarrow> ?thesis" by (auto simp: sql_select_def filter_empty_conv)
qed

text \<open>The rows left out by \<^verbatim>\<open>LIMIT\<close> are not smaller than the selected ones.\<close>

lemma sql_select_least:
  assumes "r \<in> set (sql_select p k n rows)" "r' \<in> set rows" "p r'"
    "r' \<notin> set (sql_select p k n rows)"
  shows "k r \<le> k r'"
proof -
  let ?s = "sort_key k (filter p rows)"
  have "r' \<in> set ?s" using assms(2,3) by simp
  then have "r' \<in> set (take n ?s) \<union> set (drop n ?s)"
    by (metis append_take_drop_id set_append)
  with assms(4) have r': "r' \<in> set (drop n ?s)" by (simp add: sql_select_def)
  from assms(1) have r: "r \<in> set (take n ?s)" by (simp add: sql_select_def)
  have "sorted (map k (take n ?s @ drop n ?s))" by simp
  then have "sorted (map k (take n ?s) @ map k (drop n ?s))" by (simp only: map_append)
  with r r' show ?thesis by (auto simp: sorted_append)
qed

text \<open>The first selected row is the least one.\<close>

lemma sql_select_first:
  assumes "sql_select p k n rows = r0 # rs"
  shows "r0 \<in> set rows" "p r0" "\<And>r. r \<in> set rows \<Longrightarrow> p r \<Longrightarrow> k r0 \<le> k r"
proof -
  show "r0 \<in> set rows" "p r0"
    using sql_selectD [of r0 p k n rows] assms by auto
  fix r assume r: "r \<in> set rows" "p r"
  show "k r0 \<le> k r"
  proof (cases "r \<in> set (sql_select p k n rows)")
    case True
    with sorted_sql_select [of k p n rows] assms show ?thesis by auto
  next
    case False
    moreover have "r0 \<in> set (sql_select p k n rows)" by (simp add: assms)
    ultimately show ?thesis using sql_select_least r by metis
  qed
qed

lemma find_unique:
  assumes "unique_on k rows" "r \<in> set rows" "p r" "\<And>x. p x \<Longrightarrow> k x = k r"
  shows "find p rows = Some r"
proof (cases "find p rows")
  case None
  with assms show ?thesis by (auto simp: find_None_iff)
next
  case (Some x)
  then have "x \<in> set rows" "p x" by (auto simp: find_Some_iff)
  with unique_onD [OF assms(1) _ assms(2)] assms(4) Some show ?thesis by metis
qed

lemma filter_strictly_shorter:
  assumes "\<And>x. x \<in> set xs \<Longrightarrow> q x \<Longrightarrow> q' x" "y \<in> set xs" "q' y" "\<not> q y"
  shows "length (filter q xs) < length (filter q' xs)"
proof -
  have "filter q xs = filter q (filter q' xs)"
    using assms(1) by (auto intro!: filter_cong simp: filter_filter)
  moreover have "length (filter q (filter q' xs)) < length (filter q' xs)"
    using assms(2-4) by (intro length_filter_less [of y]) auto
  ultimately show ?thesis by simp
qed

end
