(* ===== verification/Go_Strings.thy ===== *)
theory Go_Strings
  imports Prelude "HOL-Library.Sublist"
begin

text \<open>
  The part of Go's \<^verbatim>\<open>strings\<close>, \<^verbatim>\<open>strconv\<close> and \<^verbatim>\<open>net/url\<close> packages the program uses. A Go
  string is its sequence of bytes, a \<^typ>\<open>char list\<close>. Functions keep their Go names.

  \<open>ToUpper\<close> and \<open>ToLower\<close> map the ASCII letters and the only non-ASCII runes whose case
  mapping is an ASCII letter (U+017F and U+0131 upwards, U+212A and U+0130 downwards); every other
  non-ASCII rune maps to a non-ASCII rune and is left unchanged. The program only compares the
  results with ASCII constants or searches ASCII constants in them, for which this is exact.
\<close>

section \<open>Prefixes, suffixes, search\<close>

definition HasPrefix :: "string \<Rightarrow> string \<Rightarrow> bool" where
  "HasPrefix s p \<longleftrightarrow> take (length p) s = p"

definition TrimPrefix :: "string \<Rightarrow> string \<Rightarrow> string" where
  "TrimPrefix s p = (if HasPrefix s p then drop (length p) s else s)"

definition HasSuffix :: "string \<Rightarrow> string \<Rightarrow> bool" where
  "HasSuffix s p \<longleftrightarrow> length p \<le> length s \<and> drop (length s - length p) s = p"

definition TrimSuffix :: "string \<Rightarrow> string \<Rightarrow> string" where
  "TrimSuffix s p = (if HasSuffix s p then take (length s - length p) s else s)"

fun Contains :: "string \<Rightarrow> string \<Rightarrow> bool" where
  "Contains [] p \<longleftrightarrow> p = []"
| "Contains (c # s) p \<longleftrightarrow> HasPrefix (c # s) p \<or> Contains s p"

lemma HasPrefix_iff: "HasPrefix s p \<longleftrightarrow> (\<exists>t. s = p @ t)"
  by (metis HasPrefix_def append_eq_conv_conj append_take_drop_id)

lemma HasPrefix_prefix: "HasPrefix s p \<longleftrightarrow> prefix p s"
  by (simp add: HasPrefix_iff prefix_def)

lemma Contains_iff: "Contains s p \<longleftrightarrow> (\<exists>a b. s = a @ p @ b)"
proof (induction s)
  case Nil
  then show ?case by simp
next
  case (Cons c s)
  note IH = Cons.IH
  show ?case
  proof
    assume "Contains (c # s) p"
    then consider "HasPrefix (c # s) p" | "Contains s p" by auto
    then show "\<exists>a b. c # s = a @ p @ b"
    proof cases
      case 1
      then show ?thesis by (metis HasPrefix_iff append_Nil)
    next
      case 2
      with Cons.IH show ?thesis by (metis append_Cons)
    qed
  next
    assume "\<exists>a b. c # s = a @ p @ b"
    then obtain a b where eq: "c # s = a @ p @ b" by blast
    show "Contains (c # s) p"
    proof (cases a)
      case Nil
      with eq have "HasPrefix (c # s) p" by (simp add: HasPrefix_iff)
      then show ?thesis by simp
    next
      case (Cons d a')
      with eq have "s = a' @ p @ b" by simp
      with IH show ?thesis by auto
    qed
  qed
qed

lemma Contains_subset: "Contains s p \<Longrightarrow> set p \<subseteq> set s"
  by (auto simp: Contains_iff)

section \<open>Case mapping\<close>

definition byte :: "nat \<Rightarrow> char" where
  "byte n = char_of n"

definition upper_char :: "char \<Rightarrow> char" where
  "upper_char c = (let n = of_char c :: nat in if 97 \<le> n \<and> n \<le> 122 then char_of (n - 32) else c)"

definition lower_char :: "char \<Rightarrow> char" where
  "lower_char c = (let n = of_char c :: nat in if 65 \<le> n \<and> n \<le> 90 then char_of (n + 32) else c)"

fun ToUpper :: "string \<Rightarrow> string" where
  "ToUpper [] = []"
| "ToUpper [c] = [upper_char c]"
| "ToUpper (c # d # s) =
     (if c = byte 197 \<and> d = byte 191 then CHR ''S'' # ToUpper s
      else if c = byte 196 \<and> d = byte 177 then CHR ''I'' # ToUpper s
      else upper_char c # ToUpper (d # s))"

fun ToLower :: "string \<Rightarrow> string" where
  "ToLower [] = []"
| "ToLower (c # s) =
     (if c = byte 196 \<and> take 1 s = [byte 176] then CHR ''i'' # ToLower (drop 1 s)
      else if c = byte 226 \<and> take 2 s = [byte 132, byte 170] then CHR ''k'' # ToLower (drop 2 s)
      else lower_char c # ToLower s)"

section \<open>Replacement and splitting\<close>

text \<open>
  \<^verbatim>\<open>strings.ReplaceAll(s, old, new)\<close> for a non-empty \<open>old\<close>: leftmost, non-overlapping
  occurrences. The program never calls it with an empty \<open>old\<close>.
\<close>

function ReplaceAll :: "string \<Rightarrow> string \<Rightarrow> string \<Rightarrow> string" where
  "ReplaceAll s old new =
     (if old = [] \<or> s = [] then s
      else if HasPrefix s old then new @ ReplaceAll (drop (length old) s) old new
      else hd s # ReplaceAll (tl s) old new)"
  by pat_completeness auto
termination
  by (relation "measure (\<lambda>(s, old, new). length s)") auto

declare ReplaceAll.simps [simp del]

text \<open>\<^verbatim>\<open>strings.Split\<close> with a one-byte separator, \<^verbatim>\<open>strings.Fields\<close> on ASCII white space.\<close>

fun Split :: "string \<Rightarrow> char \<Rightarrow> string list" where
  "Split [] sep = [[]]"
| "Split (c # s) sep =
     (if c = sep then [] # Split s sep
      else case Split s sep of [] \<Rightarrow> [[c]] | w # ws \<Rightarrow> (c # w) # ws)"

definition is_space :: "char \<Rightarrow> bool" where
  "is_space c \<longleftrightarrow> (let n = of_char c :: nat in n = 32 \<or> 9 \<le> n \<and> n \<le> 13)"

function Fields :: "string \<Rightarrow> string list" where
  "Fields s =
     (case dropWhile is_space s of
        [] \<Rightarrow> []
      | c # t \<Rightarrow> (c # takeWhile (\<lambda>c. \<not> is_space c) t) # Fields (dropWhile (\<lambda>c. \<not> is_space c) t))"
  by pat_completeness auto
termination
proof (relation "measure length", simp)
  fix s c t
  assume "dropWhile is_space s = c # t"
  then have "length (c # t) \<le> length s" by (metis length_dropWhile_le)
  moreover have "length (dropWhile (\<lambda>c. \<not> is_space c) t) \<le> length t" by (rule length_dropWhile_le)
  ultimately show "(dropWhile (\<lambda>c. \<not> is_space c) t, s) \<in> measure length" by simp
qed

declare Fields.simps [simp del]

section \<open>Decimal integers\<close>

definition digit_char :: "nat \<Rightarrow> char" where
  "digit_char d = char_of (48 + d)"

definition is_digit :: "char \<Rightarrow> bool" where
  "is_digit c \<longleftrightarrow> (let n = of_char c :: nat in 48 \<le> n \<and> n \<le> 57)"

definition digit_val :: "char \<Rightarrow> nat" where
  "digit_val c = of_char c - 48"

fun nat_str :: "nat \<Rightarrow> string" where
  "nat_str n = (if n < 10 then [digit_char n] else nat_str (n div 10) @ [digit_char (n mod 10)])"

declare nat_str.simps [simp del]

definition FormatInt :: "int \<Rightarrow> string" where
  "FormatInt n = (if n < 0 then CHR ''-'' # nat_str (nat (- n)) else nat_str (nat n))"

definition digits_val :: "string \<Rightarrow> nat" where
  "digits_val s = foldl (\<lambda>v c. 10 * v + digit_val c) 0 s"

text \<open>
  \<^verbatim>\<open>strconv.Atoi\<close> and \<^verbatim>\<open>strconv.ParseInt(s, 10, 64)\<close>: an optional sign and at least one decimal
  digit; a syntax error or a value outside \<^verbatim>\<open>int64\<close> is an error (\<open>None\<close>).
\<close>

definition Atoi :: "string \<Rightarrow> int option" where
  "Atoi s =
     (let (neg, body) = (case s of [] \<Rightarrow> (False, [])
                         | c # t \<Rightarrow> if c = CHR ''-'' then (True, t)
                                   else if c = CHR ''+'' then (False, t) else (False, s));
          v = (if neg then - int (digits_val body) else int (digits_val body))
      in if body = [] \<or> \<not> list_all is_digit body \<or> \<not> int64_range v then None else Some v)"

lemma digit_char_props:
  assumes "d < 10"
  shows "is_digit (digit_char d)" "digit_val (digit_char d) = d"
  using assms by (simp_all add: is_digit_def digit_char_def digit_val_def)

lemma nat_str_digits: "list_all is_digit (nat_str n)"
proof (induction n rule: nat_str.induct)
  case (1 n)
  then show ?case
    by (subst nat_str.simps) (auto simp: digit_char_props)
qed

lemma nat_str_not_Nil [simp]: "nat_str n \<noteq> []"
  by (subst nat_str.simps) simp

lemma digits_val_nat_str [simp]: "digits_val (nat_str n) = n"
proof (induction n rule: nat_str.induct)
  case (1 n)
  show ?case
  proof (cases "n < 10")
    case True
    then show ?thesis
      by (subst nat_str.simps) (simp add: digits_val_def digit_char_props)
  next
    case False
    with "1" have "digits_val (nat_str (n div 10)) = n div 10" by simp
    then have "digits_val (nat_str (n div 10) @ [digit_char (n mod 10)]) = 10 * (n div 10) + n mod 10"
      by (simp add: digits_val_def digit_char_props)
    with False show ?thesis by (subst nat_str.simps) simp
  qed
qed

lemma is_digit_not_sign: "is_digit c \<Longrightarrow> c \<noteq> CHR ''-'' \<and> c \<noteq> CHR ''+'' \<and> c \<noteq> CHR '' ''"
  by (auto simp: is_digit_def)

lemma Atoi_FormatInt: "int64_range n \<Longrightarrow> Atoi (FormatInt n) = Some n"
proof (cases "n < 0")
  case True
  assume "int64_range n"
  with True show ?thesis
    by (simp add: Atoi_def FormatInt_def nat_str_digits)
next
  case False
  assume range: "int64_range n"
  obtain c t where ct: "nat_str (nat n) = c # t" by (meson nat_str_not_Nil neq_Nil_conv)
  then have "is_digit c" using nat_str_digits [of "nat n"] by simp
  then have "c \<noteq> CHR ''-'' \<and> c \<noteq> CHR ''+''" using is_digit_not_sign by blast
  moreover have "list_all is_digit (c # t)" using nat_str_digits [of "nat n"] ct by simp
  moreover have "digits_val (c # t) = nat n" by (metis ct digits_val_nat_str)
  ultimately show ?thesis using False range by (simp add: Atoi_def FormatInt_def ct)
qed

section \<open>URL escaping\<close>

definition hex_char :: "nat \<Rightarrow> char" where
  "hex_char d = (if d < 10 then char_of (48 + d) else char_of (55 + d))"

definition is_alnum :: "char \<Rightarrow> bool" where
  "is_alnum c \<longleftrightarrow> (let n = of_char c :: nat in 48 \<le> n \<and> n \<le> 57 \<or> 65 \<le> n \<and> n \<le> 90 \<or> 97 \<le> n \<and> n \<le> 122)"

definition percent_encode :: "char \<Rightarrow> string" where
  "percent_encode c = [CHR ''%'', hex_char (of_char c div 16), hex_char (of_char c mod 16)]"

definition path_char :: "char \<Rightarrow> string" where
  "path_char c =
     (if is_alnum c \<or> c \<in> set ''-_.~$&+:=@'' then [c] else percent_encode c)"

definition query_char :: "char \<Rightarrow> string" where
  "query_char c =
     (if is_alnum c \<or> c \<in> set ''-_.~'' then [c]
      else if c = CHR '' '' then ''+'' else percent_encode c)"

definition PathEscape :: "string \<Rightarrow> string" where
  "PathEscape s = concat (map path_char s)"

definition QueryEscape :: "string \<Rightarrow> string" where
  "QueryEscape s = concat (map query_char s)"

section \<open>Properties of replacement\<close>

text \<open>
  The marker that replaces a secret starts with an opening bracket: text that avoids the brackets
  and is found in the result was found in the source.
\<close>

definition bracket_free :: "string \<Rightarrow> bool" where
  "bracket_free s \<longleftrightarrow> CHR ''['' \<notin> set s \<and> CHR '']'' \<notin> set s"

lemma prefix_ReplaceAll:
  assumes "bracket_free p" "prefix p (ReplaceAll s old (CHR ''['' # m))"
  shows "prefix p s"
  using assms
proof (induction s old "CHR ''['' # m" arbitrary: p rule: ReplaceAll.induct)
  case (1 s old)
  show ?case
  proof (cases "old = [] \<or> s = []")
    case True
    with "1.prems" show ?thesis by (subst (asm) ReplaceAll.simps) simp
  next
    case no: False
    show ?thesis
    proof (cases "HasPrefix s old")
      case True
      with no "1.prems" have "prefix p (CHR ''['' # m @ ReplaceAll (drop (length old) s) old (CHR ''['' # m))"
        by (subst (asm) ReplaceAll.simps) simp
      with "1.prems"(1) have "p = []"
        by (cases p) (auto simp: bracket_free_def)
      then show ?thesis by simp
    next
      case False
      with no "1.prems" have pre: "prefix p (hd s # ReplaceAll (tl s) old (CHR ''['' # m))"
        by (subst (asm) ReplaceAll.simps) simp
      show ?thesis
      proof (cases p)
        case Nil
        then show ?thesis by simp
      next
        case (Cons c p')
        with pre have "c = hd s" "prefix p' (ReplaceAll (tl s) old (CHR ''['' # m))" by auto
        moreover have "bracket_free p'" using "1.prems"(1) Cons by (simp add: bracket_free_def)
        ultimately have "prefix p' (tl s)" using "1.hyps"(2) no False by blast
        with \<open>c = hd s\<close> Cons no show ?thesis by (cases s) auto
      qed
    qed
  qed
qed

lemma Contains_bracketed:
  assumes "Contains (CHR ''['' # m @ CHR '']'' # t) p" "bracket_free p" "p \<noteq> []"
  shows "Contains m p \<or> Contains t p"
proof -
  obtain a b where eq: "CHR ''['' # m @ CHR '']'' # t = a @ p @ b"
    using assms(1) by (auto simp: Contains_iff)
  obtain a' where a: "a = CHR ''['' # a'"
    using eq assms(2,3) by (cases a; cases p) (auto simp: bracket_free_def)
  with eq have eq': "m @ CHR '']'' # t = (a' @ p) @ b" by simp
  then consider (left) us where "m = (a' @ p) @ us" | (right) us where "m @ us = a' @ p" "us @ b = CHR '']'' # t"
    by (metis (no_types, lifting) append_eq_append_conv2)
  then show ?thesis
  proof cases
    case left
    then show ?thesis by (auto simp: Contains_iff)
  next
    case right
    show ?thesis
    proof (cases us)
      case Nil
      with right(1) show ?thesis by (auto simp: Contains_iff) (metis append_Nil2)
    next
      case (Cons c vs)
      with right have c: "c = CHR '']''" and t: "t = vs @ b" by auto
      have "m @ c # vs = a' @ p" using right(1) Cons by simp
      then obtain ws where "(m = a' @ ws \<and> ws @ c # vs = p) \<or> (m @ ws = a' \<and> c # vs = ws @ p)"
        by (metis append_eq_append_conv2)
      then have "m @ ws = a' \<and> c # vs = ws @ p"
        using assms(2) c by (auto simp: bracket_free_def)
      then have "\<exists>ws'. vs = ws' @ p"
        using assms(2,3) c by (cases ws) (auto simp: bracket_free_def)
      then obtain ws' where "vs = ws' @ p" ..
      with t have "t = ws' @ p @ b" by simp
      then show ?thesis unfolding Contains_iff by blast
    qed
  qed
qed

lemma ReplaceAll_no_new_occurrence:
  assumes "bracket_free p" "p \<noteq> []" "\<not> Contains m p"
    and "\<not> Contains s p \<or> old = p"
  shows "\<not> Contains (ReplaceAll s old (CHR ''['' # m @ '']'')) p"
  using assms
proof (induction s old "CHR ''['' # m @ '']''" rule: ReplaceAll.induct)
  case (1 s old)
  let ?r = "CHR ''['' # m @ '']''"
  show ?case
  proof (cases "old = [] \<or> s = []")
    case True
    with "1.prems" show ?thesis by (subst ReplaceAll.simps) auto
  next
    case no: False
    show ?thesis
    proof (cases "HasPrefix s old")
      case True
      have "\<not> Contains (drop (length old) s) p \<or> old = p"
        using "1.prems"(4) by (metis Contains_iff append_take_drop_id append.assoc)
      with "1" no True have "\<not> Contains (ReplaceAll (drop (length old) s) old ?r) p" by blast
      then have "\<not> Contains (CHR ''['' # m @ CHR '']'' # ReplaceAll (drop (length old) s) old ?r) p"
        using "1.prems" Contains_bracketed by blast
      with no True show ?thesis by (subst ReplaceAll.simps) simp
    next
      case False
      from no obtain c u where s: "s = c # u" by (cases s) auto
      have "\<not> Contains u p \<or> old = p" using "1.prems"(4) s by auto
      with "1" no False s have IH: "\<not> Contains (ReplaceAll u old ?r) p" by simp
      have "\<not> prefix p (c # ReplaceAll u old ?r)"
      proof
        assume "prefix p (c # ReplaceAll u old ?r)"
        moreover have "ReplaceAll s old ?r = c # ReplaceAll u old ?r"
          using no False s by (subst ReplaceAll.simps) simp
        ultimately have "prefix p s"
          using prefix_ReplaceAll [OF "1.prems"(1), of s old "m @ '']''"] by simp
        then have "HasPrefix s p" by (simp add: HasPrefix_prefix)
        moreover from this have "Contains s p" using s by simp
        ultimately show False using "1.prems"(4) False by auto
      qed
      with IH no False s show ?thesis
        by (subst ReplaceAll.simps) (simp add: HasPrefix_prefix)
    qed
  qed
qed

end
