(* ===== verification/Policy.thy ===== *)
theory Policy
  imports Go_Strings
begin

text \<open>
  \<^verbatim>\<open>internal/workers/policy.go\<close>: the limits, leases, retention periods and the retry policy shared
  by the background workers. Durations are nanoseconds, as in Go's \<^verbatim>\<open>time.Duration\<close>.

  \<open>PostgresInterval\<close> builds the text of an interval parameter and \<open>pg_interval\<close> is what
  PostgreSQL reads from a text of that form; the two together are the number of whole seconds of
  the duration (\<open>pg_interval_PostgresInterval\<close>). \<^verbatim>\<open>int(duration.Seconds())\<close> goes through a
  float64, exact for the whole-second durations the program passes.
\<close>

section \<open>Limits and periods\<close>

definition DatabaseLockPoolMaxOpenConnections :: int where
  [simp]: "DatabaseLockPoolMaxOpenConnections = 12"

definition NotificationWorkerCount :: int where
  [simp]: "NotificationWorkerCount = 3"

definition TelegramReplyWorkerCount :: int where
  [simp]: "TelegramReplyWorkerCount = 3"

definition CronLockConnectionReserve :: int where
  [simp]: "CronLockConnectionReserve = 1"

definition LockPoolOperationalReserve :: int where
  [simp]: "LockPoolOperationalReserve = 1"

definition MaxTelegramUpdateWorkerCount :: int where
  [simp]: "MaxTelegramUpdateWorkerCount =
     DatabaseLockPoolMaxOpenConnections - NotificationWorkerCount - TelegramReplyWorkerCount
     - CronLockConnectionReserve - LockPoolOperationalReserve"

definition DefaultTelegramUpdateWorkerCount :: int where
  [simp]: "DefaultTelegramUpdateWorkerCount = MaxTelegramUpdateWorkerCount"

definition CronBatchLimit :: nat where
  [simp]: "CronBatchLimit = 100"

definition OutboxClaimCandidateLimit :: nat where
  [simp]: "OutboxClaimCandidateLimit = 10"

definition TelegramUpdateShardCount :: int where
  [simp]: "TelegramUpdateShardCount = 64"

definition TelegramUpdateClaimWindow :: duration where
  [simp]: "TelegramUpdateClaimWindow = 45 * second"

definition TelegramUpdateMaxAttempts :: int where
  [simp]: "TelegramUpdateMaxAttempts = 3"

definition TelegramReplyClaimWindow :: duration where
  [simp]: "TelegramReplyClaimWindow = 45 * second"

definition TelegramReplyMaxAttempts :: int where
  [simp]: "TelegramReplyMaxAttempts = 3"

definition NotificationJobClaimWindow :: duration where
  [simp]: "NotificationJobClaimWindow = 45 * second"

definition TelegramSendLeaseSafetyWindow :: duration where
  [simp]: "TelegramSendLeaseSafetyWindow = 15 * second"

definition NotificationJobMaxAttempts :: int where
  [simp]: "NotificationJobMaxAttempts = 3"

definition NotificationFailureCooldown :: duration where
  [simp]: "NotificationFailureCooldown = 15 * minute"

definition TelegramChatLockPrefix :: string where
  "TelegramChatLockPrefix = ''cryptopulse:telegram-chat:''"

section \<open>Interval parameters\<close>

definition PostgresInterval :: "duration \<Rightarrow> string" where
  "PostgresInterval d =
     (if d \<le> 0 then ''0 seconds'' else FormatInt (d div second) @ '' seconds'')"

definition pg_interval :: "string \<Rightarrow> duration" where
  "pg_interval s = int (digits_val (takeWhile is_digit s)) * second"

lemma takeWhile_digits: "list_all p xs \<Longrightarrow> \<not> p c \<Longrightarrow> takeWhile p (xs @ c # ys) = xs"
  by (induction xs) auto

lemma pg_interval_seconds: "0 \<le> n \<Longrightarrow> pg_interval (FormatInt n @ '' seconds'') = n * second"
proof -
  assume n: "0 \<le> n"
  have "takeWhile is_digit (nat_str (nat n) @ CHR '' '' # ''seconds'') = nat_str (nat n)"
    by (rule takeWhile_digits) (simp_all add: nat_str_digits is_digit_def)
  with n show ?thesis by (simp add: pg_interval_def FormatInt_def)
qed

lemma pg_interval_PostgresInterval: "pg_interval (PostgresInterval d) = max 0 d div second * second"
proof (cases "d \<le> 0")
  case True
  have "takeWhile is_digit ''0 seconds'' = ''0''" by (simp add: is_digit_def)
  with True show ?thesis
    by (simp add: PostgresInterval_def pg_interval_def digits_val_def digit_val_def max_def)
next
  case False
  then have "0 \<le> d div second" by simp
  with False show ?thesis
    using pg_interval_seconds [of "d div second"] by (simp add: PostgresInterval_def max_def)
qed

lemma interval_of_seconds [simp]: "0 \<le> n \<Longrightarrow> pg_interval (PostgresInterval (n * 1000000000)) = n * 1000000000"
  by (simp add: pg_interval_PostgresInterval max_def)

lemma interval_constants [simp]:
  "pg_interval (PostgresInterval 45000000000) = 45000000000"
  "pg_interval (PostgresInterval 15000000000) = 15000000000"
  "pg_interval (PostgresInterval 900000000000) = 900000000000"
  by (simp_all add: pg_interval_PostgresInterval)

section \<open>Error texts\<close>

definition TruncateError :: "string \<Rightarrow> int \<Rightarrow> string" where
  "TruncateError text limit =
     (if limit \<le> 0 \<or> int (length text) \<le> limit then text else take (nat limit) text)"

lemma TruncateError_length: "0 < limit \<Longrightarrow> int (length (TruncateError text limit)) \<le> limit"
  by (simp add: TruncateError_def)

lemma TruncateError_prefix: "prefix (TruncateError text limit) text"
  by (simp add: TruncateError_def take_is_prefix)

text \<open>
  PostgreSQL stores a text value only if it is a valid UTF-8 byte sequence. The decoder below
  accepts the one- to four-byte forms of RFC 3629 (overlong forms and surrogates are not told
  apart: what it rejects is rejected by PostgreSQL too).
\<close>

definition cont :: "char \<Rightarrow> bool" where
  "cont c \<longleftrightarrow> (let n = of_char c :: nat in 128 \<le> n \<and> n < 192)"

fun utf8_valid :: "string \<Rightarrow> bool" where
  "utf8_valid [] = True"
| "utf8_valid (c # s) =
     (let n = of_char c :: nat in
      if n < 128 then utf8_valid s
      else if 194 \<le> n \<and> n < 224 then (case s of a # t \<Rightarrow> cont a \<and> utf8_valid t | _ \<Rightarrow> False)
      else if 224 \<le> n \<and> n < 240 then
        (case s of a # b # t \<Rightarrow> cont a \<and> cont b \<and> utf8_valid t | _ \<Rightarrow> False)
      else if 240 \<le> n \<and> n < 245 then
        (case s of a # b # e # t \<Rightarrow> cont a \<and> cont b \<and> cont e \<and> utf8_valid t | _ \<Rightarrow> False)
      else False)"

lemma utf8_valid_ascii: "list_all (\<lambda>c. (of_char c :: nat) < 128) xs \<Longrightarrow> utf8_valid (xs @ ys) = utf8_valid ys"
  by (induction xs) auto

section \<open>Retry delay\<close>

definition RetryDelay :: "int \<Rightarrow> duration" where
  "RetryDelay attempts =
     (let attempts' = (if attempts < 1 then 1 else attempts);
          delay = wrap64 (attempts' * minute)
      in if delay > 10 * minute then 10 * minute else delay)"

text \<open>The multiplication does not overflow for any attempt count below \<open>2 ^ 63 / minute\<close>.\<close>

lemma RetryDelay_eq: "attempts \<le> 153722867 \<Longrightarrow> RetryDelay attempts = min 10 (max 1 attempts) * minute"
proof -
  assume a: "attempts \<le> 153722867"
  then have "int64_range (max 1 attempts * minute)" by (simp add: int64_range_def max_def)
  then have "wrap64 (max 1 attempts * minute) = max 1 attempts * minute" by (rule wrap64_id)
  moreover have "(if attempts < 1 then 1 else attempts) = max 1 attempts" by simp
  ultimately show ?thesis by (simp add: RetryDelay_def Let_def min_def max_def)
qed

end
