(* ===== verification/Go_Errors.thy ===== *)
theory Go_Errors
  imports Policy
begin

text \<open>
  Go error values as the program builds and inspects them, the classification of Telegram errors
  (\<^verbatim>\<open>internal/telegram/catalog.go\<close>), their retry delay and the redaction of the bot token
  (\<^verbatim>\<open>internal/app/telegram_errors.go\<close>).

  An error of the Telegram library (\<^verbatim>\<open>*tgbotapi.Error\<close>) carries the fields the program reads
  (code, message, retry-after) and, as its last argument, the text its \<^verbatim>\<open>Error()\<close> method returns:
  that method is library code. \<open>Wrapped\<close> is \<^verbatim>\<open>fmt.Errorf("prefix: %w", err)\<close>, \<open>Joined\<close> is
  \<^verbatim>\<open>errors.Join\<close> of two errors.
\<close>

datatype go_error =
    ErrJobOwnershipLost
  | TelegramError int string int string
  | PlainError string
  | Wrapped string go_error
  | Joined go_error go_error

fun Error :: "go_error \<Rightarrow> string" where
  "Error ErrJobOwnershipLost = ''job ownership lost''"
| "Error (TelegramError code message retryAfter txt) = txt"
| "Error (PlainError m) = m"
| "Error (Wrapped p e) = p @ '': '' @ Error e"
| "Error (Joined a b) = Error a @ [CHR 0x0A] @ Error b"

text \<open>\<^verbatim>\<open>errors.Is(err, errJobOwnershipLost)\<close> and \<^verbatim>\<open>errors.As(err, &telegramErr)\<close>.\<close>

fun is_ownership_lost :: "go_error \<Rightarrow> bool" where
  "is_ownership_lost ErrJobOwnershipLost = True"
| "is_ownership_lost (Wrapped p e) = is_ownership_lost e"
| "is_ownership_lost (Joined a b) = (is_ownership_lost a \<or> is_ownership_lost b)"
| "is_ownership_lost _ = False"

fun as_telegram :: "go_error \<Rightarrow> (int \<times> string \<times> int) option" where
  "as_telegram (TelegramError code message retryAfter txt) = Some (code, message, retryAfter)"
| "as_telegram (Wrapped p e) = as_telegram e"
| "as_telegram (Joined a b) = (case as_telegram a of Some t \<Rightarrow> Some t | None \<Rightarrow> as_telegram b)"
| "as_telegram _ = None"

text \<open>\<^verbatim>\<open>errors.Join(a, b)\<close> drops a nil error.\<close>

definition errors_Join :: "go_error option \<Rightarrow> go_error \<Rightarrow> go_error" where
  "errors_Join a b = (case a of None \<Rightarrow> b | Some e \<Rightarrow> Joined e b)"

section \<open>Classification of send errors\<close>

definition IsPermanentSendError :: "go_error \<Rightarrow> bool" where
  "IsPermanentSendError err =
     (case as_telegram err of
        Some (code, msg, _) \<Rightarrow>
          let message = ToLower msg in
          if code = 403 then True
          else if code = 400 then
            Contains message ''chat not found'' \<or> Contains message ''user is deactivated''
          else False
      | None \<Rightarrow>
          let message = ToLower (Error err) in
          Contains message ''chat not found'' \<or> Contains message ''bot was blocked'' \<or>
          Contains message ''user is deactivated'' \<or>
          Contains message ''bot can't initiate conversation'')"

definition isTelegramMessageNotModified :: "go_error option \<Rightarrow> bool" where
  "isTelegramMessageNotModified err =
     (case err of None \<Rightarrow> False
      | Some e \<Rightarrow> Contains (ToLower (Error e)) ''message is not modified'')"

section \<open>Retry delay\<close>

definition telegramRetryDelay :: "int \<Rightarrow> go_error \<Rightarrow> duration" where
  "telegramRetryDelay attempts sendErr =
     (let delay = RetryDelay attempts in
      case as_telegram sendErr of
        Some (_, _, retryAfter) \<Rightarrow>
          if retryAfter > 0 then
            (let requestedDelay = wrap64 (retryAfter * second) in
             if requestedDelay > delay then requestedDelay else delay)
          else delay
      | None \<Rightarrow> delay)"

lemma telegramRetryDelay_ge: "RetryDelay attempts \<le> telegramRetryDelay attempts err"
  by (simp add: telegramRetryDelay_def Let_def split: option.split)

lemma telegramRetryDelay_pos: "attempts \<le> 153722867 \<Longrightarrow> minute \<le> telegramRetryDelay attempts err"
  using telegramRetryDelay_ge [of attempts err] by (simp add: RetryDelay_eq min_def max_def split: if_splits)

section \<open>Redaction of the bot token\<close>

definition redactedTelegramToken :: string where
  "redactedTelegramToken = ''[REDACTED]''"

definition redact_value :: "string \<Rightarrow> string \<Rightarrow> string" where
  "redact_value message v = (if v \<noteq> [] then ReplaceAll message v redactedTelegramToken else message)"

definition redactTelegramError :: "go_error option \<Rightarrow> string \<Rightarrow> go_error option" where
  "redactTelegramError err token =
     (case err of
        None \<Rightarrow> None
      | Some e \<Rightarrow>
          if token = [] then Some e
          else Some (PlainError
                 (foldl redact_value (Error e) [token, PathEscape token, QueryEscape token])))"

text \<open>\<^verbatim>\<open>a.safeTelegramError\<close>: \<open>bot_token\<close> is the token of \<^verbatim>\<open>a.bot\<close>, \<open>None\<close> for a nil bot.\<close>

definition safeTelegramError :: "string option \<Rightarrow> go_error \<Rightarrow> go_error" where
  "safeTelegramError bot_token err =
     (case bot_token of None \<Rightarrow> err
      | Some token \<Rightarrow> (case redactTelegramError (Some err) token of Some e \<Rightarrow> e | None \<Rightarrow> err))"

lemma redact_value_removes:
  assumes "bracket_free p" "p \<noteq> []" "\<not> Contains ''REDACTED'' p" "\<not> Contains s p \<or> v = p"
  shows "\<not> Contains (redact_value s v) p"
  using ReplaceAll_no_new_occurrence [OF assms(1-3), of s v] assms(2,4)
  by (auto simp: redact_value_def redactedTelegramToken_def)

lemma hex_char_cases: "d < 16 \<Longrightarrow> is_alnum (hex_char d)"
  by (simp add: hex_char_def is_alnum_def)

lemma alnum_no_bracket: "is_alnum c \<Longrightarrow> c \<noteq> CHR ''['' \<and> c \<noteq> CHR '']'' \<and> c \<noteq> CHR '':'' \<and> c \<noteq> CHR ''%''"
  by (auto simp: is_alnum_def)

lemma percent_encode_chars: "set (percent_encode c) \<subseteq> {CHR ''%''} \<union> {c. is_alnum c}"
proof -
  have "(of_char c :: nat) div 16 < 16" using nat_of_char_less_256 [of c] by linarith
  then show ?thesis by (auto simp: percent_encode_def intro!: hex_char_cases)
qed

lemma path_char_chars: "CHR ''['' \<notin> set (path_char c) \<and> CHR '']'' \<notin> set (path_char c)"
  using percent_encode_chars [of c] alnum_no_bracket [of c]
  by (auto simp: path_char_def dest: alnum_no_bracket)

lemma query_char_chars: "CHR ''['' \<notin> set (query_char c) \<and> CHR '']'' \<notin> set (query_char c)"
  using percent_encode_chars [of c] alnum_no_bracket [of c]
  by (auto simp: query_char_def dest: alnum_no_bracket)

lemma bracket_free_PathEscape: "bracket_free (PathEscape s)"
  using path_char_chars by (auto simp: bracket_free_def PathEscape_def)

lemma bracket_free_QueryEscape: "bracket_free (QueryEscape s)"
  using query_char_chars by (auto simp: bracket_free_def QueryEscape_def)

lemma colon_PathEscape: "CHR '':'' \<in> set s \<Longrightarrow> CHR '':'' \<in> set (PathEscape s)"
  by (force simp: PathEscape_def path_char_def is_alnum_def)

lemma colon_QueryEscape: "CHR '':'' \<in> set s \<Longrightarrow> CHR ''%'' \<in> set (QueryEscape s)"
  by (force simp: QueryEscape_def query_char_def is_alnum_def percent_encode_def)

text \<open>
  A Telegram bot token (\<^verbatim>\<open><id>:<secret>\<close>) has a colon and no brackets: none of the three spellings
  that are replaced can occur in, or overlap, the marker.
\<close>

lemma redacted_forms:
  assumes "bracket_free token" "CHR '':'' \<in> set token"
    and "v \<in> {token, PathEscape token, QueryEscape token}"
  shows "bracket_free v" "v \<noteq> []" "\<not> Contains ''REDACTED'' v"
proof -
  have c: "CHR '':'' \<in> set v \<or> CHR ''%'' \<in> set v"
    using assms(2,3) colon_PathEscape colon_QueryEscape by auto
  then show "v \<noteq> []" by auto
  show "bracket_free v"
    using assms(1,3) bracket_free_PathEscape bracket_free_QueryEscape by auto
  show "\<not> Contains ''REDACTED'' v"
  proof
    assume "Contains ''REDACTED'' v"
    then have "set v \<subseteq> set ''REDACTED''" by (rule Contains_subset)
    with c show False by auto
  qed
qed

lemma safeTelegramError_hides:
  assumes "bracket_free token" "CHR '':'' \<in> set token"
    and v: "v \<in> {token, PathEscape token, QueryEscape token}"
  shows "\<not> Contains (Error (safeTelegramError (Some token) err)) v"
proof -
  note ok = redacted_forms [OF assms]
  have "token \<noteq> []" using assms(2) by auto
  let ?a = "redact_value (Error err) token"
  let ?b = "redact_value ?a (PathEscape token)"
  let ?c = "redact_value ?b (QueryEscape token)"
  have keep: "\<not> Contains s v \<Longrightarrow> \<not> Contains (redact_value s w) v" for s w
    using redact_value_removes [OF ok] by blast
  have drop: "\<not> Contains (redact_value s v) v" for s
    using redact_value_removes [OF ok] by blast
  have "\<not> Contains ?c v"
    using v keep drop by auto
  with \<open>token \<noteq> []\<close> show ?thesis
    by (simp add: safeTelegramError_def redactTelegramError_def)
qed

end
