(* ===== verification/Float64.thy ===== *)
theory Float64
  imports Complex_Main "HOL-Library.Log_Nat"
begin

text \<open>
  Go's \<^verbatim>\<open>float64\<close>: the IEEE 754 binary64 values with round-to-nearest-even arithmetic. A finite
  value is the rational it denotes; the two zeros are not told apart (the program never divides by
  a computed zero and never takes a sign bit). \<open>f64\<close> rounds an exact rational result: the binary
  exponent is found from the lengths of numerator and denominator, the significand has 53 bits, the
  least exponent is \<open>-1074\<close> and a result of \<open>2 ^ 1024\<close> or more overflows to an infinity.
\<close>

datatype float64 = NaN | PInf | NInf | Fin rat

definition pow2 :: "int \<Rightarrow> rat" where
  "pow2 e = (if 0 \<le> e then 2 ^ nat e else 1 / 2 ^ nat (- e))"

definition round_half_even :: "rat \<Rightarrow> int" where
  "round_half_even x =
     (let f = \<lfloor>x\<rfloor>; d = x - of_int f in
      if d < 1 / 2 then f else if 1 / 2 < d then f + 1 else if even f then f else f + 1)"

text \<open>The greatest \<open>e\<close> with \<open>pow2 e \<le> q\<close>, for a positive \<open>q\<close>.\<close>

definition floor_log2 :: "rat \<Rightarrow> int" where
  "floor_log2 q =
     (let (a, b) = quotient_of q; e = bitlen a - bitlen b
      in if pow2 e \<le> q then e else e - 1)"

definition round_pos :: "rat \<Rightarrow> rat" where
  "round_pos q =
     (let e = max (floor_log2 q - 52) (- 1074) in of_int (round_half_even (q / pow2 e)) * pow2 e)"

definition f64 :: "rat \<Rightarrow> float64" where
  "f64 q =
     (if q = 0 then Fin 0
      else if 0 < q then (let r = round_pos q in if pow2 1024 \<le> r then PInf else Fin r)
      else (let r = round_pos (- q) in if pow2 1024 \<le> r then NInf else Fin (- r)))"

definition f64_neg :: "float64 \<Rightarrow> float64" where
  "f64_neg x = (case x of NaN \<Rightarrow> NaN | PInf \<Rightarrow> NInf | NInf \<Rightarrow> PInf | Fin q \<Rightarrow> Fin (- q))"

fun f64_add :: "float64 \<Rightarrow> float64 \<Rightarrow> float64" where
  "f64_add (Fin a) (Fin b) = f64 (a + b)"
| "f64_add NaN _ = NaN"
| "f64_add _ NaN = NaN"
| "f64_add PInf NInf = NaN"
| "f64_add NInf PInf = NaN"
| "f64_add PInf _ = PInf"
| "f64_add _ PInf = PInf"
| "f64_add NInf _ = NInf"
| "f64_add _ NInf = NInf"

definition inf_of :: "bool \<Rightarrow> float64" where
  "inf_of pos = (if pos then PInf else NInf)"

fun f64_mul :: "float64 \<Rightarrow> float64 \<Rightarrow> float64" where
  "f64_mul (Fin a) (Fin b) = f64 (a * b)"
| "f64_mul NaN _ = NaN"
| "f64_mul _ NaN = NaN"
| "f64_mul (Fin a) PInf = (if a = 0 then NaN else inf_of (0 < a))"
| "f64_mul (Fin a) NInf = (if a = 0 then NaN else inf_of (a < 0))"
| "f64_mul PInf (Fin a) = (if a = 0 then NaN else inf_of (0 < a))"
| "f64_mul NInf (Fin a) = (if a = 0 then NaN else inf_of (a < 0))"
| "f64_mul PInf PInf = PInf"
| "f64_mul PInf NInf = NInf"
| "f64_mul NInf PInf = NInf"
| "f64_mul NInf NInf = PInf"

definition f64_sub :: "float64 \<Rightarrow> float64 \<Rightarrow> float64" where
  "f64_sub x y = f64_add x (f64_neg y)"

text \<open>A zero divisor counts as the positive zero; the modelled divisors are never zero.\<close>

fun f64_div :: "float64 \<Rightarrow> float64 \<Rightarrow> float64" where
  "f64_div (Fin a) (Fin b) =
     (if b = 0 then (if a = 0 then NaN else inf_of (0 < a)) else f64 (a / b))"
| "f64_div NaN _ = NaN"
| "f64_div _ NaN = NaN"
| "f64_div (Fin a) _ = Fin 0"
| "f64_div PInf (Fin b) = inf_of (0 \<le> b)"
| "f64_div NInf (Fin b) = inf_of (b < 0)"
| "f64_div _ _ = NaN"

text \<open>Comparisons: every comparison with a NaN is false.\<close>

fun f64_le :: "float64 \<Rightarrow> float64 \<Rightarrow> bool" where
  "f64_le NaN _ = False"
| "f64_le _ NaN = False"
| "f64_le (Fin a) (Fin b) = (a \<le> b)"
| "f64_le NInf _ = True"
| "f64_le _ PInf = True"
| "f64_le _ _ = False"

fun f64_lt :: "float64 \<Rightarrow> float64 \<Rightarrow> bool" where
  "f64_lt NaN _ = False"
| "f64_lt _ NaN = False"
| "f64_lt (Fin a) (Fin b) = (a < b)"
| "f64_lt PInf _ = False"
| "f64_lt _ NInf = False"
| "f64_lt _ _ = True"

text \<open>\<^verbatim>\<open>math.Round\<close>: half away from zero.\<close>

definition rat_round_away :: "rat \<Rightarrow> int" where
  "rat_round_away q = (if 0 \<le> q then \<lfloor>q + 1 / 2\<rfloor> else - \<lfloor>- q + 1 / 2\<rfloor>)"

definition f64_Round :: "float64 \<Rightarrow> float64" where
  "f64_Round x = (case x of Fin q \<Rightarrow> Fin (of_int (rat_round_away q)) | y \<Rightarrow> y)"

section \<open>Rounding is the identity on representable values\<close>

lemma pow2_pos [simp]: "0 < pow2 e"
  by (simp add: pow2_def)

lemma pow2_nonneg [simp]: "0 \<le> pow2 e"
  by (simp add: less_imp_le)

lemma pow2_nonzero [simp]: "pow2 e \<noteq> 0"
  using pow2_pos [of e] by linarith

lemma pow2_add: "pow2 (a + b) = pow2 a * pow2 b"
proof -
  have "pow2 e = 2 powi e" for e :: int
    by (simp add: pow2_def power_int_def inverse_eq_divide power_one_over)
  then show ?thesis by (simp add: power_int_add)
qed

lemma pow2_1: "pow2 (e + 1) = 2 * pow2 e"
  unfolding pow2_add by (simp add: pow2_def)

lemma pow2_mono: "a \<le> b \<Longrightarrow> pow2 a \<le> pow2 b"
proof -
  assume "a \<le> b"
  then have "pow2 b = pow2 a * pow2 (b - a)" by (simp flip: pow2_add)
  moreover have "1 \<le> pow2 (b - a)" using \<open>a \<le> b\<close> by (simp add: pow2_def)
  ultimately show ?thesis by simp
qed

lemma round_half_even_int [simp]: "round_half_even (of_int n) = n"
  by (simp add: round_half_even_def)

text \<open>The binary exponent really is the floor of the logarithm.\<close>

lemma bitlen_pow2:
  assumes "0 < n"
  shows "pow2 (bitlen n - 1) \<le> of_int n" "of_int n < pow2 (bitlen n)"
proof -
  have "0 < bitlen n" using assms bitlen_nonneg [of n] bitlen_eq_zero_iff [of n] by linarith
  have b: "2 ^ nat (bitlen n - 1) \<le> n \<and> n < 2 ^ nat (bitlen n)"
    using bitlen_bounds [OF assms] .
  then have "(of_int (2 ^ nat (bitlen n - 1)) :: rat) \<le> of_int n" by (simp only: of_int_le_iff)
  then show "pow2 (bitlen n - 1) \<le> of_int n" using \<open>0 < bitlen n\<close> by (simp add: pow2_def)
  have "(of_int n :: rat) < of_int (2 ^ nat (bitlen n))" using b by (simp only: of_int_less_iff)
  then show "of_int n < pow2 (bitlen n)" using \<open>0 < bitlen n\<close> by (simp add: pow2_def)
qed

lemma floor_log2_bounds:
  assumes "0 < q"
  shows "pow2 (floor_log2 q) \<le> q" "q < pow2 (floor_log2 q + 1)"
proof -
  obtain a b where ab: "quotient_of q = (a, b)" by (cases "quotient_of q")
  have q: "q = of_int a / of_int b" using quotient_of_div [OF ab] .
  have b: "0 < b" using quotient_of_denom_pos [OF ab] .
  with q assms have a: "0 < a" by (simp add: zero_less_divide_iff)
  let ?e = "bitlen a - bitlen b"
  note A = bitlen_pow2 [OF a] and B = bitlen_pow2 [OF b]
  have pb: "pow2 (bitlen b) = 2 * pow2 (bitlen b - 1)" using pow2_1 [of "bitlen b - 1"] by simp
  have low: "pow2 (?e - 1) \<le> q"
  proof -
    have "pow2 (?e - 1) * of_int b \<le> pow2 (?e - 1) * pow2 (bitlen b)"
      using B(2) by (intro mult_left_mono) auto
    also have "\<dots> = pow2 (bitlen a - 1)" by (simp flip: pow2_add)
    also have "\<dots> \<le> of_int a" by (rule A(1))
    finally show ?thesis using b by (simp add: q pos_le_divide_eq)
  qed
  have high: "q < pow2 (?e + 1)"
  proof -
    have "of_int a < pow2 (bitlen a)" by (rule A(2))
    also have "\<dots> = pow2 (?e + 1) * pow2 (bitlen b - 1)" by (simp flip: pow2_add)
    also have "\<dots> \<le> pow2 (?e + 1) * of_int b" using B(1) by (intro mult_left_mono) (auto intro: less_imp_le)
    finally show ?thesis using b by (simp add: q pos_divide_less_eq)
  qed
  show "pow2 (floor_log2 q) \<le> q" using low by (simp add: floor_log2_def ab Let_def)
  show "q < pow2 (floor_log2 q + 1)" using high by (simp add: floor_log2_def ab Let_def)
qed

text \<open>
  A value with a significand below \<open>2 ^ 53\<close> and an exponent of at least \<open>-1074\<close> is representable.
\<close>

definition representable :: "rat \<Rightarrow> bool" where
  "representable q \<longleftrightarrow>
     (\<exists>m e. 0 < m \<and> m < 2 ^ 53 \<and> - 1074 \<le> e \<and> q = of_int m * pow2 e \<and> q < pow2 1024)"

lemma pow2_less_iff: "pow2 a < pow2 b \<longleftrightarrow> a < b"
proof
  show "pow2 a < pow2 b \<Longrightarrow> a < b" using pow2_mono [of b a] by linarith
next
  assume "a < b"
  then have "pow2 (a + 1) \<le> pow2 b" by (intro pow2_mono) simp
  then show "pow2 a < pow2 b" unfolding pow2_1 using pow2_pos [of a] by linarith
qed

lemma round_pos_representable:
  assumes "representable q"
  shows "round_pos q = q"
proof -
  obtain m e where m: "0 < m" "m < 2 ^ 53" and e: "- 1074 \<le> e" and q: "q = of_int m * pow2 e"
    using assms by (auto simp: representable_def)
  have "0 < q" using m q by simp
  let ?x = "max (floor_log2 q - 52) (- 1074)"
  have "(of_int m :: rat) < of_int (2 ^ 53)" using m(2) by (simp only: of_int_less_iff)
  then have "(of_int m :: rat) < pow2 53" by (simp add: pow2_def)
  then have "q < pow2 53 * pow2 e" unfolding q by (rule mult_strict_right_mono) simp
  then have "q < pow2 (53 + e)" by (simp only: pow2_add)
  with floor_log2_bounds(1) [OF \<open>0 < q\<close>] have "pow2 (floor_log2 q) < pow2 (53 + e)" by linarith
  then have "floor_log2 q < 53 + e" by (simp only: pow2_less_iff)
  with e have "?x \<le> e" by simp
  then have "pow2 e = pow2 (e - ?x) * pow2 ?x" by (simp flip: pow2_add)
  moreover have "pow2 (e - ?x) = of_int (2 ^ nat (e - ?x))" using \<open>?x \<le> e\<close> by (simp add: pow2_def)
  ultimately have "q = of_int (m * 2 ^ nat (e - ?x)) * pow2 ?x"
    unfolding q by (simp only: of_int_mult mult.assoc)
  then have "q / pow2 ?x = of_int (m * 2 ^ nat (e - ?x))"
    using pow2_pos [of ?x] by (metis less_irrefl nonzero_mult_div_cancel_right)
  then have "of_int (round_half_even (q / pow2 ?x)) * pow2 ?x = q / pow2 ?x * pow2 ?x"
    by (simp only: round_half_even_int)
  then show ?thesis by (simp add: round_pos_def Let_def)
qed

lemma f64_representable: "representable q \<Longrightarrow> f64 q = Fin q"
proof -
  assume r: "representable q"
  then have "0 < q" "q < pow2 1024" by (auto simp: representable_def)
  with round_pos_representable [OF r] show ?thesis by (simp add: f64_def Let_def not_le)
qed

section \<open>The rounding error\<close>

lemma round_half_even_error: "\<bar>of_int (round_half_even x) - x\<bar> \<le> 1 / 2"
proof -
  have "of_int \<lfloor>x\<rfloor> \<le> x" "x < of_int \<lfloor>x\<rfloor> + 1" by linarith+
  then show ?thesis by (auto simp: round_half_even_def Let_def abs_le_iff)
qed

lemma round_pos_error:
  assumes "pow2 (- 1022) \<le> q"
  shows "\<bar>round_pos q - q\<bar> \<le> q * pow2 (- 53)"
proof -
  have q: "0 < q" using assms pow2_pos [of "- 1022"] by linarith
  let ?l = "floor_log2 q" and ?e = "max (floor_log2 q - 52) (- 1074)"
  have "pow2 (- 1022) < pow2 (?l + 1)" using assms floor_log2_bounds(2) [OF q] by linarith
  then have "- 1022 < ?l + 1" by (simp only: pow2_less_iff)
  then have e: "?e = ?l - 52" by simp
  have "round_pos q - q = (of_int (round_half_even (q / pow2 ?e)) - q / pow2 ?e) * pow2 ?e"
    by (simp add: round_pos_def Let_def left_diff_distrib)
  then have "\<bar>round_pos q - q\<bar> = \<bar>of_int (round_half_even (q / pow2 ?e)) - q / pow2 ?e\<bar> * pow2 ?e"
    by (simp only: abs_mult abs_of_nonneg [OF pow2_nonneg])
  also have "\<dots> \<le> 1 / 2 * pow2 ?e"
    by (intro mult_right_mono round_half_even_error) simp
  also have "\<dots> = pow2 ?l * pow2 (- 53)"
    using pow2_1 [of "?l - 53"] by (simp add: e flip: pow2_add)
  also have "\<dots> \<le> q * pow2 (- 53)"
    using floor_log2_bounds(1) [OF q] by (intro mult_right_mono) simp_all
  finally show ?thesis .
qed

text \<open>In the normal range the rounded value is within a relative error of \<open>2 ^ -53\<close>.\<close>

lemma f64_close:
  assumes "pow2 (- 1022) \<le> \<bar>q\<bar>" "\<bar>q\<bar> \<le> pow2 1022"
  shows "\<exists>r. f64 q = Fin r \<and> \<bar>r - q\<bar> \<le> \<bar>q\<bar> * pow2 (- 53)"
proof -
  have r: "\<bar>round_pos \<bar>q\<bar> - \<bar>q\<bar>\<bar> \<le> \<bar>q\<bar> * pow2 (- 53)" using round_pos_error [OF assms(1)] .
  have "pow2 (- 53) \<le> 1" by (simp add: pow2_def)
  then have "\<bar>q\<bar> * pow2 (- 53) \<le> \<bar>q\<bar> * 1" by (intro mult_left_mono) auto
  with r have "round_pos \<bar>q\<bar> \<le> 2 * \<bar>q\<bar>" by linarith
  also have "\<dots> \<le> 2 * pow2 1022" using assms(2) by simp
  also have "\<dots> = pow2 1023" using pow2_1 [of 1022] by simp
  also have "\<dots> < pow2 1024" by (simp add: pow2_less_iff)
  finally have small: "\<not> pow2 1024 \<le> round_pos \<bar>q\<bar>" by simp
  have "0 < \<bar>q\<bar>" using assms(1) pow2_pos [of "- 1022"] by linarith
  then consider "0 < q" | "q < 0" by linarith
  then show ?thesis
  proof cases
    case 1
    with r small show ?thesis by (simp add: f64_def Let_def)
  next
    case 2
    with r small show ?thesis by (simp add: f64_def Let_def abs_minus_commute)
  qed
qed

end
