(* ===== verification/Schema.thy ===== *)
theory Schema
  imports Go_Errors Float64
begin

text \<open>
  The PostgreSQL schema (\<^verbatim>\<open>migrations/001\<close> to \<^verbatim>\<open>012\<close>) as the Go code uses it: one record per table
  row, one list of rows per table, the \<^verbatim>\<open>BIGSERIAL\<close> sequences as counters. A nullable column, and a
  column the code reads through \<^verbatim>\<open>COALESCE\<close>, is an \<open>option\<close>.

  Message texts are kept symbolically: \<open>Text lang key\<close> is \<^verbatim>\<open>apptelegram.Text(lang, key)\<close>,
  \<open>AlertText\<close> the alert catalogue, \<open>Sprintf\<close> a \<^verbatim>\<open>fmt.Sprintf\<close> with its arguments; the
  constructor terms keep which catalogue entry and which values a message was built from.
  \<open>ATime layout t\<close> is the instant \<open>t\<close> printed in the Kyiv time zone with Go's \<open>layout\<close>.

  A transaction is atomic: \<open>run_tx\<close> runs its body on the database. Its first argument is what the
  connection does: \<open>DbOk\<close>, \<open>DbAbort\<close> (an error before the commit took effect, nothing is
  written) or \<open>DbCommitLost\<close> (the commit took effect but the client sees an error).
\<close>

section \<open>Message texts and keyboards\<close>

datatype msg =
    Lit string
  | Text string string
  | AlertText string string
  | Sprintf msg "arg list"
  | Cat msg msg
and arg =
    AInt int
  | AStr string
  | AFloat float64
  | ATime string time
  | AMsg msg

text \<open>\<^verbatim>\<open>strings.Join(lines, "\n")\<close> on symbolic texts.\<close>

fun join_lines :: "msg list \<Rightarrow> msg" where
  "join_lines [] = Lit []"
| "join_lines [m] = m"
| "join_lines (m # ms) = Cat m (Cat (Lit [CHR 0x0A]) (join_lines ms))"

record button =
  btn_text :: msg
  btn_data :: string

type_synonym keyboard = "button list list"

section \<open>Rows\<close>

datatype job_status = Pending | Sending | Sent | Failed | Canceled
datatype update_status = U_Pending | U_Processing | U_Processed | U_Failed
datatype job_kind = Scheduled | PriceAlert
datatype alert_status = A_Active | A_Triggered | A_Canceled

record subscriber =
  sub_chat_id :: int
  interval_minutes :: "int option"
  last_sent :: "time option"
  language_code :: "string option"
  is_subscribed :: bool
  cron_claimed_until :: "time option"
  delivery_suspended_until :: "time option"

record notification_row =
  nj_id :: int
  nj_chat_id :: int
  nj_language_code :: string
  nj_message_text :: msg
  nj_scheduled_at :: time
  nj_status :: job_status
  nj_attempts :: int
  nj_claim_token :: "string option"
  nj_claimed_until :: "time option"
  nj_next_attempt_at :: time
  nj_sent_at :: "time option"
  nj_failed_at :: "time option"
  nj_canceled_at :: "time option"
  nj_last_error :: "string option"
  nj_updated_at :: time
  nj_kind :: job_kind
  nj_price_alert_id :: "int option"

record update_row =
  tu_update_id :: int
  tu_chat_id :: int
  tu_shard_id :: int
  tu_stream_epoch :: int
  tu_payload :: string
  tu_status :: update_status
  tu_attempts :: int
  tu_claimed_until :: "time option"
  tu_next_attempt_at :: time
  tu_processed_at :: "time option"
  tu_failed_at :: "time option"
  tu_last_error :: "string option"
  tu_updated_at :: time

record reply_row =
  tr_id :: int
  tr_source_update_id :: int
  tr_sequence_no :: int
  tr_chat_id :: int
  tr_operation :: string
  tr_message_id :: int
  tr_message_text :: msg
  tr_reply_markup :: "keyboard option"
  tr_status :: job_status
  tr_attempts :: int
  tr_claim_token :: "string option"
  tr_claimed_until :: "time option"
  tr_next_attempt_at :: time
  tr_sent_at :: "time option"
  tr_failed_at :: "time option"
  tr_last_error :: "string option"
  tr_updated_at :: time

record version_row =
  mv_chat_id :: int
  mv_setting :: string
  mv_stream_epoch :: int
  mv_update_id :: int

text \<open>\<^verbatim>\<open>change_percent NUMERIC(7,2)\<close> is an exact number of hundredths.\<close>

record alert_row =
  pa_id :: int
  pa_chat_id :: int
  pa_source_update_id :: int
  pa_symbol :: string
  pa_language_code :: string
  pa_change_percent :: int
  pa_base_price :: float64
  pa_base_price_at :: time
  pa_target_price :: float64
  pa_status :: alert_status
  pa_trigger_price :: "float64 option"
  pa_triggered_at :: "time option"
  pa_created_at :: time
  pa_updated_at :: time

record crossing_row =
  pc_alert_id :: int
  pc_price :: float64
  pc_observed_at :: time

record price_row =
  mp_symbol :: string
  mp_price :: float64
  mp_updated_at :: time

record db =
  subscribers :: "subscriber list"
  notification_jobs :: "notification_row list"
  notification_seq :: int
  telegram_updates :: "update_row list"
  stream_epoch :: int
  stream_last_received_at :: time
  telegram_mutation_versions :: "version_row list"
  telegram_replies :: "reply_row list"
  reply_seq :: int
  price_alerts :: "alert_row list"
  alert_seq :: int
  price_alert_crossings :: "crossing_row list"
  market_prices :: "price_row list"

definition empty_db :: "time \<Rightarrow> db" where
  "empty_db now =
     \<lparr>subscribers = [], notification_jobs = [], notification_seq = 1, telegram_updates = [],
      stream_epoch = 0, stream_last_received_at = now, telegram_mutation_versions = [],
      telegram_replies = [], reply_seq = 1, price_alerts = [], alert_seq = 1,
      price_alert_crossings = [], market_prices = []\<rparr>"

section \<open>Transactions\<close>

datatype db_fault = DbOk | DbAbort go_error | DbCommitLost go_error

definition run_tx :: "db_fault \<Rightarrow> (db \<Rightarrow> go_error + 'a \<times> db) \<Rightarrow> db \<Rightarrow> (go_error + 'a) \<times> db" where
  "run_tx fault body d =
     (case fault of
        DbAbort e \<Rightarrow> (Inl e, d)
      | DbOk \<Rightarrow> (case body d of Inl e \<Rightarrow> (Inl e, d) | Inr (v, d') \<Rightarrow> (Inr v, d'))
      | DbCommitLost e \<Rightarrow> (case body d of Inl e' \<Rightarrow> (Inl e', d) | Inr (v, d') \<Rightarrow> (Inl e, d')))"

lemma run_tx_DbOk [simp]:
  "run_tx DbOk body d = (case body d of Inl e \<Rightarrow> (Inl e, d) | Inr (v, d') \<Rightarrow> (Inr v, d'))"
  by (simp add: run_tx_def)

lemma run_tx_DbAbort [simp]: "run_tx (DbAbort e) body d = (Inl e, d)"
  by (simp add: run_tx_def)

text \<open>All or nothing: whatever the connection does, the state is untouched or the body's result.\<close>

lemma run_tx_atomic: "snd (run_tx fault body d) = d \<or> (\<exists>v. body d = Inr (v, snd (run_tx fault body d)))"
  by (auto simp: run_tx_def split: db_fault.split sum.split)

lemma run_tx_Inr: "run_tx fault body d = (Inr v, d') \<Longrightarrow> body d = Inr (v, d')"
  by (auto simp: run_tx_def split: db_fault.splits sum.splits)

lemma run_tx_body_error: "body d = Inl e \<Longrightarrow> snd (run_tx fault body d) = d"
  by (simp add: run_tx_def split: db_fault.split)

text \<open>A property of the database that the body keeps is kept by the transaction.\<close>

lemma run_tx_preserves:
  "P d \<Longrightarrow> (\<And>v d'. body d = Inr (v, d') \<Longrightarrow> P d') \<Longrightarrow> P (snd (run_tx fault body d))"
  using run_tx_atomic [of fault body d] by auto

text \<open>A statement outside a transaction, or a read: an error leaves no effect.\<close>

definition run_read :: "go_error option \<Rightarrow> 'a \<Rightarrow> go_error + 'a" where
  "run_read err v = (case err of Some e \<Rightarrow> Inl e | None \<Rightarrow> Inr v)"

lemma run_read_simps [simp]: "run_read None v = Inr v" "run_read (Some e) v = Inl e"
  by (simp_all add: run_read_def)

text \<open>
  \<^verbatim>\<open>ensureCurrentJobClaimUpdated\<close>: a guarded update that touched no row means that the claim was lost.
\<close>

definition ensureCurrentJobClaimUpdated :: "nat \<Rightarrow> go_error option" where
  "ensureCurrentJobClaimUpdated affectedRows =
     (if affectedRows = 0 then Some ErrJobOwnershipLost else None)"

lemma ensureCurrentJobClaimUpdated_simps [simp]:
  "ensureCurrentJobClaimUpdated n = None \<longleftrightarrow> 0 < n"
  "ensureCurrentJobClaimUpdated n = Some e \<longleftrightarrow> n = 0 \<and> e = ErrJobOwnershipLost"
  by (auto simp: ensureCurrentJobClaimUpdated_def)

section \<open>The observable world\<close>

text \<open>
  Besides the database, the outside sees the calls to the Telegram API and the Prometheus counters.
  A counter increment is logged as (collector, label); \<^verbatim>\<open>DBOperationsTotal\<close>, incremented at every
  database call, and the logs are left out.
\<close>

datatype tg_call =
    SendMessage int msg "keyboard option"
  | EditMessage int int msg "keyboard option"
  | AnswerCallback string msg

record world =
  wdb :: db
  calls :: "tg_call list"
  metrics :: "(string \<times> string) list"

definition count_metric :: "string \<Rightarrow> string \<Rightarrow> world \<Rightarrow> world" where
  "count_metric collector label w = w\<lparr>metrics := metrics w @ [(collector, label)]\<rparr>"

lemma count_metric_simps [simp]:
  "wdb (count_metric c l w) = wdb w" "calls (count_metric c l w) = calls w"
  "metrics (count_metric c l w) = metrics w @ [(c, l)]"
  by (simp_all add: count_metric_def)

text \<open>Run a database action of a worker on the world's database.\<close>

definition on_db :: "(db \<Rightarrow> 'a \<times> db) \<Rightarrow> world \<Rightarrow> 'a \<times> world" where
  "on_db f w = (let (r, d) = f (wdb w) in (r, w\<lparr>wdb := d\<rparr>))"

lemma on_db_simps [simp]:
  "fst (on_db f w) = fst (f (wdb w))" "wdb (snd (on_db f w)) = snd (f (wdb w))"
  "calls (snd (on_db f w)) = calls w" "metrics (snd (on_db f w)) = metrics w"
  by (simp_all add: on_db_def case_prod_unfold Let_def)

end
