(* ===== verification/Price_Cache.thy ===== *)
theory Price_Cache
  imports Schema
begin

text \<open>
  The in-memory price cache and the price list shown to users (\<^verbatim>\<open>PriceCache\<close> of
  \<^verbatim>\<open>internal/app/app.go\<close>, \<^verbatim>\<open>internal/app/pricing.go\<close>). The cache is the map of the Go code; each
  operation of \<^verbatim>\<open>PriceCache\<close> runs under its mutex and is one function on the map. \<^verbatim>\<open>time.Now()\<close> is an
  argument.
\<close>

section \<open>Cache\<close>

record price_entry =
  pe_current :: float64
  pe_previous :: float64
  pe_updated_at :: time

type_synonym price_cache = "string \<rightharpoonup> price_entry"

definition cache_Load :: "price_cache \<Rightarrow> string \<Rightarrow> price_entry option" where
  "cache_Load c symbol = c symbol"

definition cache_StoreAt :: "time \<Rightarrow> string \<Rightarrow> float64 \<Rightarrow> time \<Rightarrow> price_cache \<Rightarrow> price_cache" where
  "cache_StoreAt now symbol newPrice updatedAt c =
     (let updatedAt' = (if updatedAt = zero_time then now else updatedAt) in
      case c symbol of
        None \<Rightarrow> c(symbol \<mapsto> \<lparr>pe_current = newPrice, pe_previous = newPrice, pe_updated_at = updatedAt'\<rparr>)
      | Some oldEntry \<Rightarrow>
          c(symbol \<mapsto> \<lparr>pe_current = newPrice, pe_previous = pe_current oldEntry,
                       pe_updated_at = updatedAt'\<rparr>))"

definition cache_Store :: "time \<Rightarrow> string \<Rightarrow> float64 \<Rightarrow> price_cache \<Rightarrow> price_cache" where
  "cache_Store now symbol newPrice c = cache_StoreAt now symbol newPrice now c"

definition trackedCoins :: "(string \<times> string) list" where
  "trackedCoins =
     [(''BTCUSDT'', ''BTC''), (''ETHUSDT'', ''ETH''), (''SOLUSDT'', ''SOL''),
      (''BNBUSDT'', ''BNB''), (''USDTUAH'', ''USDT'')]"

section \<open>Validity and age\<close>

definition isValidMarketPrice :: "float64 \<Rightarrow> bool" where
  "isValidMarketPrice price \<longleftrightarrow>
     price \<noteq> NaN \<and> \<not> (price = PInf \<or> price = NInf) \<and> f64_lt (Fin 0) price"

definition priceFreshnessLimit :: duration where
  [simp]: "priceFreshnessLimit = minute"

definition priceAge :: "time \<Rightarrow> time \<Rightarrow> duration" where
  "priceAge now updatedAt =
     (if updatedAt = zero_time then 0
      else let age = time_Sub now updatedAt in if age < 0 then 0 else age)"

lemma isValidMarketPrice_iff: "isValidMarketPrice p \<longleftrightarrow> (\<exists>q. p = Fin q \<and> 0 < q)"
  by (cases p) (auto simp: isValidMarketPrice_def)

lemma priceAge_nonneg: "0 \<le> priceAge now t"
  by (simp add: priceAge_def Let_def)

section \<open>Warm-up from the database\<close>

definition warm_row :: "time \<Rightarrow> price_cache \<Rightarrow> price_row \<Rightarrow> price_cache" where
  "warm_row now c r =
     (if isValidMarketPrice (mp_price r) then cache_StoreAt now (mp_symbol r) (mp_price r) (mp_updated_at r) c
      else c)"

text \<open>\<open>err\<close> is the error of the query, if it fails.\<close>

definition WarmupCache :: "go_error option \<Rightarrow> time \<Rightarrow> db \<Rightarrow> price_cache \<Rightarrow> price_cache" where
  "WarmupCache err now d c =
     (case run_read err (market_prices d) of Inl e \<Rightarrow> c | Inr rows \<Rightarrow> foldl (warm_row now) c rows)"

section \<open>The price list\<close>

definition emoji_white :: string where "emoji_white = map byte [226, 154, 170, 239, 184, 143]"
definition emoji_warning :: string where "emoji_warning = map byte [226, 154, 160, 239, 184, 143]"
definition emoji_green :: string where "emoji_green = map byte [240, 159, 159, 162]"
definition emoji_red :: string where "emoji_red = map byte [240, 159, 148, 180]"
definition hryvnia_fmt :: string where
  "hryvnia_fmt = ''%s %s: *'' @ map byte [226, 130, 180] @ ''%.2f* (`%s`)''"

definition is_stale :: "time \<Rightarrow> price_entry \<Rightarrow> bool" where
  "is_stale now e \<longleftrightarrow> pe_updated_at e = zero_time \<or> priceAge now (pe_updated_at e) > priceFreshnessLimit"

definition percent_change :: "price_entry \<Rightarrow> float64" where
  "percent_change e =
     (if f64_lt (Fin 0) (pe_previous e)
      then f64_mul (f64_div (f64_sub (pe_current e) (pe_previous e)) (pe_previous e)) (Fin 100)
      else Fin 0)"

definition price_emoji :: "time \<Rightarrow> price_entry \<Rightarrow> string" where
  "price_emoji now e =
     (if \<not> is_stale now e \<and> f64_lt (f64 (1 / 1000)) (percent_change e) then emoji_green
      else if \<not> is_stale now e \<and> f64_lt (percent_change e) (f64 (- 1 / 1000)) then emoji_red
      else if is_stale now e then emoji_warning else emoji_white)"

definition price_line :: "time \<Rightarrow> string \<Rightarrow> price_cache \<Rightarrow> string \<times> string \<Rightarrow> msg" where
  "price_line now lang c coin =
     (case cache_Load c (fst coin) of
        None \<Rightarrow> Sprintf (Lit (emoji_white @ '' %s: %s'')) [AStr (snd coin), AMsg (Text lang ''no_data'')]
      | Some e \<Rightarrow>
          (let trendStr = Sprintf (Lit (if f64_lt (Fin 0) (percent_change e) then ''+%.2f%%'' else ''%.2f%%''))
                            [AFloat (percent_change e)];
               fmt = (if fst coin = ''USDTUAH'' then hryvnia_fmt else ''%s %s: *$%.2f* (`%s`)'')
           in Sprintf (Lit fmt) [AStr (price_emoji now e), AStr (snd coin), AFloat (pe_current e), AMsg trendStr]))"

text \<open>The loop's three accumulators over the coins: the oldest update, any data, any stale data.\<close>

definition oldest_update :: "price_cache \<Rightarrow> time" where
  "oldest_update c =
     foldl (\<lambda>oldest coin. case cache_Load c (fst coin) of
                None \<Rightarrow> oldest
              | Some e \<Rightarrow> if pe_updated_at e \<noteq> zero_time \<and> (oldest = zero_time \<or> pe_updated_at e < oldest)
                         then pe_updated_at e else oldest)
       zero_time trackedCoins"

definition has_data :: "price_cache \<Rightarrow> bool" where
  "has_data c \<longleftrightarrow> list_ex (\<lambda>coin. cache_Load c (fst coin) \<noteq> None) trackedCoins"

definition has_stale_data :: "time \<Rightarrow> price_cache \<Rightarrow> bool" where
  "has_stale_data now c \<longleftrightarrow>
     list_ex (\<lambda>coin. case cache_Load c (fst coin) of None \<Rightarrow> False | Some e \<Rightarrow> is_stale now e) trackedCoins"

definition price_lines :: "string \<Rightarrow> time \<Rightarrow> price_cache \<Rightarrow> msg list" where
  "price_lines lang now c =
     map (price_line now lang c) trackedCoins
     @ (if has_data c \<and> oldest_update c \<noteq> zero_time
        then [Lit [], Sprintf (Text lang ''price_data_time'') [ATime ''15:04:05'' (oldest_update c)]] else [])
     @ (if has_stale_data now c then [Text lang ''stale_data''] else [])"

definition getFormattedPricesFromCacheAt :: "string \<Rightarrow> time \<Rightarrow> price_cache \<Rightarrow> msg" where
  "getFormattedPricesFromCacheAt lang now c = join_lines (price_lines lang now c)"

section \<open>Cache laws\<close>

lemma cache_Load_StoreAt:
  "cache_Load (cache_StoreAt now s p t c) s' =
     (if s' = s
      then Some \<lparr>pe_current = p,
                 pe_previous = (case cache_Load c s of None \<Rightarrow> p | Some e \<Rightarrow> pe_current e),
                 pe_updated_at = (if t = zero_time then now else t)\<rparr>
      else cache_Load c s')"
  by (simp add: cache_Load_def cache_StoreAt_def Let_def split: option.split)

text \<open>Every cached price is valid if every stored one is.\<close>

definition cache_valid :: "price_cache \<Rightarrow> bool" where
  "cache_valid c \<longleftrightarrow> (\<forall>s e. c s = Some e \<longrightarrow> isValidMarketPrice (pe_current e) \<and> isValidMarketPrice (pe_previous e))"

lemma cache_valid_StoreAt:
  assumes "cache_valid c" "isValidMarketPrice p"
  shows "cache_valid (cache_StoreAt now s p t c)"
proof -
  have "isValidMarketPrice (pe_current e) \<and> isValidMarketPrice (pe_previous e)"
    if "cache_Load (cache_StoreAt now s p t c) s' = Some e" for s' e
    using that assms unfolding cache_Load_StoreAt
    by (auto simp: cache_valid_def cache_Load_def split: if_splits option.splits)
  then show ?thesis by (simp add: cache_valid_def cache_Load_def)
qed

lemma cache_valid_WarmupCache: "cache_valid c \<Longrightarrow> cache_valid (WarmupCache err now d c)"
proof -
  have "cache_valid c \<Longrightarrow> cache_valid (foldl (warm_row now) c rows)" for rows c
    by (induction rows arbitrary: c) (auto simp: warm_row_def cache_valid_StoreAt)
  then show "cache_valid c \<Longrightarrow> ?thesis"
    by (simp add: WarmupCache_def run_read_def split: option.split)
qed

end
