(* ===== verification/Lease.thy ===== *)
theory Lease
  imports Prelude
begin

text \<open>
  The contract shared by the three durable queues (notification jobs, Telegram replies, Telegram
  updates). A worker claims a row: the claim counts an attempt, stamps a lease of a fixed length
  and returns the job; later it finalizes the row with an update guarded by the job's identity.

  The locale \<open>lease_table\<close> states what a queue promises (the laws) and proves what the workers rely
  on: an unexpired lease excludes other claims, at most one row is touched by a finalization, a job
  whose row was claimed again is stale, and the latest claimant always owns its row.
  \<open>lease_finalizer\<close> adds one finalizing update. The queues interpret both on their own definitions.
\<close>

locale lease_table =
  fixes key :: "'r \<Rightarrow> int"
    and attempts :: "'r \<Rightarrow> int"
    and claimable :: "time \<Rightarrow> 'r \<Rightarrow> bool"
    and claim :: "time \<Rightarrow> 't \<Rightarrow> 'r \<Rightarrow> 'r"
    and window :: duration
    and job :: "'r \<Rightarrow> 'j"
    and job_key :: "'j \<Rightarrow> int"
    and job_attempts :: "'j \<Rightarrow> int"
    and owns :: "'j \<Rightarrow> 'r \<Rightarrow> bool"
  assumes claim_key: "key (claim now tok r) = key r"
    and claim_attempts: "attempts (claim now tok r) = attempts r + 1"
    and claim_lease: "t \<le> now + window \<Longrightarrow> \<not> claimable t (claim now tok r)"
    and owns_claim: "owns (job (claim now tok r)) (claim now tok r)"
    and owns_identity: "owns j r \<Longrightarrow> key r = job_key j \<and> attempts r = job_attempts j"
    and job_identity: "job_key (job r) = key r" "job_attempts (job r) = attempts r"
begin

lemma owns_at_most_one: "unique_on key rows \<Longrightarrow> affected (owns j) rows \<le> 1"
  using owns_identity by (intro affected_le_1 [of key rows _ "job_key j"]) auto

lemma stale_not_owned: "job_attempts j < attempts r \<Longrightarrow> \<not> owns j r"
  using owns_identity by fastforce

text \<open>The claiming update for one row.\<close>

lemma claim_update_key: "map key (sql_update (\<lambda>r. key r = i \<and> claimable now r) (claim now tok) rows) = map key rows"
  by (rule sql_update_keys) (simp add: claim_key)

lemma claim_update_unique:
  "unique_on key rows \<Longrightarrow> unique_on key (sql_update (\<lambda>r. key r = i \<and> p r) (claim now tok) rows)"
  by (rule unique_on_update) (auto simp: claim_key)

text \<open>After its claim, the claimant's finalization touches exactly its row.\<close>

lemma claimed_row_owned:
  assumes u: "unique_on key rows" and r: "r \<in> set rows" "key r = i" "p r"
  shows "affected (owns (job (claim now tok r))) (sql_update (\<lambda>r. key r = i \<and> p r) (claim now tok) rows) = 1"
proof -
  let ?t = "sql_update (\<lambda>r. key r = i \<and> p r) (claim now tok) rows"
  have "claim now tok r \<in> set ?t" using r by (force simp: set_sql_update)
  then have "0 < affected (owns (job (claim now tok r))) ?t"
    using owns_claim by (auto simp: affected_pos_iff)
  moreover have "affected (owns (job (claim now tok r))) ?t \<le> 1"
    using claim_update_unique [OF u] by (rule owns_at_most_one)
  ultimately show ?thesis by simp
qed

text \<open>A worker whose row was claimed by another one since loses the claim for good.\<close>

lemma stale_affected_0:
  assumes "\<And>r. r \<in> set rows \<Longrightarrow> key r = job_key j \<Longrightarrow> job_attempts j < attempts r"
  shows "affected (owns j) rows = 0"
  using assms owns_identity by (fastforce simp: affected_0_iff)

text \<open>In particular a second claim of the row makes the first claimant stale.\<close>

lemma reclaimed_is_stale:
  assumes u: "unique_on key rows" and r: "r \<in> set rows" "key r = i" "p r"
    and j: "job_key j = i" "job_attempts j \<le> attempts r"
  shows "affected (owns j) (sql_update (\<lambda>r. key r = i \<and> p r) (claim now tok) rows) = 0"
proof (rule stale_affected_0)
  fix r' assume "r' \<in> set (sql_update (\<lambda>r. key r = i \<and> p r) (claim now tok) rows)" "key r' = job_key j"
  moreover have "claim now tok r \<in> set (sql_update (\<lambda>r. key r = i \<and> p r) (claim now tok) rows)"
    using r by (force simp: set_sql_update)
  ultimately have "r' = claim now tok r"
    using unique_onD [OF claim_update_unique [OF u]] r j by (metis claim_key)
  with j(2) show "job_attempts j < attempts r'" by (simp add: claim_attempts)
qed

text \<open>Two successive claims of a row are more than the window apart, if nothing released it.\<close>

lemma claims_apart: "claimable t (claim now tok r) \<Longrightarrow> now + window < t"
  using claim_lease by (meson linorder_not_less)

end

text \<open>One finalizing update of a queue: it keeps identity and attempts and gives the claim up.\<close>

locale lease_finalizer = lease_table key attempts claimable claim window job job_key job_attempts owns
  for key :: "'r \<Rightarrow> int" and attempts :: "'r \<Rightarrow> int" and claimable :: "time \<Rightarrow> 'r \<Rightarrow> bool"
    and claim :: "time \<Rightarrow> 't \<Rightarrow> 'r \<Rightarrow> 'r" and window :: duration and job :: "'r \<Rightarrow> 'j"
    and job_key :: "'j \<Rightarrow> int" and job_attempts :: "'j \<Rightarrow> int"
    and owns :: "'j \<Rightarrow> 'r \<Rightarrow> bool" +
  fixes finish :: "'r \<Rightarrow> 'r"
  assumes finish_key: "key (finish r) = key r"
    and finish_attempts: "attempts (finish r) = attempts r"
    and finish_releases: "\<not> owns j (finish r)"
begin

lemma finish_unique: "unique_on key rows \<Longrightarrow> unique_on key (sql_update (owns j) finish rows)"
  by (rule unique_on_update) (auto simp: finish_key)

text \<open>A finalization is applied at most once: repeating it finds no row.\<close>

lemma finish_twice: "affected (owns j) (sql_update (owns j) finish rows) = 0"
  by (auto simp: affected_0_iff set_sql_update finish_releases)

lemma finish_idempotent:
  "sql_update (owns j) finish' (sql_update (owns j) finish rows) = sql_update (owns j) finish rows"
  by (rule affected_0_update) (rule finish_twice)

text \<open>A stale finalization changes nothing.\<close>

lemma stale_finish_no_effect:
  assumes "\<And>r. r \<in> set rows \<Longrightarrow> key r = job_key j \<Longrightarrow> job_attempts j < attempts r"
  shows "sql_update (owns j) finish rows = rows"
  using stale_affected_0 [OF assms] by (rule affected_0_update)

end

end
