(* ===== verification/Finalization.thy ===== *)
theory Finalization
  imports Go_Errors
begin

text \<open>
  \<^verbatim>\<open>internal/app/sent_finalization.go\<close>: after Telegram confirmed a delivery, only the durable write is
  retried, a bounded number of times.

  The loop threads a state through the write (\<open>act attempt\<close>, the call of the \<^verbatim>\<open>finalize\<close> argument);
  the context is described by what the loop observes of it: \<open>fe_ctx_err n\<close> is \<^verbatim>\<open>finalCtx.Err()\<close>
  before attempt \<open>n\<close>, \<open>fe_timer n delay\<close> is \<open>None\<close> when the timer of attempt \<open>n\<close> fires before
  the context is done and the context's error otherwise.
\<close>

definition sentFinalizationBudget :: duration where
  "sentFinalizationBudget = 5 * second"

definition sentFinalizationRetryDelays :: "duration list" where
  "sentFinalizationRetryDelays = [100000000, 250000000, 500000000, second]"

record sentFinalizationPolicy =
  budget :: duration
  delays :: "duration list"

definition defaultSentFinalizationPolicy :: sentFinalizationPolicy where
  "defaultSentFinalizationPolicy =
     \<lparr>budget = sentFinalizationBudget, delays = sentFinalizationRetryDelays\<rparr>"

record finalization_env =
  fe_ctx_err :: "nat \<Rightarrow> go_error option"
  fe_timer :: "nat \<Rightarrow> duration \<Rightarrow> go_error option"

text \<open>The loop from attempt \<open>n\<close>, with the delays left and the last error.\<close>

fun finalize_loop ::
  "finalization_env \<Rightarrow> (nat \<Rightarrow> 's \<Rightarrow> go_error option \<times> 's) \<Rightarrow> nat \<Rightarrow> duration list
    \<Rightarrow> go_error option \<Rightarrow> 's \<Rightarrow> (nat \<times> go_error option) \<times> 's" where
  "finalize_loop env act n ds lastErr s =
     (case fe_ctx_err env n of
        Some e \<Rightarrow> ((n - 1, Some (errors_Join lastErr e)), s)
      | None \<Rightarrow>
          (case act n s of
             (None, s') \<Rightarrow> ((n, None), s')
           | (Some e, s') \<Rightarrow>
               if is_ownership_lost e then ((n, Some e), s')
               else (case ds of
                       [] \<Rightarrow> ((n, Some e), s')
                     | d # ds' \<Rightarrow>
                         (case fe_timer env n d of
                            Some c \<Rightarrow> ((n, Some (Joined e c)), s')
                          | None \<Rightarrow> finalize_loop env act (n + 1) ds' (Some e) s'))))"

declare finalize_loop.simps [simp del]

definition finalize ::
  "sentFinalizationPolicy \<Rightarrow> finalization_env \<Rightarrow> (nat \<Rightarrow> 's \<Rightarrow> go_error option \<times> 's) \<Rightarrow> 's
    \<Rightarrow> (nat \<times> go_error option) \<times> 's" where
  "finalize p env act s =
     (if budget p \<le> 0 then ((0, Some (PlainError ''invalid sent finalization budget'')), s)
      else finalize_loop env act 1 (delays p) None s)"

section \<open>Bounds and results\<close>

lemma finalize_loop_bound: "fst (fst (finalize_loop env act n ds le s)) \<le> n + length ds"
proof (induction ds arbitrary: n le s)
  case Nil
  then show ?case
    by (subst finalize_loop.simps) (auto split: option.splits prod.splits)
next
  case (Cons d ds)
  show ?case
    using Cons.IH [of "n + 1"]
    by (subst finalize_loop.simps) (auto split: option.splits prod.splits)
qed

text \<open>An invariant that each write keeps holds after the loop, however it ends.\<close>

lemma finalize_loop_invariant:
  assumes "\<And>n s. P s \<Longrightarrow> P (snd (act n s))" "P s"
  shows "P (snd (finalize_loop env act n ds le s))"
  using assms(2)
proof (induction ds arbitrary: n le s)
  case Nil
  then show ?case
    using assms(1) [OF Nil, of n] Nil
    by (subst finalize_loop.simps) (auto split: option.splits prod.splits)
next
  case (Cons d ds)
  show ?case
    using assms(1) [OF Cons.prems, of n] Cons.prems Cons.IH
    by (subst finalize_loop.simps) (auto split: option.splits prod.splits)
qed

lemma finalize_invariant:
  assumes "\<And>n s. P s \<Longrightarrow> P (snd (act n s))" "P s"
  shows "P (snd (finalize p env act s))"
  using assms(2) finalize_loop_invariant [of P act s env 1 "delays p" None, OF assms(1) assms(2)]
  by (simp add: finalize_def)

text \<open>Success is reported only when the last write succeeded.\<close>

lemma finalize_loop_success:
  "finalize_loop env act n ds le s = ((k, None), s') \<Longrightarrow> \<exists>m t. act m t = (None, s') \<and> n \<le> m \<and> m = k"
proof (induction ds arbitrary: n le s)
  case Nil
  then show ?case
    by (subst (asm) finalize_loop.simps) (auto split: option.splits prod.splits if_splits)
next
  case (Cons d ds)
  show ?case
    using Cons.prems Cons.IH [of "n + 1"]
    by (subst (asm) finalize_loop.simps) (fastforce split: option.splits prod.splits if_splits)
qed

end
