(* ===== verification/Notification_Outbox.thy ===== *)
theory Notification_Outbox
  imports Price_Cache Lease Finalization
begin

text \<open>
  The notification outbox (\<^verbatim>\<open>internal/app/notification_outbox.go\<close>): cron creates durable jobs for due
  subscribers, workers claim, deliver and finalize them. Every function of the file is one
  definition; each SQL statement is the table operation it denotes.

  \<^verbatim>\<open>NOW()\<close> is the argument \<open>now\<close> of a transaction, \<^verbatim>\<open>gen_random_uuid()\<close> its argument \<open>tok\<close>;
  \<open>try_lock\<close> is what \<^verbatim>\<open>pg_try_advisory_xact_lock\<close> answers for a chat.
\<close>

section \<open>Subscriptions\<close>

definition find_subscriber :: "int \<Rightarrow> db \<Rightarrow> subscriber option" where
  "find_subscriber chat d = find (\<lambda>s. sub_chat_id s = chat) (subscribers d)"

text \<open>A missing row is not an error: the chat is not subscribed.\<close>

definition isSubscribedWithDB :: "go_error option \<Rightarrow> int \<Rightarrow> db \<Rightarrow> go_error + bool" where
  "isSubscribedWithDB err chat d =
     run_read err (case find_subscriber chat d of None \<Rightarrow> False | Some s \<Rightarrow> is_subscribed s)"

section \<open>Jobs and claims\<close>

record notification_job =
  job_kind :: job_kind
  job_price_alert_id :: int
  job_id :: int
  job_chat_id :: int
  job_lang :: string
  job_text :: msg
  job_claim_token :: string
  job_scheduled_at :: time
  job_attempts :: int

definition nj_open :: "notification_row \<Rightarrow> bool" where
  "nj_open r \<longleftrightarrow> nj_status r = Pending \<or> nj_status r = Sending"

text \<open>The guard of the candidate query, repeated in the claiming update.\<close>

definition nj_claimable :: "time \<Rightarrow> notification_row \<Rightarrow> bool" where
  "nj_claimable now r \<longleftrightarrow>
     nj_open r \<and> nj_next_attempt_at r \<le> now \<and>
     (nj_status r = Pending \<or> nj_claimed_until r = None \<or> the (nj_claimed_until r) < now)"

definition nj_claim :: "time \<Rightarrow> string \<Rightarrow> notification_row \<Rightarrow> notification_row" where
  "nj_claim now tok r =
     r\<lparr>nj_status := Sending, nj_attempts := nj_attempts r + 1, nj_claim_token := Some tok,
       nj_claimed_until := Some (now + pg_interval (PostgresInterval NotificationJobClaimWindow)),
       nj_updated_at := now\<rparr>"

text \<open>The \<^verbatim>\<open>RETURNING\<close> clause, scanned into a \<^verbatim>\<open>NotificationJob\<close>.\<close>

definition nj_job :: "notification_row \<Rightarrow> notification_job" where
  "nj_job r =
     \<lparr>job_kind = nj_kind r,
      job_price_alert_id = (case nj_price_alert_id r of None \<Rightarrow> 0 | Some a \<Rightarrow> a),
      job_id = nj_id r, job_chat_id = nj_chat_id r, job_lang = nj_language_code r,
      job_text = nj_message_text r,
      job_claim_token = (case nj_claim_token r of None \<Rightarrow> [] | Some t \<Rightarrow> t),
      job_scheduled_at = nj_scheduled_at r, job_attempts = nj_attempts r\<rparr>"

text \<open>The guard of every finalizing update: the row is still held under this very claim.\<close>

definition nj_owned :: "notification_job \<Rightarrow> notification_row \<Rightarrow> bool" where
  "nj_owned job r \<longleftrightarrow>
     nj_id r = job_id job \<and> nj_status r = Sending \<and> nj_claim_token r = Some (job_claim_token job) \<and>
     nj_attempts r = job_attempts job"

definition notification_candidates :: "time \<Rightarrow> db \<Rightarrow> (int \<times> int) list" where
  "notification_candidates now d =
     map (\<lambda>r. (nj_id r, nj_chat_id r))
       (sql_select (nj_claimable now) (\<lambda>r. (nj_scheduled_at r, nj_id r)) OutboxClaimCandidateLimit
          (notification_jobs d))"

text \<open>The loop over the candidates: a busy chat and a row taken meanwhile are skipped.\<close>

fun claim_notification_loop ::
  "(int \<Rightarrow> go_error + bool) \<Rightarrow> time \<Rightarrow> string \<Rightarrow> (int \<times> int) list \<Rightarrow> db
    \<Rightarrow> go_error + notification_job option \<times> db" where
  "claim_notification_loop try_lock now tok [] d = Inr (None, d)"
| "claim_notification_loop try_lock now tok ((cid, chat) # cs) d =
     (case try_lock chat of
        Inl e \<Rightarrow> Inl e
      | Inr False \<Rightarrow> claim_notification_loop try_lock now tok cs d
      | Inr True \<Rightarrow>
          (case find (\<lambda>r. nj_id r = cid \<and> nj_claimable now r) (notification_jobs d) of
             None \<Rightarrow> claim_notification_loop try_lock now tok cs d
           | Some r \<Rightarrow>
               Inr (Some (nj_job (nj_claim now tok r)),
                    d\<lparr>notification_jobs :=
                        sql_update (\<lambda>r. nj_id r = cid \<and> nj_claimable now r) (nj_claim now tok)
                          (notification_jobs d)\<rparr>)))"

text \<open>
  \<open>snapshot\<close> is the database the candidate query saw, \<open>d\<close> the one the updates run on: under
  \<^verbatim>\<open>READ COMMITTED\<close> other workers may commit in between.
\<close>

definition claimPendingNotificationJob ::
  "db_fault \<Rightarrow> (int \<Rightarrow> go_error + bool) \<Rightarrow> time \<Rightarrow> string \<Rightarrow> db \<Rightarrow> db
    \<Rightarrow> (go_error + notification_job option) \<times> db" where
  "claimPendingNotificationJob fault try_lock now tok snapshot d =
     run_tx fault (claim_notification_loop try_lock now tok (notification_candidates now snapshot)) d"

section \<open>Finalizing updates\<close>

definition nj_set_sent :: "time \<Rightarrow> notification_row \<Rightarrow> notification_row" where
  "nj_set_sent now r =
     r\<lparr>nj_status := Sent, nj_sent_at := Some now, nj_claim_token := None, nj_claimed_until := None,
       nj_last_error := None, nj_updated_at := now\<rparr>"

definition nj_set_retry :: "time \<Rightarrow> duration \<Rightarrow> string \<Rightarrow> notification_row \<Rightarrow> notification_row" where
  "nj_set_retry now delay err r =
     r\<lparr>nj_status := Pending, nj_claim_token := None, nj_claimed_until := None,
       nj_next_attempt_at := now + pg_interval (PostgresInterval delay), nj_last_error := Some err,
       nj_updated_at := now\<rparr>"

definition nj_set_canceled :: "time \<Rightarrow> string \<Rightarrow> notification_row \<Rightarrow> notification_row" where
  "nj_set_canceled now err r =
     r\<lparr>nj_status := Canceled, nj_canceled_at := Some now, nj_claim_token := None,
       nj_claimed_until := None, nj_last_error := Some err, nj_updated_at := now\<rparr>"

definition nj_set_failed :: "time \<Rightarrow> string \<Rightarrow> notification_row \<Rightarrow> notification_row" where
  "nj_set_failed now err r =
     r\<lparr>nj_status := Failed, nj_failed_at := Some now, nj_claim_token := None,
       nj_claimed_until := None, nj_last_error := Some err, nj_updated_at := now\<rparr>"

text \<open>
  The common shape of the four \<^verbatim>\<open>markNotificationJob...\<close> transactions: a guarded update of the job,
  the ownership check, then an update of the subscriber of a job that is not a price alert.
\<close>

definition finish_notification ::
  "notification_job \<Rightarrow> (notification_row \<Rightarrow> notification_row) \<Rightarrow> (subscriber \<Rightarrow> subscriber) \<Rightarrow> db
    \<Rightarrow> go_error + unit \<times> db" where
  "finish_notification job f g d =
     (case ensureCurrentJobClaimUpdated (affected (nj_owned job) (notification_jobs d)) of
        Some e \<Rightarrow> Inl e
      | None \<Rightarrow>
          Inr ((), d\<lparr>notification_jobs := sql_update (nj_owned job) f (notification_jobs d),
                     subscribers :=
                       sql_update (\<lambda>s. sub_chat_id s = job_chat_id job \<and> job_kind job \<noteq> PriceAlert) g
                         (subscribers d)\<rparr>))"

definition markNotificationJobSentOnce ::
  "db_fault \<Rightarrow> time \<Rightarrow> notification_job \<Rightarrow> db \<Rightarrow> (go_error + unit) \<times> db" where
  "markNotificationJobSentOnce fault now job d =
     run_tx fault
       (finish_notification job (nj_set_sent now)
          (\<lambda>s. s\<lparr>last_sent := Some (date_trunc_minute (job_scheduled_at job)),
                 cron_claimed_until := None, delivery_suspended_until := None\<rparr>)) d"

definition markNotificationJobRetry ::
  "string option \<Rightarrow> db_fault \<Rightarrow> time \<Rightarrow> notification_job \<Rightarrow> go_error \<Rightarrow> db \<Rightarrow> (go_error + unit) \<times> db" where
  "markNotificationJobRetry token fault now job sendErr d =
     (let safeErr = safeTelegramError token sendErr;
          delay = telegramRetryDelay (job_attempts job) sendErr
      in run_tx fault
           (finish_notification job (nj_set_retry now delay (TruncateError (Error safeErr) 500))
              (\<lambda>s. s\<lparr>cron_claimed_until := None\<rparr>)) d)"

definition markNotificationJobCanceled ::
  "db_fault \<Rightarrow> time \<Rightarrow> notification_job \<Rightarrow> db \<Rightarrow> (go_error + unit) \<times> db" where
  "markNotificationJobCanceled fault now job d =
     run_tx fault
       (finish_notification job (nj_set_canceled now ''notification disabled'')
          (\<lambda>s. s\<lparr>cron_claimed_until := None\<rparr>)) d"

definition markNotificationJobFailed ::
  "string option \<Rightarrow> db_fault \<Rightarrow> time \<Rightarrow> notification_job \<Rightarrow> go_error \<Rightarrow> bool \<Rightarrow> db
    \<Rightarrow> (go_error + unit) \<times> db" where
  "markNotificationJobFailed token fault now job sendErr permanent d =
     (let safeErr = safeTelegramError token sendErr
      in run_tx fault
           (finish_notification job (nj_set_failed now (TruncateError (Error safeErr) 500))
              (if permanent
               then (\<lambda>s. s\<lparr>is_subscribed := False, cron_claimed_until := None,
                           delivery_suspended_until := None\<rparr>)
               else (\<lambda>s. s\<lparr>cron_claimed_until := None,
                           delivery_suspended_until :=
                             Some (now + pg_interval (PostgresInterval NotificationFailureCooldown))\<rparr>))) d)"

section \<open>Checks before delivery\<close>

text \<open>\<^verbatim>\<open>notificationEnabled\<close> of \<^verbatim>\<open>price_alerts.go\<close>.\<close>

definition notificationEnabled :: "go_error option \<Rightarrow> notification_job \<Rightarrow> db \<Rightarrow> go_error + bool" where
  "notificationEnabled err job d =
     (if job_kind job \<noteq> PriceAlert then isSubscribedWithDB err (job_chat_id job) d
      else run_read err
             (sql_exists (\<lambda>a. pa_id a = job_price_alert_id job \<and> pa_chat_id a = job_chat_id job \<and>
                              pa_status a = A_Triggered) (price_alerts d)))"

definition nj_lease_current :: "time \<Rightarrow> notification_job \<Rightarrow> notification_row \<Rightarrow> bool" where
  "nj_lease_current now job r \<longleftrightarrow>
     nj_owned job r \<and>
     (case nj_claimed_until r of None \<Rightarrow> False
      | Some u \<Rightarrow> u > now + pg_interval (PostgresInterval TelegramSendLeaseSafetyWindow))"

definition ensureNotificationJobClaimCurrent ::
  "go_error option \<Rightarrow> time \<Rightarrow> notification_job \<Rightarrow> db \<Rightarrow> go_error option" where
  "ensureNotificationJobClaimCurrent err now job d =
     (case run_read err (sql_exists (nj_lease_current now job) (notification_jobs d)) of
        Inl e \<Rightarrow> Some e
      | Inr current \<Rightarrow> if current then None else Some ErrJobOwnershipLost)"

definition notificationMessageForDelivery :: "notification_job \<Rightarrow> time \<Rightarrow> msg" where
  "notificationMessageForDelivery job deliveredAt =
     (if job_scheduled_at job = zero_time \<or>
         priceAge deliveredAt (job_scheduled_at job) \<le> priceFreshnessLimit
      then job_text job
      else Sprintf (Lit (''%s'' @ [CHR 0x0A, CHR 0x0A] @ ''%s''))
             [AMsg (job_text job), AMsg (Text (job_lang job) ''delay_warning'')])"

definition RefreshKeyboard :: "string \<Rightarrow> keyboard" where
  "RefreshKeyboard lang = [[\<lparr>btn_text = Text lang ''btn_upd'', btn_data = ''refresh_price''\<rparr>]]"

section \<open>Delivery\<close>

definition observeNotificationDelivery :: "notification_job \<Rightarrow> string \<Rightarrow> world \<Rightarrow> world" where
  "observeNotificationDelivery job status w =
     (if job_kind job = PriceAlert then count_metric ''PriceAlertDeliveriesTotal'' status w
      else count_metric ''CronDeliveriesTotal'' status w)"

text \<open>
  What the surroundings do during one delivery: the errors of the context, of the chat lock and of
  the two reads, the answer of Telegram, the clock of the database (\<open>de_now\<close>) and of the process,
  the fault of each writing transaction (the finalization may write several times), and
  \<open>de_others k\<close>, what other workers commit before the \<open>k\<close>-th database call of this one.
\<close>

record delivery_env =
  de_ctx_err :: "go_error option"
  de_lock_err :: "go_error option"
  de_check_err :: "go_error option"
  de_claim_err :: "go_error option"
  de_send :: "go_error + int"
  de_now :: "nat \<Rightarrow> time"
  de_delivered_at :: time
  de_fault :: db_fault
  de_fin_fault :: "nat \<Rightarrow> db_fault"
  de_fin :: finalization_env
  de_others :: "nat \<Rightarrow> db \<Rightarrow> db"

definition others :: "delivery_env \<Rightarrow> nat \<Rightarrow> world \<Rightarrow> world" where
  "others env k w = w\<lparr>wdb := de_others env k (wdb w)\<rparr>"

text \<open>The error of a write, as Go returns it.\<close>

definition err_of :: "go_error + 'a \<Rightarrow> go_error option" where
  "err_of r = (case r of Inl e \<Rightarrow> Some e | Inr _ \<Rightarrow> None)"

definition deferNotificationJob ::
  "string option \<Rightarrow> delivery_env \<Rightarrow> notification_job \<Rightarrow> go_error \<Rightarrow> world \<Rightarrow> world" where
  "deferNotificationJob token env job processingErr w =
     (if job_attempts job \<ge> NotificationJobMaxAttempts then
        observeNotificationDelivery job ''failed_exhausted''
          (snd (on_db (markNotificationJobFailed token (de_fault env) (de_now env 9) job processingErr False)
                  (others env 9 w)))
      else
        observeNotificationDelivery job ''retry''
          (snd (on_db (markNotificationJobRetry token (de_fault env) (de_now env 9) job processingErr)
                  (others env 9 w))))"

text \<open>The branch after a failed send.\<close>

definition notification_send_failed ::
  "string option \<Rightarrow> delivery_env \<Rightarrow> notification_job \<Rightarrow> go_error \<Rightarrow> world \<Rightarrow> world" where
  "notification_send_failed token env job err w =
     (let safeErr = safeTelegramError token err;
          w' = others env 3 w;
          mark = (\<lambda>f. snd (on_db f w'));
          (errorType, w'') =
            (if IsPermanentSendError err then
               (''permanent'', mark (markNotificationJobFailed token (de_fault env) (de_now env 3) job safeErr True))
             else if job_attempts job \<ge> NotificationJobMaxAttempts then
               (''exhausted'', mark (markNotificationJobFailed token (de_fault env) (de_now env 3) job safeErr False))
             else
               (''transient'', mark (markNotificationJobRetry token (de_fault env) (de_now env 3) job err)))
      in observeNotificationDelivery job (''failed_'' @ errorType)
           (count_metric ''TelegramSendErrorsTotal'' errorType w''))"

text \<open>The durable write of a confirmed delivery, one attempt of the finalization loop.\<close>

definition notification_sent_write ::
  "delivery_env \<Rightarrow> notification_job \<Rightarrow> nat \<Rightarrow> world \<Rightarrow> go_error option \<times> world" where
  "notification_sent_write env job n w =
     (let (r, w') = on_db (markNotificationJobSentOnce (de_fin_fault env n) (de_now env (10 + n)) job)
                      (others env (10 + n) w)
      in (err_of r, w'))"

definition notification_send_confirmed :: "delivery_env \<Rightarrow> notification_job \<Rightarrow> world \<Rightarrow> world" where
  "notification_send_confirmed env job w =
     (let ((n, err), w') = finalize defaultSentFinalizationPolicy (de_fin env) (notification_sent_write env job) w
      in case err of
           Some e \<Rightarrow> if is_ownership_lost e then observeNotificationDelivery job ''sent_stale_claim'' w'
                     else observeNotificationDelivery job ''sent_persist_error'' w'
         | None \<Rightarrow> observeNotificationDelivery job ''sent'' w')"

definition send_notification :: "notification_job \<Rightarrow> time \<Rightarrow> world \<Rightarrow> world" where
  "send_notification job deliveredAt w =
     w\<lparr>calls := calls w @
         [SendMessage (job_chat_id job) (notificationMessageForDelivery job deliveredAt)
            (if job_kind job \<noteq> PriceAlert then Some (RefreshKeyboard (job_lang job)) else None)]\<rparr>"

definition processNotificationJob ::
  "string option \<Rightarrow> delivery_env \<Rightarrow> notification_job \<Rightarrow> world \<Rightarrow> world" where
  "processNotificationJob token env job w =
     (case de_ctx_err env of
        Some e \<Rightarrow> snd (on_db (markNotificationJobRetry token (de_fault env) (de_now env 0) job e) (others env 0 w))
      | None \<Rightarrow>
     (case de_lock_err env of
        Some e \<Rightarrow> deferNotificationJob token env job (Wrapped ''acquire telegram chat lock'' e) w
      | None \<Rightarrow>
     (let w1 = others env 1 w in
      case notificationEnabled (de_check_err env) job (wdb w1) of
        Inl e \<Rightarrow> deferNotificationJob token env job (Wrapped ''check subscription before delivery'' e) w1
      | Inr False \<Rightarrow>
          observeNotificationDelivery job ''canceled''
            (snd (on_db (markNotificationJobCanceled (de_fault env) (de_now env 2) job) (others env 2 w1)))
      | Inr True \<Rightarrow>
     (let w2 = others env 2 w1 in
      case ensureNotificationJobClaimCurrent (de_claim_err env) (de_now env 2) job (wdb w2) of
        Some e \<Rightarrow>
          if is_ownership_lost e then observeNotificationDelivery job ''skipped_stale_claim'' w2
          else deferNotificationJob token env job
                 (Wrapped ''validate notification claim before delivery'' e) w2
      | None \<Rightarrow>
     (let w3 = send_notification job (de_delivered_at env) w2 in
      case de_send env of
        Inl err \<Rightarrow> notification_send_failed token env job err w3
      | Inr messageID \<Rightarrow> notification_send_confirmed env job w3)))))"

section \<open>Creation\<close>

definition new_notification ::
  "int \<Rightarrow> time \<Rightarrow> int \<Rightarrow> string \<Rightarrow> msg \<Rightarrow> time \<Rightarrow> time \<Rightarrow> job_kind \<Rightarrow> int option \<Rightarrow> notification_row" where
  "new_notification i now chat lang txt scheduledAt nextAttemptAt kind alert =
     \<lparr>nj_id = i, nj_chat_id = chat, nj_language_code = lang, nj_message_text = txt,
      nj_scheduled_at = scheduledAt, nj_status = Pending, nj_attempts = 0, nj_claim_token = None,
      nj_claimed_until = None, nj_next_attempt_at = nextAttemptAt, nj_sent_at = None,
      nj_failed_at = None, nj_canceled_at = None, nj_last_error = None, nj_updated_at = now,
      nj_kind = kind, nj_price_alert_id = alert\<rparr>"

definition nj_active :: "notification_row \<Rightarrow> bool" where
  "nj_active r \<longleftrightarrow> nj_kind r = Scheduled \<and> nj_open r"

text \<open>
  \<^verbatim>\<open>INSERT INTO notification_jobs\<close> with the two unique indexes of the table: one open scheduled job per
  chat, one job per price alert. A violation is an error and aborts the transaction.
\<close>

definition insert_notification ::
  "time \<Rightarrow> int \<Rightarrow> string \<Rightarrow> msg \<Rightarrow> time \<Rightarrow> time \<Rightarrow> job_kind \<Rightarrow> int option \<Rightarrow> db \<Rightarrow> go_error + db" where
  "insert_notification now chat lang txt scheduledAt nextAttemptAt kind alert d =
     (let r = new_notification (notification_seq d) now chat lang txt scheduledAt nextAttemptAt kind alert in
      if nj_active r \<and> sql_exists (\<lambda>r'. nj_active r' \<and> nj_chat_id r' = chat) (notification_jobs d)
      then Inl (PlainError ''notification_jobs_one_active_per_chat'')
      else if alert \<noteq> None \<and> sql_exists (\<lambda>r'. nj_price_alert_id r' = alert) (notification_jobs d)
      then Inl (PlainError ''notification_jobs_one_per_price_alert'')
      else Inr (d\<lparr>notification_jobs := notification_jobs d @ [r],
                  notification_seq := notification_seq d + 1\<rparr>))"

text \<open>The \<^verbatim>\<open>due\<close> query of the cron run.\<close>

definition sub_due :: "time \<Rightarrow> notification_row list \<Rightarrow> subscriber \<Rightarrow> bool" where
  "sub_due now jobs s \<longleftrightarrow>
     is_subscribed s \<and>
     date_trunc_minute (case last_sent s of None \<Rightarrow> 0 | Some t \<Rightarrow> t)
       \<le> date_trunc_minute now - (case interval_minutes s of None \<Rightarrow> 60 | Some m \<Rightarrow> m) * minute \<and>
     (case cron_claimed_until s of None \<Rightarrow> True | Some t \<Rightarrow> t < now) \<and>
     (case delivery_suspended_until s of None \<Rightarrow> True | Some t \<Rightarrow> t \<le> now) \<and>
     \<not> sql_exists (\<lambda>r. nj_chat_id r = sub_chat_id s \<and> nj_active r) jobs"

text \<open>\<open>row_locked\<close>: the subscriber rows locked by other transactions (\<^verbatim>\<open>SKIP LOCKED\<close>).\<close>

definition due_subscribers :: "(int \<Rightarrow> bool) \<Rightarrow> time \<Rightarrow> db \<Rightarrow> subscriber list" where
  "due_subscribers row_locked now d =
     sql_select (\<lambda>s. sub_due now (notification_jobs d) s \<and> \<not> row_locked (sub_chat_id s)) last_sent
       CronBatchLimit (subscribers d)"

definition sub_lang :: "subscriber \<Rightarrow> string" where
  "sub_lang s = (case language_code s of None \<Rightarrow> ''ua'' | Some l \<Rightarrow> l)"

definition scheduled_text :: "price_cache \<Rightarrow> time \<Rightarrow> string \<Rightarrow> time \<Rightarrow> msg" where
  "scheduled_text cache clock lang due_at =
     Sprintf (Lit (''%s'' @ [CHR 0x0A, CHR 0x0A] @ ''%s'' @ [CHR 0x0A, CHR 0x0A] @ ''_%s_''))
       [AMsg (Sprintf (Text lang ''alert_hdr'') [ATime ''15:04'' due_at]),
        AMsg (getFormattedPricesFromCacheAt lang clock cache),
        AMsg (Text lang ''dynamics'')]"

fun insert_due_jobs :: "price_cache \<Rightarrow> time \<Rightarrow> time \<Rightarrow> subscriber list \<Rightarrow> db \<Rightarrow> go_error + db" where
  "insert_due_jobs cache clock now [] d = Inr d"
| "insert_due_jobs cache clock now (s # ss) d =
     (case insert_notification now (sub_chat_id s) (sub_lang s) (scheduled_text cache clock (sub_lang s) now)
             now now Scheduled None d of
        Inl e \<Rightarrow> Inl e
      | Inr d' \<Rightarrow> insert_due_jobs cache clock now ss d')"

definition cron_body :: "(int \<Rightarrow> bool) \<Rightarrow> price_cache \<Rightarrow> time \<Rightarrow> time \<Rightarrow> db \<Rightarrow> go_error + nat \<times> db" where
  "cron_body row_locked cache clock now d =
     (let due = due_subscribers row_locked now d;
          d' = d\<lparr>subscribers :=
                  sql_update (\<lambda>s. sub_chat_id s \<in> set (map sub_chat_id due))
                    (\<lambda>s. s\<lparr>cron_claimed_until := Some (now + 15 * minute)\<rparr>) (subscribers d)\<rparr>
      in case insert_due_jobs cache clock now due d' of
           Inl e \<Rightarrow> Inl e
         | Inr d'' \<Rightarrow> Inr (length due, d''))"

definition createCronNotificationJobs ::
  "db_fault \<Rightarrow> (int \<Rightarrow> bool) \<Rightarrow> price_cache \<Rightarrow> time \<Rightarrow> time \<Rightarrow> db \<Rightarrow> (go_error + nat) \<times> db" where
  "createCronNotificationJobs fault row_locked cache clock now d =
     run_tx fault (cron_body row_locked cache clock now) d"

section \<open>Claims follow the lease contract\<close>

interpretation nq: lease_table nj_id nj_attempts nj_claimable nj_claim NotificationJobClaimWindow
  nj_job job_id job_attempts nj_owned
  by unfold_locales (auto simp: nj_claim_def nj_claimable_def nj_open_def nj_job_def nj_owned_def)

interpretation nq_sent: lease_finalizer nj_id nj_attempts nj_claimable nj_claim NotificationJobClaimWindow
  nj_job job_id job_attempts nj_owned "nj_set_sent now" for now
  by unfold_locales (auto simp: nj_set_sent_def nj_owned_def)

interpretation nq_retry: lease_finalizer nj_id nj_attempts nj_claimable nj_claim NotificationJobClaimWindow
  nj_job job_id job_attempts nj_owned "nj_set_retry now delay err" for now delay err
  by unfold_locales (auto simp: nj_set_retry_def nj_owned_def)

interpretation nq_canceled: lease_finalizer nj_id nj_attempts nj_claimable nj_claim NotificationJobClaimWindow
  nj_job job_id job_attempts nj_owned "nj_set_canceled now err" for now err
  by unfold_locales (auto simp: nj_set_canceled_def nj_owned_def)

interpretation nq_failed: lease_finalizer nj_id nj_attempts nj_claimable nj_claim NotificationJobClaimWindow
  nj_job job_id job_attempts nj_owned "nj_set_failed now err" for now err
  by unfold_locales (auto simp: nj_set_failed_def nj_owned_def)

section \<open>The table invariant\<close>

text \<open>What a single row promises: the claim columns are set exactly while it is being sent.\<close>

definition nj_row_ok :: "notification_row \<Rightarrow> bool" where
  "nj_row_ok r \<longleftrightarrow>
     0 \<le> nj_attempts r \<and> (nj_status r = Sending \<longrightarrow> 1 \<le> nj_attempts r) \<and>
     (nj_claim_token r \<noteq> None \<longleftrightarrow> nj_status r = Sending) \<and>
     (nj_claimed_until r \<noteq> None \<longleftrightarrow> nj_status r = Sending) \<and>
     (nj_status r = Sent \<longrightarrow> nj_sent_at r \<noteq> None) \<and>
     (nj_status r = Failed \<longrightarrow> nj_failed_at r \<noteq> None) \<and>
     (nj_status r = Canceled \<longrightarrow> nj_canceled_at r \<noteq> None) \<and>
     (nj_price_alert_id r \<noteq> None \<longleftrightarrow> nj_kind r = PriceAlert)"

definition jobs_inv :: "int \<Rightarrow> notification_row list \<Rightarrow> bool" where
  "jobs_inv seq jobs \<longleftrightarrow>
     unique_on nj_id jobs \<and> (\<forall>r \<in> set jobs. nj_id r < seq) \<and>
     unique_where nj_active nj_chat_id jobs \<and>
     unique_where (\<lambda>r. nj_price_alert_id r \<noteq> None) nj_price_alert_id jobs \<and>
     (\<forall>r \<in> set jobs. nj_row_ok r)"

text \<open>An update that keeps the identity of the rows and opens none of them keeps the invariant.\<close>

definition nj_tame :: "(notification_row \<Rightarrow> bool) \<Rightarrow> (notification_row \<Rightarrow> notification_row) \<Rightarrow> bool" where
  "nj_tame p f \<longleftrightarrow>
     (\<forall>r. p r \<longrightarrow> nj_row_ok r \<longrightarrow>
        nj_id (f r) = nj_id r \<and> nj_chat_id (f r) = nj_chat_id r \<and> nj_kind (f r) = nj_kind r \<and>
        nj_price_alert_id (f r) = nj_price_alert_id r \<and> nj_attempts r \<le> nj_attempts (f r) \<and>
        (nj_open (f r) \<longrightarrow> nj_open r) \<and> nj_row_ok (f r))"

lemma jobs_inv_update:
  assumes inv: "jobs_inv seq jobs" and tame: "nj_tame p f"
  shows "jobs_inv seq (sql_update p f jobs)"
proof -
  have ok: "\<And>r. r \<in> set jobs \<Longrightarrow> nj_row_ok r" using inv by (simp add: jobs_inv_def)
  have t: "nj_id (f r) = nj_id r \<and> nj_chat_id (f r) = nj_chat_id r \<and> nj_kind (f r) = nj_kind r \<and>
        nj_price_alert_id (f r) = nj_price_alert_id r \<and> (nj_open (f r) \<longrightarrow> nj_open r) \<and> nj_row_ok (f r)"
    if "r \<in> set jobs" "p r" for r
    using tame ok that by (simp add: nj_tame_def)
  have "unique_on nj_id (sql_update p f jobs)"
    using inv t by (intro unique_on_update) (auto simp: jobs_inv_def)
  moreover have "\<forall>r \<in> set (sql_update p f jobs). nj_id r < seq"
    using inv t by (auto simp: jobs_inv_def set_sql_update)
  moreover have "unique_where nj_active nj_chat_id (sql_update p f jobs)"
    using inv t by (intro unique_where_update) (auto simp: jobs_inv_def nj_active_def)
  moreover have "unique_where (\<lambda>r. nj_price_alert_id r \<noteq> None) nj_price_alert_id (sql_update p f jobs)"
    using inv t by (intro unique_where_update) (auto simp: jobs_inv_def)
  moreover have "\<forall>r \<in> set (sql_update p f jobs). nj_row_ok r"
    using ok t by (auto simp: set_sql_update)
  ultimately show ?thesis by (simp add: jobs_inv_def)
qed

lemma nj_tame_claim: "(\<And>r. p r \<Longrightarrow> nj_claimable now r) \<Longrightarrow> nj_tame p (nj_claim now tok)"
  by (auto simp: nj_tame_def nj_claim_def nj_row_ok_def nj_claimable_def)

lemma nj_tame_finish:
  "nj_tame (nj_owned job) (nj_set_sent now)"
  "nj_tame (nj_owned job) (nj_set_retry now delay err)"
  "nj_tame (nj_owned job) (nj_set_failed now err)"
  by (auto simp: nj_tame_def nj_set_sent_def nj_set_retry_def nj_set_failed_def
        nj_row_ok_def nj_owned_def nj_open_def)

lemma nj_tame_cancel: "nj_tame p (nj_set_canceled now err)"
  by (auto simp: nj_tame_def nj_set_canceled_def nj_row_ok_def nj_open_def)

lemma jobs_inv_snoc:
  assumes "jobs_inv seq jobs" "nj_id r = seq" "nj_row_ok r"
    and "nj_active r \<Longrightarrow> \<not> sql_exists (\<lambda>r'. nj_active r' \<and> nj_chat_id r' = nj_chat_id r) jobs"
    and "nj_price_alert_id r \<noteq> None \<Longrightarrow> \<not> sql_exists (\<lambda>r'. nj_price_alert_id r' = nj_price_alert_id r) jobs"
  shows "jobs_inv (seq + 1) (jobs @ [r])"
  using assms by (auto simp: jobs_inv_def unique_where_snoc sql_exists_iff)

lemma insert_notification_inv:
  assumes "insert_notification now chat lang txt sched nx kind alert d = Inr d'"
    and "jobs_inv (notification_seq d) (notification_jobs d)" and "alert \<noteq> None \<longleftrightarrow> kind = PriceAlert"
  shows "jobs_inv (notification_seq d') (notification_jobs d')"
proof -
  let ?r = "new_notification (notification_seq d) now chat lang txt sched nx kind alert"
  have d': "notification_seq d' = notification_seq d + 1" "notification_jobs d' = notification_jobs d @ [?r]"
    and a: "nj_active ?r \<Longrightarrow> \<not> sql_exists (\<lambda>r'. nj_active r' \<and> nj_chat_id r' = chat) (notification_jobs d)"
    and b: "alert \<noteq> None \<Longrightarrow> \<not> sql_exists (\<lambda>r'. nj_price_alert_id r' = alert) (notification_jobs d)"
    using assms(1) by (auto simp: insert_notification_def Let_def split: if_splits)
  have r: "nj_id ?r = notification_seq d" "nj_chat_id ?r = chat" "nj_price_alert_id ?r = alert" "nj_row_ok ?r"
    using assms(3) by (auto simp: new_notification_def nj_row_ok_def)
  show ?thesis
    unfolding d' using assms(2) r a b by (intro jobs_inv_snoc) auto
qed

end
