(* ===== verification/Reply_Outbox.thy ===== *)
theory Reply_Outbox
  imports Notification_Outbox
begin

text \<open>
  The durable reply outbox (\<^verbatim>\<open>internal/app/telegram_reply_outbox.go\<close>) and the collector that gathers
  the replies of one update (also \<^verbatim>\<open>sendSafeMessage\<close>, \<^verbatim>\<open>editSafeMessage\<close>, \<^verbatim>\<open>answerCallback\<close> of
  \<^verbatim>\<open>app.go\<close>, on the path with a collector: the inbox installs one for every update).

  A reply is claimed only when no earlier reply of its chat is open, so replies of a chat leave in
  the order they were queued.
\<close>

section \<open>Collecting replies\<close>

definition telegramReplySendMessage :: string where
  [simp]: "telegramReplySendMessage = ''send_message''"

definition telegramReplyEditMessage :: string where
  [simp]: "telegramReplyEditMessage = ''edit_message''"

record telegram_reply =
  rep_operation :: string
  rep_chat_id :: int
  rep_message_id :: int
  rep_text :: msg
  rep_markup :: "keyboard option"

record callback_answer =
  ans_callback_id :: string
  ans_text :: msg

record collector =
  col_replies :: "telegram_reply list"
  col_callbacks :: "callback_answer list"
  col_err :: "go_error option"

definition empty_collector :: collector where
  "empty_collector = \<lparr>col_replies = [], col_callbacks = [], col_err = None\<rparr>"

definition collector_add :: "telegram_reply \<Rightarrow> collector \<Rightarrow> collector" where
  "collector_add reply c = (if col_err c \<noteq> None then c else c\<lparr>col_replies := col_replies c @ [reply]\<rparr>)"

definition collector_addCallback :: "string \<Rightarrow> msg \<Rightarrow> collector \<Rightarrow> collector" where
  "collector_addCallback callbackID txt c =
     (if col_err c \<noteq> None then c
      else c\<lparr>col_callbacks := col_callbacks c @ [\<lparr>ans_callback_id = callbackID, ans_text = txt\<rparr>]\<rparr>)"

definition collector_setError :: "go_error \<Rightarrow> collector \<Rightarrow> collector" where
  "collector_setError err c = (if col_err c = None then c\<lparr>col_err := Some err\<rparr> else c)"

text \<open>The dynamic type of a \<^verbatim>\<open>markup interface{}\<close> argument; a stored keyboard is the value of its JSON text.\<close>

datatype markup_arg = MNil | MKeyboard keyboard | MKeyboardPtr "keyboard option" | MOther string

definition encodeTelegramReplyMarkup :: "markup_arg \<Rightarrow> go_error + keyboard option" where
  "encodeTelegramReplyMarkup markup =
     (case markup of
        MNil \<Rightarrow> Inr None
      | MKeyboard k \<Rightarrow> Inr (Some k)
      | MKeyboardPtr p \<Rightarrow> Inr p
      | MOther t \<Rightarrow> Inl (PlainError (''unsupported Telegram reply markup type '' @ t)))"

definition sendSafeMessage :: "int \<Rightarrow> msg \<Rightarrow> markup_arg \<Rightarrow> collector \<Rightarrow> collector" where
  "sendSafeMessage chatID txt markup c =
     (case encodeTelegramReplyMarkup markup of
        Inl e \<Rightarrow> collector_setError e c
      | Inr m \<Rightarrow> collector_add \<lparr>rep_operation = telegramReplySendMessage, rep_chat_id = chatID,
                                rep_message_id = 0, rep_text = txt, rep_markup = m\<rparr> c)"

definition editSafeMessage :: "int \<Rightarrow> int \<Rightarrow> msg \<Rightarrow> markup_arg \<Rightarrow> collector \<Rightarrow> collector" where
  "editSafeMessage chatID messageID txt markup c =
     (case encodeTelegramReplyMarkup markup of
        Inl e \<Rightarrow> collector_setError e c
      | Inr m \<Rightarrow> collector_add \<lparr>rep_operation = telegramReplyEditMessage, rep_chat_id = chatID,
                                rep_message_id = messageID, rep_text = txt, rep_markup = m\<rparr> c)"

definition answerCallback :: "string \<Rightarrow> msg \<Rightarrow> collector \<Rightarrow> collector" where
  "answerCallback callbackID txt c = collector_addCallback callbackID txt c"

definition acknowledgeCallback :: "string \<Rightarrow> collector \<Rightarrow> collector" where
  "acknowledgeCallback callbackID c = answerCallback callbackID (Lit []) c"

text \<open>\<^verbatim>\<open>flushCallbackAnswers\<close>: \<open>failed i\<close> tells whether Telegram refused the answer number \<open>i\<close>.\<close>

fun flush_from :: "(nat \<Rightarrow> bool) \<Rightarrow> nat \<Rightarrow> callback_answer list \<Rightarrow> world \<Rightarrow> world" where
  "flush_from failed i [] w = w"
| "flush_from failed i (a # as) w =
     (let w' = w\<lparr>calls := calls w @ [AnswerCallback (ans_callback_id a) (ans_text a)]\<rparr>
      in flush_from failed (Suc i) as
           (if failed i then count_metric ''TelegramSendErrorsTotal'' ''callback_answer'' w' else w'))"

definition flushCallbackAnswers :: "(nat \<Rightarrow> bool) \<Rightarrow> callback_answer list \<Rightarrow> world \<Rightarrow> world" where
  "flushCallbackAnswers failed answers w = flush_from failed 0 answers w"

section \<open>Claims\<close>

record reply_job =
  rj_id :: int
  rj_operation :: string
  rj_chat_id :: int
  rj_message_id :: int
  rj_text :: msg
  rj_markup :: "keyboard option"
  rj_claim_token :: string
  rj_attempts :: int

definition tr_open :: "reply_row \<Rightarrow> bool" where
  "tr_open r \<longleftrightarrow> tr_status r = Pending \<or> tr_status r = Sending"

definition tr_claimable :: "time \<Rightarrow> reply_row \<Rightarrow> bool" where
  "tr_claimable now r \<longleftrightarrow>
     tr_open r \<and> tr_next_attempt_at r \<le> now \<and>
     (tr_status r = Pending \<or> tr_claimed_until r = None \<or> the (tr_claimed_until r) < now)"

text \<open>No earlier open reply of the same chat.\<close>

definition tr_head :: "reply_row list \<Rightarrow> reply_row \<Rightarrow> bool" where
  "tr_head rows r \<longleftrightarrow>
     \<not> sql_exists (\<lambda>e. tr_chat_id e = tr_chat_id r \<and> tr_open e \<and> tr_id e < tr_id r) rows"

definition tr_claim :: "time \<Rightarrow> string \<Rightarrow> reply_row \<Rightarrow> reply_row" where
  "tr_claim now tok r =
     r\<lparr>tr_status := Sending, tr_attempts := tr_attempts r + 1, tr_claim_token := Some tok,
       tr_claimed_until := Some (now + pg_interval (PostgresInterval TelegramReplyClaimWindow)),
       tr_updated_at := now\<rparr>"

definition tr_job :: "reply_row \<Rightarrow> reply_job" where
  "tr_job r =
     \<lparr>rj_id = tr_id r, rj_operation = tr_operation r, rj_chat_id = tr_chat_id r,
      rj_message_id = tr_message_id r, rj_text = tr_message_text r, rj_markup = tr_reply_markup r,
      rj_claim_token = (case tr_claim_token r of None \<Rightarrow> [] | Some t \<Rightarrow> t), rj_attempts = tr_attempts r\<rparr>"

definition tr_owned :: "reply_job \<Rightarrow> reply_row \<Rightarrow> bool" where
  "tr_owned job r \<longleftrightarrow>
     tr_id r = rj_id job \<and> tr_status r = Sending \<and> tr_claim_token r = Some (rj_claim_token job) \<and>
     tr_attempts r = rj_attempts job"

definition reply_candidates :: "time \<Rightarrow> db \<Rightarrow> (int \<times> int) list" where
  "reply_candidates now d =
     map (\<lambda>r. (tr_id r, tr_chat_id r))
       (sql_select (\<lambda>r. tr_claimable now r \<and> tr_head (telegram_replies d) r) tr_id
          OutboxClaimCandidateLimit (telegram_replies d))"

fun claim_reply_loop ::
  "(int \<Rightarrow> go_error + bool) \<Rightarrow> time \<Rightarrow> string \<Rightarrow> (int \<times> int) list \<Rightarrow> db
    \<Rightarrow> go_error + reply_job option \<times> db" where
  "claim_reply_loop try_lock now tok [] d = Inr (None, d)"
| "claim_reply_loop try_lock now tok ((cid, chat) # cs) d =
     (case try_lock chat of
        Inl e \<Rightarrow> Inl e
      | Inr False \<Rightarrow> claim_reply_loop try_lock now tok cs d
      | Inr True \<Rightarrow>
          (case find (\<lambda>r. tr_id r = cid \<and> tr_claimable now r \<and> tr_head (telegram_replies d) r)
                  (telegram_replies d) of
             None \<Rightarrow> claim_reply_loop try_lock now tok cs d
           | Some r \<Rightarrow>
               Inr (Some (tr_job (tr_claim now tok r)),
                    d\<lparr>telegram_replies :=
                        sql_update (\<lambda>r. tr_id r = cid \<and> tr_claimable now r \<and> tr_head (telegram_replies d) r)
                          (tr_claim now tok) (telegram_replies d)\<rparr>)))"

definition claimPendingTelegramReply ::
  "db_fault \<Rightarrow> (int \<Rightarrow> go_error + bool) \<Rightarrow> time \<Rightarrow> string \<Rightarrow> db \<Rightarrow> db
    \<Rightarrow> (go_error + reply_job option) \<times> db" where
  "claimPendingTelegramReply fault try_lock now tok snapshot d =
     run_tx fault (claim_reply_loop try_lock now tok (reply_candidates now snapshot)) d"

section \<open>Finalizing updates\<close>

definition tr_set_sent :: "time \<Rightarrow> reply_row \<Rightarrow> reply_row" where
  "tr_set_sent now r =
     r\<lparr>tr_status := Sent, tr_sent_at := Some now, tr_claim_token := None, tr_claimed_until := None,
       tr_last_error := None, tr_updated_at := now\<rparr>"

definition tr_set_retry :: "time \<Rightarrow> duration \<Rightarrow> string \<Rightarrow> reply_row \<Rightarrow> reply_row" where
  "tr_set_retry now delay err r =
     r\<lparr>tr_status := Pending, tr_claim_token := None, tr_claimed_until := None,
       tr_next_attempt_at := now + pg_interval (PostgresInterval delay), tr_last_error := Some err,
       tr_updated_at := now\<rparr>"

definition tr_set_failed :: "time \<Rightarrow> string \<Rightarrow> reply_row \<Rightarrow> reply_row" where
  "tr_set_failed now err r =
     r\<lparr>tr_status := Failed, tr_failed_at := Some now, tr_claim_token := None,
       tr_claimed_until := None, tr_last_error := Some err, tr_updated_at := now\<rparr>"

definition finish_reply :: "reply_job \<Rightarrow> (reply_row \<Rightarrow> reply_row) \<Rightarrow> db \<Rightarrow> go_error + unit \<times> db" where
  "finish_reply job f d =
     (case ensureCurrentJobClaimUpdated (affected (tr_owned job) (telegram_replies d)) of
        Some e \<Rightarrow> Inl e
      | None \<Rightarrow> Inr ((), d\<lparr>telegram_replies := sql_update (tr_owned job) f (telegram_replies d)\<rparr>))"

definition markTelegramReplySentOnce ::
  "db_fault \<Rightarrow> time \<Rightarrow> reply_job \<Rightarrow> db \<Rightarrow> (go_error + unit) \<times> db" where
  "markTelegramReplySentOnce fault now job d = run_tx fault (finish_reply job (tr_set_sent now)) d"

definition markTelegramReplyRetry ::
  "string option \<Rightarrow> db_fault \<Rightarrow> time \<Rightarrow> reply_job \<Rightarrow> go_error \<Rightarrow> db \<Rightarrow> (go_error + unit) \<times> db" where
  "markTelegramReplyRetry token fault now job sendErr d =
     run_tx fault
       (finish_reply job
          (tr_set_retry now (telegramRetryDelay (rj_attempts job) sendErr)
             (TruncateError (Error (safeTelegramError token sendErr)) 500))) d"

definition markTelegramReplyFailed ::
  "string option \<Rightarrow> db_fault \<Rightarrow> time \<Rightarrow> reply_job \<Rightarrow> go_error \<Rightarrow> db \<Rightarrow> (go_error + unit) \<times> db" where
  "markTelegramReplyFailed token fault now job sendErr d =
     run_tx fault
       (finish_reply job (tr_set_failed now (TruncateError (Error (safeTelegramError token sendErr)) 500))) d"

section \<open>Delivery\<close>

definition tr_lease_current :: "time \<Rightarrow> reply_job \<Rightarrow> reply_row \<Rightarrow> bool" where
  "tr_lease_current now job r \<longleftrightarrow>
     tr_owned job r \<and>
     (case tr_claimed_until r of None \<Rightarrow> False
      | Some u \<Rightarrow> u > now + pg_interval (PostgresInterval TelegramSendLeaseSafetyWindow))"

definition ensureTelegramReplyClaimCurrent ::
  "go_error option \<Rightarrow> time \<Rightarrow> reply_job \<Rightarrow> db \<Rightarrow> go_error option" where
  "ensureTelegramReplyClaimCurrent err now job d =
     (case run_read err (sql_exists (tr_lease_current now job) (telegram_replies d)) of
        Inl e \<Rightarrow> Some e
      | Inr current \<Rightarrow> if current then None else Some ErrJobOwnershipLost)"

definition deferTelegramReply ::
  "string option \<Rightarrow> delivery_env \<Rightarrow> reply_job \<Rightarrow> go_error \<Rightarrow> world \<Rightarrow> world" where
  "deferTelegramReply token env job processingErr w =
     (if rj_attempts job \<ge> TelegramReplyMaxAttempts then
        snd (on_db (markTelegramReplyFailed token (de_fault env) (de_now env 9) job
                      (safeTelegramError token processingErr)) (others env 9 w))
      else snd (on_db (markTelegramReplyRetry token (de_fault env) (de_now env 9) job processingErr)
                  (others env 9 w)))"

text \<open>\<open>decode_err\<close> is the error of decoding the stored keyboard, if it fails.\<close>

definition sendTelegramReply ::
  "go_error option \<Rightarrow> go_error + int \<Rightarrow> reply_job \<Rightarrow> world \<Rightarrow> (go_error + int) \<times> world" where
  "sendTelegramReply decode_err answer job w =
     (case (rj_markup job, decode_err) of
        (Some k, Some e) \<Rightarrow> (Inl (Wrapped ''decode Telegram reply markup'' e), w)
      | _ \<Rightarrow>
          if rj_operation job = telegramReplySendMessage then
            (answer, w\<lparr>calls := calls w @ [SendMessage (rj_chat_id job) (rj_text job) (rj_markup job)]\<rparr>)
          else if rj_operation job = telegramReplyEditMessage then
            (answer, w\<lparr>calls := calls w @ [EditMessage (rj_chat_id job) (rj_message_id job) (rj_text job) (rj_markup job)]\<rparr>)
          else (Inl (PlainError (''unsupported Telegram reply operation '' @ [CHR 0x22] @ rj_operation job @ [CHR 0x22])), w))"

definition reply_sent_write ::
  "delivery_env \<Rightarrow> reply_job \<Rightarrow> nat \<Rightarrow> world \<Rightarrow> go_error option \<times> world" where
  "reply_sent_write env job n w =
     (let (r, w') = on_db (markTelegramReplySentOnce (de_fin_fault env n) (de_now env (10 + n)) job)
                      (others env (10 + n) w)
      in (err_of r, w'))"

definition reply_send_confirmed :: "delivery_env \<Rightarrow> reply_job \<Rightarrow> world \<Rightarrow> world" where
  "reply_send_confirmed env job w =
     (let ((n, err), w') = finalize defaultSentFinalizationPolicy (de_fin env) (reply_sent_write env job) w
      in count_metric ''TelegramRepliesTotal''
           (case err of Some e \<Rightarrow> if is_ownership_lost e then ''sent_stale_claim'' else ''sent_persist_error''
            | None \<Rightarrow> ''sent'') w')"

definition reply_send_failed ::
  "string option \<Rightarrow> delivery_env \<Rightarrow> reply_job \<Rightarrow> go_error \<Rightarrow> world \<Rightarrow> world" where
  "reply_send_failed token env job sendErr w =
     (let safeErr = safeTelegramError token sendErr;
          w' = others env 3 w;
          (errorType, w'') =
            (if IsPermanentSendError sendErr then
               (''permanent'', snd (on_db (markTelegramReplyFailed token (de_fault env) (de_now env 3) job safeErr) w'))
             else if rj_attempts job \<ge> TelegramReplyMaxAttempts then
               (''exhausted'', snd (on_db (markTelegramReplyFailed token (de_fault env) (de_now env 3) job safeErr) w'))
             else (''transient'', snd (on_db (markTelegramReplyRetry token (de_fault env) (de_now env 3) job sendErr) w')))
      in count_metric ''TelegramRepliesTotal'' (''failed_'' @ errorType)
           (count_metric ''TelegramSendErrorsTotal'' (''interactive_'' @ errorType) w''))"

definition reply_delivered :: "reply_job \<Rightarrow> go_error + int \<Rightarrow> bool" where
  "reply_delivered job r \<longleftrightarrow>
     (case r of Inr _ \<Rightarrow> True
      | Inl e \<Rightarrow> rj_operation job = telegramReplyEditMessage \<and> isTelegramMessageNotModified (Some e))"

definition processTelegramReply ::
  "string option \<Rightarrow> delivery_env \<Rightarrow> go_error option \<Rightarrow> reply_job \<Rightarrow> world \<Rightarrow> world" where
  "processTelegramReply token env decode_err job w =
     (case de_lock_err env of
        Some e \<Rightarrow> deferTelegramReply token env job (Wrapped ''acquire telegram chat lock'' e) w
      | None \<Rightarrow>
     (let w2 = others env 2 w in
      case ensureTelegramReplyClaimCurrent (de_claim_err env) (de_now env 2) job (wdb w2) of
        Some e \<Rightarrow>
          if is_ownership_lost e then count_metric ''TelegramRepliesTotal'' ''skipped_stale_claim'' w2
          else deferTelegramReply token env job
                 (Wrapped ''validate Telegram reply claim before delivery'' e) w2
      | None \<Rightarrow>
     (let (r, w3) = sendTelegramReply decode_err (de_send env) job w2 in
      if reply_delivered job r then reply_send_confirmed env job w3
      else (case r of Inl sendErr \<Rightarrow> reply_send_failed token env job sendErr w3 | Inr _ \<Rightarrow> w3))))"

end
