(* ===== verification/Sharding.thy ===== *)
theory Sharding
  imports Policy "HOL-Library.Word"
begin

unbundle bit_operations_syntax

text \<open>
  The partition of chats over inbox shards and of shards over workers, and the advisory-lock key of
  a chat (\<^verbatim>\<open>internal/app/telegram_inbox.go\<close>).

  The lock key is the FNV-1a hash of \<^verbatim>\<open>hash/fnv\<close> on 64-bit words, read back as an \<^verbatim>\<open>int64\<close>.
\<close>

section \<open>Shards\<close>

definition telegramShardIndex :: "int \<Rightarrow> int \<Rightarrow> int" where
  "telegramShardIndex chatID shardCount =
     (if shardCount \<le> 1 then 0
      else let idx = go_rem chatID shardCount
           in if idx < 0 then idx + shardCount else idx)"

text \<open>The loop of \<^verbatim>\<open>telegramWorkerShardIDs\<close>: from \<open>shardID\<close> to the shard count in steps of \<open>workerCount\<close>.\<close>

function shard_loop :: "int \<Rightarrow> int \<Rightarrow> int list" where
  "shard_loop workerCount shardID =
     (if workerCount < 1 \<or> TelegramUpdateShardCount \<le> shardID then []
      else shardID # shard_loop workerCount (shardID + workerCount))"
  by pat_completeness auto
termination
  by (relation "measure (\<lambda>(workerCount, shardID). nat (64 - shardID))") auto

declare shard_loop.simps [simp del]

definition telegramWorkerShardIDs :: "int \<Rightarrow> int \<Rightarrow> int list" where
  "telegramWorkerShardIDs workerID workerCount =
     (if workerCount < 1 \<or> workerID < 0 \<or> workerID \<ge> workerCount then []
      else shard_loop workerCount workerID)"

lemma telegramShardIndex_mod: "1 < n \<Longrightarrow> telegramShardIndex c n = c mod n"
proof -
  assume n: "1 < n"
  have neg: "- (- c mod n) + n = c mod n" if "- c mod n \<noteq> 0"
    using that n zmod_zminus1_eq_if [of "- c" n] by (simp split: if_splits)
  show ?thesis
  proof (cases "c \<ge> 0")
    case True
    with n have "go_rem c n = c mod n" by (cases "c = 0") (simp_all add: go_rem_def)
    moreover have "\<not> c mod n < 0" using n by (simp add: not_less)
    ultimately show ?thesis using n by (simp add: telegramShardIndex_def Let_def)
  next
    case False
    with n have r: "go_rem c n = - (- c mod n)" by (simp add: go_rem_def)
    have "0 \<le> - c mod n" using n by simp
    show ?thesis
    proof (cases "- c mod n = 0")
      case True
      then have "n dvd c" by (simp add: mod_eq_0_iff_dvd)
      then have "c mod n = 0" by simp
      with True r n show ?thesis by (simp add: telegramShardIndex_def Let_def)
    next
      case False
      with \<open>0 \<le> - c mod n\<close> have "- (- c mod n) < 0" by simp
      with r n neg [OF False] show ?thesis by (simp add: telegramShardIndex_def Let_def)
    qed
  qed
qed

lemma set_shard_loop:
  "1 \<le> w \<Longrightarrow> set (shard_loop w s) = {i. s \<le> i \<and> i < 64 \<and> i mod w = s mod w}"
proof (induction w s rule: shard_loop.induct)
  case (1 w s)
  show ?case
  proof (cases "64 \<le> s")
    case True
    then show ?thesis by (subst shard_loop.simps) auto
  next
    case False
    with "1" have IH: "set (shard_loop w (s + w)) = {i. s + w \<le> i \<and> i < 64 \<and> i mod w = (s + w) mod w}"
      by simp
    have gap: "i = s \<or> s + w \<le> i" if i: "s \<le> i" "i mod w = s mod w" for i
    proof -
      from i(2) have "w dvd i - s" by (simp add: mod_eq_dvd_iff)
      then obtain k where k: "i - s = w * k" by (auto simp: dvd_def)
      with i(1) "1.prems" have "0 \<le> k" by (metis diff_ge_0_iff_ge mult_less_0_iff linorder_not_less zero_less_one order_less_le_trans)
      show ?thesis
      proof (cases "k = 0")
        case True
        with k show ?thesis by simp
      next
        case False
        with \<open>0 \<le> k\<close> have "w * 1 \<le> w * k" using "1.prems" by (intro mult_left_mono) auto
        with k show ?thesis by simp
      qed
    qed
    have "set (shard_loop w s) = insert s (set (shard_loop w (s + w)))"
      using False "1.prems" by (subst shard_loop.simps) simp
    also have "\<dots> = {i. s \<le> i \<and> i < 64 \<and> i mod w = s mod w}"
      unfolding IH using False "1.prems" gap by auto
    finally show ?thesis .
  qed
qed

lemma distinct_shard_loop: "1 \<le> w \<Longrightarrow> distinct (shard_loop w s)"
proof (induction w s rule: shard_loop.induct)
  case (1 w s)
  then show ?case
    by (subst shard_loop.simps) (auto simp: set_shard_loop)
qed

lemma set_telegramWorkerShardIDs:
  assumes "0 \<le> i" "i < n"
  shows "set (telegramWorkerShardIDs i n) = {s. 0 \<le> s \<and> s < 64 \<and> s mod n = i}"
proof -
  have "{s. i \<le> s \<and> s < 64 \<and> s mod n = i mod n} = {s. 0 \<le> s \<and> s < 64 \<and> s mod n = i}"
    using assms by (auto simp: zmod_le_nonneg_dividend)
  with assms show ?thesis
    by (simp add: telegramWorkerShardIDs_def set_shard_loop)
qed

section \<open>Advisory-lock keys\<close>

type_synonym u64 = "64 word"

definition fnv_offset64 :: u64 where
  "fnv_offset64 = 14695981039346656037"

definition fnv_prime64 :: u64 where
  "fnv_prime64 = 1099511628211"

text \<open>One byte of \<^verbatim>\<open>fnv.New64a().Write\<close>: exclusive-or, then multiply.\<close>

definition fnv_step :: "u64 \<Rightarrow> char \<Rightarrow> u64" where
  "fnv_step h c = (h XOR word_of_nat (of_char c)) * fnv_prime64"

definition fnv_write :: "u64 \<Rightarrow> string \<Rightarrow> u64" where
  "fnv_write h s = foldl fnv_step h s"

definition telegramChatAdvisoryLockKey :: "int \<Rightarrow> int" where
  "telegramChatAdvisoryLockKey chatID =
     sint (fnv_write (fnv_write fnv_offset64 TelegramChatLockPrefix) (FormatInt chatID))"

text \<open>The prime is odd, so the multiplication has an inverse: a byte step loses nothing.\<close>

lemma fnv_prime_inverse: "fnv_prime64 * 14886173955864302971 = 1"
  by (simp add: fnv_prime64_def)

lemma fnv_mult_inj: "a * fnv_prime64 = b * fnv_prime64 \<Longrightarrow> a = b"
proof -
  assume "a * fnv_prime64 = b * fnv_prime64"
  then have "a * (fnv_prime64 * 14886173955864302971) = b * (fnv_prime64 * 14886173955864302971)"
    by (simp only: mult.assoc [symmetric])
  then show "a = b" by (simp only: fnv_prime_inverse mult_1_right)
qed

lemma xor_cancel: "(h :: u64) XOR a = h XOR b \<Longrightarrow> a = b"
proof -
  assume "h XOR a = h XOR b"
  then have "(h XOR h) XOR a = (h XOR h) XOR b" by (simp only: xor.assoc)
  then show "a = b" by simp
qed

lemma fnv_step_inj_byte: "fnv_step h c = fnv_step h d \<Longrightarrow> c = d"
proof -
  assume "fnv_step h c = fnv_step h d"
  then have "(word_of_nat (of_char c) :: u64) = word_of_nat (of_char d)"
    unfolding fnv_step_def by (blast dest: fnv_mult_inj xor_cancel)
  then have "unat (word_of_nat (of_char c) :: u64) = unat (word_of_nat (of_char d) :: u64)" by simp
  moreover have "of_char x < (2 :: nat) ^ 64" for x :: char
    by (rule less_trans [OF nat_of_char_less_256]) simp
  ultimately have "(of_char c :: nat) = of_char d"
    by (simp add: unat_of_nat)
  then show "c = d" by simp
qed

lemma fnv_step_inj_state: "fnv_step g c = fnv_step h c \<Longrightarrow> g = h"
  unfolding fnv_step_def by (drule fnv_mult_inj) (simp only: xor.commute [of _ "word_of_nat (of_char c)"] xor_cancel)

lemma fnv_write_inj_state: "fnv_write g s = fnv_write h s \<Longrightarrow> g = h"
  by (induction s arbitrary: g h) (auto simp: fnv_write_def dest: fnv_step_inj_state)

text \<open>Two texts of the same length that differ in one byte never collide.\<close>

lemma fnv_write_one_byte: "c \<noteq> d \<Longrightarrow> fnv_write h (s @ c # t) \<noteq> fnv_write h (s @ d # t)"
proof
  assume "c \<noteq> d" "fnv_write h (s @ c # t) = fnv_write h (s @ d # t)"
  then have "fnv_write (fnv_step (fnv_write h s) c) t = fnv_write (fnv_step (fnv_write h s) d) t"
    by (simp add: fnv_write_def)
  then have "fnv_step (fnv_write h s) c = fnv_step (fnv_write h s) d" by (rule fnv_write_inj_state)
  with fnv_step_inj_byte \<open>c \<noteq> d\<close> show False by blast
qed

end
