(* ===== verification/Mutation_Order.thy ===== *)
theory Mutation_Order
  imports Reply_Outbox Sharding
begin

text \<open>
  Telegram updates as the program reads them, and the ordering of settings
  (\<^verbatim>\<open>internal/app/telegram_mutation_order.go\<close>): a command that changes a setting is applied only when it
  is newer than the last one applied, in the order of (stream epoch, update id).

  An update is the value \<^verbatim>\<open>encoding/json\<close> decodes into \<^verbatim>\<open>tgbotapi.Update\<close>; the fields are those the
  program reads, pointers are options. The results of \<^verbatim>\<open>Message.Command()\<close> and
  \<^verbatim>\<open>Message.CommandArguments()\<close>, methods of the Telegram library, are fields of the message.
\<close>

section \<open>Updates\<close>

record tg_message =
  m_id :: int
  m_chat :: "int option"
  m_command :: string
  m_arguments :: string

record tg_callback =
  cb_id :: string
  cb_message :: "tg_message option"
  cb_data :: string

record tg_update =
  u_id :: int
  u_message :: "tg_message option"
  u_callback :: "tg_callback option"
  u_edited_message :: "tg_message option"
  u_channel_post :: "tg_message option"
  u_edited_channel_post :: "tg_message option"

record update_job =
  uj_update_id :: int
  uj_stream_epoch :: int
  uj_chat_id :: int
  uj_payload :: string
  uj_attempts :: int

definition chat_of :: "tg_message option \<Rightarrow> int option" where
  "chat_of m = Option.bind m m_chat"

definition telegramUpdateChatID :: "tg_update \<Rightarrow> int option" where
  "telegramUpdateChatID u =
     (case chat_of (u_message u) of
        Some c \<Rightarrow> Some c
      | None \<Rightarrow>
     (case chat_of (Option.bind (u_callback u) cb_message) of
        Some c \<Rightarrow> Some c
      | None \<Rightarrow>
     (case chat_of (u_edited_message u) of
        Some c \<Rightarrow> Some c
      | None \<Rightarrow>
     (case chat_of (u_channel_post u) of
        Some c \<Rightarrow> Some c
      | None \<Rightarrow> chat_of (u_edited_channel_post u)))))"

definition AllowedLanguage :: "string \<Rightarrow> bool" where
  "AllowedLanguage language \<longleftrightarrow> language \<in> {''ua'', ''en'', ''ru''}"

section \<open>Which setting an update changes\<close>

definition telegramMutationSetting :: "tg_update \<Rightarrow> string" where
  "telegramMutationSetting u =
     (case u_callback u of
        Some query \<Rightarrow>
          if chat_of (cb_message query) = None then ''''
          else if HasPrefix (cb_data query) ''setlang_'' \<and> AllowedLanguage (TrimPrefix (cb_data query) ''setlang_'')
          then ''language''
          else if HasPrefix (cb_data query) ''int_'' \<and>
                  (case Atoi (TrimPrefix (cb_data query) ''int_'') of
                     None \<Rightarrow> False | Some minutes \<Rightarrow> 1 \<le> minutes \<and> minutes \<le> 1440)
          then ''interval''
          else ''''
      | None \<Rightarrow>
          (case u_message u of
             None \<Rightarrow> ''''
           | Some m \<Rightarrow> if m_command m \<in> {''subscribe'', ''unsubscribe''} then ''subscription'' else ''''))"

section \<open>Versions\<close>

definition mv_version :: "version_row \<Rightarrow> int \<times> int" where
  "mv_version r = (mv_stream_epoch r, mv_update_id r)"

definition uj_version :: "update_job \<Rightarrow> int \<times> int" where
  "uj_version job = (uj_stream_epoch job, uj_update_id job)"

definition mv_for :: "int \<Rightarrow> string \<Rightarrow> version_row \<Rightarrow> bool" where
  "mv_for chat setting r \<longleftrightarrow> mv_chat_id r = chat \<and> mv_setting r = setting"

text \<open>
  \<^verbatim>\<open>INSERT ... ON CONFLICT (chat_id, setting) DO UPDATE ... WHERE old < new\<close>, with the affected rows.
\<close>

definition upsert_version ::
  "int \<Rightarrow> string \<Rightarrow> int \<times> int \<Rightarrow> version_row list \<Rightarrow> nat \<times> version_row list" where
  "upsert_version chat setting v rows =
     (if sql_exists (mv_for chat setting) rows
      then (let p = (\<lambda>r. mv_for chat setting r \<and> mv_version r < v)
            in (affected p rows,
                sql_update p (\<lambda>r. r\<lparr>mv_stream_epoch := fst v, mv_update_id := snd v\<rparr>) rows))
      else (1, rows @ [\<lparr>mv_chat_id = chat, mv_setting = setting, mv_stream_epoch = fst v, mv_update_id = snd v\<rparr>]))"

definition allowTelegramMutation ::
  "(string \<Rightarrow> go_error option) \<Rightarrow> update_job \<Rightarrow> tg_update \<Rightarrow> db \<Rightarrow> go_error + bool \<times> db" where
  "allowTelegramMutation err job u d =
     (let setting = telegramMutationSetting u;
          write = (case err ''mutation_version'' of
                     Some e \<Rightarrow> Inl e
                   | None \<Rightarrow>
                       (let (count, rows) = upsert_version (uj_chat_id job) setting (uj_version job)
                                              (telegram_mutation_versions d)
                        in Inr (count > 0, d\<lparr>telegram_mutation_versions := rows\<rparr>)))
      in if setting = '''' then Inr (True, d)
         else if setting = ''interval'' then
           (case run_read (err ''superseded'')
                   (sql_exists (\<lambda>r. mv_for (uj_chat_id job) ''subscription'' r \<and> mv_version r > uj_version job)
                      (telegram_mutation_versions d)) of
              Inl e \<Rightarrow> Inl e
            | Inr superseded \<Rightarrow> if superseded then Inr (False, d) else write)
         else write)"

section \<open>The versions only grow\<close>

definition versions_inv :: "version_row list \<Rightarrow> bool" where
  "versions_inv rows \<longleftrightarrow> unique_on (\<lambda>r. (mv_chat_id r, mv_setting r)) rows"

text \<open>The version recorded for a setting of a chat, if any.\<close>

definition version_of :: "int \<Rightarrow> string \<Rightarrow> version_row list \<Rightarrow> (int \<times> int) option" where
  "version_of chat setting rows = map_option mv_version (find (mv_for chat setting) rows)"

lemma version_of_Nil [simp]: "version_of chat setting [] = None"
  by (simp add: version_of_def)

lemma version_of_Some:
  assumes "versions_inv rows" "r \<in> set rows" "mv_for chat setting r"
  shows "version_of chat setting rows = Some (mv_version r)"
proof -
  have "find (mv_for chat setting) rows = Some r"
    using assms by (intro find_unique [of "\<lambda>r. (mv_chat_id r, mv_setting r)"]) (auto simp: versions_inv_def mv_for_def)
  then show ?thesis by (simp add: version_of_def)
qed

lemma version_of_None_iff: "version_of chat setting rows = None \<longleftrightarrow> \<not> sql_exists (mv_for chat setting) rows"
  by (auto simp: version_of_def find_None_iff sql_exists_iff)

lemma versions_inv_upsert:
  assumes "versions_inv rows"
  shows "versions_inv (snd (upsert_version chat setting v rows))"
  using assms
  by (auto simp: upsert_version_def versions_inv_def Let_def sql_exists_iff mv_for_def intro!: unique_on_update)

text \<open>
  The upsert is accepted exactly when the version is newer than the recorded one, and it records the
  greater of the two; other settings and chats are untouched.
\<close>

lemma upsert_version_spec:
  assumes inv: "versions_inv rows"
  shows "fst (upsert_version chat setting v rows) > 0 \<longleftrightarrow>
           (case version_of chat setting rows of None \<Rightarrow> True | Some w \<Rightarrow> w < v)"
    and "version_of chat' setting' (snd (upsert_version chat setting v rows)) =
           (if chat' = chat \<and> setting' = setting
            then Some (case version_of chat setting rows of None \<Rightarrow> v | Some w \<Rightarrow> max w v)
            else version_of chat' setting' rows)"
proof -
  let ?rows' = "snd (upsert_version chat setting v rows)"
  note inv' = versions_inv_upsert [OF inv, of chat setting v]
  have other: "version_of chat' setting' ?rows' = version_of chat' setting' rows" if "\<not> (chat' = chat \<and> setting' = setting)"
  proof -
    have "find (mv_for chat' setting') (sql_update (\<lambda>r. mv_for chat setting r \<and> mv_version r < v) f xs) =
          find (mv_for chat' setting') xs"
      if "\<And>r. mv_chat_id (f r) = mv_chat_id r \<and> mv_setting (f r) = mv_setting r" for xs f
      using that \<open>\<not> (chat' = chat \<and> setting' = setting)\<close> by (induction xs) (auto simp: mv_for_def)
    moreover have "find (mv_for chat' setting') (xs @ [r]) = find (mv_for chat' setting') xs"
      if "\<not> mv_for chat' setting' r" for xs r using that by (induction xs) auto
    ultimately show ?thesis
      using that by (auto simp: upsert_version_def version_of_def Let_def mv_for_def)
  qed
  have "(fst (upsert_version chat setting v rows) > 0 \<longleftrightarrow>
           (case version_of chat setting rows of None \<Rightarrow> True | Some w \<Rightarrow> w < v)) \<and>
        version_of chat setting ?rows' = Some (case version_of chat setting rows of None \<Rightarrow> v | Some w \<Rightarrow> max w v)"
  proof (cases "sql_exists (mv_for chat setting) rows")
    case False
    let ?r = "\<lparr>mv_chat_id = chat, mv_setting = setting, mv_stream_epoch = fst v, mv_update_id = snd v\<rparr>"
    have "version_of chat setting (rows @ [?r]) = Some (mv_version ?r)"
      using inv' False by (intro version_of_Some) (auto simp: upsert_version_def mv_for_def)
    with False show ?thesis
      by (simp add: upsert_version_def version_of_None_iff [THEN iffD2] mv_version_def)
  next
    case True
    then obtain r where r: "r \<in> set rows" "mv_for chat setting r" by (auto simp: sql_exists_iff)
    let ?p = "\<lambda>r. mv_for chat setting r \<and> mv_version r < v"
    let ?f = "\<lambda>r. r\<lparr>mv_stream_epoch := fst v, mv_update_id := snd v\<rparr>"
    have old: "version_of chat setting rows = Some (mv_version r)" by (rule version_of_Some [OF inv r])
    have same: "s = r" if "s \<in> set rows" "mv_for chat setting s" for s
      using inv unfolding versions_inv_def by (rule unique_onD) (use r that in \<open>auto simp: mv_for_def\<close>)
    let ?r' = "if ?p r then ?f r else r"
    have "?r' \<in> set ?rows'" 
    proof -
      have eq: "?rows' = sql_update ?p ?f rows" using True by (simp add: upsert_version_def Let_def)
      show ?thesis unfolding eq set_sql_update using r(1) by blast
    qed
    moreover have "mv_for chat setting ?r'" using r(2) by (simp add: mv_for_def)
    ultimately have "version_of chat setting ?rows' = Some (mv_version ?r')"
      by (rule version_of_Some [OF inv'])
    moreover have "mv_version ?r' = max (mv_version r) v" using r(2) by (auto simp: mv_version_def max_def)
    moreover have "affected ?p rows > 0 \<longleftrightarrow> mv_version r < v"
      unfolding affected_pos_iff using r same by blast
    ultimately show ?thesis using True old by (simp add: upsert_version_def Let_def)
  qed
  then show "fst (upsert_version chat setting v rows) > 0 \<longleftrightarrow>
           (case version_of chat setting rows of None \<Rightarrow> True | Some w \<Rightarrow> w < v)"
    and "version_of chat' setting' ?rows' =
           (if chat' = chat \<and> setting' = setting
            then Some (case version_of chat setting rows of None \<Rightarrow> v | Some w \<Rightarrow> max w v)
            else version_of chat' setting' rows)"
    using other by auto
qed

end
