(* ===== verification/Parse_Float.thy ===== *)
theory Parse_Float
  imports Go_Strings Float64
begin

text \<open>
  \<^verbatim>\<open>strconv.ParseFloat(s, 64)\<close>: signed decimals with an optional exponent, hexadecimal floats with a
  mandatory binary exponent, underscores between digits, \<open>inf\<close>, \<open>infinity\<close> and \<open>nan\<close> in any case.
  \<open>None\<close> is an error: a syntax error, or a value that overflows. The value is correctly rounded.
\<close>

definition split_sign :: "string \<Rightarrow> bool \<times> string" where
  "split_sign s =
     (case s of [] \<Rightarrow> (False, [])
      | c # t \<Rightarrow> if c = CHR ''-'' then (True, t) else if c = CHR ''+'' then (False, t) else (False, s))"

definition is_hex_letter :: "char \<Rightarrow> bool" where
  "is_hex_letter c \<longleftrightarrow> (let n = of_char (lower_char c) :: nat in 97 \<le> n \<and> n \<le> 102)"

definition hex_digit_val :: "char \<Rightarrow> nat" where
  "hex_digit_val c = (if is_digit c then digit_val c else of_char (lower_char c) - 87)"

definition float_digit :: "bool \<Rightarrow> char \<Rightarrow> bool" where
  "float_digit hex c \<longleftrightarrow> is_digit c \<or> (hex \<and> is_hex_letter c)"

definition mantissa_char :: "bool \<Rightarrow> char \<Rightarrow> bool" where
  "mantissa_char hex c \<longleftrightarrow> float_digit hex c \<or> c = CHR ''.'' \<or> c = CHR ''_''"

definition mantissa_val :: "bool \<Rightarrow> string \<Rightarrow> nat" where
  "mantissa_val hex s = foldl (\<lambda>v c. (if hex then 16 else 10) * v + hex_digit_val c) 0 (filter (float_digit hex) s)"

text \<open>\<^verbatim>\<open>underscoreOK\<close>: underscores only between digits, or after a base prefix.\<close>

fun underscore_scan :: "bool \<Rightarrow> char \<Rightarrow> string \<Rightarrow> bool" where
  "underscore_scan hex prev [] = (prev \<noteq> CHR ''_'')"
| "underscore_scan hex prev (c # s) =
     (if float_digit hex c then underscore_scan hex CHR ''0'' s
      else if c = CHR ''_'' then prev = CHR ''0'' \<and> underscore_scan hex CHR ''_'' s
      else prev \<noteq> CHR ''_'' \<and> underscore_scan hex CHR ''!'' s)"

definition base_prefix :: "string \<Rightarrow> bool" where
  "base_prefix b \<longleftrightarrow> take 1 b = ''0'' \<and> length b > 2 \<and> lower_char (b ! 1) = CHR ''x''"

definition underscoreOK :: "string \<Rightarrow> bool" where
  "underscoreOK s =
     (let b = snd (split_sign s) in
      if base_prefix b then underscore_scan True CHR ''0'' (drop 2 b) else underscore_scan False CHR ''^'' b)"

text \<open>The exponent, accumulated while it is below 10000.\<close>

definition exponent_val :: "string \<Rightarrow> int option" where
  "exponent_val t =
     (let (neg, ds) = split_sign t;
          e = foldl (\<lambda>e c. if e < 10000 then 10 * e + digit_val c else e) 0 (filter is_digit ds)
      in if ds = [] \<or> \<not> is_digit (hd ds) \<or> \<not> list_all (\<lambda>c. is_digit c \<or> c = CHR ''_'') ds then None
         else Some (if neg then - int e else int e))"

definition pow10 :: "int \<Rightarrow> rat" where
  "pow10 e = (if 0 \<le> e then 10 ^ nat e else 1 / 10 ^ nat (- e))"

text \<open>The exact value of a syntactically correct number without its sign.\<close>

definition float_value :: "bool \<Rightarrow> string \<Rightarrow> int \<Rightarrow> rat" where
  "float_value hex mant e =
     (let places = length (filter (float_digit hex) (dropWhile (\<lambda>c. c \<noteq> CHR ''.'') mant)) in
      if hex then of_nat (mantissa_val hex mant) / 16 ^ places * pow2 e
      else of_nat (mantissa_val hex mant) / 10 ^ places * pow10 e)"

definition readFloat :: "string \<Rightarrow> rat option" where
  "readFloat s =
     (let (neg, b) = split_sign s;
          hex = base_prefix b;
          body = (if hex then drop 2 b else b);
          mant = takeWhile (mantissa_char hex) body;
          rest = dropWhile (mantissa_char hex) body;
          ex = (case rest of
                  [] \<Rightarrow> if hex then None else Some 0
                | c # t \<Rightarrow> if lower_char c = (if hex then CHR ''p'' else CHR ''e'') then exponent_val t else None)
      in if filter (float_digit hex) mant = [] \<or> length (filter (\<lambda>c. c = CHR ''.'') mant) > 1 \<or>
            (CHR ''_'' \<in> set s \<and> \<not> underscoreOK s) then None
         else (case ex of None \<Rightarrow> None
               | Some e \<Rightarrow> Some (if neg then - float_value hex mant e else float_value hex mant e)))"

definition special_float :: "string \<Rightarrow> float64 option" where
  "special_float s =
     (let (neg, b) = split_sign s; l = map lower_char b in
      if l = ''inf'' \<or> l = ''infinity'' then Some (if neg then NInf else PInf)
      else if map lower_char s = ''nan'' then Some NaN else None)"

definition ParseFloat :: "string \<Rightarrow> float64 option" where
  "ParseFloat s =
     (case special_float s of
        Some v \<Rightarrow> Some v
      | None \<Rightarrow>
          (case readFloat s of
             None \<Rightarrow> None
           | Some q \<Rightarrow> (case f64 q of Fin r \<Rightarrow> Some (Fin r) | _ \<Rightarrow> None)))"

section \<open>Plain decimals\<close>

lemma is_digit_not:
  "is_digit c \<Longrightarrow> c \<noteq> CHR ''.'' \<and> c \<noteq> CHR ''_'' \<and> c \<noteq> CHR ''+'' \<and> c \<noteq> CHR ''-'' \<and> c \<noteq> CHR '','' \<and> c \<noteq> CHR ''%''"
  by (auto simp: is_digit_def)

lemma is_digit_punctuation [simp]:
  "\<not> is_digit CHR ''.''" "\<not> is_digit CHR ''_''" "\<not> is_digit CHR '',''" "\<not> is_digit CHR ''%''"
  "\<not> is_digit CHR ''+''" "\<not> is_digit CHR ''-''"
  by (simp_all add: is_digit_def)

lemma lower_char_digit: "is_digit c \<Longrightarrow> lower_char c = c"
  by (simp add: is_digit_def lower_char_def Let_def)

lemma mantissa_val_digits: "list_all is_digit ds \<Longrightarrow> mantissa_val False ds = digits_val ds"
proof -
  assume d: "list_all is_digit ds"
  then have "filter (float_digit False) ds = ds"
    by (induction ds) (auto simp: float_digit_def)
  moreover have "foldl (\<lambda>v c. 10 * v + hex_digit_val c) v ds = foldl (\<lambda>v c. 10 * v + digit_val c) v ds" for v
    using d by (induction ds arbitrary: v) (auto simp: hex_digit_val_def)
  ultimately show ?thesis by (simp add: mantissa_val_def digits_val_def)
qed

text \<open>An unsigned decimal: digits, and possibly a point followed by digits.\<close>

definition decimal_string :: "string \<Rightarrow> string \<Rightarrow> string" where
  "decimal_string ip fp = (if fp = [] then ip else ip @ CHR ''.'' # fp)"

lemma digit_filters:
  assumes "list_all is_digit ds"
  shows "filter (float_digit False) ds = ds" "filter (\<lambda>c. c = CHR ''.'') ds = []"
    "takeWhile (mantissa_char False) ds = ds" "dropWhile (mantissa_char False) ds = []"
    "dropWhile (\<lambda>c. c \<noteq> CHR ''.'') (ds @ t) = dropWhile (\<lambda>c. c \<noteq> CHR ''.'') t"
    "CHR ''_'' \<notin> set ds"
  using assms by (induction ds) (auto simp: float_digit_def mantissa_char_def is_digit_not)

lemma decimal_string_parts:
  assumes "list_all is_digit ip" "list_all is_digit fp"
  shows "takeWhile (mantissa_char False) (decimal_string ip fp) = decimal_string ip fp"
    "dropWhile (mantissa_char False) (decimal_string ip fp) = []"
    "filter (float_digit False) (decimal_string ip fp) = ip @ fp"
    "length (filter (\<lambda>c. c = CHR ''.'') (decimal_string ip fp)) \<le> 1"
    "filter (float_digit False) (dropWhile (\<lambda>c. c \<noteq> CHR ''.'') (decimal_string ip fp)) = fp"
    "CHR ''_'' \<notin> set (decimal_string ip fp)"
proof -
  have "\<And>c. c \<in> set (decimal_string ip fp) \<Longrightarrow> mantissa_char False c"
    using assms by (auto simp: decimal_string_def list_all_iff mantissa_char_def float_digit_def split: if_splits)
  then show "takeWhile (mantissa_char False) (decimal_string ip fp) = decimal_string ip fp"
    "dropWhile (mantissa_char False) (decimal_string ip fp) = []"
    by (auto simp: takeWhile_eq_all_conv dropWhile_eq_Nil_conv)
  note ip = digit_filters [OF assms(1)] and fp = digit_filters [OF assms(2)]
  have dot: "\<not> float_digit False CHR ''.''" by (simp add: float_digit_def)
  show "filter (float_digit False) (decimal_string ip fp) = ip @ fp"
    using ip(1) fp(1) dot by (simp add: decimal_string_def)
  show "length (filter (\<lambda>c. c = CHR ''.'') (decimal_string ip fp)) \<le> 1"
    using ip(2) fp(2) by (simp add: decimal_string_def)
  show "filter (float_digit False) (dropWhile (\<lambda>c. c \<noteq> CHR ''.'') (decimal_string ip fp)) = fp"
  proof (cases "fp = []")
    case True
    have "dropWhile (\<lambda>c. c \<noteq> CHR ''.'') ip = []" using ip(5) [of "[]"] by simp
    then have "filter (float_digit False) (dropWhile (\<lambda>c. c \<noteq> CHR ''.'') ip) = []" by (simp only: filter.simps)
    with True show ?thesis by (simp add: decimal_string_def del: dropWhile_eq_Nil_conv)
  next
    case False
    then show ?thesis using ip(5) [of "CHR ''.'' # fp"] fp(1) dot by (simp add: decimal_string_def)
  qed
  show "CHR ''_'' \<notin> set (decimal_string ip fp)"
    using ip(6) fp(6) by (simp add: decimal_string_def)
qed

lemma float_value_decimal:
  assumes "list_all is_digit ip" "list_all is_digit fp"
  shows "float_value False (decimal_string ip fp) 0 = of_nat (digits_val (ip @ fp)) / 10 ^ length fp"
proof -
  have "mantissa_val False (decimal_string ip fp) = mantissa_val False (ip @ fp)"
    using decimal_string_parts(3) [OF assms] digit_filters(1) [of "ip @ fp"] assms
    by (simp add: mantissa_val_def)
  also have "\<dots> = digits_val (ip @ fp)"
    using assms by (simp add: mantissa_val_digits)
  finally show ?thesis
    using decimal_string_parts(5) [OF assms] by (simp add: float_value_def pow10_def)
qed

text \<open>A plain decimal with an optional sign parses to the rounded value of its digits.\<close>

definition decimal_value :: "string \<Rightarrow> string \<Rightarrow> string \<Rightarrow> rat" where
  "decimal_value sg ip fp =
     (let v = of_nat (digits_val (ip @ fp)) / 10 ^ length fp in if sg = ''-'' then - v else v)"

lemma split_sign_decimal:
  assumes "list_all is_digit ip" "ip \<noteq> []" "sg = [] \<or> sg = ''+'' \<or> sg = ''-''"
  shows "split_sign (sg @ decimal_string ip fp) = (sg = ''-'', decimal_string ip fp)"
  using assms by (cases ip) (auto simp: split_sign_def decimal_string_def is_digit_not)

lemma base_prefix_decimal:
  assumes "list_all is_digit ip" "list_all is_digit fp"
  shows "\<not> base_prefix (decimal_string ip fp)"
proof
  assume p: "base_prefix (decimal_string ip fp)"
  then have "decimal_string ip fp ! 1 \<in> set (decimal_string ip fp)"
    by (simp add: base_prefix_def)
  then have "is_digit (decimal_string ip fp ! 1) \<or> decimal_string ip fp ! 1 = CHR ''.''"
    using assms by (auto simp: decimal_string_def list_all_iff split: if_splits)
  moreover have "lower_char c \<noteq> CHR ''x''" if "is_digit c" for c
    using that by (auto simp: lower_char_digit [OF that] is_digit_def)
  ultimately have "lower_char (decimal_string ip fp ! 1) \<noteq> CHR ''x''"
    by (auto simp: lower_char_def)
  with p show False by (simp add: base_prefix_def)
qed

lemma readFloat_decimal:
  assumes "list_all is_digit ip" "list_all is_digit fp" "ip \<noteq> []" "sg = [] \<or> sg = ''+'' \<or> sg = ''-''"
  shows "readFloat (sg @ decimal_string ip fp) = Some (decimal_value sg ip fp)"
proof -
  let ?d = "decimal_string ip fp"
  note parts = decimal_string_parts [OF assms(1,2)]
  have "CHR ''_'' \<notin> set (sg @ ?d)" using parts(6) assms(4) by auto
  moreover have "filter (float_digit False) ?d \<noteq> []" using parts(3) assms(3) by simp
  moreover have "\<not> 1 < length (filter (\<lambda>c. c = CHR ''.'') ?d)" using parts(4) by simp
  ultimately show ?thesis
    unfolding readFloat_def split_sign_decimal [OF assms(1,3,4)] Let_def prod.case
      base_prefix_decimal [OF assms(1,2), THEN Eq_FalseI] if_False parts(1,2)
    by (simp add: float_value_decimal [OF assms(1,2)] decimal_value_def)
qed

lemma special_float_decimal:
  assumes "list_all is_digit ip" "ip \<noteq> []" "sg = [] \<or> sg = ''+'' \<or> sg = ''-''"
  shows "special_float (sg @ decimal_string ip fp) = None"
proof -
  obtain c cs where ip: "ip = c # cs" and c: "is_digit c"
    using assms(1,2) by (cases ip) auto
  then have hd: "\<exists>t. decimal_string ip fp = c # t" by (simp add: decimal_string_def)
  have ne: "lower_char c \<noteq> CHR ''i'' \<and> lower_char c \<noteq> CHR ''n''"
    using c by (auto simp: lower_char_digit is_digit_def)
  have "map lower_char (decimal_string ip fp) \<notin> {''inf'', ''infinity'', ''nan'', ''an''}"
    using hd ne c by (auto simp: lower_char_digit is_digit_def)
  moreover have "map lower_char (sg @ decimal_string ip fp) \<noteq> ''nan''"
    using assms(3) hd ne by (auto simp: lower_char_def)
  ultimately show ?thesis
    by (simp add: special_float_def split_sign_decimal [OF assms] Let_def)
qed

lemma ParseFloat_decimal:
  assumes "list_all is_digit ip" "list_all is_digit fp" "ip \<noteq> []" "sg = [] \<or> sg = ''+'' \<or> sg = ''-''"
  shows "ParseFloat (sg @ decimal_string ip fp) =
     (case f64 (decimal_value sg ip fp) of Fin r \<Rightarrow> Some (Fin r) | _ \<Rightarrow> None)"
  by (simp add: ParseFloat_def special_float_decimal [OF assms(1,3,4)] readFloat_decimal [OF assms])

end
