(* ===== verification/Price_Alerts.thy ===== *)
theory Price_Alerts
  imports Notification_Outbox Parse_Float
begin

text \<open>
  Price alerts (\<^verbatim>\<open>internal/app/price_alerts.go\<close>): parsing, target prices, creation with its limit and
  duplicate rules, cancellation, the durable capture of crossings and the triggering of alerts, which
  creates one notification job per alert.
\<close>

section \<open>Input\<close>

definition maxActivePriceAlerts :: nat where
  [simp]: "maxActivePriceAlerts = 10"

definition priceAlertBatchLimit :: nat where
  [simp]: "priceAlertBatchLimit = 100"

definition alertSymbol :: "string \<Rightarrow> string option" where
  "alertSymbol raw =
     (let symbol = ToUpper raw;
          symbol' = (if HasSuffix symbol ''USDT'' then symbol else symbol @ ''USDT'')
      in if symbol' \<in> {''BTCUSDT'', ''ETHUSDT'', ''SOLUSDT'', ''BNBUSDT''} then Some symbol' else None)"

text \<open>The regular expression \<^verbatim>\<open>^[+-]?[0-9]{1,4}([.,][0-9]{1,2})?%?$\<close>.\<close>

definition alertPercentPattern :: "string \<Rightarrow> bool" where
  "alertPercentPattern raw =
     (let (neg, unsigned) = split_sign raw;
          body = TrimSuffix unsigned ''%'';
          ip = takeWhile is_digit body;
          rest = dropWhile is_digit body
      in 1 \<le> length ip \<and> length ip \<le> 4 \<and>
         (case rest of [] \<Rightarrow> True
          | sep # fp \<Rightarrow> (sep = CHR ''.'' \<or> sep = CHR '','') \<and> list_all is_digit fp \<and>
                        1 \<le> length fp \<and> length fp \<le> 2))"

definition percent_in_range :: "float64 \<Rightarrow> bool" where
  "percent_in_range p \<longleftrightarrow>
     p \<noteq> Fin 0 \<and> \<not> f64_lt p (f64 (- 9999 / 100)) \<and> \<not> f64_lt (Fin 1000) p"

definition parseAlertPercent :: "string \<Rightarrow> go_error + float64" where
  "parseAlertPercent raw =
     (if \<not> alertPercentPattern raw then Inl (PlainError ''invalid percentage format'')
      else case ParseFloat (ReplaceAll (TrimSuffix raw ''%'') '','' ''.'') of
             None \<Rightarrow> Inl (PlainError ''percentage outside supported range'')
           | Some v \<Rightarrow> if percent_in_range v then Inr v
                       else Inl (PlainError ''percentage outside supported range''))"

definition alertTarget :: "float64 \<Rightarrow> float64 \<Rightarrow> go_error + float64" where
  "alertTarget base percent =
     (if \<not> isValidMarketPrice base \<or> percent = NaN \<or> percent = PInf \<or> percent = NInf \<or> \<not> percent_in_range percent
      then Inl (PlainError ''invalid alert price or percentage'')
      else let target = f64_div (f64_mul base (f64_add (Fin 10000) (f64_Round (f64_mul percent (Fin 100))))) (Fin 10000)
           in if \<not> isValidMarketPrice target \<or> (f64_lt (Fin 0) percent \<and> f64_le target base) \<or>
                 (f64_lt percent (Fin 0) \<and> f64_le base target)
              then Inl (PlainError ''invalid alert target'')
              else Inr target)"

section \<open>Creation\<close>

text \<open>
  An alert counts against the limit while it is active or its notification is not delivered yet.
\<close>

definition alert_queued :: "notification_row list \<Rightarrow> alert_row \<Rightarrow> bool" where
  "alert_queued jobs a \<longleftrightarrow> sql_exists (\<lambda>r. nj_price_alert_id r = Some (pa_id a) \<and> nj_open r) jobs"

definition alert_live :: "db \<Rightarrow> alert_row \<Rightarrow> bool" where
  "alert_live d a \<longleftrightarrow> pa_status a = A_Active \<or> alert_queued (notification_jobs d) a"

definition live_count :: "int \<Rightarrow> db \<Rightarrow> nat" where
  "live_count chat d = affected (\<lambda>a. pa_chat_id a = chat \<and> alert_live d a) (price_alerts d)"

text \<open>\<^verbatim>\<open>NUMERIC(7,2)\<close> rounds the stored percentage to hundredths.\<close>

definition numeric_hundredths :: "float64 \<Rightarrow> int" where
  "numeric_hundredths p = (case p of Fin q \<Rightarrow> rat_round_away (q * 100) | _ \<Rightarrow> 0)"

definition new_alert ::
  "int \<Rightarrow> int \<Rightarrow> int \<Rightarrow> string \<Rightarrow> string \<Rightarrow> int \<Rightarrow> float64 \<Rightarrow> time \<Rightarrow> float64 \<Rightarrow> time \<Rightarrow> time \<Rightarrow> alert_row" where
  "new_alert i updateID chat lang symbol percent base baseAt target createdAt now =
     \<lparr>pa_id = i, pa_chat_id = chat, pa_source_update_id = updateID, pa_symbol = symbol,
      pa_language_code = lang, pa_change_percent = percent, pa_base_price = base, pa_base_price_at = baseAt,
      pa_target_price = target, pa_status = A_Active, pa_trigger_price = None, pa_triggered_at = None,
      pa_created_at = createdAt, pa_updated_at = now\<rparr>"

text \<open>The \<^verbatim>\<open>CHECK\<close> constraints of the table.\<close>

definition alert_checks :: "alert_row \<Rightarrow> bool" where
  "alert_checks a \<longleftrightarrow>
     pa_symbol a \<in> {''BTCUSDT'', ''ETHUSDT'', ''SOLUSDT'', ''BNBUSDT''} \<and>
     pa_language_code a \<in> {''ua'', ''en'', ''ru''} \<and>
     pa_change_percent a \<noteq> 0 \<and> - 9999 \<le> pa_change_percent a \<and> pa_change_percent a \<le> 100000 \<and>
     isValidMarketPrice (pa_base_price a) \<and> isValidMarketPrice (pa_target_price a) \<and>
     (pa_change_percent a > 0 \<and> f64_lt (pa_base_price a) (pa_target_price a) \<or>
      pa_change_percent a < 0 \<and> f64_lt (pa_target_price a) (pa_base_price a)) \<and>
     (pa_status a = A_Triggered \<longrightarrow> pa_trigger_price a \<noteq> None \<and> pa_triggered_at a \<noteq> None)"

text \<open>The two unique indexes a new alert may run into: \<^verbatim>\<open>ON CONFLICT DO NOTHING\<close> skips the insert.\<close>

definition alert_conflict :: "alert_row list \<Rightarrow> alert_row \<Rightarrow> bool" where
  "alert_conflict alerts a \<longleftrightarrow>
     sql_exists (\<lambda>b. pa_source_update_id b = pa_source_update_id a \<or>
                     pa_status b = A_Active \<and> pa_chat_id b = pa_chat_id a \<and> pa_symbol b = pa_symbol a \<and>
                     pa_change_percent b = pa_change_percent a) alerts"

text \<open>
  \<open>dbNow\<close> is \<^verbatim>\<open>clock_timestamp()\<close> of the counting query, \<open>createdAt\<close> that of the insert, \<open>now\<close> the
  transaction's \<^verbatim>\<open>NOW()\<close>; \<open>err\<close> names the errors of the two statements. The result is the alert or
  the catalogue key of the problem.
\<close>

definition createPriceAlert ::
  "(string \<Rightarrow> go_error option) \<Rightarrow> price_cache \<Rightarrow> time \<Rightarrow> time \<Rightarrow> time \<Rightarrow> int \<Rightarrow> int \<Rightarrow> string \<Rightarrow> string \<Rightarrow> float64 \<Rightarrow> db
    \<Rightarrow> go_error + (string + alert_row) \<times> db" where
  "createPriceAlert err cache dbNow createdAt now updateID chatID lang symbol percent d =
     (case cache_Load cache symbol of
        None \<Rightarrow> Inr (Inl ''stale'', d)
      | Some entry \<Rightarrow>
          if pe_updated_at entry = zero_time then Inr (Inl ''stale'', d)
          else case alertTarget (pe_current entry) percent of
            Inl _ \<Rightarrow> Inr (Inl ''invalid'', d)
          | Inr target \<Rightarrow>
              (case run_read (err ''count_alerts'') (live_count chatID d) of
                 Inl e \<Rightarrow> Inl e
               | Inr count \<Rightarrow>
                   if pe_updated_at entry > dbNow \<or> priceAge dbNow (pe_updated_at entry) > priceFreshnessLimit
                   then Inr (Inl ''stale'', d)
                   else if count \<ge> maxActivePriceAlerts then Inr (Inl ''limit'', d)
                   else case err ''insert_alert'' of
                     Some e \<Rightarrow> Inl e
                   | None \<Rightarrow>
                       (let a = new_alert (alert_seq d) updateID chatID lang symbol (numeric_hundredths percent)
                                  (pe_current entry) (pe_updated_at entry) target createdAt now;
                            d' = d\<lparr>alert_seq := alert_seq d + 1\<rparr>
                        in if \<not> alert_checks a then Inl (PlainError ''price_alerts_check'')
                           else if alert_conflict (price_alerts d) a then Inr (Inl ''duplicate'', d')
                           else Inr (Inr a, d'\<lparr>price_alerts := price_alerts d @ [a]\<rparr>))))"

section \<open>Listing and cancellation\<close>

text \<open>One row of the left join with the notification of the alert, if there is one.\<close>

definition alert_delivery :: "notification_row list \<Rightarrow> alert_row \<Rightarrow> job_status option" where
  "alert_delivery jobs a =
     map_option nj_status (find (\<lambda>r. nj_price_alert_id r = Some (pa_id a)) jobs)"

text \<open>
  \<^verbatim>\<open>ORDER BY (active OR queued) DESC NULLS LAST, id DESC\<close>: the expression is true for live alerts; for
  the others it is false, or \<^verbatim>\<open>NULL\<close> when there is no notification row.
\<close>

definition alert_list_rank :: "notification_row list \<Rightarrow> alert_row \<Rightarrow> int" where
  "alert_list_rank jobs a =
     (if pa_status a = A_Active then 0
      else case alert_delivery jobs a of
             None \<Rightarrow> 2
           | Some st \<Rightarrow> if st = Pending \<or> st = Sending then 0 else 1)"

definition listPriceAlerts ::
  "go_error option \<Rightarrow> int \<Rightarrow> db \<Rightarrow> go_error + (alert_row \<times> job_status option) list" where
  "listPriceAlerts err chatID d =
     run_read err
       (map (\<lambda>a. (a, alert_delivery (notification_jobs d) a))
         (sql_select (\<lambda>a. pa_chat_id a = chatID)
            (\<lambda>a. (alert_list_rank (notification_jobs d) a, - pa_id a)) 20 (price_alerts d)))"

definition pa_set_canceled :: "time \<Rightarrow> alert_row \<Rightarrow> alert_row" where
  "pa_set_canceled now a = a\<lparr>pa_status := A_Canceled, pa_updated_at := now\<rparr>"

definition cancelPriceAlert ::
  "(string \<Rightarrow> go_error option) \<Rightarrow> time \<Rightarrow> int \<Rightarrow> int \<Rightarrow> db \<Rightarrow> go_error + bool \<times> db" where
  "cancelPriceAlert err now chatID i d =
     (case err ''cancel_alert'' of
        Some e \<Rightarrow> Inl e
      | None \<Rightarrow>
          (let hit = (\<lambda>a. pa_id a = i \<and> pa_chat_id a = chatID \<and> alert_live d a) in
           if affected hit (price_alerts d) = 0 then Inr (False, d)
           else case err ''cancel_alert_job'' of
             Some e \<Rightarrow> Inl e
           | None \<Rightarrow>
               Inr (True,
                 d\<lparr>price_alerts := sql_update hit (pa_set_canceled now) (price_alerts d),
                   notification_jobs :=
                     sql_update (\<lambda>r. nj_price_alert_id r = Some i \<and> nj_chat_id r = chatID \<and>
                                     nj_kind r = PriceAlert \<and> nj_open r)
                       (nj_set_canceled now ''price alert canceled'') (notification_jobs d)\<rparr>)))"

section \<open>Crossings\<close>

text \<open>An alert the observed price has crossed.\<close>

definition alert_crossed :: "string \<Rightarrow> float64 \<Rightarrow> time \<Rightarrow> alert_row \<Rightarrow> bool" where
  "alert_crossed symbol price startedAt a \<longleftrightarrow>
     pa_symbol a = symbol \<and> pa_status a = A_Active \<and> pa_created_at a < startedAt \<and>
     pa_base_price_at a \<le> startedAt \<and>
     (pa_change_percent a > 0 \<and> f64_le (pa_target_price a) price \<or>
      pa_change_percent a < 0 \<and> f64_le price (pa_target_price a))"

definition insert_crossings :: "float64 \<Rightarrow> time \<Rightarrow> int list \<Rightarrow> crossing_row list \<Rightarrow> crossing_row list" where
  "insert_crossings price observedAt ids crossings =
     foldl (\<lambda>cs i. if sql_exists (\<lambda>c. pc_alert_id c = i) cs then cs
                   else cs @ [\<lparr>pc_alert_id = i, pc_price = price, pc_observed_at = observedAt\<rparr>])
       crossings ids"

definition capturePriceAlertCrossings ::
  "go_error option \<Rightarrow> time \<Rightarrow> string \<Rightarrow> float64 \<Rightarrow> time \<Rightarrow> time \<Rightarrow> db \<Rightarrow> go_error + db" where
  "capturePriceAlertCrossings err dbNow symbol price startedAt storedAt d =
     (if alertSymbol symbol = None then Inr d
      else if \<not> isValidMarketPrice price \<or> startedAt = zero_time \<or> storedAt = zero_time \<or> storedAt < startedAt
      then Inl (PlainError ''cannot evaluate alerts with an invalid or stale quote'')
      else case err of
        Some e \<Rightarrow> Inl e
      | None \<Rightarrow>
          (let fresh = (startedAt \<ge> dbNow - priceFreshnessLimit \<and> storedAt \<le> dbNow);
               hits = sort_key pa_id (filter (\<lambda>a. fresh \<and> alert_crossed symbol price startedAt a) (price_alerts d))
           in Inr (d\<lparr>price_alert_crossings :=
                      insert_crossings price storedAt (map pa_id hits) (price_alert_crossings d)\<rparr>)))"

section \<open>Triggering\<close>

definition pa_set_triggered :: "time \<Rightarrow> float64 \<Rightarrow> time \<Rightarrow> alert_row \<Rightarrow> alert_row" where
  "pa_set_triggered now price fetchedAt a =
     a\<lparr>pa_status := A_Triggered, pa_trigger_price := Some price, pa_triggered_at := Some fetchedAt,
       pa_updated_at := now\<rparr>"

text \<open>The language of the subscriber if it has one, else that of the alert.\<close>

definition alert_lang :: "db \<Rightarrow> alert_row \<Rightarrow> string" where
  "alert_lang d a =
     (case find_subscriber (pa_chat_id a) d of
        None \<Rightarrow> pa_language_code a
      | Some s \<Rightarrow> (case language_code s of None \<Rightarrow> pa_language_code a | Some l \<Rightarrow> l))"

definition percent_float :: "int \<Rightarrow> float64" where
  "percent_float h = f64 (of_int h / 100)"

definition triggered_text :: "string \<Rightarrow> alert_row \<Rightarrow> float64 \<Rightarrow> time \<Rightarrow> msg" where
  "triggered_text lang a price fetchedAt =
     Sprintf (AlertText lang ''triggered_message'')
       [AStr (TrimSuffix (pa_symbol a) ''USDT''), AFloat (percent_float (pa_change_percent a)),
        AFloat (pa_base_price a), AFloat (pa_target_price a), AFloat price,
        ATime ''02.01.2006 15:04:05'' fetchedAt]"

definition trigger_body ::
  "(int \<Rightarrow> go_error + bool) \<Rightarrow> time \<Rightarrow> int \<Rightarrow> int \<Rightarrow> float64 \<Rightarrow> time \<Rightarrow> db \<Rightarrow> go_error + bool \<times> db" where
  "trigger_body try_lock now i chat price fetchedAt d =
     (case try_lock chat of
        Inl e \<Rightarrow> Inl e
      | Inr False \<Rightarrow> Inr (False, d)
      | Inr True \<Rightarrow>
          (case find (\<lambda>a. pa_id a = i \<and> pa_status a = A_Active) (price_alerts d) of
             None \<Rightarrow> Inr (False, d)
           | Some a \<Rightarrow>
               (let d1 = d\<lparr>price_alerts :=
                            sql_update (\<lambda>a. pa_id a = i \<and> pa_status a = A_Active)
                              (pa_set_triggered now price fetchedAt) (price_alerts d)\<rparr>;
                    lang = alert_lang d a
                in case insert_notification now (pa_chat_id a) lang (triggered_text lang a price fetchedAt)
                          fetchedAt now PriceAlert (Some i) d1 of
                     Inl e \<Rightarrow> Inl e
                   | Inr d2 \<Rightarrow>
                       Inr (True, d2\<lparr>price_alert_crossings :=
                                       filter (\<lambda>c. pc_alert_id c \<noteq> i) (price_alert_crossings d2)\<rparr>))))"

definition triggerPriceAlert ::
  "db_fault \<Rightarrow> (int \<Rightarrow> go_error + bool) \<Rightarrow> time \<Rightarrow> int \<times> int \<times> float64 \<times> time \<Rightarrow> db
    \<Rightarrow> (go_error + bool) \<times> db" where
  "triggerPriceAlert fault try_lock now c d =
     (case c of (i, chat, price, fetchedAt) \<Rightarrow>
        run_tx fault (trigger_body try_lock now i chat price fetchedAt) d)"

section \<open>Processing the crossings\<close>

text \<open>The surroundings of one run: errors of the statements, locks, faults and clocks per alert.\<close>

record crossing_env =
  ce_delete_err :: "go_error option"
  ce_query_err :: "int \<Rightarrow> go_error option"
  ce_lock :: "int \<Rightarrow> go_error + bool"
  ce_fault :: "int \<Rightarrow> db_fault"
  ce_now :: "int \<Rightarrow> time"

definition crossing_stale :: "db \<Rightarrow> crossing_row \<Rightarrow> bool" where
  "crossing_stale d c \<longleftrightarrow> sql_exists (\<lambda>a. pa_id a = pc_alert_id c \<and> pa_status a \<noteq> A_Active) (price_alerts d)"

definition delete_stale_crossings :: "db \<Rightarrow> db" where
  "delete_stale_crossings d =
     d\<lparr>price_alert_crossings := filter (\<lambda>c. \<not> crossing_stale d c) (price_alert_crossings d)\<rparr>"

text \<open>A row of the join of crossings and active alerts.\<close>

definition crossing_candidate :: "db \<Rightarrow> crossing_row \<Rightarrow> (int \<times> int \<times> float64 \<times> time) option" where
  "crossing_candidate d c =
     map_option (\<lambda>a. (pa_id a, pa_chat_id a, pc_price c, pc_observed_at c))
       (find (\<lambda>a. pa_id a = pc_alert_id c \<and> pa_status a = A_Active) (price_alerts d))"

definition crossing_candidates :: "int \<Rightarrow> db \<Rightarrow> (int \<times> int \<times> float64 \<times> time) list" where
  "crossing_candidates afterID d =
     List.map_filter (crossing_candidate d)
       (sql_select (\<lambda>c. pc_alert_id c > afterID \<and> crossing_candidate d c \<noteq> None) pc_alert_id
          priceAlertBatchLimit (price_alert_crossings d))"

fun trigger_batch ::
  "crossing_env \<Rightarrow> (int \<times> int \<times> float64 \<times> time) list \<Rightarrow> nat \<Rightarrow> int \<Rightarrow> db
    \<Rightarrow> (nat \<times> go_error option \<times> int) \<times> db" where
  "trigger_batch env [] created afterID d = ((created, None, afterID), d)"
| "trigger_batch env (c # cs) created afterID d =
     (case triggerPriceAlert (ce_fault env (fst c)) (ce_lock env) (ce_now env (fst c)) c d of
        (Inl e, d') \<Rightarrow> ((created, Some e, afterID), d')
      | (Inr triggered, d') \<Rightarrow>
          trigger_batch env cs (if triggered then created + 1 else created) (fst c) d')"

text \<open>A triggering transaction only removes crossings, so the loop below comes to an end.\<close>

lemma trigger_body_crossings:
  assumes "trigger_body try_lock now i chat price fetchedAt d = Inr (b, d')"
  shows "\<exists>p. price_alert_crossings d' = filter p (price_alert_crossings d)"
proof -
  have "\<exists>p. xs = filter p xs" for xs :: "crossing_row list" by (rule exI [of _ "\<lambda>_. True"]) simp
  then show ?thesis
    using assms
    by (auto simp: trigger_body_def insert_notification_def Let_def
        split: sum.splits bool.splits option.splits if_splits)
qed

lemma triggerPriceAlert_crossings:
  "\<exists>p. price_alert_crossings (snd (triggerPriceAlert fault try_lock now c d)) = filter p (price_alert_crossings d)"
proof (cases c)
  case (fields i chat price fetchedAt)
  have id: "\<exists>p. price_alert_crossings d = filter p (price_alert_crossings d)"
    by (rule exI [of _ "\<lambda>_. True"]) simp
  then show ?thesis
    unfolding triggerPriceAlert_def fields prod.case
    by (rule run_tx_preserves) (rule trigger_body_crossings)
qed

lemma trigger_batch_crossings:
  "\<exists>p. price_alert_crossings (snd (trigger_batch env cs created afterID d)) = filter p (price_alert_crossings d)"
proof (induction cs arbitrary: created afterID d)
  case Nil
  show ?case by (rule exI [of _ "\<lambda>_. True"]) simp
next
  case (Cons c cs)
  obtain r d' where r: "triggerPriceAlert (ce_fault env (fst c)) (ce_lock env) (ce_now env (fst c)) c d = (r, d')"
    by (cases "triggerPriceAlert (ce_fault env (fst c)) (ce_lock env) (ce_now env (fst c)) c d")
  with triggerPriceAlert_crossings [of "ce_fault env (fst c)" "ce_lock env" "ce_now env (fst c)" c d]
  obtain p where p: "price_alert_crossings d' = filter p (price_alert_crossings d)" by auto
  show ?case
  proof (cases r)
    case (Inl e)
    with r p show ?thesis by auto
  next
    case (Inr triggered)
    with Cons.IH [of "if triggered then created + 1 else created" "fst c" d'] r p show ?thesis
      by (auto simp: filter_filter)
  qed
qed

lemma trigger_batch_after:
  "trigger_batch env cs created afterID d = ((n, None, afterID'), d') \<Longrightarrow>
     afterID' = (if cs = [] then afterID else fst (last cs))"
  by (induction cs arbitrary: created afterID d)
    (auto split: prod.splits sum.splits if_splits)

lemma crossing_candidate_id: "crossing_candidate d c = Some x \<Longrightarrow> fst x = pc_alert_id c"
  by (auto simp: crossing_candidate_def find_Some_iff)

lemma set_crossing_candidates:
  "x \<in> set (crossing_candidates afterID d) \<Longrightarrow>
     \<exists>c \<in> set (price_alert_crossings d). afterID < pc_alert_id c \<and> crossing_candidate d c = Some x"
  unfolding crossing_candidates_def List.map_filter_def
  by (auto dest!: sql_selectD)

definition crossings_after :: "int \<Rightarrow> db \<Rightarrow> nat" where
  "crossings_after afterID d = length (filter (\<lambda>c. afterID < pc_alert_id c) (price_alert_crossings d))"

lemma crossings_after_decreases:
  assumes "crossing_candidates afterID d \<noteq> []"
    and "trigger_batch env (crossing_candidates afterID d) created afterID d = ((n, None, afterID'), d')"
  shows "crossings_after afterID' d' < crossings_after afterID d"
proof -
  from assms(1) have "last (crossing_candidates afterID d) \<in> set (crossing_candidates afterID d)" by simp
  from set_crossing_candidates [OF this] obtain c where
    c: "c \<in> set (price_alert_crossings d)" "afterID < pc_alert_id c"
      "fst (last (crossing_candidates afterID d)) = pc_alert_id c"
    using crossing_candidate_id by metis
  then have after: "afterID' = pc_alert_id c" using trigger_batch_after [OF assms(2)] assms(1) by simp
  obtain p where p: "price_alert_crossings d' = filter p (price_alert_crossings d)"
    using trigger_batch_crossings [of env "crossing_candidates afterID d" created afterID d] assms(2) by auto
  show ?thesis
    unfolding crossings_after_def p filter_filter
    using c(1,2) after by (intro filter_strictly_shorter [of _ _ _ c]) auto
qed

function process_crossings_loop ::
  "crossing_env \<Rightarrow> nat \<Rightarrow> int \<Rightarrow> db \<Rightarrow> (nat \<times> go_error option) \<times> db" where
  "process_crossings_loop env created afterID d =
     (case ce_query_err env afterID of
        Some e \<Rightarrow> ((created, Some e), d)
      | None \<Rightarrow>
          (let cs = crossing_candidates afterID d in
           if cs = [] then ((created, None), d)
           else (case trigger_batch env cs created afterID d of
                   ((n, Some e, _), d') \<Rightarrow> ((n, Some e), d')
                 | ((n, None, afterID'), d') \<Rightarrow> process_crossings_loop env n afterID' d')))"
  by pat_completeness auto

termination
  by (relation "measure (\<lambda>(env, created, afterID, d). crossings_after afterID d)")
    (auto intro!: crossings_after_decreases dest!: sym [of "((_, None, _), _)"])

declare process_crossings_loop.simps [simp del]

definition processPriceAlertCrossings :: "crossing_env \<Rightarrow> db \<Rightarrow> (nat \<times> go_error option) \<times> db" where
  "processPriceAlertCrossings env d =
     (case ce_delete_err env of
        Some e \<Rightarrow> ((0, Some e), d)
      | None \<Rightarrow> process_crossings_loop env 0 0 (delete_stale_crossings d))"

end
