(* ===== verification/Alert_Percent.thy ===== *)
theory Alert_Percent
  imports Price_Alerts
begin

text \<open>
  Percentages of price alerts: a typed percentage is a number of hundredths, and neither the float64
  value it is parsed to, nor the column it is stored in, nor the target computation loses it.
\<close>

section \<open>Hundredths as float64\<close>

lemma rat_round_away_close: "\<bar>x - of_int n\<bar> < 1 / 2 \<Longrightarrow> rat_round_away x = n"
proof -
  assume a: "\<bar>x - of_int n\<bar> < 1 / 2"
  have "\<lfloor>x + 1 / 2\<rfloor> = n" by (rule floor_unique) (use a in linarith)+
  moreover have "\<lfloor>- x + 1 / 2\<rfloor> = - n" by (rule floor_unique) (use a in \<open>simp; linarith\<close>)+
  ultimately show ?thesis by (simp add: rat_round_away_def)
qed

lemma percent_float_close:
  assumes "h \<noteq> 0" "\<bar>h\<bar> \<le> 999999"
  obtains q where "percent_float h = Fin q" "\<bar>q - of_int h / 100\<bar> \<le> \<bar>of_int h\<bar> / 100 * pow2 (- 53)"
proof -
  have h: "1 \<le> \<bar>of_int h :: rat\<bar>" "\<bar>of_int h :: rat\<bar> \<le> 999999"
    using assms by linarith+
  have "pow2 (- 1022) \<le> pow2 (- 7)" "pow2 20 \<le> pow2 1022" by (intro pow2_mono; simp)+
  then have "pow2 (- 1022) \<le> \<bar>of_int h / 100\<bar>" "\<bar>of_int h / 100\<bar> \<le> pow2 1022"
    using h by (auto simp: pow2_def)
  from f64_close [OF this] that show ?thesis by (auto simp: percent_float_def)
qed

lemma percent_float_0 [simp]: "percent_float 0 = Fin 0"
  by (simp add: percent_float_def f64_def)

lemma percent_float_Fin: "\<bar>h\<bar> \<le> 999999 \<Longrightarrow> \<exists>q. percent_float h = Fin q"
  by (cases "h = 0") (auto elim: percent_float_close)

text \<open>The error is far below half a hundredth.\<close>

lemma percent_float_near:
  assumes "percent_float h = Fin q" "\<bar>h\<bar> \<le> 999999"
  shows "\<bar>q - of_int h / 100\<bar> \<le> 1 / 800000000000"
proof (cases "h = 0")
  case True
  with assms(1) show ?thesis by simp
next
  case False
  from percent_float_close [OF this assms(2)] assms(1)
  have "\<bar>q - of_int h / 100\<bar> \<le> \<bar>of_int h\<bar> / 100 * pow2 (- 53)" by auto
  also have "\<dots> \<le> 999999 / 100 * pow2 (- 53)"
    using assms(2) by (intro mult_right_mono divide_right_mono) (simp_all add: abs_le_iff)
  also have "\<dots> \<le> 1 / 800000000000" by (simp add: pow2_def)
  finally show ?thesis .
qed

lemma numeric_hundredths_percent:
  assumes "\<bar>h\<bar> \<le> 999999"
  shows "numeric_hundredths (percent_float h) = h"
proof -
  obtain q where q: "percent_float h = Fin q" using percent_float_Fin [OF assms] by blast
  have "\<bar>q * 100 - of_int h\<bar> < 1 / 2"
    using percent_float_near [OF q assms] by linarith
  then show ?thesis by (simp add: numeric_hundredths_def q rat_round_away_close)
qed

lemma round_percent:
  assumes "\<bar>h\<bar> \<le> 999999"
  shows "f64_Round (f64_mul (percent_float h) (Fin 100)) = Fin (of_int h)"
proof (cases "h = 0")
  case True
  then show ?thesis using rat_round_away_close [of 0 0] by (simp add: f64_def f64_Round_def)
next
  case False
  obtain q where q: "percent_float h = Fin q" using percent_float_Fin [OF assms] by blast
  have d: "\<bar>q * 100 - of_int h\<bar> \<le> 1 / 8000000000"
    using percent_float_near [OF q assms] by linarith
  have h: "1 \<le> \<bar>of_int h :: rat\<bar>" "\<bar>of_int h :: rat\<bar> \<le> 999999" using False assms by linarith+
  have b: "1 / 2 \<le> \<bar>q * 100\<bar>" "\<bar>q * 100\<bar> \<le> 1000000" using d h by linarith+
  have "pow2 (- 1022) \<le> pow2 (- 1)" "pow2 20 \<le> pow2 1022" by (intro pow2_mono; simp)+
  then have "pow2 (- 1022) \<le> \<bar>q * 100\<bar>" "\<bar>q * 100\<bar> \<le> pow2 1022"
    using b by (auto simp: pow2_def)
  from f64_close [OF this] obtain r where r: "f64 (q * 100) = Fin r" "\<bar>r - q * 100\<bar> \<le> \<bar>q * 100\<bar> * pow2 (- 53)"
    by blast
  have "\<bar>q * 100\<bar> * pow2 (- 53) \<le> 1000000 * pow2 (- 53)"
    using b by (intro mult_right_mono) auto
  also have "\<dots> \<le> 1 / 4" by (simp add: pow2_def)
  finally have "\<bar>r - of_int h\<bar> < 1 / 2" using r(2) d by linarith
  with r(1) q show ?thesis by (simp add: f64_Round_def rat_round_away_close)
qed

lemma percent_float_less:
  assumes "h < h'" "\<bar>h\<bar> \<le> 999999" "\<bar>h'\<bar> \<le> 999999"
  shows "f64_lt (percent_float h) (percent_float h')"
proof -
  obtain q q' where q: "percent_float h = Fin q" "percent_float h' = Fin q'"
    using percent_float_Fin assms by metis
  have "(of_int h :: rat) + 1 \<le> of_int h'" using assms(1) by linarith
  with percent_float_near [OF q(1) assms(2)] percent_float_near [OF q(2) assms(3)]
  have "q < q'" by linarith
  with q show ?thesis by simp
qed

lemma percent_float_less_iff:
  assumes "\<bar>h\<bar> \<le> 999999" "\<bar>h'\<bar> \<le> 999999"
  shows "f64_lt (percent_float h) (percent_float h') \<longleftrightarrow> h < h'"
proof -
  obtain q q' where q: "percent_float h = Fin q" "percent_float h' = Fin q'"
    using percent_float_Fin assms by metis
  consider "h < h'" | "h = h'" | "h' < h" by linarith
  then show ?thesis
    using percent_float_less [of h h'] percent_float_less [of h' h] assms q by cases auto
qed

lemma percent_float_1000: "percent_float 100000 = Fin 1000"
proof -
  have "representable 1000"
    unfolding representable_def
  proof (intro exI conjI)
    show "(1000 :: rat) < pow2 1024" using pow2_mono [of 10 1024] by (simp add: pow2_def)
    show "(1000 :: rat) = of_int 1000 * pow2 0" by (simp add: pow2_def)
  qed simp_all
  then show ?thesis by (simp add: percent_float_def f64_representable)
qed

lemma percent_in_range_iff:
  assumes "\<bar>h\<bar> \<le> 999999"
  shows "percent_in_range (percent_float h) \<longleftrightarrow> h \<noteq> 0 \<and> - 9999 \<le> h \<and> h \<le> 100000"
proof -
  have lo: "f64 (- 9999 / 100) = percent_float (- 9999)" by (simp add: percent_float_def)
  have "percent_float h = Fin 0 \<longleftrightarrow> h = 0"
    using percent_float_less_iff [OF assms, of 0] percent_float_less_iff [of 0 h] assms by fastforce
  then show ?thesis
    unfolding percent_in_range_def lo percent_float_1000 [symmetric]
    using percent_float_less_iff [OF assms, of "- 9999"] percent_float_less_iff [of 100000 h] assms
    by auto
qed

section \<open>Parsing\<close>

text \<open>The number of hundredths a matching text denotes.\<close>

definition percent_body :: "string \<Rightarrow> string" where
  "percent_body raw = TrimSuffix (snd (split_sign raw)) ''%''"

definition percent_hundredths :: "string \<Rightarrow> int" where
  "percent_hundredths raw =
     (let body = percent_body raw;
          ip = takeWhile is_digit body;
          fp = drop 1 (dropWhile is_digit body);
          n = int (digits_val (ip @ take 2 (fp @ ''00'')))
      in if fst (split_sign raw) then - n else n)"

lemma TrimSuffix_char: "TrimSuffix s [c] = (if s \<noteq> [] \<and> last s = c then butlast s else s)"
  by (cases s rule: rev_cases) (auto simp: TrimSuffix_def HasSuffix_def)

lemma ReplaceAll_char: "ReplaceAll s [a] [b] = map (\<lambda>c. if c = a then b else c) s"
  by (induction s) (simp_all add: ReplaceAll.simps HasPrefix_def)

lemma digits_val_snoc: "digits_val (ds @ [c]) = 10 * digits_val ds + digit_val c"
  by (simp add: digits_val_def)

lemma digits_val_bound: "list_all is_digit ds \<Longrightarrow> digits_val ds < 10 ^ length ds"
proof (induction ds rule: rev_induct)
  case Nil
  then show ?case by (simp add: digits_val_def)
next
  case (snoc c ds)
  then have "digit_val c \<le> 9" unfolding digit_val_def is_digit_def Let_def by auto
  with snoc show ?case by (simp add: digits_val_snoc)
qed

lemma digit_val_0 [simp]: "digit_val CHR ''0'' = 0"
  by (simp add: digit_val_def)

lemma is_digit_0 [simp]: "is_digit CHR ''0''"
  by (simp add: is_digit_def)

text \<open>A matching text is a sign, digits, possibly a separator with one or two digits, possibly a percent sign.\<close>

lemma alertPercentPattern_parts:
  assumes "alertPercentPattern raw"
  obtains sg ip fp where "sg = [] \<or> sg = ''+'' \<or> sg = ''-''" "list_all is_digit ip" "list_all is_digit fp"
    "1 \<le> length ip" "length ip \<le> 4" "length fp \<le> 2"
    "ReplaceAll (TrimSuffix raw ''%'') '','' ''.'' = sg @ decimal_string ip fp"
    "percent_hundredths raw = (if sg = ''-'' then - 1 else 1) * int (digits_val (ip @ take 2 (fp @ ''00'')))"
proof -
  define sg where "sg = (if take 1 raw = ''-'' then ''-'' else if take 1 raw = ''+'' then ''+'' else [])"
  define ip where "ip = takeWhile is_digit (percent_body raw)"
  define rest where "rest = dropWhile is_digit (percent_body raw)"
  define fp where "fp = drop 1 rest"
  have raw: "raw = sg @ snd (split_sign raw)" and neg: "fst (split_sign raw) = (sg = ''-'')"
    unfolding sg_def split_sign_def by (cases raw; simp)+
  have pat: "1 \<le> length ip" "length ip \<le> 4"
    "case rest of [] \<Rightarrow> True | sep # fp \<Rightarrow> (sep = CHR ''.'' \<or> sep = CHR '','') \<and> list_all is_digit fp \<and>
       1 \<le> length fp \<and> length fp \<le> 2"
    using assms by (simp_all add: alertPercentPattern_def percent_body_def ip_def rest_def Let_def case_prod_unfold)
  have ip: "list_all is_digit ip" 
    unfolding ip_def list_all_iff by (blast dest: set_takeWhileD)
  have fp: "list_all is_digit fp" "length fp \<le> 2"
    using pat(3) by (auto simp: fp_def split: list.splits)
  have body: "percent_body raw = ip @ rest" by (simp add: ip_def rest_def)
  have nonempty: "snd (split_sign raw) \<noteq> []"
  proof
    assume "snd (split_sign raw) = []"
    then have "percent_body raw = []" by (simp add: percent_body_def TrimSuffix_char)
    with body pat(1) show False by simp
  qed
  have "TrimSuffix raw ''%'' = sg @ percent_body raw"
    using nonempty by (subst raw) (simp add: percent_body_def TrimSuffix_char butlast_append)
  moreover have "map (\<lambda>c. if c = CHR '','' then CHR ''.'' else c) ds = ds" if "list_all is_digit ds" for ds
    using that by (intro map_idI) (auto simp: list_all_iff)
  ultimately have "ReplaceAll (TrimSuffix raw ''%'') '','' ''.'' = sg @ decimal_string ip fp"
    using ip fp pat(3) by (auto simp: ReplaceAll_char body decimal_string_def sg_def fp_def split: list.splits)
  moreover have "percent_hundredths raw = (if sg = ''-'' then - 1 else 1) * int (digits_val (ip @ take 2 (fp @ ''00'')))"
    by (simp add: percent_hundredths_def neg ip_def fp_def rest_def Let_def)
  ultimately show ?thesis
    using that [of sg ip fp] ip fp pat(1,2) by (auto simp: sg_def)
qed

lemma decimal_value_hundredths:
  assumes "list_all is_digit fp" "length fp \<le> 2"
  shows "decimal_value sg ip fp =
     of_int ((if sg = ''-'' then - 1 else 1) * int (digits_val (ip @ take 2 (fp @ ''00'')))) / 100"
proof -
  consider "fp = []" | a where "fp = [a]" | a b where "fp = [a, b]"
    using assms(2) by (cases fp; cases "tl fp"; cases "tl (tl fp)") auto
  then show ?thesis
  proof cases
    case 1
    then show ?thesis
      using digits_val_snoc [of "ip @ ''0''" "CHR ''0''"] digits_val_snoc [of ip "CHR ''0''"]
      by (simp add: decimal_value_def Let_def)
  next
    case 2
    then show ?thesis
      using digits_val_snoc [of "ip @ [a]" "CHR ''0''"] by (simp add: decimal_value_def Let_def)
  next
    case 3
    then show ?thesis by (simp add: decimal_value_def Let_def)
  qed
qed

lemma parseAlertPercent_eq:
  assumes "alertPercentPattern raw"
  shows "parseAlertPercent raw =
     (let h = percent_hundredths raw in
      if h \<noteq> 0 \<and> - 9999 \<le> h \<and> h \<le> 100000 then Inr (percent_float h)
      else Inl (PlainError ''percentage outside supported range''))"
    and percent_hundredths_bound: "\<bar>percent_hundredths raw\<bar> \<le> 999999"
proof -
  obtain sg ip fp where p: "sg = [] \<or> sg = ''+'' \<or> sg = ''-''" "list_all is_digit ip" "list_all is_digit fp"
    "1 \<le> length ip" "length ip \<le> 4" "length fp \<le> 2"
    "ReplaceAll (TrimSuffix raw ''%'') '','' ''.'' = sg @ decimal_string ip fp"
    and h: "percent_hundredths raw = (if sg = ''-'' then - 1 else 1) * int (digits_val (ip @ take 2 (fp @ ''00'')))"
    by (rule alertPercentPattern_parts [OF assms])
  let ?ds = "ip @ take 2 (fp @ ''00'')"
  have "list_all is_digit ?ds" using p(2,3) by (auto simp: list_all_iff dest!: in_set_takeD)
  then have "digits_val ?ds < 10 ^ length ?ds" by (rule digits_val_bound)
  also have "\<dots> \<le> 10 ^ 6" using p(5) by (intro power_increasing) auto
  finally show bound: "\<bar>percent_hundredths raw\<bar> \<le> 999999" by (simp add: h)
  have "f64 (decimal_value sg ip fp) = percent_float (percent_hundredths raw)"
    by (simp add: decimal_value_hundredths [OF p(3,6)] h percent_float_def)
  moreover have "ip \<noteq> []" using p(4) by auto
  ultimately show "parseAlertPercent raw = (let h = percent_hundredths raw in
      if h \<noteq> 0 \<and> - 9999 \<le> h \<and> h \<le> 100000 then Inr (percent_float h)
      else Inl (PlainError ''percentage outside supported range''))"
    using ParseFloat_decimal [OF p(2,3) _ p(1)] percent_float_Fin [OF bound] assms
    by (auto simp: parseAlertPercent_def p(7) Let_def percent_in_range_iff [OF bound, symmetric])
qed

end
