(* ===== verification/Notification_Facts.thy ===== *)
theory Notification_Facts
  imports Notification_Outbox
begin

text \<open>
  Facts about the operations of the notification outbox: each keeps the table invariant, the claim
  picks the earliest claimable job, finalizations act on the claimed row only and at most once, a
  message is sent only under a current claim, the cron run creates one job per due subscriber.
\<close>

section \<open>Claiming\<close>

lemma claim_notification_loop_cases:
  assumes "claim_notification_loop try_lock now tok cs d = Inr (res, d')"
  shows "(res = None \<and> d' = d) \<or>
     (\<exists>cid chat r. (cid, chat) \<in> set cs \<and> try_lock chat = Inr True \<and>
        r \<in> set (notification_jobs d) \<and> nj_id r = cid \<and> nj_claimable now r \<and>
        res = Some (nj_job (nj_claim now tok r)) \<and>
        d' = d\<lparr>notification_jobs :=
                 sql_update (\<lambda>r. nj_id r = cid \<and> nj_claimable now r) (nj_claim now tok) (notification_jobs d)\<rparr>)"
  using assms
proof (induction cs)
  case Nil
  then show ?case by simp
next
  case (Cons c cs)
  obtain cid chat where c: "c = (cid, chat)" by (cases c)
  show ?case
  proof (cases "find (\<lambda>r. nj_id r = cid \<and> nj_claimable now r) (notification_jobs d)")
    case None
    with Cons c show ?thesis by (fastforce split: sum.splits bool.splits)
  next
    case (Some r)
    then have r: "r \<in> set (notification_jobs d)" "nj_id r = cid" "nj_claimable now r"
      by (auto simp: find_Some_iff)
    from Cons.prems c Some consider
        (locked) "try_lock chat = Inr False" "claim_notification_loop try_lock now tok cs d = Inr (res, d')"
      | (free) "try_lock chat = Inr True" "res = Some (nj_job (nj_claim now tok r))"
          "d' = d\<lparr>notification_jobs :=
             sql_update (\<lambda>r. nj_id r = cid \<and> nj_claimable now r) (nj_claim now tok) (notification_jobs d)\<rparr>"
      by (auto split: sum.splits bool.splits)
    then show ?thesis
    proof cases
      case locked
      with Cons.IH show ?thesis by fastforce
    next
      case free
      with r c show ?thesis by (intro disjI2 exI [of _ cid] exI [of _ chat] exI [of _ r]) simp
    qed
  qed
qed

text \<open>If the row of some candidate is claimable and its chat free, the loop claims a job.\<close>

lemma claim_notification_loop_progress:
  assumes "\<And>chat. \<exists>b. try_lock chat = Inr b"
    and "(cid, chat) \<in> set cs" "try_lock chat = Inr True"
    and "r \<in> set (notification_jobs d)" "nj_id r = cid" "nj_claimable now r"
  shows "\<exists>job d'. claim_notification_loop try_lock now tok cs d = Inr (Some job, d')"
  using assms(2)
proof (induction cs)
  case Nil
  then show ?case by simp
next
  case (Cons c cs)
  obtain cid' chat' where c: "c = (cid', chat')" by (cases c)
  obtain b where b: "try_lock chat' = Inr b" using assms(1) by blast
  show ?case
  proof (cases "b \<and> find (\<lambda>r. nj_id r = cid' \<and> nj_claimable now r) (notification_jobs d) \<noteq> None")
    case True
    with b c show ?thesis by auto
  next
    case False
    have "c \<noteq> (cid, chat)"
    proof
      assume "c = (cid, chat)"
      with c b False assms(3) have "find (\<lambda>r. nj_id r = cid \<and> nj_claimable now r) (notification_jobs d) = None"
        by simp
      with assms(4-6) show False by (auto simp: find_None_iff)
    qed
    with Cons.prems have "(cid, chat) \<in> set cs" by simp
    from Cons.IH [OF this] False b c show ?thesis by (auto split: bool.splits option.splits)
  qed
qed

text \<open>With every chat free and nothing committed in between, the first candidate is claimed.\<close>

lemma claim_notification_first:
  assumes u: "unique_on nj_id (notification_jobs d)"
    and free: "\<And>chat. try_lock chat = Inr True"
    and r: "r \<in> set (notification_jobs d)" "nj_claimable now r"
  shows "\<exists>r0. r0 \<in> set (notification_jobs d) \<and> nj_claimable now r0 \<and>
     (nj_scheduled_at r0, nj_id r0) \<le> (nj_scheduled_at r, nj_id r) \<and>
     claim_notification_loop try_lock now tok (notification_candidates now d) d =
       Inr (Some (nj_job (nj_claim now tok r0)),
            d\<lparr>notification_jobs :=
               sql_update (\<lambda>x. nj_id x = nj_id r0 \<and> nj_claimable now x) (nj_claim now tok) (notification_jobs d)\<rparr>)"
proof -
  let ?k = "\<lambda>r. (nj_scheduled_at r, nj_id r)"
  let ?sel = "sql_select (nj_claimable now) ?k OutboxClaimCandidateLimit (notification_jobs d)"
  have "?sel \<noteq> []"
    using r by (subst sql_select_Nil_iff) auto
  then obtain r0 rs where sel: "?sel = r0 # rs" by (cases ?sel) auto
  note first = sql_select_first [OF sel]
  have "find (\<lambda>x. nj_id x = nj_id r0 \<and> nj_claimable now x) (notification_jobs d) = Some r0"
    using first(1,2) by (intro find_unique [OF u]) auto
  moreover have "?k r0 \<le> ?k r" using first(3) r by blast
  ultimately show ?thesis
    using first(1,2) free by (intro exI [of _ r0]) (simp add: notification_candidates_def sel del: OutboxClaimCandidateLimit_def)
qed

section \<open>Finalizing transactions\<close>

lemma finish_notification_cases:
  "finish_notification job f g d = Inr (u, d') \<longleftrightarrow>
     0 < affected (nj_owned job) (notification_jobs d) \<and>
     d' = d\<lparr>notification_jobs := sql_update (nj_owned job) f (notification_jobs d),
            subscribers := sql_update (\<lambda>s. sub_chat_id s = job_chat_id job \<and> job_kind job \<noteq> PriceAlert) g
              (subscribers d)\<rparr>"
  by (cases "affected (nj_owned job) (notification_jobs d)")
    (auto simp: finish_notification_def ensureCurrentJobClaimUpdated_def)

lemma finish_notification_lost:
  "finish_notification job f g d = Inl e \<longleftrightarrow>
     affected (nj_owned job) (notification_jobs d) = 0 \<and> e = ErrJobOwnershipLost"
  by (auto simp: finish_notification_def ensureCurrentJobClaimUpdated_def)

lemma finish_notification_inv:
  assumes "finish_notification job f g d = Inr (u, d')" "nj_tame (nj_owned job) f"
    "jobs_inv (notification_seq d) (notification_jobs d)"
  shows "jobs_inv (notification_seq d') (notification_jobs d')"
  using assms jobs_inv_update by (auto simp: finish_notification_cases)

text \<open>
  A confirmed delivery whose commit was acknowledged with an error: the row is already sent, and the
  retry of the write reports a lost claim without touching anything.
\<close>

lemma markSent_after_commit_lost:
  assumes "affected (nj_owned job) (notification_jobs d) > 0"
    and "markNotificationJobSentOnce (DbCommitLost e) now job d = (r, d')"
  shows "r = Inl e" "markNotificationJobSentOnce fault now' job d' = (Inl (case fault of DbAbort a \<Rightarrow> a | _ \<Rightarrow> ErrJobOwnershipLost), d')"
proof -
  let ?f = "nj_set_sent now"
  have d': "notification_jobs d' = sql_update (nj_owned job) ?f (notification_jobs d)" and "r = Inl e"
    using assms
    by (auto simp: markNotificationJobSentOnce_def run_tx_def finish_notification_def
        ensureCurrentJobClaimUpdated_def)
  then show "r = Inl e" by simp
  have "affected (nj_owned job) (notification_jobs d') = 0"
    unfolding d' by (rule nq_sent.finish_twice)
  then have "\<And>f g. finish_notification job f g d' = Inl ErrJobOwnershipLost"
    by (simp add: finish_notification_lost)
  then show "markNotificationJobSentOnce fault now' job d' = (Inl (case fault of DbAbort a \<Rightarrow> a | _ \<Rightarrow> ErrJobOwnershipLost), d')"
    by (simp add: markNotificationJobSentOnce_def run_tx_def split: db_fault.split)
qed

section \<open>Delivery\<close>

lemma observe_simps [simp]:
  "wdb (observeNotificationDelivery job st w) = wdb w"
  "calls (observeNotificationDelivery job st w) = calls w"
  by (simp_all add: observeNotificationDelivery_def)

lemma others_calls [simp]: "calls (others env k w) = calls w" "wdb (others env k w) = de_others env k (wdb w)"
  by (simp_all add: others_def)

lemma deferNotificationJob_calls [simp]: "calls (deferNotificationJob token env job e w) = calls w"
  by (simp add: deferNotificationJob_def)

lemma notification_send_failed_calls [simp]: "calls (notification_send_failed token env job e w) = calls w"
  by (simp add: notification_send_failed_def Let_def)

lemma notification_sent_write_calls: "calls (snd (notification_sent_write env job n w)) = calls w"
  by (simp add: notification_sent_write_def case_prod_unfold Let_def)

lemma notification_send_confirmed_calls [simp]: "calls (notification_send_confirmed env job w) = calls w"
proof -
  have "calls (snd (finalize p fe (notification_sent_write env job) w)) = calls w" for p fe
    by (rule finalize_invariant) (simp_all add: notification_sent_write_calls)
  then show ?thesis
    by (auto simp: notification_send_confirmed_def Let_def case_prod_unfold split: option.split)
qed

text \<open>The databases the two checks of a delivery look at.\<close>

definition check_db :: "delivery_env \<Rightarrow> db \<Rightarrow> db" where
  "check_db env d = de_others env 1 d"

definition claim_db :: "delivery_env \<Rightarrow> db \<Rightarrow> db" where
  "claim_db env d = de_others env 2 (de_others env 1 d)"

lemma processNotificationJob_calls:
  "calls (processNotificationJob token env job w) =
     (if de_ctx_err env = None \<and> de_lock_err env = None \<and>
         notificationEnabled (de_check_err env) job (check_db env (wdb w)) = Inr True \<and>
         ensureNotificationJobClaimCurrent (de_claim_err env) (de_now env 2) job (claim_db env (wdb w)) = None
      then calls w @ [SendMessage (job_chat_id job) (notificationMessageForDelivery job (de_delivered_at env))
                        (if job_kind job \<noteq> PriceAlert then Some (RefreshKeyboard (job_lang job)) else None)]
      else calls w)"
  by (auto simp: processNotificationJob_def Let_def check_db_def claim_db_def send_notification_def
      split: option.split sum.split bool.split)

section \<open>The cron run\<close>

text \<open>The rows a run inserts, in order.\<close>

fun cron_rows :: "price_cache \<Rightarrow> time \<Rightarrow> time \<Rightarrow> int \<Rightarrow> subscriber list \<Rightarrow> notification_row list" where
  "cron_rows cache clock now seq [] = []"
| "cron_rows cache clock now seq (s # ss) =
     new_notification seq now (sub_chat_id s) (sub_lang s) (scheduled_text cache clock (sub_lang s) now)
       now now Scheduled None # cron_rows cache clock now (seq + 1) ss"

lemma length_cron_rows [simp]: "length (cron_rows cache clock now seq ss) = length ss"
  by (induction ss arbitrary: seq) auto

lemma cron_rows_chats: "map nj_chat_id (cron_rows cache clock now seq ss) = map sub_chat_id ss"
  by (induction ss arbitrary: seq) (auto simp: new_notification_def)

lemma cron_rows_fresh:
  "r \<in> set (cron_rows cache clock now seq ss) \<Longrightarrow>
     nj_active r \<and> nj_attempts r = 0 \<and> nj_scheduled_at r = now \<and> nj_next_attempt_at r = now \<and> nj_status r = Pending"
  by (induction ss arbitrary: seq) (auto simp: new_notification_def nj_active_def nj_open_def)

definition no_active_job :: "notification_row list \<Rightarrow> int \<Rightarrow> bool" where
  "no_active_job jobs chat \<longleftrightarrow> \<not> sql_exists (\<lambda>r. nj_active r \<and> nj_chat_id r = chat) jobs"

lemma insert_scheduled_ok:
  "no_active_job (notification_jobs d) chat \<Longrightarrow>
   insert_notification now chat lang txt sched nx Scheduled None d =
     Inr (d\<lparr>notification_jobs := notification_jobs d @ [new_notification (notification_seq d) now chat lang txt sched nx Scheduled None],
            notification_seq := notification_seq d + 1\<rparr>)"
  by (simp add: insert_notification_def Let_def no_active_job_def)

lemma insert_due_jobs_ok:
  assumes "distinct (map sub_chat_id ss)" "\<And>s. s \<in> set ss \<Longrightarrow> no_active_job (notification_jobs d) (sub_chat_id s)"
  shows "insert_due_jobs cache clock now ss d =
     Inr (d\<lparr>notification_jobs := notification_jobs d @ cron_rows cache clock now (notification_seq d) ss,
            notification_seq := notification_seq d + int (length ss)\<rparr>)"
  using assms
proof (induction ss arbitrary: d)
  case Nil
  then show ?case by simp
next
  case (Cons s ss)
  let ?r = "new_notification (notification_seq d) now (sub_chat_id s) (sub_lang s)
              (scheduled_text cache clock (sub_lang s) now) now now Scheduled None"
  let ?d = "d\<lparr>notification_jobs := notification_jobs d @ [?r], notification_seq := notification_seq d + 1\<rparr>"
  have "no_active_job (notification_jobs ?d) (sub_chat_id x)" if "x \<in> set ss" for x
    using Cons.prems that by (auto simp: no_active_job_def sql_exists_iff new_notification_def)
  then have IH: "insert_due_jobs cache clock now ss ?d =
     Inr (?d\<lparr>notification_jobs := notification_jobs ?d @ cron_rows cache clock now (notification_seq ?d) ss,
             notification_seq := notification_seq ?d + int (length ss)\<rparr>)"
    using Cons.prems by (intro Cons.IH) auto
  have "no_active_job (notification_jobs d) (sub_chat_id s)" using Cons.prems(2) by simp
  from insert_scheduled_ok [OF this] IH show ?case by simp
qed

lemma due_subscribersD:
  "s \<in> set (due_subscribers row_locked now d) \<Longrightarrow>
     s \<in> set (subscribers d) \<and> sub_due now (notification_jobs d) s \<and> \<not> row_locked (sub_chat_id s)"
  unfolding due_subscribers_def by (drule sql_selectD) simp

lemma sub_due_no_active: "sub_due now jobs s \<Longrightarrow> no_active_job jobs (sub_chat_id s)"
  by (auto simp: sub_due_def no_active_job_def sql_exists_iff)

lemma distinct_due_subscribers:
  "unique_on sub_chat_id (subscribers d) \<Longrightarrow> distinct (map sub_chat_id (due_subscribers row_locked now d))"
proof -
  assume "unique_on sub_chat_id (subscribers d)"
  then have "distinct (map sub_chat_id (filter p (subscribers d)))" for p
    by (simp add: unique_on_def distinct_map_filter)
  then have "distinct (map sub_chat_id (sort_key last_sent (filter p (subscribers d))))" for p
    by (simp add: distinct_map)
  then show ?thesis
    by (simp add: due_subscribers_def sql_select_def take_map [symmetric])
qed

text \<open>The run inserts one job for each due subscriber and stamps its cron claim.\<close>

lemma cron_body_eq:
  assumes "unique_on sub_chat_id (subscribers d)"
  shows "cron_body row_locked cache clock now d =
     (let due = due_subscribers row_locked now d in
      Inr (length due,
        d\<lparr>subscribers :=
             sql_update (\<lambda>s. sub_chat_id s \<in> set (map sub_chat_id due))
               (\<lambda>s. s\<lparr>cron_claimed_until := Some (now + 15 * minute)\<rparr>) (subscribers d),
           notification_jobs := notification_jobs d @ cron_rows cache clock now (notification_seq d) due,
           notification_seq := notification_seq d + int (length due)\<rparr>))"
proof -
  have "no_active_job (notification_jobs d) (sub_chat_id s)" if "s \<in> set (due_subscribers row_locked now d)" for s
    using due_subscribersD [OF that] sub_due_no_active by blast
  then show ?thesis
    using distinct_due_subscribers [OF assms, of row_locked now]
    by (simp add: cron_body_def Let_def insert_due_jobs_ok)
qed

lemma cron_rows_inv:
  assumes "jobs_inv seq jobs" "distinct (map sub_chat_id ss)"
    "\<And>s. s \<in> set ss \<Longrightarrow> no_active_job jobs (sub_chat_id s)"
  shows "jobs_inv (seq + int (length ss)) (jobs @ cron_rows cache clock now seq ss)"
  using assms
proof (induction ss arbitrary: seq jobs)
  case Nil
  then show ?case by simp
next
  case (Cons s ss)
  let ?r = "new_notification seq now (sub_chat_id s) (sub_lang s)
              (scheduled_text cache clock (sub_lang s) now) now now Scheduled None"
  have "no_active_job jobs (sub_chat_id s)" using Cons.prems(3) by simp
  then have "jobs_inv (seq + 1) (jobs @ [?r])"
    using Cons.prems(1) by (intro jobs_inv_snoc) (auto simp: new_notification_def nj_row_ok_def no_active_job_def)
  moreover have "no_active_job (jobs @ [?r]) (sub_chat_id x)" if "x \<in> set ss" for x
    using Cons.prems that by (auto simp: no_active_job_def sql_exists_iff new_notification_def)
  ultimately have "jobs_inv (seq + 1 + int (length ss)) ((jobs @ [?r]) @ cron_rows cache clock now (seq + 1) ss)"
    using Cons.prems(2) by (intro Cons.IH) auto
  then show ?case by (simp add: algebra_simps)
qed

text \<open>Whoever got a job is not due again while the job is open.\<close>

lemma not_due_with_job:
  "r \<in> set jobs \<Longrightarrow> nj_active r \<Longrightarrow> nj_chat_id r = sub_chat_id s \<Longrightarrow> \<not> sub_due now jobs s"
  by (auto simp: sub_due_def sql_exists_iff)

text \<open>
  After a sent notification the subscriber is not due before the interval, counted from the minute
  the notification was scheduled for, has passed.
\<close>

lemma not_due_before_interval:
  assumes "last_sent s = Some (date_trunc_minute t)" "interval_minutes s = Some m"
    and "date_trunc_minute now < date_trunc_minute t + m * minute"
  shows "\<not> sub_due now jobs s"
proof -
  have "date_trunc_minute (date_trunc_minute t) = date_trunc_minute t"
    by (simp add: date_trunc_minute_def)
  with assms show ?thesis by (simp add: sub_due_def)
qed

end
