(* ===== verification/Alert_Facts.thy ===== *)
theory Alert_Facts
  imports Alert_Percent Notification_Facts
begin

text \<open>
  The invariant of the alert tables and the operations that keep it: the rows satisfy their checks, a
  notification belongs to a triggered or canceled alert of the same chat, an alert still open for
  delivery is triggered, and no chat has more than ten live alerts.
\<close>

section \<open>The invariant\<close>

definition job_linked :: "alert_row list \<Rightarrow> notification_row \<Rightarrow> bool" where
  "job_linked alerts r \<longleftrightarrow>
     (case nj_price_alert_id r of
        None \<Rightarrow> True
      | Some i \<Rightarrow> \<exists>a \<in> set alerts. pa_id a = i \<and> pa_chat_id a = nj_chat_id r \<and> pa_status a \<noteq> A_Active \<and>
                    (nj_open r \<longrightarrow> pa_status a = A_Triggered))"

definition alerts_inv :: "db \<Rightarrow> bool" where
  "alerts_inv d \<longleftrightarrow>
     unique_on pa_id (price_alerts d) \<and> (\<forall>a \<in> set (price_alerts d). pa_id a < alert_seq d) \<and>
     unique_on pa_source_update_id (price_alerts d) \<and>
     unique_where (\<lambda>a. pa_status a = A_Active) (\<lambda>a. (pa_chat_id a, pa_symbol a, pa_change_percent a)) (price_alerts d) \<and>
     (\<forall>a \<in> set (price_alerts d). alert_checks a) \<and>
     unique_on pc_alert_id (price_alert_crossings d) \<and>
     (\<forall>r \<in> set (notification_jobs d). job_linked (price_alerts d) r) \<and>
     (\<forall>chat. live_count chat d \<le> maxActivePriceAlerts)"

lemma job_linkedD:
  "alerts_inv d \<Longrightarrow> r \<in> set (notification_jobs d) \<Longrightarrow> nj_price_alert_id r = Some i \<Longrightarrow>
     \<exists>a \<in> set (price_alerts d). pa_id a = i \<and> pa_chat_id a = nj_chat_id r \<and> pa_status a \<noteq> A_Active \<and>
       (nj_open r \<longrightarrow> pa_status a = A_Triggered)"
proof -
  assume "alerts_inv d" "r \<in> set (notification_jobs d)" and i: "nj_price_alert_id r = Some i"
  then have "job_linked (price_alerts d) r" by (simp add: alerts_inv_def)
  then show ?thesis unfolding job_linked_def i by simp
qed

lemma job_linked_mono: "job_linked alerts r \<Longrightarrow> set alerts \<subseteq> set alerts' \<Longrightarrow> job_linked alerts' r"
  unfolding job_linked_def by (cases "nj_price_alert_id r") auto

lemma alert_unique: "alerts_inv d \<Longrightarrow> a \<in> set (price_alerts d) \<Longrightarrow> b \<in> set (price_alerts d) \<Longrightarrow> pa_id a = pa_id b \<Longrightarrow> a = b"
  unfolding alerts_inv_def by (blast dest: unique_onD)

lemma affected_update: "affected q (sql_update p f rows) = affected (\<lambda>r. q (if p r then f r else r)) rows"
  by (induction rows) auto

lemma affected_mono: "(\<And>r. r \<in> set rows \<Longrightarrow> p r \<Longrightarrow> q r) \<Longrightarrow> affected p rows \<le> affected q rows"
  by (induction rows) (auto intro: le_SucI)

lemma affected_cong: "(\<And>r. r \<in> set rows \<Longrightarrow> p r \<longleftrightarrow> q r) \<Longrightarrow> affected p rows = affected q rows"
  by (induction rows) auto

section \<open>Changes of the notification table\<close>

text \<open>Claims, finalizations and cancellations of jobs open none and keep their alert.\<close>

lemma alert_queued_update:
  assumes "nj_tame p f" "\<And>r. r \<in> set jobs \<Longrightarrow> nj_row_ok r" "alert_queued (sql_update p f jobs) a"
  shows "alert_queued jobs a"
  using assms by (auto simp: alert_queued_def sql_exists_iff set_sql_update nj_tame_def split: if_splits)

lemma alerts_inv_job_update:
  assumes inv: "alerts_inv d" and tame: "nj_tame p f" and ok: "\<And>r. r \<in> set (notification_jobs d) \<Longrightarrow> nj_row_ok r"
    and d': "notification_jobs d' = sql_update p f (notification_jobs d)" "price_alerts d' = price_alerts d"
      "alert_seq d' = alert_seq d" "price_alert_crossings d' = price_alert_crossings d"
  shows "alerts_inv d'"
proof -
  have "job_linked (price_alerts d) (if p r then f r else r)" if "r \<in> set (notification_jobs d)" for r
  proof -
    have "job_linked (price_alerts d) r" using inv that by (simp add: alerts_inv_def)
    with tame ok [OF that] show ?thesis by (auto simp: job_linked_def nj_tame_def split: option.splits)
  qed
  then have "\<forall>r \<in> set (notification_jobs d'). job_linked (price_alerts d') r"
    unfolding d' set_sql_update by blast
  moreover have "live_count chat d' \<le> maxActivePriceAlerts" for chat
  proof -
    have "alert_live d' a \<Longrightarrow> alert_live d a" for a
      using alert_queued_update [OF tame ok] by (auto simp: alert_live_def d')
    then have "live_count chat d' \<le> live_count chat d"
      unfolding live_count_def d' by (intro affected_mono) auto
    also have "\<dots> \<le> maxActivePriceAlerts" using inv by (simp add: alerts_inv_def)
    finally show ?thesis .
  qed
  ultimately show ?thesis using inv by (simp add: alerts_inv_def d')
qed

text \<open>New jobs that are not for an alert do not matter.\<close>

lemma alerts_inv_scheduled:
  assumes "alerts_inv d" "\<And>r. r \<in> set rows \<Longrightarrow> nj_price_alert_id r = None"
    and d': "notification_jobs d' = notification_jobs d @ rows" "price_alerts d' = price_alerts d"
      "alert_seq d' = alert_seq d" "price_alert_crossings d' = price_alert_crossings d"
  shows "alerts_inv d'"
proof -
  have "alert_queued (notification_jobs d') a = alert_queued (notification_jobs d) a" for a
    using assms(2) by (auto simp: alert_queued_def sql_exists_iff d')
  then have "live_count chat d' = live_count chat d" for chat
    by (simp add: live_count_def alert_live_def d')
  moreover have "\<forall>r \<in> set rows. job_linked (price_alerts d) r"
    using assms(2) by (simp add: job_linked_def)
  ultimately show ?thesis using assms(1) by (auto simp: alerts_inv_def d')
qed

section \<open>Creation\<close>

lemma createPriceAlert_cases:
  assumes "createPriceAlert err cache dbNow createdAt now updateID chatID lang symbol percent d = Inr (res, d')"
  shows "(d' = d \<or> d' = d\<lparr>alert_seq := alert_seq d + 1\<rparr>) \<and> (\<exists>key. res = Inl key) \<or>
     (\<exists>a. res = Inr a \<and> d' = d\<lparr>alert_seq := alert_seq d + 1, price_alerts := price_alerts d @ [a]\<rparr> \<and>
        pa_id a = alert_seq d \<and> pa_chat_id a = chatID \<and> pa_status a = A_Active \<and> alert_checks a \<and>
        \<not> alert_conflict (price_alerts d) a \<and> live_count chatID d < maxActivePriceAlerts)"
  using assms
  by (auto simp: createPriceAlert_def run_read_def Let_def new_alert_def not_le
      split: option.splits sum.splits if_splits)

lemma alerts_inv_create:
  assumes inv: "alerts_inv d"
    and a: "pa_id a = alert_seq d" "pa_status a = A_Active" "alert_checks a"
      "\<not> alert_conflict (price_alerts d) a" "live_count (pa_chat_id a) d < maxActivePriceAlerts"
    and d': "d' = d\<lparr>alert_seq := alert_seq d + 1, price_alerts := price_alerts d @ [a]\<rparr>"
  shows "alerts_inv d'"
proof -
  have fresh: "\<not> alert_queued (notification_jobs d) a"
  proof
    assume "alert_queued (notification_jobs d) a"
    then obtain r where "r \<in> set (notification_jobs d)" "nj_price_alert_id r = Some (alert_seq d)"
      using a(1) by (auto simp: alert_queued_def sql_exists_iff)
    from job_linkedD [OF inv this] inv show False by (auto simp: alerts_inv_def)
  qed
  have live: "alert_live d' b = alert_live d b" for b by (simp add: alert_live_def d')
  have "live_count chat d' = live_count chat d + (if pa_chat_id a = chat then 1 else 0)" for chat
    using a(2) by (simp add: live_count_def live) (simp add: d' alert_live_def)
  then have "live_count chat d' \<le> maxActivePriceAlerts" for chat
    using inv a(5) by (auto simp: alerts_inv_def)
  moreover have "job_linked (price_alerts d') r" if "r \<in> set (notification_jobs d')" for r
  proof (rule job_linked_mono)
    show "job_linked (price_alerts d) r" using inv that by (simp add: alerts_inv_def d')
    show "set (price_alerts d) \<subseteq> set (price_alerts d')" by (auto simp: d')
  qed
  moreover have "pa_id a \<notin> pa_id ` set (price_alerts d)"
    using inv a(1) by (auto simp: alerts_inv_def)
  moreover have "pa_source_update_id a \<notin> pa_source_update_id ` set (price_alerts d)"
    using a(4) by (auto simp: alert_conflict_def sql_exists_iff)
  moreover have "unique_where (\<lambda>a. pa_status a = A_Active) (\<lambda>a. (pa_chat_id a, pa_symbol a, pa_change_percent a))
      (price_alerts d @ [a])"
    using inv a(4) by (auto simp: alerts_inv_def unique_where_snoc alert_conflict_def sql_exists_iff)
  ultimately show ?thesis
    using inv a(1,3) unfolding alerts_inv_def by (fastforce simp: d')
qed

lemma alerts_inv_seq: "alerts_inv d \<Longrightarrow> alerts_inv (d\<lparr>alert_seq := alert_seq d + 1\<rparr>)"
  by (auto simp: alerts_inv_def live_count_def alert_live_def)

lemma createPriceAlert_inv:
  assumes "createPriceAlert err cache dbNow createdAt now updateID chatID lang symbol percent d = Inr (res, d')"
    and "alerts_inv d"
  shows "alerts_inv d'"
  using createPriceAlert_cases [OF assms(1)] assms(2) alerts_inv_seq alerts_inv_create by metis

section \<open>Changes of the alert table\<close>

text \<open>
  An update of alerts that keeps their identity, leaves none active and makes none live keeps the
  invariant, provided the jobs stay linked.
\<close>

definition pa_tame :: "(alert_row \<Rightarrow> bool) \<Rightarrow> (alert_row \<Rightarrow> alert_row) \<Rightarrow> bool" where
  "pa_tame p f \<longleftrightarrow>
     (\<forall>a. p a \<longrightarrow> pa_id (f a) = pa_id a \<and> pa_chat_id (f a) = pa_chat_id a \<and>
        pa_source_update_id (f a) = pa_source_update_id a \<and> pa_status (f a) \<noteq> A_Active \<and>
        (alert_checks a \<longrightarrow> alert_checks (f a)))"

lemma alerts_inv_alert_update:
  assumes inv: "alerts_inv d" and tame: "pa_tame p f"
    and d': "price_alerts d' = sql_update p f (price_alerts d)" "alert_seq d' = alert_seq d"
      "unique_on pc_alert_id (price_alert_crossings d')"
    and linked: "\<And>r. r \<in> set (notification_jobs d') \<Longrightarrow> job_linked (price_alerts d') r"
    and live: "\<And>a. a \<in> set (price_alerts d) \<Longrightarrow> alert_live d' (if p a then f a else a) \<Longrightarrow> alert_live d a"
  shows "alerts_inv d'"
proof -
  let ?u = "\<lambda>a. if p a then f a else a"
  have chat: "pa_chat_id (?u a) = pa_chat_id a" for a using tame by (simp add: pa_tame_def)
  have "live_count chat d' \<le> live_count chat d" for chat
    unfolding live_count_def d' affected_update chat using live by (intro affected_mono) auto
  then have "live_count chat d' \<le> maxActivePriceAlerts" for chat
    using inv by (meson alerts_inv_def le_trans)
  moreover have "unique_on pa_id (price_alerts d')" "unique_on pa_source_update_id (price_alerts d')"
    using inv tame by (auto simp: alerts_inv_def d' pa_tame_def intro!: unique_on_update)
  moreover have "unique_where (\<lambda>a. pa_status a = A_Active) (\<lambda>a. (pa_chat_id a, pa_symbol a, pa_change_percent a)) (price_alerts d')"
    unfolding d' using inv tame by (intro unique_where_update) (auto simp: alerts_inv_def pa_tame_def)
  moreover have "\<forall>b \<in> set (price_alerts d'). pa_id b < alert_seq d' \<and> alert_checks b"
    using inv tame by (auto simp: alerts_inv_def set_sql_update d' pa_tame_def)
  ultimately show ?thesis using linked d'(3) by (simp add: alerts_inv_def)
qed

section \<open>Cancellation\<close>

lemma cancelPriceAlert_cases:
  assumes "cancelPriceAlert err now chatID i d = Inr (res, d')"
  shows "(res = False \<and> d' = d) \<or>
     (res = True \<and> (\<exists>a \<in> set (price_alerts d). pa_id a = i \<and> pa_chat_id a = chatID \<and> alert_live d a) \<and>
      d' = d\<lparr>price_alerts :=
               sql_update (\<lambda>a. pa_id a = i \<and> pa_chat_id a = chatID \<and> alert_live d a) (pa_set_canceled now) (price_alerts d),
             notification_jobs :=
               sql_update (\<lambda>r. nj_price_alert_id r = Some i \<and> nj_chat_id r = chatID \<and> nj_kind r = PriceAlert \<and> nj_open r)
                 (nj_set_canceled now ''price alert canceled'') (notification_jobs d)\<rparr>)"
  using assms
  by (auto simp: cancelPriceAlert_def Let_def affected_0_iff split: option.splits if_splits)

text \<open>After a cancellation nothing of the alert is left to be delivered.\<close>

lemma canceled_not_queued:
  assumes inv: "alerts_inv d" and ok: "\<And>r. r \<in> set (notification_jobs d) \<Longrightarrow> nj_row_ok r"
    and a: "a \<in> set (price_alerts d)" "pa_id a = i" "pa_chat_id a = chatID"
  shows "\<not> alert_queued
     (sql_update (\<lambda>r. nj_price_alert_id r = Some i \<and> nj_chat_id r = chatID \<and> nj_kind r = PriceAlert \<and> nj_open r)
        (nj_set_canceled now err) (notification_jobs d)) a"
proof -
  have "nj_chat_id r = chatID \<and> nj_kind r = PriceAlert"
    if r: "r \<in> set (notification_jobs d)" "nj_price_alert_id r = Some i" for r
  proof -
    from job_linkedD [OF inv r] obtain b where b: "b \<in> set (price_alerts d)" "pa_id b = i" "pa_chat_id b = nj_chat_id r"
      by blast
    from alert_unique [OF inv b(1) a(1)] a b have "nj_chat_id r = chatID" by simp
    with ok [OF r(1)] r(2) show ?thesis by (simp add: nj_row_ok_def)
  qed
  moreover have "nj_price_alert_id (nj_set_canceled now err r) = nj_price_alert_id r"
    "\<not> nj_open (nj_set_canceled now err r)" for r
    by (simp_all add: nj_set_canceled_def nj_open_def)
  ultimately show ?thesis
    unfolding alert_queued_def sql_exists_iff set_sql_update a(2) by (auto split: if_splits)
qed

lemma pa_tame_cancel: "pa_tame p (pa_set_canceled now)"
  by (simp add: pa_tame_def pa_set_canceled_def alert_checks_def)

lemma cancelPriceAlert_inv:
  assumes "cancelPriceAlert err now chatID i d = Inr (res, d')"
    and inv: "alerts_inv d" and jobs: "jobs_inv (notification_seq d) (notification_jobs d)"
  shows "alerts_inv d'" "jobs_inv (notification_seq d') (notification_jobs d')"
proof -
  let ?p = "\<lambda>a. pa_id a = i \<and> pa_chat_id a = chatID \<and> alert_live d a"
  let ?q = "\<lambda>r. nj_price_alert_id r = Some i \<and> nj_chat_id r = chatID \<and> nj_kind r = PriceAlert \<and> nj_open r"
  let ?j = "sql_update ?q (nj_set_canceled now ''price alert canceled'') (notification_jobs d)"
  let ?a = "sql_update ?p (pa_set_canceled now) (price_alerts d)"
  have ok: "\<And>r. r \<in> set (notification_jobs d) \<Longrightarrow> nj_row_ok r" using jobs by (simp add: jobs_inv_def)
  consider "d' = d" | (hit) a where "a \<in> set (price_alerts d)" "pa_id a = i" "pa_chat_id a = chatID"
      "d' = d\<lparr>price_alerts := ?a, notification_jobs := ?j\<rparr>"
    using cancelPriceAlert_cases [OF assms(1)] by blast
  then have "alerts_inv d' \<and> jobs_inv (notification_seq d') (notification_jobs d')"
  proof cases
    case 1
    with inv jobs show ?thesis by simp
  next
    case hit
    let ?d1 = "d\<lparr>notification_jobs := ?j\<rparr>"
    let ?u = "\<lambda>b. if ?p b then pa_set_canceled now b else b"
    have inv1: "alerts_inv ?d1"
      using nj_tame_cancel ok by (intro alerts_inv_job_update [OF inv, of ?q]) auto
    have u: "pa_id (?u b) = pa_id b" "pa_chat_id (?u b) = pa_chat_id b" "pa_status b \<noteq> A_Active \<Longrightarrow> pa_status (?u b) \<noteq> A_Active" for b
      by (simp_all add: pa_set_canceled_def)
    have "alert_live d' (?u b) \<Longrightarrow> alert_live ?d1 b" for b
      by (auto simp: alert_live_def alert_queued_def hit(4) u pa_set_canceled_def split: if_splits)
    moreover have "job_linked ?a r" if r: "r \<in> set ?j" for r
    proof (cases "nj_price_alert_id r")
      case (Some k)
      from job_linkedD [OF inv1 _ Some] r obtain b where b: "b \<in> set (price_alerts d)" "pa_id b = k"
        "pa_chat_id b = nj_chat_id r" "pa_status b \<noteq> A_Active" "nj_open r \<longrightarrow> pa_status b = A_Triggered" by auto
      have "\<not> nj_open r" if "?p b"
        using canceled_not_queued [OF inv ok b(1), of i chatID now "''price alert canceled''"] that r Some b(2)
        unfolding alert_queued_def sql_exists_iff by blast
      moreover have "?u b \<in> set ?a" using b(1) unfolding set_sql_update by blast
      ultimately show ?thesis
        using b u [of b] unfolding job_linked_def Some option.case by (intro bexI [of _ "?u b"]) auto
    qed (simp add: job_linked_def)
    moreover have "unique_on pc_alert_id (price_alert_crossings d)" using inv by (simp add: alerts_inv_def)
    ultimately have "alerts_inv d'"
      by (intro alerts_inv_alert_update [OF inv1 pa_tame_cancel, of d' ?p now]) (simp_all add: hit(4))
    then show ?thesis
      using jobs_inv_update [OF jobs nj_tame_cancel] by (simp add: hit(4))
  qed
  then show "alerts_inv d'" "jobs_inv (notification_seq d') (notification_jobs d')" by simp_all
qed

section \<open>Crossings\<close>

lemma insert_crossings_Cons [simp]:
  "insert_crossings price t (i # ids) cs =
     insert_crossings price t ids
       (if sql_exists (\<lambda>c. pc_alert_id c = i) cs then cs
        else cs @ [\<lparr>pc_alert_id = i, pc_price = price, pc_observed_at = t\<rparr>])"
  "insert_crossings price t [] cs = cs"
  by (simp_all add: insert_crossings_def)

text \<open>Every id gets a crossing; existing ones stay as they are.\<close>

lemma insert_crossings_unique:
  "unique_on pc_alert_id cs \<Longrightarrow> unique_on pc_alert_id (insert_crossings price t ids cs)"
proof (induction ids arbitrary: cs)
  case Nil
  then show ?case by simp
next
  case (Cons i ids)
  let ?new = "\<lparr>pc_alert_id = i, pc_price = price, pc_observed_at = t\<rparr>"
  have "\<not> sql_exists (\<lambda>c. pc_alert_id c = i) cs \<Longrightarrow> unique_on pc_alert_id (cs @ [?new])"
    using Cons.prems by (auto simp: sql_exists_iff)
  with Cons.IH [of cs] Cons.IH [of "cs @ [?new]"] Cons.prems show ?case by simp
qed

lemma insert_crossings_ids:
  "pc_alert_id ` set (insert_crossings price t ids cs) = pc_alert_id ` set cs \<union> set ids"
  by (induction ids arbitrary: cs) (auto simp: sql_exists_iff)

lemma insert_crossings_keeps: "set cs \<subseteq> set (insert_crossings price t ids cs)"
proof (induction ids arbitrary: cs)
  case Nil
  show ?case by simp
next
  case (Cons i ids)
  show ?case using Cons.IH [of cs] Cons.IH [of "cs @ [\<lparr>pc_alert_id = i, pc_price = price, pc_observed_at = t\<rparr>]"] by auto
qed

lemma alerts_inv_crossings:
  "alerts_inv d \<Longrightarrow> unique_on pc_alert_id cs \<Longrightarrow> alerts_inv (d\<lparr>price_alert_crossings := cs\<rparr>)"
  by (simp add: alerts_inv_def live_count_def alert_live_def)

lemma capture_inv:
  assumes "capturePriceAlertCrossings err dbNow symbol price startedAt storedAt d = Inr d'" "alerts_inv d"
  shows "alerts_inv d'"
proof -
  have u: "unique_on pc_alert_id (price_alert_crossings d)" using assms(2) by (simp add: alerts_inv_def)
  then show ?thesis
    using assms alerts_inv_crossings [OF assms(2) insert_crossings_unique [OF u]]
    by (auto simp: capturePriceAlertCrossings_def Let_def split: if_splits option.splits)
qed

lemma capture_jobs:
  "capturePriceAlertCrossings err dbNow symbol price startedAt storedAt d = Inr d' \<Longrightarrow>
     \<exists>cs. d' = d\<lparr>price_alert_crossings := cs\<rparr>"
  by (auto simp: capturePriceAlertCrossings_def Let_def split: if_splits option.splits)
    (rule exI [of _ "price_alert_crossings d"], simp)

lemma delete_stale_inv: "alerts_inv d \<Longrightarrow> alerts_inv (delete_stale_crossings d)"
  unfolding delete_stale_crossings_def
  by (rule alerts_inv_crossings) (simp_all add: alerts_inv_def unique_on_filter)

section \<open>Triggering\<close>

definition trigger_row :: "time \<Rightarrow> int \<Rightarrow> float64 \<Rightarrow> time \<Rightarrow> alert_row \<Rightarrow> db \<Rightarrow> notification_row" where
  "trigger_row now i price fetchedAt a d =
     new_notification (notification_seq d) now (pa_chat_id a) (alert_lang d a)
       (triggered_text (alert_lang d a) a price fetchedAt) fetchedAt now PriceAlert (Some i)"

definition trigger_db :: "time \<Rightarrow> int \<Rightarrow> float64 \<Rightarrow> time \<Rightarrow> alert_row \<Rightarrow> db \<Rightarrow> db" where
  "trigger_db now i price fetchedAt a d =
     d\<lparr>price_alerts := sql_update (\<lambda>a. pa_id a = i \<and> pa_status a = A_Active) (pa_set_triggered now price fetchedAt) (price_alerts d),
       notification_jobs := notification_jobs d @ [trigger_row now i price fetchedAt a d],
       notification_seq := notification_seq d + 1,
       price_alert_crossings := filter (\<lambda>c. pc_alert_id c \<noteq> i) (price_alert_crossings d)\<rparr>"

text \<open>An active alert has no notification yet, so the insert of its job cannot fail.\<close>

lemma active_no_job:
  assumes "alerts_inv d" "a \<in> set (price_alerts d)" "pa_status a = A_Active" "r \<in> set (notification_jobs d)"
  shows "nj_price_alert_id r \<noteq> Some (pa_id a)"
proof
  assume "nj_price_alert_id r = Some (pa_id a)"
  from job_linkedD [OF assms(1,4) this] obtain b where "b \<in> set (price_alerts d)" "pa_id b = pa_id a" "pa_status b \<noteq> A_Active"
    by blast
  with alert_unique [OF assms(1) _ assms(2)] assms(3) show False by auto
qed

lemma trigger_body_active:
  assumes inv: "alerts_inv d" and lock: "try_lock chat = Inr True"
    and a: "a \<in> set (price_alerts d)" "pa_id a = i" "pa_status a = A_Active"
  shows "trigger_body try_lock now i chat price fetchedAt d = Inr (True, trigger_db now i price fetchedAt a d)"
proof -
  have "unique_on pa_id (price_alerts d)" using inv by (simp add: alerts_inv_def)
  then have find: "find (\<lambda>a. pa_id a = i \<and> pa_status a = A_Active) (price_alerts d) = Some a"
    using a by (intro find_unique [of pa_id]) auto
  have "\<not> sql_exists (\<lambda>r'. nj_price_alert_id r' = Some i) (notification_jobs d)"
    using active_no_job [OF inv a(1,3)] a(2) by (auto simp: sql_exists_iff)
  moreover have "\<not> nj_active (new_notification s n c l t f m PriceAlert al)" for s n c l t f m al
    by (simp add: nj_active_def new_notification_def)
  ultimately show ?thesis
    by (simp add: trigger_body_def lock find insert_notification_def Let_def trigger_db_def trigger_row_def)
qed

lemma trigger_body_cases:
  assumes "trigger_body try_lock now i chat price fetchedAt d = Inr (b, d')" "alerts_inv d"
  shows "(\<not> b \<and> d' = d) \<or>
     (b \<and> (\<exists>a \<in> set (price_alerts d). pa_id a = i \<and> pa_status a = A_Active \<and> d' = trigger_db now i price fetchedAt a d))"
proof (cases "try_lock chat = Inr True \<and> (\<exists>a \<in> set (price_alerts d). pa_id a = i \<and> pa_status a = A_Active)")
  case True
  with trigger_body_active [OF assms(2)] assms(1) show ?thesis by fastforce
next
  case False
  then have "find (\<lambda>a. pa_id a = i \<and> pa_status a = A_Active) (price_alerts d) = None" if "try_lock chat = Inr True"
    using that by (auto simp: find_None_iff)
  with False assms(1) show ?thesis
    by (auto simp: trigger_body_def split: sum.splits bool.splits)
qed

lemma trigger_db_jobs_inv:
  assumes inv: "alerts_inv d" and jobs: "jobs_inv (notification_seq d) (notification_jobs d)"
    and a: "a \<in> set (price_alerts d)" "pa_id a = i" "pa_status a = A_Active"
  shows "jobs_inv (notification_seq (trigger_db now i price fetchedAt a d)) (notification_jobs (trigger_db now i price fetchedAt a d))"
  using active_no_job [OF inv a(1,3)] a(2)
  by (auto simp: trigger_db_def trigger_row_def new_notification_def nj_row_ok_def nj_active_def sql_exists_iff
      intro!: jobs_inv_snoc [OF jobs])

lemma pa_tame_trigger: "pa_tame p (pa_set_triggered now price fetchedAt)"
  by (simp add: pa_tame_def pa_set_triggered_def alert_checks_def)

lemma trigger_db_alerts_inv:
  assumes inv: "alerts_inv d" and a: "a \<in> set (price_alerts d)" "pa_id a = i" "pa_status a = A_Active"
  shows "alerts_inv (trigger_db now i price fetchedAt a d)" (is "alerts_inv ?d'")
proof (rule alerts_inv_alert_update [OF inv pa_tame_trigger])
  let ?p = "\<lambda>a. pa_id a = i \<and> pa_status a = A_Active"
  let ?u = "\<lambda>b. if ?p b then pa_set_triggered now price fetchedAt b else b"
  show alerts: "price_alerts ?d' = sql_update ?p (pa_set_triggered now price fetchedAt) (price_alerts d)"
    and "alert_seq ?d' = alert_seq d" by (simp_all add: trigger_db_def)
  show "unique_on pc_alert_id (price_alert_crossings ?d')"
    using inv by (simp add: trigger_db_def alerts_inv_def unique_on_filter)
  have u: "pa_id (?u b) = pa_id b" "pa_chat_id (?u b) = pa_chat_id b" "\<not> ?p b \<Longrightarrow> ?u b = b" for b
    by (auto simp: pa_set_triggered_def)
  have mem: "b \<in> set (price_alerts d) \<Longrightarrow> ?u b \<in> set (price_alerts ?d')" for b
    unfolding alerts set_sql_update by blast
  show "job_linked (price_alerts ?d') r" if "r \<in> set (notification_jobs ?d')" for r
  proof (cases "r \<in> set (notification_jobs d)")
    case True
    show ?thesis
    proof (cases "nj_price_alert_id r")
      case (Some k)
      from job_linkedD [OF inv True Some] obtain b where b: "b \<in> set (price_alerts d)" "pa_id b = k"
        "pa_chat_id b = nj_chat_id r" "pa_status b \<noteq> A_Active" "nj_open r \<longrightarrow> pa_status b = A_Triggered" by blast
      with mem [OF b(1)] u(3) [of b] show ?thesis
        unfolding job_linked_def Some option.case by (intro bexI [of _ "?u b"]) auto
    qed (simp add: job_linked_def)
  next
    case False
    with that have "r = trigger_row now i price fetchedAt a d" by (auto simp: trigger_db_def)
    with mem [OF a(1)] a(2,3) show ?thesis
      by (auto simp: job_linked_def trigger_row_def new_notification_def pa_set_triggered_def intro!: bexI [of _ "?u a"])
  qed
  show "alert_live d b" if b: "b \<in> set (price_alerts d)" and live: "alert_live ?d' (?u b)" for b
  proof (cases "pa_id b = i")
    case True
    with alert_unique [OF inv b a(1)] a show ?thesis by (simp add: alert_live_def)
  next
    case False
    with live show ?thesis
      by (auto simp: alert_live_def alert_queued_def sql_exists_iff trigger_db_def trigger_row_def new_notification_def)
  qed
qed

end
