(* ===== verification/Reply_Facts.thy ===== *)
theory Reply_Facts
  imports Reply_Outbox Notification_Facts
begin

text \<open>
  Facts about the reply outbox: it follows the lease contract, every operation keeps the table
  invariant, and the replies of a chat are delivered one at a time in the order of their ids.
\<close>

section \<open>Claims follow the lease contract\<close>

interpretation rq: lease_table tr_id tr_attempts tr_claimable tr_claim TelegramReplyClaimWindow
  tr_job rj_id rj_attempts tr_owned
  by unfold_locales (auto simp: tr_claim_def tr_claimable_def tr_open_def tr_job_def tr_owned_def)

interpretation rq_sent: lease_finalizer tr_id tr_attempts tr_claimable tr_claim TelegramReplyClaimWindow
  tr_job rj_id rj_attempts tr_owned "tr_set_sent now" for now
  by unfold_locales (auto simp: tr_set_sent_def tr_owned_def)

interpretation rq_retry: lease_finalizer tr_id tr_attempts tr_claimable tr_claim TelegramReplyClaimWindow
  tr_job rj_id rj_attempts tr_owned "tr_set_retry now delay err" for now delay err
  by unfold_locales (auto simp: tr_set_retry_def tr_owned_def)

interpretation rq_failed: lease_finalizer tr_id tr_attempts tr_claimable tr_claim TelegramReplyClaimWindow
  tr_job rj_id rj_attempts tr_owned "tr_set_failed now err" for now err
  by unfold_locales (auto simp: tr_set_failed_def tr_owned_def)

section \<open>The table invariant\<close>

definition tr_row_ok :: "reply_row \<Rightarrow> bool" where
  "tr_row_ok r \<longleftrightarrow>
     0 \<le> tr_attempts r \<and> (tr_status r = Sending \<longrightarrow> 1 \<le> tr_attempts r) \<and> tr_status r \<noteq> Canceled \<and>
     (tr_claim_token r \<noteq> None \<longleftrightarrow> tr_status r = Sending) \<and>
     (tr_claimed_until r \<noteq> None \<longleftrightarrow> tr_status r = Sending) \<and>
     (tr_status r = Sent \<longrightarrow> tr_sent_at r \<noteq> None) \<and>
     (tr_status r = Failed \<longrightarrow> tr_failed_at r \<noteq> None)"

text \<open>
  The ids are fresh and unique, an update queues a sequence number once, and a reply in flight is the
  earliest open reply of its chat.
\<close>

definition replies_inv :: "int \<Rightarrow> reply_row list \<Rightarrow> bool" where
  "replies_inv seq rows \<longleftrightarrow>
     unique_on tr_id rows \<and> (\<forall>r \<in> set rows. tr_id r < seq) \<and>
     unique_on (\<lambda>r. (tr_source_update_id r, tr_sequence_no r)) rows \<and>
     (\<forall>r \<in> set rows. tr_row_ok r) \<and>
     (\<forall>r \<in> set rows. tr_status r = Sending \<longrightarrow> tr_head rows r)"

lemma tr_head_iff:
  "tr_head rows r \<longleftrightarrow> (\<forall>e \<in> set rows. tr_chat_id e = tr_chat_id r \<longrightarrow> tr_open e \<longrightarrow> tr_id r \<le> tr_id e)"
  by (auto simp: tr_head_def sql_exists_iff not_less)

text \<open>At most one reply of a chat is in flight.\<close>

lemma one_in_flight:
  assumes "replies_inv seq rows" "r \<in> set rows" "r' \<in> set rows"
    "tr_status r = Sending" "tr_status r' = Sending" "tr_chat_id r = tr_chat_id r'"
  shows "r = r'"
proof -
  from assms have "tr_head rows r" "tr_head rows r'" by (auto simp: replies_inv_def)
  with assms have "tr_id r = tr_id r'"
    by (intro order.antisym) (auto simp: tr_head_iff tr_open_def)
  with assms show ?thesis
    by (auto simp: replies_inv_def dest: unique_onD)
qed

text \<open>
  An update that keeps the identity of the rows, opens none and puts only heads in flight keeps the
  invariant.
\<close>

definition tr_tame :: "reply_row list \<Rightarrow> (reply_row \<Rightarrow> bool) \<Rightarrow> (reply_row \<Rightarrow> reply_row) \<Rightarrow> bool" where
  "tr_tame rows p f \<longleftrightarrow>
     (\<forall>r \<in> set rows. p r \<longrightarrow> tr_row_ok r \<longrightarrow>
        tr_id (f r) = tr_id r \<and> tr_chat_id (f r) = tr_chat_id r \<and>
        tr_source_update_id (f r) = tr_source_update_id r \<and> tr_sequence_no (f r) = tr_sequence_no r \<and>
        (tr_open (f r) \<longrightarrow> tr_open r) \<and> tr_row_ok (f r) \<and>
        (tr_status (f r) = Sending \<longrightarrow> tr_status r = Sending \<or> tr_head rows r))"

lemma replies_inv_update:
  assumes inv: "replies_inv seq rows" and tame: "tr_tame rows p f"
  shows "replies_inv seq (sql_update p f rows)"
proof -
  let ?u = "\<lambda>r. if p r then f r else r"
  have t: "tr_id (?u r) = tr_id r \<and> tr_chat_id (?u r) = tr_chat_id r \<and>
      tr_source_update_id (?u r) = tr_source_update_id r \<and> tr_sequence_no (?u r) = tr_sequence_no r \<and>
      (tr_open (?u r) \<longrightarrow> tr_open r) \<and> tr_row_ok (?u r) \<and>
      (tr_status (?u r) = Sending \<longrightarrow> tr_head rows r)" if "r \<in> set rows" for r
    using inv tame that by (auto simp: replies_inv_def tr_tame_def)
  have head: "tr_head (sql_update p f rows) (?u r)" if "r \<in> set rows" "tr_status (?u r) = Sending" for r
  proof -
    have "tr_id (?u r) \<le> tr_id (?u e)" if "e \<in> set rows" "tr_chat_id (?u e) = tr_chat_id (?u r)" "tr_open (?u e)" for e
      using t [OF \<open>r \<in> set rows\<close>] t [OF that(1)] that \<open>tr_status (?u r) = Sending\<close>
      by (simp add: tr_head_iff)
    then show ?thesis unfolding tr_head_iff set_sql_update by blast
  qed
  have "unique_on tr_id (sql_update p f rows)"
    using inv tame by (intro unique_on_update) (auto simp: replies_inv_def tr_tame_def)
  moreover have "unique_on (\<lambda>r. (tr_source_update_id r, tr_sequence_no r)) (sql_update p f rows)"
    using inv tame by (intro unique_on_update) (auto simp: replies_inv_def tr_tame_def)
  moreover have "\<forall>r \<in> set (sql_update p f rows). tr_id r < seq \<and> tr_row_ok r"
    using inv tame by (auto simp: replies_inv_def tr_tame_def set_sql_update)
  moreover have "\<forall>r \<in> set (sql_update p f rows). tr_status r = Sending \<longrightarrow> tr_head (sql_update p f rows) r"
    using head unfolding set_sql_update by blast
  ultimately show ?thesis by (simp add: replies_inv_def)
qed

lemma tr_tame_claim:
  "tr_tame rows (\<lambda>r. tr_id r = cid \<and> tr_claimable now r \<and> tr_head rows r) (tr_claim now tok)"
  by (auto simp: tr_tame_def tr_claim_def tr_row_ok_def tr_claimable_def tr_open_def)

lemma tr_tame_finish:
  "tr_tame rows (tr_owned job) (tr_set_sent now)"
  "tr_tame rows (tr_owned job) (tr_set_retry now delay err)"
  "tr_tame rows (tr_owned job) (tr_set_failed now err)"
  by (auto simp: tr_tame_def tr_set_sent_def tr_set_retry_def tr_set_failed_def tr_row_ok_def
      tr_owned_def tr_open_def)

text \<open>Deleting rows (retention, the cascade of an expired update) keeps it as well.\<close>

lemma replies_inv_filter: "replies_inv seq rows \<Longrightarrow> replies_inv seq (filter q rows)"
  by (auto simp: replies_inv_def unique_on_filter tr_head_iff)

lemma replies_inv_snoc:
  assumes "replies_inv seq rows" "tr_id r = seq" "tr_row_ok r" "tr_status r \<noteq> Sending"
    and "\<And>r'. r' \<in> set rows \<Longrightarrow> tr_source_update_id r' = tr_source_update_id r \<Longrightarrow> tr_sequence_no r' \<noteq> tr_sequence_no r"
  shows "replies_inv (seq + 1) (rows @ [r])"
  using assms by (fastforce simp: replies_inv_def tr_head_iff image_iff)

section \<open>Claiming and finalizing\<close>

lemma claim_reply_loop_cases:
  assumes "claim_reply_loop try_lock now tok cs d = Inr (res, d')"
  shows "(res = None \<and> d' = d) \<or>
     (\<exists>cid chat r. (cid, chat) \<in> set cs \<and> try_lock chat = Inr True \<and>
        r \<in> set (telegram_replies d) \<and> tr_id r = cid \<and> tr_claimable now r \<and> tr_head (telegram_replies d) r \<and>
        res = Some (tr_job (tr_claim now tok r)) \<and>
        d' = d\<lparr>telegram_replies :=
                 sql_update (\<lambda>r. tr_id r = cid \<and> tr_claimable now r \<and> tr_head (telegram_replies d) r)
                   (tr_claim now tok) (telegram_replies d)\<rparr>)"
  using assms
proof (induction cs)
  case Nil
  then show ?case by simp
next
  case (Cons c cs)
  obtain cid chat where c: "c = (cid, chat)" by (cases c)
  let ?p = "\<lambda>r. tr_id r = cid \<and> tr_claimable now r \<and> tr_head (telegram_replies d) r"
  show ?case
  proof (cases "claim_reply_loop try_lock now tok cs d = Inr (res, d')")
    case True
    from Cons.IH [OF this] show ?thesis by (rule disjE) auto
  next
    case False
    with Cons.prems c have lock: "try_lock chat = Inr True"
      by (auto split: sum.splits bool.splits)
    with Cons.prems c False obtain r where found: "find ?p (telegram_replies d) = Some r"
      by (cases "find ?p (telegram_replies d)") simp_all
    then have r: "r \<in> set (telegram_replies d)" "?p r" unfolding find_Some_iff by auto
    from Cons.prems c lock found have "res = Some (tr_job (tr_claim now tok r))"
      "d' = d\<lparr>telegram_replies := sql_update ?p (tr_claim now tok) (telegram_replies d)\<rparr>"
      by simp_all
    with r lock c show ?thesis by (intro disjI2 exI [of _ cid] exI [of _ chat] exI [of _ r]) simp
  qed
qed

lemma claim_reply_loop_inv:
  assumes "claim_reply_loop try_lock now tok cs d = Inr (res, d')"
    "replies_inv (reply_seq d) (telegram_replies d)"
  shows "replies_inv (reply_seq d') (telegram_replies d')"
  using claim_reply_loop_cases [OF assms(1)] assms(2) replies_inv_update tr_tame_claim by auto

lemma finish_reply_cases:
  "finish_reply job f d = Inr (u, d') \<longleftrightarrow>
     0 < affected (tr_owned job) (telegram_replies d) \<and>
     d' = d\<lparr>telegram_replies := sql_update (tr_owned job) f (telegram_replies d)\<rparr>"
  by (cases "affected (tr_owned job) (telegram_replies d)")
    (auto simp: finish_reply_def ensureCurrentJobClaimUpdated_def)

lemma finish_reply_lost:
  "finish_reply job f d = Inl e \<longleftrightarrow>
     affected (tr_owned job) (telegram_replies d) = 0 \<and> e = ErrJobOwnershipLost"
  by (auto simp: finish_reply_def ensureCurrentJobClaimUpdated_def)

lemma finish_reply_inv:
  assumes "finish_reply job f d = Inr (u, d')" "tr_tame (telegram_replies d) (tr_owned job) f"
    "replies_inv (reply_seq d) (telegram_replies d)"
  shows "replies_inv (reply_seq d') (telegram_replies d')"
  using assms replies_inv_update by (auto simp: finish_reply_cases)

section \<open>Delivery\<close>

lemma deferTelegramReply_calls [simp]: "calls (deferTelegramReply token env job e w) = calls w"
  by (simp add: deferTelegramReply_def)

lemma reply_send_failed_calls [simp]: "calls (reply_send_failed token env job e w) = calls w"
  by (simp add: reply_send_failed_def Let_def)

lemma reply_send_confirmed_calls [simp]: "calls (reply_send_confirmed env job w) = calls w"
proof -
  have "calls (snd (reply_sent_write env job n w)) = calls w" for n w
    by (simp add: reply_sent_write_def case_prod_unfold Let_def)
  then have "calls (snd (finalize p fe (reply_sent_write env job) w)) = calls w" for p fe
    using finalize_invariant [of "\<lambda>w'. calls w' = calls w" "reply_sent_write env job" w p fe] by simp
  then show ?thesis
    by (simp add: reply_send_confirmed_def Let_def case_prod_unfold)
qed

text \<open>The one call a reply makes, when its claim is current and its row decodes.\<close>

definition reply_call :: "reply_job \<Rightarrow> tg_call list" where
  "reply_call job =
     (if rj_operation job = telegramReplySendMessage
      then [SendMessage (rj_chat_id job) (rj_text job) (rj_markup job)]
      else if rj_operation job = telegramReplyEditMessage
      then [EditMessage (rj_chat_id job) (rj_message_id job) (rj_text job) (rj_markup job)]
      else [])"

lemma sendTelegramReply_calls:
  "calls (snd (sendTelegramReply decode_err answer job w)) =
     (if rj_markup job \<noteq> None \<and> decode_err \<noteq> None then calls w else calls w @ reply_call job)"
  by (auto simp: sendTelegramReply_def reply_call_def split: option.split)

lemma processTelegramReply_calls:
  "calls (processTelegramReply token env decode_err job w) =
     (if de_lock_err env = None \<and>
         ensureTelegramReplyClaimCurrent (de_claim_err env) (de_now env 2) job (de_others env 2 (wdb w)) = None \<and>
         (rj_markup job = None \<or> decode_err = None)
      then calls w @ reply_call job else calls w)"
  using sendTelegramReply_calls [of decode_err "de_send env" job "others env 2 w"]
  by (auto simp: processTelegramReply_def Let_def case_prod_unfold split: option.split sum.split)

end
