(* ===== verification/Handlers.thy ===== *)
theory Handlers
  imports Mutation_Order Alert_Facts Reply_Facts
begin

text \<open>
  The handlers of a Telegram update (\<^verbatim>\<open>internal/app/telegram_handlers.go\<close>,
  \<^verbatim>\<open>internal/app/price_alert_handlers.go\<close>) and the keyboards they show
  (\<^verbatim>\<open>internal/telegram/catalog.go\<close>, \<^verbatim>\<open>internal/telegram/alerts.go\<close>).

  A handler runs inside the inbox transaction: it changes the database and the reply collector and
  returns an error or nothing, \<open>go_error option \<times> handler_state\<close>. A nil pointer that the code
  dereferences is a panic, which the caller recovers into the error \<open>nil_panic\<close>.
\<close>

section \<open>Keyboards\<close>

definition data_button :: "msg \<Rightarrow> string \<Rightarrow> button" where
  "data_button txt data = \<lparr>btn_text = txt, btn_data = data\<rparr>"

definition IntervalKeyboard :: "string \<Rightarrow> keyboard" where
  "IntervalKeyboard language =
     (let minutes = Text language ''unit_m''; hours = Text language ''unit_h'' in
      [[data_button (Cat (Lit ''1 '') minutes) ''int_1'', data_button (Cat (Lit ''5 '') minutes) ''int_5'',
        data_button (Cat (Lit ''10 '') minutes) ''int_10''],
       [data_button (Cat (Lit ''15 '') minutes) ''int_15'', data_button (Cat (Lit ''30 '') minutes) ''int_30'',
        data_button (Cat (Lit ''1 '') hours) ''int_60''],
       [data_button (Cat (Lit ''3 '') hours) ''int_180'', data_button (Cat (Lit ''6 '') hours) ''int_360'',
        data_button (Cat (Lit ''12 '') hours) ''int_720'']])"

definition flag :: "nat list \<Rightarrow> string" where
  "flag bs = map byte bs"

definition LanguageKeyboard :: keyboard where
  "LanguageKeyboard =
     [[data_button (Lit (flag [240, 159, 135, 186, 240, 159, 135, 166] @ '' UA'')) ''setlang_ua'',
       data_button (Lit (flag [240, 159, 135, 186, 240, 159, 135, 184] @ '' EN'')) ''setlang_en'',
       data_button (Lit (flag [240, 159, 135, 183, 240, 159, 135, 186] @ '' RU'')) ''setlang_ru'']]"

definition AlertsKeyboard :: "string \<Rightarrow> keyboard" where
  "AlertsKeyboard lang =
     [[data_button (Lit ''BTC'') ''alerts_coin_BTC'', data_button (Lit ''ETH'') ''alerts_coin_ETH''],
      [data_button (Lit ''SOL'') ''alerts_coin_SOL'', data_button (Lit ''BNB'') ''alerts_coin_BNB''],
      [data_button (AlertText lang ''list'') ''alerts_list'']]"

definition AlertPercentKeyboard :: "string \<Rightarrow> string \<Rightarrow> keyboard" where
  "AlertPercentKeyboard lang coin =
     map (\<lambda>percent. [data_button (Sprintf (AlertText lang ''up'') [AStr percent]) (''alerts_add_'' @ coin @ ''_+'' @ percent),
                     data_button (Sprintf (AlertText lang ''down'') [AStr percent]) (''alerts_add_'' @ coin @ ''_-'' @ percent)])
       [''5'', ''10'', ''20'']
     @ [[data_button (AlertText lang ''back'') ''alerts_menu'']]"

section \<open>State and surroundings\<close>

record handler_env =
  he_alerts_enabled :: bool
  he_cache :: price_cache
  he_clock :: time
  he_now :: time
  he_db_now :: time
  he_created_at :: time
  he_err :: "string \<Rightarrow> go_error option"

record handler_state =
  hs_db :: db
  hs_col :: collector

type_synonym handler_result = "go_error option \<times> handler_state"

definition reply :: "int \<Rightarrow> msg \<Rightarrow> markup_arg \<Rightarrow> handler_state \<Rightarrow> handler_state" where
  "reply chatID txt markup h = h\<lparr>hs_col := sendSafeMessage chatID txt markup (hs_col h)\<rparr>"

definition ack :: "string \<Rightarrow> msg \<Rightarrow> handler_state \<Rightarrow> handler_state" where
  "ack callbackID txt h = h\<lparr>hs_col := answerCallback callbackID txt (hs_col h)\<rparr>"

definition nil_panic :: go_error where
  "nil_panic =
     PlainError (''telegram update processing panic: runtime error: '' @
                 ''invalid memory address or nil pointer dereference'')"

text \<open>An error of the query and an unknown code both mean Ukrainian.\<close>

definition getLangWithDB :: "go_error option \<Rightarrow> int \<Rightarrow> db \<Rightarrow> string" where
  "getLangWithDB err chatID d =
     (case run_read err (Option.bind (find_subscriber chatID d) language_code) of
        Inr (Some lang) \<Rightarrow> if AllowedLanguage lang then lang else ''ua''
      | _ \<Rightarrow> ''ua'')"

section \<open>Subscribers\<close>

text \<open>\<^verbatim>\<open>INSERT INTO subscribers ... ON CONFLICT (chat_id) DO UPDATE\<close>.\<close>

definition upsert_subscriber :: "subscriber \<Rightarrow> (subscriber \<Rightarrow> subscriber) \<Rightarrow> subscriber list \<Rightarrow> subscriber list" where
  "upsert_subscriber new f subs =
     (if sql_exists (\<lambda>s. sub_chat_id s = sub_chat_id new) subs
      then sql_update (\<lambda>s. sub_chat_id s = sub_chat_id new) f subs
      else subs @ [new])"

definition new_subscriber :: "time \<Rightarrow> int \<Rightarrow> string \<Rightarrow> bool \<Rightarrow> subscriber" where
  "new_subscriber now chatID lang subscribed =
     \<lparr>sub_chat_id = chatID, interval_minutes = Some 60, last_sent = Some (now - 2 * minute),
      language_code = Some lang, is_subscribed = subscribed, cron_claimed_until = None,
      delivery_suspended_until = None\<rparr>"

definition set_language :: "time \<Rightarrow> int \<Rightarrow> string \<Rightarrow> db \<Rightarrow> db" where
  "set_language now chatID lang d =
     d\<lparr>subscribers := upsert_subscriber (new_subscriber now chatID lang False)
          (\<lambda>s. s\<lparr>language_code := Some lang\<rparr>) (subscribers d)\<rparr>"

definition activate_subscription :: "time \<Rightarrow> int \<Rightarrow> string \<Rightarrow> db \<Rightarrow> db" where
  "activate_subscription now chatID lang d =
     (let new = new_subscriber now chatID lang True in
      d\<lparr>subscribers := upsert_subscriber new
          (\<lambda>s. s\<lparr>interval_minutes := (case interval_minutes s of None \<Rightarrow> interval_minutes new | m \<Rightarrow> m),
                 last_sent := (case last_sent s of None \<Rightarrow> last_sent new | t \<Rightarrow> t),
                 language_code := Some lang, is_subscribed := True, delivery_suspended_until := None\<rparr>)
          (subscribers d)\<rparr>)"

definition unsubscribe :: "(string \<Rightarrow> go_error option) \<Rightarrow> time \<Rightarrow> int \<Rightarrow> db \<Rightarrow> go_error + db" where
  "unsubscribe err now chatID d =
     (case err ''unsubscribe'' of
        Some e \<Rightarrow> Inl e
      | None \<Rightarrow>
          (let d1 = d\<lparr>subscribers :=
                       sql_update (\<lambda>s. sub_chat_id s = chatID)
                         (\<lambda>s. s\<lparr>is_subscribed := False, cron_claimed_until := None,
                                delivery_suspended_until := None\<rparr>) (subscribers d)\<rparr>
           in case err ''cancel_jobs'' of
                Some e \<Rightarrow> Inl e
              | None \<Rightarrow>
                  Inr (d1\<lparr>notification_jobs :=
                         sql_update (\<lambda>r. nj_chat_id r = chatID \<and> nj_kind r = Scheduled \<and> nj_open r)
                           (nj_set_canceled now ''subscription canceled'') (notification_jobs d1)\<rparr>)))"

section \<open>Price alert handlers\<close>

definition showPriceAlertMenu :: "handler_env \<Rightarrow> int \<Rightarrow> string \<Rightarrow> handler_state \<Rightarrow> handler_state" where
  "showPriceAlertMenu env chatID lang h =
     reply chatID (AlertText lang (if he_alerts_enabled env then ''menu'' else ''disabled''))
       (MKeyboard (AlertsKeyboard lang)) h"

definition created_text :: "string \<Rightarrow> alert_row \<Rightarrow> string \<Rightarrow> float64 \<Rightarrow> msg" where
  "created_text lang alert symbol percent =
     Sprintf (AlertText lang ''created'')
       [AInt (pa_id alert), AStr (TrimSuffix symbol ''USDT''), AFloat percent, AFloat (pa_base_price alert),
        AFloat (pa_target_price alert), ATime ''02.01.2006 15:04:05'' (pa_base_price_at alert)]"

definition addPriceAlertAndReply ::
  "handler_env \<Rightarrow> int \<Rightarrow> int \<Rightarrow> string \<Rightarrow> string \<Rightarrow> string \<Rightarrow> handler_state \<Rightarrow> handler_result" where
  "addPriceAlertAndReply env updateID chatID lang rawSymbol rawPercent h =
     (if \<not> he_alerts_enabled env then (None, showPriceAlertMenu env chatID lang h)
      else case (alertSymbol rawSymbol, parseAlertPercent rawPercent) of
             (Some symbol, Inr percent) \<Rightarrow>
               (case createPriceAlert (he_err env) (he_cache env) (he_db_now env) (he_created_at env) (he_now env)
                       updateID chatID lang symbol percent (hs_db h) of
                  Inl e \<Rightarrow> (Some e, h)
                | Inr (Inl problem, d) \<Rightarrow> (None, reply chatID (AlertText lang problem) MNil (h\<lparr>hs_db := d\<rparr>))
                | Inr (Inr alert, d) \<Rightarrow>
                    (None, reply chatID (created_text lang alert symbol percent) (MKeyboard (AlertsKeyboard lang))
                             (h\<lparr>hs_db := d\<rparr>)))
           | _ \<Rightarrow> (None, reply chatID (AlertText lang ''invalid'') MNil h))"

definition alert_status_key :: "alert_status \<Rightarrow> string" where
  "alert_status_key st = (case st of A_Active \<Rightarrow> ''active'' | A_Triggered \<Rightarrow> ''triggered'' | A_Canceled \<Rightarrow> ''canceled'')"

definition job_status_key :: "job_status \<Rightarrow> string" where
  "job_status_key st =
     (case st of Pending \<Rightarrow> ''pending'' | Sending \<Rightarrow> ''sending'' | Sent \<Rightarrow> ''sent''
      | Failed \<Rightarrow> ''failed'' | Canceled \<Rightarrow> ''canceled'')"

definition alert_state_key :: "alert_row \<times> job_status option \<Rightarrow> string" where
  "alert_state_key ad =
     (let state = (case snd ad of None \<Rightarrow> alert_status_key (pa_status (fst ad)) | Some st \<Rightarrow> job_status_key st)
      in if state = ''canceled'' then ''canceled_state'' else state)"

definition alert_line :: "string \<Rightarrow> alert_row \<times> job_status option \<Rightarrow> msg" where
  "alert_line lang ad =
     Sprintf (Lit (''#%d %s %+.2f%%: %.8g '' @ map byte [226, 134, 146] @ '' %.8g USDT (%s)''))
       [AInt (pa_id (fst ad)), AStr (TrimSuffix (pa_symbol (fst ad)) ''USDT''),
        AFloat (percent_float (pa_change_percent (fst ad))), AFloat (pa_base_price (fst ad)),
        AFloat (pa_target_price (fst ad)), AMsg (AlertText lang (alert_state_key ad))]"

definition alert_cancelable :: "alert_row \<times> job_status option \<Rightarrow> bool" where
  "alert_cancelable ad \<longleftrightarrow> pa_status (fst ad) = A_Active \<or> snd ad = Some Pending \<or> snd ad = Some Sending"

definition alert_cancel_row :: "string \<Rightarrow> alert_row \<times> job_status option \<Rightarrow> button list" where
  "alert_cancel_row lang ad =
     [data_button (Sprintf (AlertText lang ''cancel'') [AInt (pa_id (fst ad))])
        (''alerts_del_'' @ FormatInt (pa_id (fst ad)))]"

definition showPriceAlertList :: "handler_env \<Rightarrow> int \<Rightarrow> string \<Rightarrow> handler_state \<Rightarrow> handler_result" where
  "showPriceAlertList env chatID lang h =
     (case listPriceAlerts (he_err env ''list_alerts'') chatID (hs_db h) of
        Inl e \<Rightarrow> (Some e, h)
      | Inr alerts \<Rightarrow>
          if alerts = [] then (None, reply chatID (AlertText lang ''empty'') (MKeyboard (AlertsKeyboard lang)) h)
          else
            (None, reply chatID
                     (join_lines (Cat (Lit ''*'') (Cat (AlertText lang ''list'') (Lit ''*'')) # map (alert_line lang) alerts))
                     (MKeyboard (map (alert_cancel_row lang) (filter alert_cancelable alerts)
                                 @ [[data_button (AlertText lang ''back'') ''alerts_menu'']])) h))"

definition handlePriceAlertCommand ::
  "handler_env \<Rightarrow> int \<Rightarrow> int \<Rightarrow> string \<Rightarrow> string \<Rightarrow> handler_state \<Rightarrow> handler_result" where
  "handlePriceAlertCommand env updateID chatID arguments lang h =
     (let args = Fields arguments in
      if args = [] then (None, showPriceAlertMenu env chatID lang h)
      else if args = [''list''] then showPriceAlertList env chatID lang h
      else if length args \<noteq> 2 then (None, reply chatID (AlertText lang ''invalid'') MNil h)
      else addPriceAlertAndReply env updateID chatID lang (args ! 0) (args ! 1) h)"

text \<open>\<^verbatim>\<open>alerts_del_\<close>: cancel an alert of this chat.\<close>

definition handle_alert_delete ::
  "handler_env \<Rightarrow> int \<Rightarrow> string \<Rightarrow> string \<Rightarrow> handler_state \<Rightarrow> handler_result" where
  "handle_alert_delete env chatID data lang h =
     (let not_found = (None, reply chatID (AlertText lang ''not_found'') MNil h) in
      case Atoi (TrimPrefix data ''alerts_del_'') of
        None \<Rightarrow> not_found
      | Some i \<Rightarrow>
          if i \<le> 0 then not_found
          else case cancelPriceAlert (he_err env) (he_now env) chatID i (hs_db h) of
            Inl e \<Rightarrow> (Some e, h)
          | Inr (canceled, d) \<Rightarrow>
              (None, reply chatID (AlertText lang (if canceled then ''canceled'' else ''not_found'')) MNil
                       (h\<lparr>hs_db := d\<rparr>)))"

definition handle_alert_coin :: "int \<Rightarrow> string \<Rightarrow> string \<Rightarrow> handler_state \<Rightarrow> handler_state" where
  "handle_alert_coin chatID data lang h =
     (case alertSymbol (TrimPrefix data ''alerts_coin_'') of
        None \<Rightarrow> reply chatID (AlertText lang ''invalid'') MNil h
      | Some symbol \<Rightarrow>
          (let coin = TrimSuffix symbol ''USDT'' in
           reply chatID (Sprintf (AlertText lang ''coin'') [AStr coin]) (MKeyboard (AlertPercentKeyboard lang coin)) h))"

definition handlePriceAlertCallback ::
  "handler_env \<Rightarrow> int \<Rightarrow> int \<Rightarrow> string \<Rightarrow> string \<Rightarrow> string \<Rightarrow> handler_state \<Rightarrow> handler_result" where
  "handlePriceAlertCallback env updateID chatID callbackID data lang h =
     (let (e, h') =
        (if data = ''alerts_menu'' then (None, showPriceAlertMenu env chatID lang h)
         else if data = ''alerts_list'' then showPriceAlertList env chatID lang h
         else if HasPrefix data ''alerts_del_'' then handle_alert_delete env chatID data lang h
         else if \<not> he_alerts_enabled env then (None, showPriceAlertMenu env chatID lang h)
         else if HasPrefix data ''alerts_coin_'' then (None, handle_alert_coin chatID data lang h)
         else if HasPrefix data ''alerts_add_'' then
           (case Split (TrimPrefix data ''alerts_add_'') CHR ''_'' of
              [part0, part1] \<Rightarrow> addPriceAlertAndReply env updateID chatID lang part0 part1 h
            | _ \<Rightarrow> (None, reply chatID (AlertText lang ''invalid'') MNil h))
         else (None, reply chatID (AlertText lang ''invalid'') MNil h))
      in (e, ack callbackID (Lit []) h'))"

section \<open>Callback queries\<close>

definition handle_setlang :: "handler_env \<Rightarrow> int \<Rightarrow> string \<Rightarrow> string \<Rightarrow> handler_state \<Rightarrow> handler_result" where
  "handle_setlang env chatID callbackID data h =
     (let newLang = drop 8 data in
      if \<not> AllowedLanguage newLang then (None, ack callbackID (Lit ''Invalid Language'') h)
      else case he_err env ''set_language'' of
        Some e \<Rightarrow> (Some e, reply chatID (Text ''ua'' ''db_err'') MNil (ack callbackID (Lit ''Error'') h))
      | None \<Rightarrow>
          (None, reply chatID (Text newLang ''lang_fixed'') MNil
                   (ack callbackID (Lit []) (h\<lparr>hs_db := set_language (he_now env) chatID newLang (hs_db h)\<rparr>))))"

definition set_interval :: "time \<Rightarrow> int \<Rightarrow> int \<Rightarrow> db \<Rightarrow> nat \<times> db" where
  "set_interval now chatID minutes d =
     (let p = (\<lambda>s. sub_chat_id s = chatID \<and> is_subscribed s) in
      (affected p (subscribers d),
       d\<lparr>subscribers := sql_update p (\<lambda>s. s\<lparr>interval_minutes := Some minutes, last_sent := Some now\<rparr>) (subscribers d)\<rparr>))"

definition interval_text :: "string \<Rightarrow> int \<Rightarrow> msg" where
  "interval_text lang minutes =
     (if minutes \<ge> 60
      then Sprintf (Text lang ''interval_set'') [AInt (go_div minutes 60), AMsg (Text lang ''unit_h'')]
      else Sprintf (Text lang ''interval_set'') [AInt minutes, AMsg (Text lang ''unit_m'')])"

definition handle_interval ::
  "handler_env \<Rightarrow> int \<Rightarrow> string \<Rightarrow> string \<Rightarrow> string \<Rightarrow> handler_state \<Rightarrow> handler_result" where
  "handle_interval env chatID callbackID data lang h =
     (case Atoi (drop 4 data) of
        None \<Rightarrow> (None, ack callbackID (Lit ''Invalid Range'') h)
      | Some minutes \<Rightarrow>
          if minutes < 1 \<or> minutes > 1440 then (None, ack callbackID (Lit ''Invalid Range'') h)
          else case he_err env ''update_interval'' of
            Some e \<Rightarrow> (Some e, reply chatID (Text lang ''db_err'') MNil (ack callbackID (Lit ''Error'') h))
          | None \<Rightarrow>
              (let (affectedRows, d) = set_interval (he_now env) chatID minutes (hs_db h) in
               if affectedRows = 0
               then (None, reply chatID (Text lang ''subscribe_first'') MNil
                             (ack callbackID (Text lang ''subscribe_first'') (h\<lparr>hs_db := d\<rparr>)))
               else (None, reply chatID (interval_text lang minutes) MNil
                             (ack callbackID (Lit []) (h\<lparr>hs_db := d\<rparr>)))))"

definition handle_refresh ::
  "handler_env \<Rightarrow> int \<Rightarrow> string \<Rightarrow> int \<Rightarrow> string \<Rightarrow> handler_state \<Rightarrow> handler_state" where
  "handle_refresh env chatID callbackID messageID lang h =
     (let prices = getFormattedPricesFromCacheAt lang (he_clock env) (he_cache env);
          txt = Sprintf (Cat (Text lang ''price_hdr'') (Lit ([CHR 0x0A, CHR 0x0A] @ ''%s'' @ [CHR 0x0A, CHR 0x0A] @ ''_%s_'')))
                  [AMsg prices, AMsg (Text lang ''dynamics'')]
      in ack callbackID (Lit [])
           (h\<lparr>hs_col := editSafeMessage chatID messageID txt (MKeyboardPtr (Some (RefreshKeyboard lang))) (hs_col h)\<rparr>))"

definition handle_callback :: "handler_env \<Rightarrow> int \<Rightarrow> tg_callback \<Rightarrow> handler_state \<Rightarrow> handler_result" where
  "handle_callback env updateID query h =
     (case cb_message query of
        None \<Rightarrow> (None, h)
      | Some m \<Rightarrow>
     (case m_chat m of
        None \<Rightarrow> (Some nil_panic, h)
      | Some chatID \<Rightarrow>
          (let data = cb_data query; callbackID = cb_id query in
           if HasPrefix data ''setlang_'' then handle_setlang env chatID callbackID data h
           else
             (let lang = getLangWithDB (he_err env ''get_lang'') chatID (hs_db h) in
              if HasPrefix data ''alerts_'' then handlePriceAlertCallback env updateID chatID callbackID data lang h
              else if HasPrefix data ''int_'' then handle_interval env chatID callbackID data lang h
              else if data = ''refresh_price'' then (None, handle_refresh env chatID callbackID (m_id m) lang h)
              else (None, h)))))"

section \<open>Commands\<close>

definition handle_subscribe :: "handler_env \<Rightarrow> int \<Rightarrow> string \<Rightarrow> handler_state \<Rightarrow> handler_result" where
  "handle_subscribe env chatID lang h =
     (case he_err env ''subscribe'' of
        Some e \<Rightarrow> (Some e, reply chatID (Text lang ''db_err'') MNil h)
      | None \<Rightarrow>
          (None, reply chatID (Text lang ''subscribe'') MNil
                   (h\<lparr>hs_db := activate_subscription (he_now env) chatID lang (hs_db h)\<rparr>)))"

definition handle_unsubscribe :: "handler_env \<Rightarrow> int \<Rightarrow> string \<Rightarrow> handler_state \<Rightarrow> handler_result" where
  "handle_unsubscribe env chatID lang h =
     (case unsubscribe (he_err env) (he_now env) chatID (hs_db h) of
        Inl e \<Rightarrow> (Some e, reply chatID (Text lang ''db_err'') MNil h)
      | Inr d \<Rightarrow>
          (let h' = reply chatID (Text lang ''unsubscribe'') MNil (h\<lparr>hs_db := d\<rparr>)
           in (None, if he_alerts_enabled env then reply chatID (AlertText lang ''independent'') MNil h' else h')))"

definition handle_interval_menu :: "handler_env \<Rightarrow> int \<Rightarrow> string \<Rightarrow> handler_state \<Rightarrow> handler_result" where
  "handle_interval_menu env chatID lang h =
     (case isSubscribedWithDB (he_err env ''is_subscribed'') chatID (hs_db h) of
        Inl e \<Rightarrow> (Some e, reply chatID (Text lang ''db_err'') MNil h)
      | Inr subscribed \<Rightarrow>
          if \<not> subscribed then (None, reply chatID (Text lang ''subscribe_first'') MNil h)
          else (None, reply chatID (Text lang ''interval_m'') (MKeyboard (IntervalKeyboard lang)) h))"

definition handle_command :: "handler_env \<Rightarrow> int \<Rightarrow> tg_message \<Rightarrow> int \<Rightarrow> handler_state \<Rightarrow> handler_result" where
  "handle_command env updateID m chatID h =
     (let lang = getLangWithDB (he_err env ''get_lang'') chatID (hs_db h);
          cmd = (if Contains (m_command m) ''@'' then hd (Split (m_command m) CHR ''@'') else m_command m)
      in if cmd = ''alerts'' \<or> cmd = ''allerts'' then
           handlePriceAlertCommand env updateID chatID (m_arguments m) lang h
         else if cmd = ''start'' then
           (let h' = reply chatID (Text lang ''welcome'') MNil h
            in (None, if he_alerts_enabled env
                      then reply chatID (AlertText lang ''menu'') (MKeyboard (AlertsKeyboard lang)) h' else h'))
         else if cmd = ''language'' then (None, reply chatID (Text lang ''lang_sel'') (MKeyboard LanguageKeyboard) h)
         else if cmd = ''subscribe'' then handle_subscribe env chatID lang h
         else if cmd = ''unsubscribe'' then handle_unsubscribe env chatID lang h
         else if cmd = ''interval'' then handle_interval_menu env chatID lang h
         else if cmd = ''price'' then
           (None, reply chatID
                    (Sprintf (Cat (Text lang ''price_hdr'') (Lit ([CHR 0x0A, CHR 0x0A] @ ''%s'')))
                       [AMsg (getFormattedPricesFromCacheAt lang (he_clock env) (he_cache env))])
                    (MKeyboardPtr (Some (RefreshKeyboard lang))) h)
         else (None, h))"

definition processTelegramUpdateWithDB :: "handler_env \<Rightarrow> tg_update \<Rightarrow> handler_state \<Rightarrow> handler_result" where
  "processTelegramUpdateWithDB env u h =
     (case u_callback u of
        Some query \<Rightarrow> handle_callback env (u_id u) query h
      | None \<Rightarrow>
          (case u_message u of
             None \<Rightarrow> (None, h)
           | Some m \<Rightarrow>
               (case m_chat m of
                  None \<Rightarrow> (Some nil_panic, h)
                | Some chatID \<Rightarrow> handle_command env (u_id u) m chatID h)))"

end
