(* ===== verification/Inbox.thy ===== *)
theory Inbox
  imports Handlers
begin

text \<open>
  The durable inbox (\<^verbatim>\<open>internal/app/telegram_inbox.go\<close>): updates received by the webhook are stored
  once, claimed by the workers of their shard in the order of their chat, and processed in one
  transaction that holds the change of the setting, its version, the queued replies and the completion
  of the update.
\<close>

section \<open>Receiving\<close>

definition new_update_row :: "time \<Rightarrow> int \<Rightarrow> int \<Rightarrow> int \<Rightarrow> string \<Rightarrow> update_row" where
  "new_update_row now updateID chatID epoch payload =
     \<lparr>tu_update_id = updateID, tu_chat_id = chatID,
      tu_shard_id = telegramShardIndex chatID TelegramUpdateShardCount, tu_stream_epoch = epoch,
      tu_payload = payload, tu_status = U_Pending, tu_attempts = 0, tu_claimed_until = None,
      tu_next_attempt_at = now, tu_processed_at = None, tu_failed_at = None, tu_last_error = None,
      tu_updated_at = now\<rparr>"

text \<open>
  After a week without updates a new epoch starts. \<open>clock1\<close> and \<open>clock2\<close> are the two readings of
  \<^verbatim>\<open>clock_timestamp()\<close>, \<open>now\<close> is \<^verbatim>\<open>NOW()\<close>.
\<close>

definition next_epoch :: "time \<Rightarrow> db \<Rightarrow> int" where
  "next_epoch clock1 d =
     stream_epoch d + (if stream_last_received_at d < clock1 - 7 * 24 * hour then 1 else 0)"

definition save_update_body ::
  "time \<Rightarrow> time \<Rightarrow> time \<Rightarrow> tg_update \<Rightarrow> string \<Rightarrow> db \<Rightarrow> go_error + bool \<times> db" where
  "save_update_body clock1 clock2 now u payload d =
     (let chatID = (case telegramUpdateChatID u of None \<Rightarrow> 0 | Some c \<Rightarrow> c);
          epoch = next_epoch clock1 d
      in if sql_exists (\<lambda>r. tu_update_id r = u_id u) (telegram_updates d) then Inr (False, d)
         else Inr (True, d\<lparr>telegram_updates := telegram_updates d @ [new_update_row now (u_id u) chatID epoch payload],
                           stream_epoch := epoch, stream_last_received_at := clock2\<rparr>))"

definition saveTelegramUpdate ::
  "db_fault \<Rightarrow> time \<Rightarrow> time \<Rightarrow> time \<Rightarrow> tg_update \<Rightarrow> string \<Rightarrow> db \<Rightarrow> (go_error + bool) \<times> db" where
  "saveTelegramUpdate fault clock1 clock2 now u payload d =
     run_tx fault (save_update_body clock1 clock2 now u payload) d"

section \<open>Claiming\<close>

definition tu_open :: "update_row \<Rightarrow> bool" where
  "tu_open r \<longleftrightarrow> tu_status r = U_Pending \<or> tu_status r = U_Processing"

definition tu_claimable :: "time \<Rightarrow> update_row \<Rightarrow> bool" where
  "tu_claimable now r \<longleftrightarrow>
     tu_open r \<and> tu_next_attempt_at r \<le> now \<and>
     (tu_status r = U_Pending \<or> tu_claimed_until r = None \<or> the (tu_claimed_until r) < now)"

definition tu_version :: "update_row \<Rightarrow> int \<times> int" where
  "tu_version r = (tu_stream_epoch r, tu_update_id r)"

definition tu_head :: "update_row list \<Rightarrow> update_row \<Rightarrow> bool" where
  "tu_head rows r \<longleftrightarrow>
     \<not> sql_exists (\<lambda>e. tu_chat_id e = tu_chat_id r \<and> tu_open e \<and> tu_version e < tu_version r) rows"

definition tu_claim :: "time \<Rightarrow> unit \<Rightarrow> update_row \<Rightarrow> update_row" where
  "tu_claim now _ r =
     r\<lparr>tu_status := U_Processing, tu_attempts := tu_attempts r + 1,
       tu_claimed_until := Some (now + pg_interval (PostgresInterval TelegramUpdateClaimWindow)),
       tu_updated_at := now\<rparr>"

definition tu_job :: "update_row \<Rightarrow> update_job" where
  "tu_job r =
     \<lparr>uj_update_id = tu_update_id r, uj_stream_epoch = tu_stream_epoch r, uj_chat_id = tu_chat_id r,
      uj_payload = tu_payload r, uj_attempts = tu_attempts r\<rparr>"

text \<open>The statement that picks the next update of the shards and claims it (\<^verbatim>\<open>SKIP LOCKED\<close>).\<close>

definition claim_update_stmt ::
  "(int \<Rightarrow> bool) \<Rightarrow> time \<Rightarrow> int list \<Rightarrow> db \<Rightarrow> go_error + update_job option \<times> db" where
  "claim_update_stmt row_locked now shardIDs d =
     (case sql_select (\<lambda>r. tu_shard_id r \<in> set shardIDs \<and> tu_claimable now r \<and>
                            tu_head (telegram_updates d) r \<and> \<not> row_locked (tu_update_id r))
             tu_version 1 (telegram_updates d) of
        [] \<Rightarrow> Inr (None, d)
      | r # _ \<Rightarrow>
          Inr (Some (tu_job (tu_claim now () r)),
               d\<lparr>telegram_updates :=
                   sql_update (\<lambda>x. tu_update_id x = tu_update_id r) (tu_claim now ()) (telegram_updates d)\<rparr>))"

definition claimPendingTelegramUpdateForWorker ::
  "db_fault \<Rightarrow> (int \<Rightarrow> bool) \<Rightarrow> time \<Rightarrow> int \<Rightarrow> int \<Rightarrow> db \<Rightarrow> (go_error + update_job option) \<times> db" where
  "claimPendingTelegramUpdateForWorker fault row_locked now workerID workerCount d =
     (if workerCount < 1 \<or> workerID < 0 \<or> workerID \<ge> workerCount
      then (Inl (PlainError (''invalid Telegram worker partition '' @ FormatInt workerID @ ''/'' @ FormatInt workerCount)), d)
      else let shardIDs = telegramWorkerShardIDs workerID workerCount
           in if shardIDs = [] then (Inr None, d)
              else run_tx fault (claim_update_stmt row_locked now shardIDs) d)"

section \<open>Finalizing\<close>

definition tu_owned :: "update_job \<Rightarrow> update_row \<Rightarrow> bool" where
  "tu_owned job r \<longleftrightarrow>
     tu_update_id r = uj_update_id job \<and> tu_status r = U_Processing \<and> tu_attempts r = uj_attempts job"

definition tu_set_processed :: "time \<Rightarrow> update_row \<Rightarrow> update_row" where
  "tu_set_processed now r =
     r\<lparr>tu_status := U_Processed, tu_processed_at := Some now, tu_claimed_until := None,
       tu_last_error := None, tu_updated_at := now\<rparr>"

definition tu_set_retry :: "time \<Rightarrow> duration \<Rightarrow> string \<Rightarrow> update_row \<Rightarrow> update_row" where
  "tu_set_retry now delay err r =
     r\<lparr>tu_status := U_Pending, tu_claimed_until := None,
       tu_next_attempt_at := now + pg_interval (PostgresInterval delay), tu_last_error := Some err,
       tu_updated_at := now\<rparr>"

definition tu_set_failed :: "time \<Rightarrow> string \<Rightarrow> update_row \<Rightarrow> update_row" where
  "tu_set_failed now err r =
     r\<lparr>tu_status := U_Failed, tu_failed_at := Some now, tu_claimed_until := None,
       tu_last_error := Some err, tu_updated_at := now\<rparr>"

definition finish_update :: "update_job \<Rightarrow> (update_row \<Rightarrow> update_row) \<Rightarrow> db \<Rightarrow> go_error + unit \<times> db" where
  "finish_update job f d =
     (case ensureCurrentJobClaimUpdated (affected (tu_owned job) (telegram_updates d)) of
        Some e \<Rightarrow> Inl e
      | None \<Rightarrow> Inr ((), d\<lparr>telegram_updates := sql_update (tu_owned job) f (telegram_updates d)\<rparr>))"

definition markTelegramUpdateRetry ::
  "db_fault \<Rightarrow> time \<Rightarrow> update_job \<Rightarrow> go_error \<Rightarrow> db \<Rightarrow> (go_error + unit) \<times> db" where
  "markTelegramUpdateRetry fault now job processingErr d =
     run_tx fault
       (finish_update job (tu_set_retry now (RetryDelay (uj_attempts job)) (TruncateError (Error processingErr) 500))) d"

definition markTelegramUpdateFailed ::
  "db_fault \<Rightarrow> time \<Rightarrow> update_job \<Rightarrow> go_error \<Rightarrow> db \<Rightarrow> (go_error + unit) \<times> db" where
  "markTelegramUpdateFailed fault now job processingErr d =
     run_tx fault (finish_update job (tu_set_failed now (TruncateError (Error processingErr) 500))) d"

section \<open>Completion\<close>

definition new_reply_row :: "int \<Rightarrow> time \<Rightarrow> int \<Rightarrow> int \<Rightarrow> telegram_reply \<Rightarrow> reply_row" where
  "new_reply_row i now updateID sequenceNo r =
     \<lparr>tr_id = i, tr_source_update_id = updateID, tr_sequence_no = sequenceNo, tr_chat_id = rep_chat_id r,
      tr_operation = rep_operation r, tr_message_id = rep_message_id r, tr_message_text = rep_text r,
      tr_reply_markup = rep_markup r, tr_status = Pending, tr_attempts = 0, tr_claim_token = None,
      tr_claimed_until = None, tr_next_attempt_at = now, tr_sent_at = None, tr_failed_at = None,
      tr_last_error = None, tr_updated_at = now\<rparr>"

text \<open>The \<^verbatim>\<open>CHECK\<close> constraints on operation and message id.\<close>

definition reply_checks :: "telegram_reply \<Rightarrow> bool" where
  "reply_checks r \<longleftrightarrow>
     rep_operation r = telegramReplySendMessage \<and> rep_message_id r = 0 \<or>
     rep_operation r = telegramReplyEditMessage \<and> rep_message_id r > 0"

fun insert_replies :: "time \<Rightarrow> int \<Rightarrow> int \<Rightarrow> telegram_reply list \<Rightarrow> db \<Rightarrow> go_error + db" where
  "insert_replies now updateID sequenceNo [] d = Inr d"
| "insert_replies now updateID sequenceNo (r # rs) d =
     (if \<not> reply_checks r then Inl (PlainError ''telegram_replies_message_id_check'')
      else insert_replies now updateID (sequenceNo + 1) rs
        (if sql_exists (\<lambda>x. tr_source_update_id x = updateID \<and> tr_sequence_no x = sequenceNo) (telegram_replies d)
         then d\<lparr>reply_seq := reply_seq d + 1\<rparr>
         else d\<lparr>telegram_replies := telegram_replies d @ [new_reply_row (reply_seq d) now updateID sequenceNo r],
                reply_seq := reply_seq d + 1\<rparr>))"

definition completeTelegramUpdateTx ::
  "(string \<Rightarrow> go_error option) \<Rightarrow> time \<Rightarrow> update_job \<Rightarrow> telegram_reply list \<Rightarrow> db \<Rightarrow> go_error + db" where
  "completeTelegramUpdateTx err now job replies d =
     (case (if replies = [] then None else err ''insert_reply'') of
        Some e \<Rightarrow> Inl e
      | None \<Rightarrow>
     (case insert_replies now (uj_update_id job) 0 replies d of
        Inl e \<Rightarrow> Inl e
      | Inr d1 \<Rightarrow>
     (case err ''complete_update'' of
        Some e \<Rightarrow> Inl e
      | None \<Rightarrow> (case finish_update job (tu_set_processed now) d1 of Inl e \<Rightarrow> Inl e | Inr (_, d2) \<Rightarrow> Inr d2))))"

section \<open>Processing\<close>

definition empty_handler_state :: "db \<Rightarrow> handler_state" where
  "empty_handler_state d = \<lparr>hs_db = d, hs_col = empty_collector\<rparr>"

text \<open>The part that runs under \<^verbatim>\<open>recover\<close>: the ordering check, the handlers, the collector's error.\<close>

definition apply_update ::
  "handler_env \<Rightarrow> update_job \<Rightarrow> tg_update \<Rightarrow> db \<Rightarrow> go_error + collector \<times> db" where
  "apply_update env job u d =
     (case allowTelegramMutation (he_err env) job u d of
        Inl e \<Rightarrow> Inl e
      | Inr (False, d1) \<Rightarrow>
          Inr ((case u_callback u of None \<Rightarrow> empty_collector
                | Some query \<Rightarrow> acknowledgeCallback (cb_id query) empty_collector), d1)
      | Inr (True, d1) \<Rightarrow>
          (case processTelegramUpdateWithDB env u (empty_handler_state d1) of
             (Some e, h) \<Rightarrow> Inl e
           | (None, h) \<Rightarrow>
               (case col_err (hs_col h) of
                  Some e \<Rightarrow> Inl (Wrapped ''prepare Telegram reply'' e)
                | None \<Rightarrow> Inr (hs_col h, hs_db h))))"

text \<open>
  The surroundings of one processing: JSON decoding, the chat lock, the handlers' errors, the commit,
  the writes of other workers before the transaction and before the error is marked, and the
  answers of Telegram to the callback answers.
\<close>

record update_env =
  ue_decode :: "string \<Rightarrow> go_error + tg_update"
  ue_lock_err :: "go_error option"
  ue_begin_err :: "go_error option"
  ue_handler :: handler_env
  ue_commit :: db_fault
  ue_mark_fault :: db_fault
  ue_mark_now :: time
  ue_others :: "nat \<Rightarrow> db \<Rightarrow> db"
  ue_answer_failed :: "nat \<Rightarrow> bool"

definition u_others :: "update_env \<Rightarrow> nat \<Rightarrow> world \<Rightarrow> world" where
  "u_others env k w = w\<lparr>wdb := ue_others env k (wdb w)\<rparr>"

definition markTelegramUpdateProcessingError :: "update_env \<Rightarrow> update_job \<Rightarrow> go_error \<Rightarrow> world \<Rightarrow> world" where
  "markTelegramUpdateProcessingError env job processingErr w =
     (if uj_attempts job \<ge> TelegramUpdateMaxAttempts then
        count_metric ''WebhookUpdatesTotal'' ''failed_exhausted''
          (snd (on_db (markTelegramUpdateFailed (ue_mark_fault env) (ue_mark_now env) job processingErr) (u_others env 2 w)))
      else
        count_metric ''WebhookUpdatesTotal'' ''retry''
          (snd (on_db (markTelegramUpdateRetry (ue_mark_fault env) (ue_mark_now env) job processingErr) (u_others env 2 w))))"

definition observeCompletedTelegramUpdate :: "nat \<Rightarrow> world \<Rightarrow> world" where
  "observeCompletedTelegramUpdate replyCount w =
     w\<lparr>metrics := metrics w @ replicate replyCount (''TelegramRepliesTotal'', ''queued'')\<rparr>"

text \<open>The transaction up to its commit: the replies to count, the callbacks to answer, the new database.\<close>

definition update_tx ::
  "handler_env \<Rightarrow> update_job \<Rightarrow> tg_update \<Rightarrow> db \<Rightarrow> (go_error + go_error) + collector \<times> db" where
  "update_tx env job u d =
     (case apply_update env job u d of
        Inl e \<Rightarrow> Inl (Inl e)
      | Inr (col, d1) \<Rightarrow>
          (case completeTelegramUpdateTx (he_err env) (he_now env) job (col_replies col) d1 of
             Inl e \<Rightarrow> Inl (Inr e)
           | Inr d2 \<Rightarrow> Inr (col, d2)))"

definition processTelegramUpdateJob :: "update_env \<Rightarrow> update_job \<Rightarrow> world \<Rightarrow> world" where
  "processTelegramUpdateJob env job w =
     (case ue_decode env (uj_payload job) of
        Inl e \<Rightarrow>
          count_metric ''WebhookUpdatesTotal'' ''failed_invalid_payload''
            (snd (on_db (markTelegramUpdateFailed (ue_mark_fault env) (ue_mark_now env) job e) (u_others env 2 w)))
      | Inr u \<Rightarrow>
     (case ue_lock_err env of
        Some e \<Rightarrow> markTelegramUpdateProcessingError env job (Wrapped ''acquire telegram chat lock'' e) w
      | None \<Rightarrow>
     (case ue_begin_err env of
        Some e \<Rightarrow> markTelegramUpdateProcessingError env job (Wrapped ''begin telegram update transaction'' e) w
      | None \<Rightarrow>
     (let w1 = u_others env 1 w in
      case update_tx (ue_handler env) job u (wdb w1) of
        Inl (Inl processingErr) \<Rightarrow> markTelegramUpdateProcessingError env job processingErr w1
      | Inl (Inr completionErr) \<Rightarrow>
          if is_ownership_lost completionErr then count_metric ''WebhookUpdatesTotal'' ''processed_stale_claim'' w1
          else markTelegramUpdateProcessingError env job completionErr
                 (count_metric ''WebhookUpdatesTotal'' ''processed_persist_error'' w1)
      | Inr (col, d2) \<Rightarrow>
          (case ue_commit env of
             DbAbort e \<Rightarrow> markTelegramUpdateProcessingError env job e w1
           | DbCommitLost e \<Rightarrow> markTelegramUpdateProcessingError env job e (w1\<lparr>wdb := d2\<rparr>)
           | DbOk \<Rightarrow>
               count_metric ''WebhookUpdatesTotal'' ''processed''
                 (flushCallbackAnswers (ue_answer_failed env) (col_callbacks col)
                    (observeCompletedTelegramUpdate (length (col_replies col)) (w1\<lparr>wdb := d2\<rparr>))))))))"

section \<open>Claims follow the lease contract\<close>

interpretation uq: lease_table tu_update_id tu_attempts tu_claimable tu_claim TelegramUpdateClaimWindow
  tu_job uj_update_id uj_attempts tu_owned
  by unfold_locales (auto simp: tu_claim_def tu_claimable_def tu_open_def tu_job_def tu_owned_def)

interpretation uq_processed: lease_finalizer tu_update_id tu_attempts tu_claimable tu_claim TelegramUpdateClaimWindow
  tu_job uj_update_id uj_attempts tu_owned "tu_set_processed now" for now
  by unfold_locales (auto simp: tu_set_processed_def tu_owned_def)

interpretation uq_retry: lease_finalizer tu_update_id tu_attempts tu_claimable tu_claim TelegramUpdateClaimWindow
  tu_job uj_update_id uj_attempts tu_owned "tu_set_retry now delay err" for now delay err
  by unfold_locales (auto simp: tu_set_retry_def tu_owned_def)

interpretation uq_failed: lease_finalizer tu_update_id tu_attempts tu_claimable tu_claim TelegramUpdateClaimWindow
  tu_job uj_update_id uj_attempts tu_owned "tu_set_failed now err" for now err
  by unfold_locales (auto simp: tu_set_failed_def tu_owned_def)

end
