(* ===== verification/Price_Feed.thy ===== *)
theory Price_Feed
  imports Alert_Facts
begin

text \<open>
  The price ticker (\<^verbatim>\<open>internal/app/pricing.go\<close>): one round fetches every tracked coin, stores the price
  together with the alert crossings it causes in one transaction, updates the cache only after the
  commit, and finally processes the recorded crossings.
\<close>

section \<open>Parsing\<close>

text \<open>The error of \<^verbatim>\<open>strconv.ParseFloat\<close> is reported by its text; its wording plays no role.\<close>

definition parseMarketPrice :: "string \<Rightarrow> go_error + float64" where
  "parseMarketPrice raw =
     (case ParseFloat raw of
        None \<Rightarrow> Inl (PlainError (''strconv.ParseFloat: parsing '' @ raw))
      | Some price \<Rightarrow>
          if isValidMarketPrice price then Inr price
          else Inl (PlainError ''price must be finite and greater than zero''))"

section \<open>Persisting\<close>

definition upsert_price :: "string \<Rightarrow> float64 \<Rightarrow> time \<Rightarrow> price_row list \<Rightarrow> price_row list" where
  "upsert_price symbol price at_time rows =
     (if sql_exists (\<lambda>r. mp_symbol r = symbol) rows
      then sql_update (\<lambda>r. mp_symbol r = symbol) (\<lambda>r. r\<lparr>mp_price := price, mp_updated_at := at_time\<rparr>) rows
      else rows @ [\<lparr>mp_symbol = symbol, mp_price = price, mp_updated_at = at_time\<rparr>])"

text \<open>
  \<open>storedAt\<close> and \<open>dbNow\<close> are the readings of \<^verbatim>\<open>clock_timestamp()\<close> in the upsert and in the capture,
  \<open>err\<close> the error of the capturing statement.
\<close>

definition persist_body ::
  "bool \<Rightarrow> go_error option \<Rightarrow> time \<Rightarrow> time \<Rightarrow> string \<Rightarrow> float64 \<Rightarrow> time \<Rightarrow> db \<Rightarrow> go_error + time \<times> db" where
  "persist_body alertsEnabled err storedAt dbNow symbol price startedAt d =
     (let d1 = d\<lparr>market_prices := upsert_price symbol price storedAt (market_prices d)\<rparr> in
      if alertsEnabled \<and> startedAt \<noteq> zero_time
      then (case capturePriceAlertCrossings err dbNow symbol price startedAt storedAt d1 of
              Inl e \<Rightarrow> Inl e
            | Inr d2 \<Rightarrow> Inr (storedAt, d2))
      else Inr (storedAt, d1))"

definition persistObservedMarketPrice ::
  "db_fault \<Rightarrow> bool \<Rightarrow> go_error option \<Rightarrow> time \<Rightarrow> time \<Rightarrow> string \<Rightarrow> float64 \<Rightarrow> time \<Rightarrow> db
    \<Rightarrow> (go_error + time) \<times> db" where
  "persistObservedMarketPrice fault alertsEnabled err storedAt dbNow symbol price startedAt d =
     (if \<not> isValidMarketPrice price then (Inl (PlainError ''cannot persist invalid market price''), d)
      else run_tx fault (persist_body alertsEnabled err storedAt dbNow symbol price startedAt) d)"

definition beginPriceObservation :: "go_error option \<Rightarrow> time \<Rightarrow> go_error + time" where
  "beginPriceObservation err clock = run_read err clock"

section \<open>One round\<close>

text \<open>What Binance answers to the request for one coin: an error, a status other than 200, a body that
  does not decode, or the decoded symbol and price.\<close>

datatype ticker_body = Undecodable | Ticker string string

datatype ticker_answer = RequestCreateError | RequestError | Response int ticker_body

record feed_env =
  fe_alerts_enabled :: bool
  fe_observation_err :: "go_error option"
  fe_started_at :: time
  fe_answer :: "string \<Rightarrow> ticker_answer"
  fe_fault :: "string \<Rightarrow> db_fault"
  fe_capture_err :: "string \<Rightarrow> go_error option"
  fe_stored_at :: "string \<Rightarrow> time"
  fe_db_now :: "string \<Rightarrow> time"
  fe_clock :: time
  fe_crossings :: crossing_env

record feed_state =
  fs_db :: db
  fs_cache :: price_cache
  fs_metrics :: "(string \<times> string \<times> string) list"

definition feed_metric :: "string \<Rightarrow> string \<Rightarrow> feed_state \<Rightarrow> feed_state" where
  "feed_metric symbol label s = s\<lparr>fs_metrics := fs_metrics s @ [(''BinanceRequestsTotal'', symbol, label)]\<rparr>"

definition fetch_coin :: "feed_env \<Rightarrow> time \<Rightarrow> string \<Rightarrow> feed_state \<Rightarrow> feed_state" where
  "fetch_coin env startedAt symbol s =
     (case fe_answer env symbol of
        RequestCreateError \<Rightarrow> feed_metric symbol ''request_create_error'' s
      | RequestError \<Rightarrow> feed_metric symbol ''request_error'' s
      | Response status body \<Rightarrow>
          if status \<noteq> 200 then feed_metric symbol ''bad_status'' s
          else case body of
            Undecodable \<Rightarrow> feed_metric symbol ''decode_error'' s
          | Ticker received rawPrice \<Rightarrow>
          if received \<noteq> symbol then feed_metric symbol ''symbol_mismatch'' s
          else case parseMarketPrice rawPrice of
            Inl e \<Rightarrow> feed_metric symbol ''parse_error'' s
          | Inr price \<Rightarrow>
              (case persistObservedMarketPrice (fe_fault env symbol) (fe_alerts_enabled env) (fe_capture_err env symbol)
                      (fe_stored_at env symbol) (fe_db_now env symbol) symbol price startedAt (fs_db s) of
                 (Inl e, d) \<Rightarrow> s\<lparr>fs_db := d\<rparr>
               | (Inr storedAt, d) \<Rightarrow>
                   feed_metric symbol ''success''
                     (s\<lparr>fs_db := d, fs_cache := cache_StoreAt (fe_clock env) symbol price storedAt (fs_cache s)\<rparr>)))"

text \<open>
  The goroutines of a round finish in any order: \<open>order\<close> lists the symbols in the order of their
  effects, a permutation of the tracked coins. The deferred processing of the crossings runs at the
  end, also when the observation could not start.
\<close>

definition process_after :: "feed_env \<Rightarrow> feed_state \<Rightarrow> feed_state" where
  "process_after env s = s\<lparr>fs_db := snd (processPriceAlertCrossings (fe_crossings env) (fs_db s))\<rparr>"

definition fetchAndCachePrices :: "feed_env \<Rightarrow> string list \<Rightarrow> feed_state \<Rightarrow> feed_state" where
  "fetchAndCachePrices env order s =
     (if fe_alerts_enabled env then
        (case beginPriceObservation (fe_observation_err env) (fe_started_at env) of
           Inl e \<Rightarrow> process_after env s
         | Inr startedAt \<Rightarrow> process_after env (fold (fetch_coin env startedAt) order s))
      else process_after env (fold (fetch_coin env zero_time) order s))"

section \<open>Facts\<close>

lemma upsert_price_inv:
  assumes "unique_on mp_symbol rows" "\<forall>r \<in> set rows. isValidMarketPrice (mp_price r)" "isValidMarketPrice price"
  shows "unique_on mp_symbol (upsert_price symbol price t rows) \<and>
         (\<forall>r \<in> set (upsert_price symbol price t rows). isValidMarketPrice (mp_price r))"
  using assms by (auto simp: upsert_price_def sql_exists_iff set_sql_update intro!: unique_on_update)

lemma parseMarketPrice_valid: "parseMarketPrice raw = Inr p \<Longrightarrow> isValidMarketPrice p"
  by (auto simp: parseMarketPrice_def split: option.splits if_splits)

lemma persist_body_cases:
  "persist_body en err storedAt dbNow symbol price startedAt d = Inr (t, d') \<Longrightarrow>
     t = storedAt \<and>
     (\<exists>cs. d' = d\<lparr>market_prices := upsert_price symbol price storedAt (market_prices d), price_alert_crossings := cs\<rparr>)"
proof -
  let ?d1 = "d\<lparr>market_prices := upsert_price symbol price storedAt (market_prices d)\<rparr>"
  have "\<exists>cs. ?d1 = d\<lparr>market_prices := upsert_price symbol price storedAt (market_prices d), price_alert_crossings := cs\<rparr>"
    by (rule exI [of _ "price_alert_crossings d"]) simp
  then show "persist_body en err storedAt dbNow symbol price startedAt d = Inr (t, d') \<Longrightarrow> ?thesis"
    by (auto simp: persist_body_def Let_def split: if_splits sum.splits dest!: capture_jobs)
qed

lemma alerts_inv_prices: "alerts_inv d \<Longrightarrow> alerts_inv (d\<lparr>market_prices := ps\<rparr>)"
  by (simp add: alerts_inv_def live_count_def alert_live_def)

lemma persist_body_alerts_inv:
  assumes "persist_body en err storedAt dbNow symbol price startedAt d = Inr (t, d')" "alerts_inv d"
  shows "alerts_inv d'"
  using assms alerts_inv_prices
  by (auto simp: persist_body_def Let_def split: if_splits sum.splits dest!: capture_inv)

text \<open>The cache holds valid prices only.\<close>

lemma fetch_coin_cache_valid: "cache_valid (fs_cache s) \<Longrightarrow> cache_valid (fs_cache (fetch_coin env t symbol s))"
  by (auto simp: fetch_coin_def feed_metric_def cache_valid_StoreAt parseMarketPrice_valid
      split: ticker_answer.split ticker_body.split sum.split prod.split)

lemma fetch_round_cache_valid:
  "cache_valid (fs_cache s) \<Longrightarrow> cache_valid (fs_cache (fetchAndCachePrices env order s))"
proof -
  have "cache_valid (fs_cache s) \<Longrightarrow> cache_valid (fs_cache (fold (fetch_coin env t) order s))" for t s
    by (induction order arbitrary: s) (auto simp: fetch_coin_cache_valid)
  then show "cache_valid (fs_cache s) \<Longrightarrow> ?thesis"
    by (auto simp: fetchAndCachePrices_def process_after_def split: sum.split)
qed

end
