(* ===== verification/Retention.thy ===== *)
theory Retention
  imports Inbox Price_Feed
begin

text \<open>
  The retention cleaner (\<^verbatim>\<open>internal/app/retention.go\<close>): finished rows are deleted in batches until a
  batch is not full. The loop takes an arbitrary batch deletion and may run forever in general, so it is
  a partial function; for the four deletions of the program it is shown to end with nothing expired left.
\<close>

section \<open>Periods\<close>

definition day :: duration where
  [simp]: "day = 24 * hour"

definition TelegramUpdateProcessedRetention :: duration where
  [simp]: "TelegramUpdateProcessedRetention = 7 * day"

definition TelegramUpdateFailedRetention :: duration where
  [simp]: "TelegramUpdateFailedRetention = 30 * day"

definition TelegramReplySentRetention :: duration where
  [simp]: "TelegramReplySentRetention = 7 * day"

definition TelegramReplyFailedRetention :: duration where
  [simp]: "TelegramReplyFailedRetention = 30 * day"

definition NotificationSentRetention :: duration where
  [simp]: "NotificationSentRetention = 30 * day"

definition NotificationFailedRetention :: duration where
  [simp]: "NotificationFailedRetention = 90 * day"

definition NotificationCanceledRetention :: duration where
  [simp]: "NotificationCanceledRetention = 30 * day"

definition RetentionCleanupLimit :: nat where
  "RetentionCleanupLimit = 1000"

section \<open>Expired rows\<close>

definition before :: "time option \<Rightarrow> time \<Rightarrow> bool" where
  "before t limit \<longleftrightarrow> (case t of None \<Rightarrow> False | Some u \<Rightarrow> u < limit)"

definition coalesce :: "time option list \<Rightarrow> time option" where
  "coalesce ts = (case filter (\<lambda>t. t \<noteq> None) ts of [] \<Rightarrow> None | t # _ \<Rightarrow> t)"

definition nj_expired :: "time \<Rightarrow> notification_row \<Rightarrow> bool" where
  "nj_expired now r \<longleftrightarrow>
     nj_status r = Sent \<and> before (nj_sent_at r) (now - pg_interval (PostgresInterval NotificationSentRetention)) \<or>
     nj_status r = Failed \<and> before (nj_failed_at r) (now - pg_interval (PostgresInterval NotificationFailedRetention)) \<or>
     nj_status r = Canceled \<and> before (nj_canceled_at r) (now - pg_interval (PostgresInterval NotificationCanceledRetention))"

definition tu_expired :: "time \<Rightarrow> update_row \<Rightarrow> bool" where
  "tu_expired now r \<longleftrightarrow>
     tu_status r = U_Processed \<and> before (tu_processed_at r) (now - pg_interval (PostgresInterval TelegramUpdateProcessedRetention)) \<or>
     tu_status r = U_Failed \<and> before (tu_failed_at r) (now - pg_interval (PostgresInterval TelegramUpdateFailedRetention))"

definition tr_expired :: "time \<Rightarrow> reply_row \<Rightarrow> bool" where
  "tr_expired now r \<longleftrightarrow>
     tr_status r = Sent \<and> before (tr_sent_at r) (now - pg_interval (PostgresInterval TelegramReplySentRetention)) \<or>
     tr_status r = Failed \<and> before (tr_failed_at r) (now - pg_interval (PostgresInterval TelegramReplyFailedRetention))"

definition pa_expired :: "time \<Rightarrow> notification_row list \<Rightarrow> alert_row \<Rightarrow> bool" where
  "pa_expired now jobs a \<longleftrightarrow>
     (pa_status a = A_Triggered \<or> pa_status a = A_Canceled) \<and> pa_updated_at a < now - 90 * day \<and>
     \<not> sql_exists (\<lambda>r. nj_price_alert_id r = Some (pa_id a)) jobs"

section \<open>Batches\<close>

text \<open>\<^verbatim>\<open>WITH expired AS (SELECT id ... ORDER BY ... LIMIT n) DELETE ... USING expired\<close>.\<close>

definition delete_batch ::
  "('r \<Rightarrow> bool) \<Rightarrow> ('r \<Rightarrow> 'k::linorder) \<Rightarrow> ('r \<Rightarrow> int) \<Rightarrow> nat \<Rightarrow> 'r list \<Rightarrow> nat \<times> 'r list" where
  "delete_batch p order_key row_id limit rows =
     (let expired = map row_id (sql_select p order_key limit rows)
      in (affected (\<lambda>r. row_id r \<in> set expired) rows, filter (\<lambda>r. row_id r \<notin> set expired) rows))"

definition delete_notification_batch :: "time \<Rightarrow> db \<Rightarrow> nat \<times> db" where
  "delete_notification_batch now d =
     (let (n, rows) = delete_batch (nj_expired now)
            (\<lambda>r. (coalesce [nj_sent_at r, nj_failed_at r, nj_canceled_at r], nj_id r)) nj_id
            RetentionCleanupLimit (notification_jobs d)
      in (n, d\<lparr>notification_jobs := rows\<rparr>))"

definition delete_update_batch :: "time \<Rightarrow> db \<Rightarrow> nat \<times> db" where
  "delete_update_batch now d =
     (let (n, rows) = delete_batch (tu_expired now)
            (\<lambda>r. (coalesce [tu_processed_at r, tu_failed_at r], tu_update_id r)) tu_update_id
            RetentionCleanupLimit (telegram_updates d)
      in (n, d\<lparr>telegram_updates := rows\<rparr>))"

definition delete_reply_batch :: "time \<Rightarrow> db \<Rightarrow> nat \<times> db" where
  "delete_reply_batch now d =
     (let (n, rows) = delete_batch (tr_expired now)
            (\<lambda>r. (coalesce [tr_sent_at r, tr_failed_at r], tr_id r)) tr_id
            RetentionCleanupLimit (telegram_replies d)
      in (n, d\<lparr>telegram_replies := rows\<rparr>))"

text \<open>Deleting an alert deletes its crossing, if it still has one (\<^verbatim>\<open>ON DELETE CASCADE\<close>).\<close>

definition delete_alert_batch :: "time \<Rightarrow> db \<Rightarrow> nat \<times> db" where
  "delete_alert_batch now d =
     (let (n, rows) = delete_batch (pa_expired now (notification_jobs d)) (\<lambda>a. (pa_updated_at a, pa_id a)) pa_id
            RetentionCleanupLimit (price_alerts d)
      in (n, d\<lparr>price_alerts := rows,
               price_alert_crossings :=
                 filter (\<lambda>c. \<not> (sql_exists (\<lambda>a. pa_id a = pc_alert_id c) (price_alerts d) \<and>
                                \<not> sql_exists (\<lambda>a. pa_id a = pc_alert_id c) rows)) (price_alert_crossings d)\<rparr>))"

section \<open>Draining\<close>

text \<open>\<open>batch k\<close> is the \<open>k\<close>-th call of \<^verbatim>\<open>deleteBatch\<close>: its error, or the rows it deleted.\<close>

partial_function (option) drain_from ::
  "(nat \<Rightarrow> 's \<Rightarrow> (go_error + nat) \<times> 's) \<Rightarrow> nat \<Rightarrow> nat \<Rightarrow> 's \<Rightarrow> ((nat \<times> go_error option) \<times> 's) option" where
  "drain_from batch k totalDeleted s =
     (case batch k s of
        (Inl e, s') \<Rightarrow> Some ((totalDeleted, Some e), s')
      | (Inr deleted, s') \<Rightarrow>
          if deleted < RetentionCleanupLimit then Some ((totalDeleted + deleted, None), s')
          else drain_from batch (Suc k) (totalDeleted + deleted) s')"

definition drainRetentionBatches ::
  "(nat \<Rightarrow> 's \<Rightarrow> (go_error + nat) \<times> 's) \<Rightarrow> 's \<Rightarrow> ((nat \<times> go_error option) \<times> 's) option" where
  "drainRetentionBatches batch s = drain_from batch 0 0 s"

text \<open>A batch deletion that may fail at any call, without effect.\<close>

definition fallible :: "(nat \<Rightarrow> go_error option) \<Rightarrow> (db \<Rightarrow> nat \<times> db) \<Rightarrow> nat \<Rightarrow> db \<Rightarrow> (go_error + nat) \<times> db" where
  "fallible err f k d =
     (case err k of Some e \<Rightarrow> (Inl e, d) | None \<Rightarrow> (let (n, d') = f d in (Inr n, d')))"

definition cleanupNotificationJobHistory ::
  "(nat \<Rightarrow> go_error option) \<Rightarrow> time \<Rightarrow> db \<Rightarrow> ((nat \<times> go_error option) \<times> db) option" where
  "cleanupNotificationJobHistory err now d = drainRetentionBatches (fallible err (delete_notification_batch now)) d"

definition cleanupTelegramUpdateHistory ::
  "(nat \<Rightarrow> go_error option) \<Rightarrow> time \<Rightarrow> db \<Rightarrow> ((nat \<times> go_error option) \<times> db) option" where
  "cleanupTelegramUpdateHistory err now d = drainRetentionBatches (fallible err (delete_update_batch now)) d"

definition cleanupTelegramReplyHistory ::
  "(nat \<Rightarrow> go_error option) \<Rightarrow> time \<Rightarrow> db \<Rightarrow> ((nat \<times> go_error option) \<times> db) option" where
  "cleanupTelegramReplyHistory err now d = drainRetentionBatches (fallible err (delete_reply_batch now)) d"

definition cleanupPriceAlertHistory ::
  "(nat \<Rightarrow> go_error option) \<Rightarrow> time \<Rightarrow> db \<Rightarrow> ((nat \<times> go_error option) \<times> db) option" where
  "cleanupPriceAlertHistory err now d = drainRetentionBatches (fallible err (delete_alert_batch now)) d"

section \<open>The loop ends\<close>

text \<open>
  A generic argument: if a full batch shrinks a measure of the state, the loop returns; if every batch
  keeps a property, so does the loop; and when it ends without an error its last batch was not full.
\<close>

lemma drain_from_returns:
  assumes "\<And>k s n s'. P s \<Longrightarrow> batch k s = (Inr n, s') \<Longrightarrow> P s' \<and> (RetentionCleanupLimit \<le> n \<longrightarrow> (m s' :: nat) < m s)"
    and "\<And>k s e s'. P s \<Longrightarrow> batch k s = (Inl e, s') \<Longrightarrow> P s'"
    and "P s"
  shows "\<exists>n err s'. drain_from batch k acc s = Some ((n, err), s') \<and> P s' \<and>
     (err = None \<longrightarrow> (\<exists>k t n'. P t \<and> batch k t = (Inr n', s') \<and> n' < RetentionCleanupLimit))"
  using assms(3)
proof (induction "m s" arbitrary: k acc s rule: less_induct)
  case less
  obtain r s' where b: "batch k s = (r, s')" by (cases "batch k s")
  show ?case
  proof (cases r)
    case (Inl e)
    with b assms(2) [OF less.prems] show ?thesis by (subst drain_from.simps) simp
  next
    case (Inr n)
    with b assms(1) [OF less.prems] have s': "P s'" "RetentionCleanupLimit \<le> n \<longrightarrow> m s' < m s" by auto
    show ?thesis
    proof (cases "n < RetentionCleanupLimit")
      case True
      with b Inr s' less.prems show ?thesis by (subst drain_from.simps) auto
    next
      case False
      with s' have "m s' < m s" by simp
      from less.hyps [OF this s'(1)] False b Inr show ?thesis by (subst drain_from.simps) simp
    qed
  qed
qed

text \<open>A batch that is not full has deleted every expired row.\<close>

lemma delete_batch_count:
  assumes "unique_on row_id rows"
  shows "fst (delete_batch p key row_id limit rows) = length (sql_select p key limit rows)"
proof -
  let ?sel = "sql_select p key limit rows"
  have inj: "inj_on row_id (set rows)" and dist: "distinct rows"
    using assms by (simp_all add: unique_on_def distinct_map)
  have sub: "set ?sel \<subseteq> set rows" using set_sql_select by fastforce
  have "{r \<in> set rows. row_id r \<in> set (map row_id ?sel)} = set ?sel"
    using inj sub by (auto dest: inj_onD)
  then have "set (filter (\<lambda>r. row_id r \<in> set (map row_id ?sel)) rows) = set ?sel" by simp
  moreover have "distinct ?sel" using dist by (simp add: sql_select_def)
  ultimately have "length (filter (\<lambda>r. row_id r \<in> set (map row_id ?sel)) rows) = length ?sel"
    using dist by (metis distinct_card distinct_filter)
  then show ?thesis by (simp add: delete_batch_def affected_def)
qed

lemma delete_batch_rows:
  assumes "unique_on row_id rows"
  shows "set (snd (delete_batch p key row_id limit rows)) = set rows - set (sql_select p key limit rows)"
proof -
  have "inj_on row_id (set rows)" using assms by (simp add: unique_on_def distinct_map)
  moreover have "set (sql_select p key limit rows) \<subseteq> set rows" using set_sql_select by fastforce
  ultimately show ?thesis by (auto simp: delete_batch_def dest: inj_onD)
qed

lemma delete_batch_partial:
  assumes "unique_on row_id rows" "fst (delete_batch p key row_id limit rows) < limit"
  shows "set (snd (delete_batch p key row_id limit rows)) = {r \<in> set rows. \<not> p r}"
proof -
  have "length (sql_select p key limit rows) < limit" using assms delete_batch_count by metis
  then have "length (filter p rows) \<le> limit" by (simp add: sql_select_def)
  with sql_select_all [OF this, of key] delete_batch_rows [OF assms(1), of p key limit] show ?thesis by auto
qed

lemma delete_batch_keeps:
  assumes "unique_on row_id rows" "r \<in> set rows" "\<not> p r"
  shows "r \<in> set (snd (delete_batch p key row_id limit rows))"
  using assms delete_batch_rows [OF assms(1), of p key limit] sql_selectD [of r p key limit rows] by auto

lemma delete_batch_shrinks:
  assumes "unique_on row_id rows" "0 < fst (delete_batch p key row_id limit rows)"
  shows "length (snd (delete_batch p key row_id limit rows)) < length rows"
proof -
  let ?q = "\<lambda>r. row_id r \<in> set (map row_id (sql_select p key limit rows))"
  have "length (filter ?q rows) + length (filter (\<lambda>r. \<not> ?q r) rows) = length rows"
    by (rule sum_length_filter_compl)
  moreover have "0 < length (filter ?q rows)" using assms(2) by (simp add: delete_batch_def affected_def)
  ultimately have "length (filter (\<lambda>r. \<not> ?q r) rows) < length rows" by linarith
  then show ?thesis by (simp add: delete_batch_def)
qed

section \<open>What a cleaned table promises\<close>

text \<open>
  The contract of one cleanup: a batch keeps the table's invariant and its context, removes expired
  rows only, makes progress while it deletes, and leaves nothing expired when it is not full.
\<close>

locale retention_table =
  fixes tab :: "db \<Rightarrow> 'r list"
    and ctx :: "db \<Rightarrow> 'c"
    and expired :: "'c \<Rightarrow> 'r \<Rightarrow> bool"
    and batch :: "db \<Rightarrow> nat \<times> db"
    and table_inv :: "db \<Rightarrow> bool"
  assumes batch_inv: "table_inv d \<Longrightarrow> table_inv (snd (batch d))"
    and batch_ctx: "ctx (snd (batch d)) = ctx d"
    and batch_progress: "table_inv d \<Longrightarrow> 0 < fst (batch d) \<Longrightarrow> length (tab (snd (batch d))) < length (tab d)"
    and batch_keeps: "table_inv d \<Longrightarrow> r \<in> set (tab d) \<Longrightarrow> \<not> expired (ctx d) r \<Longrightarrow> r \<in> set (tab (snd (batch d)))"
    and batch_subset: "set (tab (snd (batch d))) \<subseteq> set (tab d)"
    and batch_last: "table_inv d \<Longrightarrow> fst (batch d) < RetentionCleanupLimit \<Longrightarrow>
      r \<in> set (tab (snd (batch d))) \<Longrightarrow> \<not> expired (ctx d) r"
begin

text \<open>The cleanup returns; it deletes expired rows only, and all of them when no batch failed.\<close>

lemma cleanup_returns:
  assumes "table_inv d"
  shows "\<exists>n e d'. drainRetentionBatches (fallible err batch) d = Some ((n, e), d') \<and> table_inv d' \<and>
     set (tab d') \<subseteq> set (tab d) \<and>
     (\<forall>r \<in> set (tab d). \<not> expired (ctx d) r \<longrightarrow> r \<in> set (tab d')) \<and>
     (e = None \<longrightarrow> (\<forall>r \<in> set (tab d'). \<not> expired (ctx d) r))"
proof -
  let ?P = "\<lambda>s. table_inv s \<and> ctx s = ctx d \<and> set (tab s) \<subseteq> set (tab d) \<and>
    (\<forall>r \<in> set (tab d). \<not> expired (ctx d) r \<longrightarrow> r \<in> set (tab s))"
  have ok: "?P s' \<and> (RetentionCleanupLimit \<le> n \<longrightarrow> length (tab s') < length (tab s))"
    if "?P s" "fallible err batch k s = (Inr n, s')" for k s n s'
  proof -
    from that(2) have b: "batch s = (n, s')"
      by (auto simp: fallible_def split: option.splits prod.splits)
    have "0 < RetentionCleanupLimit" by (simp add: RetentionCleanupLimit_def)
    with that(1) b batch_inv [of s] batch_ctx [of s] batch_progress [of s] batch_keeps [of s] batch_subset [of s]
    show ?thesis by auto
  qed
  have fail: "?P s'" if "?P s" "fallible err batch k s = (Inl e, s')" for k s e s'
    using that by (auto simp: fallible_def split: option.splits prod.splits)
  have res: "\<exists>n e d'. drain_from (fallible err batch) 0 0 d = Some ((n, e), d') \<and> ?P d' \<and>
      (e = None \<longrightarrow> (\<exists>k t n'. ?P t \<and> fallible err batch k t = (Inr n', d') \<and> n' < RetentionCleanupLimit))"
  proof (rule drain_from_returns [where P = ?P and m = "\<lambda>s. length (tab s)"])
    show "?P d" using assms by simp
    fix k s n s'
    assume "?P s" "fallible err batch k s = (Inr n, s')"
    then show "?P s' \<and> (RetentionCleanupLimit \<le> n \<longrightarrow> length (tab s') < length (tab s))" by (rule ok)
  next
    fix k s e s'
    assume "?P s" "fallible err batch k s = (Inl e, s')"
    then show "?P s'" by (rule fail)
  qed
  obtain n e d' where r: "drain_from (fallible err batch) 0 0 d = Some ((n, e), d') \<and> ?P d' \<and>
      (e = None \<longrightarrow> (\<exists>k t n'. ?P t \<and> fallible err batch k t = (Inr n', d') \<and> n' < RetentionCleanupLimit))"
    using res by (elim exE) (rule that)
  have "\<forall>r \<in> set (tab d'). \<not> expired (ctx d) r" if "e = None"
  proof -
    from r that obtain k t n' where t: "?P t" "fallible err batch k t = (Inr n', d')" "n' < RetentionCleanupLimit"
      by blast
    then have "batch t = (n', d')" by (auto simp: fallible_def split: option.splits prod.splits)
    with t batch_last [of t] show ?thesis by auto
  qed
  with r show ?thesis by (auto simp: drainRetentionBatches_def)
qed

end

lemma set_delete_batch: "set (snd (delete_batch p key row_id limit rows)) \<subseteq> set rows"
  by (auto simp: delete_batch_def)

lemma delete_batch_unique: "unique_on k rows \<Longrightarrow> unique_on k (snd (delete_batch p key row_id limit rows))"
  by (simp add: delete_batch_def unique_on_filter)

lemmas delete_batch_facts =
  set_delete_batch delete_batch_unique delete_batch_keeps delete_batch_shrinks delete_batch_partial

interpretation clean_jobs: retention_table notification_jobs "\<lambda>_. ()" "\<lambda>_. nj_expired now"
  "delete_notification_batch now" "\<lambda>d. unique_on nj_id (notification_jobs d)" for now
  by unfold_locales
    (auto simp: delete_notification_batch_def case_prod_unfold Let_def delete_batch_partial
      intro: delete_batch_facts dest: subsetD [OF set_delete_batch])

interpretation clean_updates: retention_table telegram_updates "\<lambda>_. ()" "\<lambda>_. tu_expired now"
  "delete_update_batch now" "\<lambda>d. unique_on tu_update_id (telegram_updates d)" for now
  by unfold_locales
    (auto simp: delete_update_batch_def case_prod_unfold Let_def delete_batch_partial
      intro: delete_batch_facts dest: subsetD [OF set_delete_batch])

interpretation clean_replies: retention_table telegram_replies "\<lambda>_. ()" "\<lambda>_. tr_expired now"
  "delete_reply_batch now" "\<lambda>d. unique_on tr_id (telegram_replies d)" for now
  by unfold_locales
    (auto simp: delete_reply_batch_def case_prod_unfold Let_def delete_batch_partial
      intro: delete_batch_facts dest: subsetD [OF set_delete_batch])

interpretation clean_alerts: retention_table price_alerts notification_jobs "pa_expired now"
  "delete_alert_batch now" "\<lambda>d. unique_on pa_id (price_alerts d)" for now
  by unfold_locales
    (auto simp: delete_alert_batch_def case_prod_unfold Let_def delete_batch_partial
      intro: delete_batch_facts dest: subsetD [OF set_delete_batch])

end
