(* ===== verification/Database_Invariant.thy ===== *)
theory Database_Invariant
  imports Retention
begin

text \<open>
  The invariant of the whole database, and that every transaction of the program keeps it. It joins
  the invariants of the tables; each operation touches a few of them.
\<close>

section \<open>The invariant\<close>

definition tu_row_ok :: "int \<Rightarrow> update_row \<Rightarrow> bool" where
  "tu_row_ok epoch r \<longleftrightarrow>
     0 \<le> tu_attempts r \<and> (tu_status r = U_Processing \<longrightarrow> 1 \<le> tu_attempts r) \<and>
     (tu_claimed_until r \<noteq> None \<longleftrightarrow> tu_status r = U_Processing) \<and>
     (tu_status r = U_Processed \<longrightarrow> tu_processed_at r \<noteq> None) \<and>
     (tu_status r = U_Failed \<longrightarrow> tu_failed_at r \<noteq> None) \<and>
     tu_shard_id r = telegramShardIndex (tu_chat_id r) TelegramUpdateShardCount \<and>
     tu_stream_epoch r \<le> epoch"

definition updates_inv :: "int \<Rightarrow> update_row list \<Rightarrow> bool" where
  "updates_inv epoch rows \<longleftrightarrow> unique_on tu_update_id rows \<and> (\<forall>r \<in> set rows. tu_row_ok epoch r)"

definition prices_inv :: "price_row list \<Rightarrow> bool" where
  "prices_inv rows \<longleftrightarrow> unique_on mp_symbol rows \<and> (\<forall>r \<in> set rows. isValidMarketPrice (mp_price r))"

definition db_inv :: "db \<Rightarrow> bool" where
  "db_inv d \<longleftrightarrow>
     unique_on sub_chat_id (subscribers d) \<and> jobs_inv (notification_seq d) (notification_jobs d) \<and>
     alerts_inv d \<and> replies_inv (reply_seq d) (telegram_replies d) \<and>
     versions_inv (telegram_mutation_versions d) \<and> updates_inv (stream_epoch d) (telegram_updates d) \<and>
     prices_inv (market_prices d)"

lemma db_inv_empty: "db_inv (empty_db now)"
  by (simp add: db_inv_def empty_db_def unique_on_def unique_where_def jobs_inv_def alerts_inv_def replies_inv_def
      versions_inv_def updates_inv_def prices_inv_def live_count_def)

text \<open>The alert invariant looks at four columns of the database only.\<close>

lemma alerts_inv_cong:
  "notification_jobs d' = notification_jobs d \<Longrightarrow> price_alerts d' = price_alerts d \<Longrightarrow>
   alert_seq d' = alert_seq d \<Longrightarrow> price_alert_crossings d' = price_alert_crossings d \<Longrightarrow>
   alerts_inv d' = alerts_inv d"
  by (simp add: alerts_inv_def live_count_def alert_live_def)

lemma alerts_inv_frame [simp]:
  "alerts_inv (d\<lparr>subscribers := a\<rparr>) = alerts_inv d"
  "alerts_inv (d\<lparr>telegram_updates := b\<rparr>) = alerts_inv d"
  "alerts_inv (d\<lparr>telegram_replies := c\<rparr>) = alerts_inv d"
  "alerts_inv (d\<lparr>reply_seq := e\<rparr>) = alerts_inv d"
  "alerts_inv (d\<lparr>telegram_mutation_versions := f\<rparr>) = alerts_inv d"
  "alerts_inv (d\<lparr>stream_epoch := g\<rparr>) = alerts_inv d"
  "alerts_inv (d\<lparr>stream_last_received_at := h\<rparr>) = alerts_inv d"
  "alerts_inv (d\<lparr>notification_seq := i\<rparr>) = alerts_inv d"
  "alerts_inv (d\<lparr>market_prices := j\<rparr>) = alerts_inv d"
  by (rule alerts_inv_cong; simp)+

section \<open>The notification outbox\<close>

text \<open>Any tame update of the jobs, with any update of subscribers that keeps their chats.\<close>

lemma db_inv_job_update:
  assumes inv: "db_inv d" and tame: "nj_tame p f" and g: "\<And>s. sub_chat_id (g s) = sub_chat_id s"
  shows "db_inv (d\<lparr>notification_jobs := sql_update p f (notification_jobs d),
                   subscribers := sql_update q g (subscribers d)\<rparr>)"
proof -
  have jobs: "jobs_inv (notification_seq d) (notification_jobs d)" and al: "alerts_inv d"
    using inv by (simp_all add: db_inv_def)
  then have "\<And>r. r \<in> set (notification_jobs d) \<Longrightarrow> nj_row_ok r" by (simp add: jobs_inv_def)
  then have "alerts_inv (d\<lparr>notification_jobs := sql_update p f (notification_jobs d)\<rparr>)"
    by (intro alerts_inv_job_update [OF al tame]) auto
  moreover have "unique_on sub_chat_id (sql_update q g (subscribers d))"
    using inv g by (intro unique_on_update) (auto simp: db_inv_def)
  ultimately show ?thesis
    using inv jobs_inv_update [OF jobs tame] by (simp add: db_inv_def)
qed

lemma sql_update_True_id: "sql_update (\<lambda>_. False) g rows = rows"
  by (rule sql_update_none) simp

lemma db_inv_jobs_only: "db_inv d \<Longrightarrow> nj_tame p f \<Longrightarrow> db_inv (d\<lparr>notification_jobs := sql_update p f (notification_jobs d)\<rparr>)"
  using db_inv_job_update [of d p f id "\<lambda>_. False"] by (simp add: sql_update_True_id)

lemma claim_notification_inv:
  assumes "claim_notification_loop try_lock now tok cs d = Inr (res, d')" "db_inv d"
  shows "db_inv d'"
proof -
  have "nj_tame (\<lambda>r. nj_id r = cid \<and> nj_claimable now r) (nj_claim now tok)" for cid
    by (rule nj_tame_claim) simp
  then show ?thesis
    using claim_notification_loop_cases [OF assms(1)] assms(2) db_inv_jobs_only by auto
qed

lemma finish_notification_db_inv:
  assumes "finish_notification job f g d = Inr (u, d')" "nj_tame (nj_owned job) f"
    "\<And>s. sub_chat_id (g s) = sub_chat_id s" "db_inv d"
  shows "db_inv d'"
  using assms db_inv_job_update [OF assms(4,2,3)] by (auto simp: finish_notification_cases)

lemma cron_body_inv:
  assumes "cron_body row_locked cache clock now d = Inr (n, d')" "db_inv d"
  shows "db_inv d'"
proof -
  let ?due = "due_subscribers row_locked now d"
  let ?rows = "cron_rows cache clock now (notification_seq d) ?due"
  let ?subs = "sql_update (\<lambda>s. sub_chat_id s \<in> set (map sub_chat_id ?due))
      (\<lambda>s. s\<lparr>cron_claimed_until := Some (now + 15 * minute)\<rparr>) (subscribers d)"
  have u: "unique_on sub_chat_id (subscribers d)" using assms(2) by (simp add: db_inv_def)
  have d': "d' = d\<lparr>subscribers := ?subs, notification_jobs := notification_jobs d @ ?rows,
      notification_seq := notification_seq d + int (length ?due)\<rparr>"
    using assms(1) unfolding cron_body_eq [OF u] Let_def by (auto simp only: sum.inject prod.inject)
  have "unique_on sub_chat_id ?subs" using u by (intro unique_on_update) auto
  moreover have "jobs_inv (notification_seq d + int (length ?due)) (notification_jobs d @ ?rows)"
  proof (rule cron_rows_inv)
    show "jobs_inv (notification_seq d) (notification_jobs d)" using assms(2) by (simp add: db_inv_def)
    show "distinct (map sub_chat_id ?due)" by (rule distinct_due_subscribers [OF u])
    show "no_active_job (notification_jobs d) (sub_chat_id s)" if "s \<in> set ?due" for s
      using due_subscribersD [OF that] sub_due_no_active by blast
  qed
  moreover have "alerts_inv d'"
  proof (rule alerts_inv_scheduled [of d ?rows])
    show "alerts_inv d" using assms(2) by (simp add: db_inv_def)
    show "nj_price_alert_id r = None" if "r \<in> set ?rows" for r
    proof -
      have "r \<in> set (cron_rows cache clock now s ss) \<Longrightarrow> nj_price_alert_id r = None" for s ss
        by (induction ss arbitrary: s) (auto simp: new_notification_def)
      from this [OF that] show ?thesis .
    qed
  qed (simp_all add: d')
  ultimately show ?thesis
    using assms(2) by (simp add: db_inv_def d')
qed

section \<open>The reply outbox\<close>

lemma db_inv_replies:
  "db_inv d \<Longrightarrow> replies_inv s rows \<Longrightarrow> db_inv (d\<lparr>telegram_replies := rows, reply_seq := s\<rparr>)"
  by (simp add: db_inv_def)

lemma claim_reply_db_inv:
  assumes "claim_reply_loop try_lock now tok cs d = Inr (res, d')" "db_inv d"
  shows "db_inv d'"
proof -
  have "replies_inv (reply_seq d') (telegram_replies d')"
    using claim_reply_loop_inv [OF assms(1)] assms(2) by (simp add: db_inv_def)
  moreover have "\<exists>rows. d' = d\<lparr>telegram_replies := rows\<rparr>"
    using claim_reply_loop_cases [OF assms(1)] by (auto intro: exI [of _ "telegram_replies d"])
  ultimately show ?thesis using assms(2) by (auto simp: db_inv_def)
qed

lemma finish_reply_db_inv:
  assumes "finish_reply job f d = Inr (u, d')" "tr_tame (telegram_replies d) (tr_owned job) f" "db_inv d"
  shows "db_inv d'"
  using assms finish_reply_inv [OF assms(1,2)] by (auto simp: finish_reply_cases db_inv_def)

section \<open>The inbox\<close>

definition tu_tame :: "int \<Rightarrow> (update_row \<Rightarrow> bool) \<Rightarrow> (update_row \<Rightarrow> update_row) \<Rightarrow> bool" where
  "tu_tame epoch p f \<longleftrightarrow>
     (\<forall>r. p r \<longrightarrow> tu_row_ok epoch r \<longrightarrow> tu_update_id (f r) = tu_update_id r \<and> tu_row_ok epoch (f r))"

lemma updates_inv_update:
  assumes "updates_inv epoch rows" "tu_tame epoch p f"
  shows "updates_inv epoch (sql_update p f rows)"
  using assms by (auto simp: updates_inv_def tu_tame_def set_sql_update intro!: unique_on_update)

lemma tu_tame_ops:
  "tu_tame epoch p (tu_claim now ())"
  "tu_tame epoch (tu_owned job) (tu_set_processed now)"
  "tu_tame epoch (tu_owned job) (tu_set_retry now delay err)"
  "tu_tame epoch (tu_owned job) (tu_set_failed now err)"
  by (auto simp: tu_tame_def tu_row_ok_def tu_claim_def tu_set_processed_def tu_set_retry_def tu_set_failed_def tu_owned_def)

lemma db_inv_updates: "db_inv d \<Longrightarrow> tu_tame (stream_epoch d) p f \<Longrightarrow> db_inv (d\<lparr>telegram_updates := sql_update p f (telegram_updates d)\<rparr>)"
  by (simp add: db_inv_def updates_inv_update)

lemma claim_update_inv:
  "claim_update_stmt row_locked now shards d = Inr (res, d') \<Longrightarrow> db_inv d \<Longrightarrow> db_inv d'"
  by (auto simp: claim_update_stmt_def split: list.splits intro!: db_inv_updates tu_tame_ops)

lemma finish_update_cases:
  "finish_update job f d = Inr (u, d') \<longleftrightarrow>
     0 < affected (tu_owned job) (telegram_updates d) \<and>
     d' = d\<lparr>telegram_updates := sql_update (tu_owned job) f (telegram_updates d)\<rparr>"
  by (cases "affected (tu_owned job) (telegram_updates d)")
    (auto simp: finish_update_def ensureCurrentJobClaimUpdated_def)

lemma finish_update_inv:
  "finish_update job f d = Inr (u, d') \<Longrightarrow> tu_tame (stream_epoch d) (tu_owned job) f \<Longrightarrow> db_inv d \<Longrightarrow> db_inv d'"
  by (auto simp: finish_update_cases intro: db_inv_updates)

lemma save_update_inv:
  assumes "save_update_body clock1 clock2 now u payload d = Inr (b, d')" "db_inv d"
  shows "db_inv d'"
proof (cases "sql_exists (\<lambda>r. tu_update_id r = u_id u) (telegram_updates d)")
  case True
  with assms show ?thesis by (simp add: save_update_body_def Let_def)
next
  case False
  have mono: "tu_row_ok (stream_epoch d) r \<Longrightarrow> tu_row_ok (next_epoch clock1 d) r" for r
    by (auto simp: tu_row_ok_def next_epoch_def)
  from False have "u_id u \<notin> tu_update_id ` set (telegram_updates d)" by (auto simp: sql_exists_iff)
  then show ?thesis
    using assms False mono
    by (auto simp: save_update_body_def Let_def db_inv_def updates_inv_def new_update_row_def tu_row_ok_def)
qed

section \<open>Handlers\<close>

text \<open>Handlers keep the invariant and do not touch the inbox, the replies and the versions.\<close>

definition handler_ok :: "db \<Rightarrow> db \<Rightarrow> bool" where
  "handler_ok d d' \<longleftrightarrow>
     db_inv d' \<and> telegram_updates d' = telegram_updates d \<and> telegram_replies d' = telegram_replies d \<and>
     reply_seq d' = reply_seq d \<and> telegram_mutation_versions d' = telegram_mutation_versions d \<and>
     stream_epoch d' = stream_epoch d"

lemma handler_ok_refl: "db_inv d \<Longrightarrow> handler_ok d d"
  by (simp add: handler_ok_def)

lemma reply_db [simp]: "hs_db (reply chat txt m h) = hs_db h" "hs_db (ack cid txt h) = hs_db h"
  by (simp_all add: reply_def ack_def)

lemma showPriceAlertMenu_db [simp]: "hs_db (showPriceAlertMenu env chat lang h) = hs_db h"
  by (simp add: showPriceAlertMenu_def)

lemma showPriceAlertList_db [simp]: "hs_db (snd (showPriceAlertList env chat lang h)) = hs_db h"
  by (auto simp: showPriceAlertList_def split: sum.split)

lemma createPriceAlert_ok:
  assumes "createPriceAlert err cache dbNow createdAt now updateID chatID lang symbol percent d = Inr (res, d')" "db_inv d"
  shows "handler_ok d d'"
proof -
  have "alerts_inv d'" using createPriceAlert_inv [OF assms(1)] assms(2) by (simp add: db_inv_def)
  then show ?thesis
    using createPriceAlert_cases [OF assms(1)] assms(2) by (auto simp: handler_ok_def db_inv_def)
qed

lemma cancelPriceAlert_ok:
  assumes "cancelPriceAlert err now chatID i d = Inr (res, d')" "db_inv d"
  shows "handler_ok d d'"
proof -
  have "alerts_inv d'" "jobs_inv (notification_seq d') (notification_jobs d')"
    using cancelPriceAlert_inv [OF assms(1)] assms(2) by (simp_all add: db_inv_def)
  then show ?thesis
    using cancelPriceAlert_cases [OF assms(1)] assms(2) by (auto simp: handler_ok_def db_inv_def)
qed

lemma addPriceAlertAndReply_ok:
  "db_inv (hs_db h) \<Longrightarrow> handler_ok (hs_db h) (hs_db (snd (addPriceAlertAndReply env u chat lang s p h)))"
  by (auto simp: addPriceAlertAndReply_def handler_ok_refl split: option.split sum.split
      intro: createPriceAlert_ok)

lemma handle_alert_delete_ok:
  "db_inv (hs_db h) \<Longrightarrow> handler_ok (hs_db h) (hs_db (snd (handle_alert_delete env chat data lang h)))"
  by (auto simp: handle_alert_delete_def handler_ok_refl Let_def split: option.split sum.split
      intro: cancelPriceAlert_ok)

lemma handle_alert_coin_db [simp]: "hs_db (handle_alert_coin chat data lang h) = hs_db h"
  by (simp add: handle_alert_coin_def Let_def split: option.split)

lemma handlePriceAlertCommand_ok:
  "db_inv (hs_db h) \<Longrightarrow> handler_ok (hs_db h) (hs_db (snd (handlePriceAlertCommand env u chat args lang h)))"
  by (simp add: handlePriceAlertCommand_def Let_def handler_ok_refl addPriceAlertAndReply_ok)

lemma handlePriceAlertCallback_ok:
  "db_inv (hs_db h) \<Longrightarrow> handler_ok (hs_db h) (hs_db (snd (handlePriceAlertCallback env u chat cid data lang h)))"
  by (auto simp: handlePriceAlertCallback_def Let_def case_prod_unfold handler_ok_refl handle_alert_delete_ok
      addPriceAlertAndReply_ok split: list.split)

lemma db_inv_subscribers:
  "db_inv d \<Longrightarrow> unique_on sub_chat_id subs \<Longrightarrow> handler_ok d (d\<lparr>subscribers := subs\<rparr>)"
  by (simp add: handler_ok_def db_inv_def)

lemma upsert_subscriber_unique:
  "unique_on sub_chat_id subs \<Longrightarrow> (\<And>s. sub_chat_id (f s) = sub_chat_id s) \<Longrightarrow>
     unique_on sub_chat_id (upsert_subscriber new f subs)"
  by (auto simp: upsert_subscriber_def sql_exists_iff intro!: unique_on_update)

lemma subscriber_ops_ok:
  assumes "db_inv d"
  shows "handler_ok d (set_language now chat lang d)" "handler_ok d (activate_subscription now chat lang d)"
    "handler_ok d (snd (set_interval now chat m d))"
proof -
  have u: "unique_on sub_chat_id (subscribers d)" using assms by (simp add: db_inv_def)
  show "handler_ok d (set_language now chat lang d)" "handler_ok d (activate_subscription now chat lang d)"
    unfolding set_language_def activate_subscription_def Let_def
    by (intro db_inv_subscribers [OF assms] upsert_subscriber_unique [OF u]; simp)+
  show "handler_ok d (snd (set_interval now chat m d))"
    unfolding set_interval_def Let_def snd_conv
    by (intro db_inv_subscribers [OF assms] unique_on_update [OF u]) simp
qed

lemma unsubscribe_ok:
  assumes "unsubscribe err now chat d = Inr d'" "db_inv d"
  shows "handler_ok d d'"
proof -
  let ?q = "\<lambda>s. sub_chat_id s = chat"
  let ?g = "\<lambda>s. s\<lparr>is_subscribed := False, cron_claimed_until := None, delivery_suspended_until := None\<rparr>"
  let ?p = "\<lambda>r. nj_chat_id r = chat \<and> nj_kind r = Scheduled \<and> nj_open r"
  let ?f = "nj_set_canceled now ''subscription canceled''"
  have "d' = d\<lparr>notification_jobs := sql_update ?p ?f (notification_jobs d), subscribers := sql_update ?q ?g (subscribers d)\<rparr>"
    using assms(1) by (auto simp: unsubscribe_def Let_def split: option.splits)
  with db_inv_job_update [OF assms(2) nj_tame_cancel, of ?g ?q ?p now "''subscription canceled''"]
  show ?thesis by (simp add: handler_ok_def)
qed

lemma handle_callback_ok:
  "db_inv (hs_db h) \<Longrightarrow> handler_ok (hs_db h) (hs_db (snd (handle_callback env u query h)))"
  using subscriber_ops_ok(1,3) [of "hs_db h"]
  by (auto simp: handle_callback_def handle_setlang_def handle_interval_def handle_refresh_def Let_def case_prod_unfold
      handler_ok_refl handlePriceAlertCallback_ok split: option.split)

lemma subscription_handlers_ok:
  assumes "db_inv (hs_db h)"
  shows "handler_ok (hs_db h) (hs_db (snd (handle_subscribe env chat lang h)))"
    "handler_ok (hs_db h) (hs_db (snd (handle_unsubscribe env chat lang h)))"
    "handler_ok (hs_db h) (hs_db (snd (handle_interval_menu env chat lang h)))"
  using assms subscriber_ops_ok(2) [OF assms]
  by (auto simp: handle_subscribe_def handle_unsubscribe_def handle_interval_menu_def Let_def handler_ok_refl
      split: option.split sum.split intro: unsubscribe_ok)

lemma handle_command_ok:
  "db_inv (hs_db h) \<Longrightarrow> handler_ok (hs_db h) (hs_db (snd (handle_command env u m chat h)))"
  by (simp add: handle_command_def Let_def handler_ok_refl subscription_handlers_ok handlePriceAlertCommand_ok)

lemma processTelegramUpdateWithDB_ok:
  "db_inv (hs_db h) \<Longrightarrow> handler_ok (hs_db h) (hs_db (snd (processTelegramUpdateWithDB env u h)))"
  by (auto simp: processTelegramUpdateWithDB_def handler_ok_refl handle_callback_ok handle_command_ok
      split: option.split)

section \<open>The update transaction\<close>

lemma allowTelegramMutation_cases:
  assumes "allowTelegramMutation err job u d = Inr (b, d')"
  shows "d' = d \<or> d' = d\<lparr>telegram_mutation_versions :=
     snd (upsert_version (uj_chat_id job) (telegramMutationSetting u) (uj_version job) (telegram_mutation_versions d))\<rparr>"
  using assms
  by (auto simp: allowTelegramMutation_def Let_def case_prod_unfold run_read_def split: if_splits option.splits sum.splits)

lemma allowTelegramMutation_inv: "allowTelegramMutation err job u d = Inr (b, d') \<Longrightarrow> db_inv d \<Longrightarrow> db_inv d'"
  using allowTelegramMutation_cases [of err job u d b d'] by (auto simp: db_inv_def versions_inv_upsert)

lemma apply_update_inv:
  assumes "apply_update env job u d = Inr (col, d')" "db_inv d"
  shows "db_inv d'"
proof -
  obtain b d1 where a: "allowTelegramMutation (he_err env) job u d = Inr (b, d1)"
    using assms(1) by (auto simp: apply_update_def split: sum.splits)
  then have inv: "db_inv d1" using allowTelegramMutation_inv assms(2) by blast
  show ?thesis
  proof (cases b)
    case False
    with assms(1) a inv show ?thesis by (auto simp: apply_update_def)
  next
    case True
    obtain e h where h: "processTelegramUpdateWithDB env u (empty_handler_state d1) = (e, h)"
      by (cases "processTelegramUpdateWithDB env u (empty_handler_state d1)")
    with processTelegramUpdateWithDB_ok [of "empty_handler_state d1" env u] inv have "db_inv (hs_db h)"
      by (simp add: handler_ok_def empty_handler_state_def)
    with assms(1) a True h show ?thesis by (auto simp: apply_update_def split: option.splits)
  qed
qed

lemma insert_replies_inv:
  "insert_replies now uid k rs d = Inr d' \<Longrightarrow> db_inv d \<Longrightarrow> db_inv d'"
proof (induction rs arbitrary: k d)
  case Nil
  then show ?case by simp
next
  case (Cons r rs)
  have inv: "replies_inv (reply_seq d) (telegram_replies d)" using Cons.prems(2) by (simp add: db_inv_def)
  then have skip: "replies_inv (reply_seq d + 1) (telegram_replies d)" by (auto simp: replies_inv_def)
  have add: "replies_inv (reply_seq d + 1) (telegram_replies d @ [new_reply_row (reply_seq d) now uid k r])"
    if "\<not> sql_exists (\<lambda>x. tr_source_update_id x = uid \<and> tr_sequence_no x = k) (telegram_replies d)"
    using that by (intro replies_inv_snoc [OF inv]) (auto simp: new_reply_row_def tr_row_ok_def sql_exists_iff)
  show ?case
    using Cons.prems Cons.IH db_inv_replies [OF Cons.prems(2) skip] db_inv_replies [OF Cons.prems(2) add]
    by (auto split: if_splits)
qed

lemma completeTelegramUpdateTx_inv:
  "completeTelegramUpdateTx err now job rs d = Inr d' \<Longrightarrow> db_inv d \<Longrightarrow> db_inv d'"
  using insert_replies_inv finish_update_inv [OF _ tu_tame_ops(2)]
  by (fastforce simp: completeTelegramUpdateTx_def split: option.splits sum.splits if_splits)

lemma update_tx_inv: "update_tx env job u d = Inr (col, d') \<Longrightarrow> db_inv d \<Longrightarrow> db_inv d'"
  by (auto simp: update_tx_def split: sum.splits intro: completeTelegramUpdateTx_inv apply_update_inv)

section \<open>Prices, crossings and alerts\<close>

lemma persist_body_inv:
  assumes "persist_body en err storedAt dbNow symbol price startedAt d = Inr (t, d')"
    and "isValidMarketPrice price" "db_inv d"
  shows "db_inv d'"
proof -
  have "alerts_inv d'" using persist_body_alerts_inv [OF assms(1)] assms(3) by (simp add: db_inv_def)
  moreover have "prices_inv (upsert_price symbol price storedAt (market_prices d))"
    using upsert_price_inv [of "market_prices d" price symbol storedAt] assms(2,3)
    by (simp add: db_inv_def prices_inv_def)
  ultimately show ?thesis
    using persist_body_cases [OF assms(1)] assms(3) by (auto simp: db_inv_def)
qed

lemma trigger_body_inv:
  assumes "trigger_body try_lock now i chat price fetchedAt d = Inr (b, d')" "db_inv d"
  shows "db_inv d'"
proof -
  have inv: "alerts_inv d" "jobs_inv (notification_seq d) (notification_jobs d)"
    using assms(2) by (simp_all add: db_inv_def)
  from trigger_body_cases [OF assms(1) inv(1)] consider "d' = d"
    | a where "a \<in> set (price_alerts d)" "pa_id a = i" "pa_status a = A_Active" "d' = trigger_db now i price fetchedAt a d"
    by blast
  then show ?thesis
  proof cases
    case 1
    with assms(2) show ?thesis by simp
  next
    case 2
    from trigger_db_alerts_inv [OF inv(1) 2(1-3)] trigger_db_jobs_inv [OF inv 2(1-3)] assms(2) 2(4)
    show ?thesis by (simp add: db_inv_def trigger_db_def)
  qed
qed

lemma triggerPriceAlert_inv: "db_inv d \<Longrightarrow> db_inv (snd (triggerPriceAlert fault try_lock now c d))"
  unfolding triggerPriceAlert_def case_prod_unfold
  by (rule run_tx_preserves [of db_inv], assumption) (rule trigger_body_inv)

lemma delete_stale_db_inv: "db_inv d \<Longrightarrow> db_inv (delete_stale_crossings d)"
  using delete_stale_inv [of d] by (simp add: db_inv_def delete_stale_crossings_def)

section \<open>Retention\<close>

lemma jobs_inv_filter: "jobs_inv seq jobs \<Longrightarrow> jobs_inv seq (filter p jobs)"
  by (auto simp: jobs_inv_def unique_on_filter unique_where_filter)

lemma affected_filter_le: "affected p (filter q rows) \<le> affected p rows"
  by (induction rows) auto

lemma alerts_inv_jobs_filter:
  assumes "alerts_inv d"
  shows "alerts_inv (d\<lparr>notification_jobs := filter p (notification_jobs d)\<rparr>)"
proof -
  let ?d' = "d\<lparr>notification_jobs := filter p (notification_jobs d)\<rparr>"
  have "alert_live ?d' a \<Longrightarrow> alert_live d a" for a
    by (auto simp: alert_live_def alert_queued_def sql_exists_iff)
  then have "live_count chat ?d' \<le> live_count chat d" for chat
    unfolding live_count_def by (simp, intro affected_mono) auto
  then have "live_count chat ?d' \<le> maxActivePriceAlerts" for chat
    using assms by (meson alerts_inv_def le_trans)
  with assms show ?thesis
    unfolding alerts_inv_def by simp
qed

lemma delete_notification_inv: "db_inv d \<Longrightarrow> db_inv (snd (delete_notification_batch now d))"
  by (simp add: delete_notification_batch_def delete_batch_def Let_def db_inv_def jobs_inv_filter alerts_inv_jobs_filter)

lemma delete_update_inv: "db_inv d \<Longrightarrow> db_inv (snd (delete_update_batch now d))"
  by (auto simp: delete_update_batch_def delete_batch_def Let_def db_inv_def updates_inv_def unique_on_filter)

lemma delete_reply_inv: "db_inv d \<Longrightarrow> db_inv (snd (delete_reply_batch now d))"
  by (simp add: delete_reply_batch_def delete_batch_def Let_def db_inv_def replies_inv_filter)

text \<open>An alert is deleted only when no job refers to it, so the links stay.\<close>

lemma delete_alert_inv:
  assumes "db_inv d"
  shows "db_inv (snd (delete_alert_batch now d))"
proof -
  let ?p = "pa_expired now (notification_jobs d)"
  let ?ids = "map pa_id (sql_select ?p (\<lambda>a. (pa_updated_at a, pa_id a)) RetentionCleanupLimit (price_alerts d))"
  let ?q = "\<lambda>a. pa_id a \<notin> set ?ids"
  obtain cq where d': "snd (delete_alert_batch now d) =
      d\<lparr>price_alerts := filter ?q (price_alerts d), price_alert_crossings := filter cq (price_alert_crossings d)\<rparr>"
    by (simp add: delete_alert_batch_def delete_batch_def Let_def)
  have al: "alerts_inv d" using assms by (simp add: db_inv_def)
  have keep: "?q a" if "r \<in> set (notification_jobs d)" "nj_price_alert_id r = Some (pa_id a)" for r a
  proof
    assume "pa_id a \<in> set ?ids"
    then obtain b where "b \<in> set (price_alerts d)" "?p b" "pa_id b = pa_id a"
      by (auto dest: sql_selectD)
    with that show False by (auto simp: pa_expired_def sql_exists_iff)
  qed
  have "job_linked (filter ?q (price_alerts d)) r" if r: "r \<in> set (notification_jobs d)" for r
  proof (cases "nj_price_alert_id r")
    case (Some i)
    from job_linkedD [OF al r Some] keep [OF r] Some show ?thesis
      by (fastforce simp: job_linked_def)
  qed (simp add: job_linked_def)
  moreover have "live_count chat (snd (delete_alert_batch now d)) \<le> maxActivePriceAlerts" for chat
  proof -
    have "live_count chat (snd (delete_alert_batch now d)) \<le> live_count chat d"
      unfolding live_count_def alert_live_def d' by (simp add: affected_filter_le)
    also have "\<dots> \<le> maxActivePriceAlerts" using al by (simp add: alerts_inv_def)
    finally show ?thesis .
  qed
  ultimately have "alerts_inv (snd (delete_alert_batch now d))"
    using al by (simp add: alerts_inv_def d' unique_on_filter unique_where_filter)
  with assms show ?thesis by (simp add: db_inv_def d')
qed

end
