(* ===== verification/Migrations.thy ===== *)
theory Migrations
  imports Database_Invariant
begin

text \<open>
  What the SQL migrations (\<^verbatim>\<open>migrations/001\<close> to \<^verbatim>\<open>012\<close>) do to data. Migration 001 may meet tables
  of an older deployment without constraints: it repairs what it can and raises an exception for the
  rest; 009 drops prices that are no market prices; 012 recovers the order of the commands that were
  processed before the upgrade. The other migrations create empty tables or nullable columns (006 clears
  the tokens of a column it has just added).

  The library goose runs each migration in a transaction, so an exception leaves the tables as they
  were: the result is the error.
\<close>

section \<open>The tables of an older deployment\<close>

record legacy_subscriber =
  ls_chat_id :: "int option"
  ls_interval_minutes :: "int option"
  ls_last_sent :: "time option"
  ls_language_code :: "string option"
  ls_is_subscribed :: "bool option"
  ls_cron_claimed_until :: "time option"

record legacy_price =
  lp_symbol :: "string option"
  lp_price :: "float64 option"
  lp_updated_at :: "time option"

record legacy_db =
  legacy_subscribers :: "legacy_subscriber list"
  legacy_prices :: "legacy_price list"

section \<open>Migration 001\<close>

definition repair_subscriber :: "time \<Rightarrow> legacy_subscriber \<Rightarrow> legacy_subscriber" where
  "repair_subscriber now s =
     s\<lparr>ls_interval_minutes :=
          (case ls_interval_minutes s of
             None \<Rightarrow> Some 60
           | Some m \<Rightarrow> if m < 1 \<or> m > 1440 then Some 60 else Some m),
       ls_last_sent := (case ls_last_sent s of None \<Rightarrow> Some (now - 2 * minute) | Some t \<Rightarrow> Some t),
       ls_language_code :=
          (case ls_language_code s of
             None \<Rightarrow> Some ''ua''
           | Some l \<Rightarrow> if l \<in> {''ua'', ''en'', ''ru''} then Some l else Some ''ua''),
       ls_is_subscribed := (case ls_is_subscribed s of None \<Rightarrow> Some False | Some b \<Rightarrow> Some b)\<rparr>"

text \<open>\<^verbatim>\<open>GROUP BY k HAVING COUNT(*) > 1\<close> has a row.\<close>

definition has_duplicates :: "('r \<Rightarrow> 'k) \<Rightarrow> 'r list \<Rightarrow> bool" where
  "has_duplicates k rows = list_ex (\<lambda>r. affected (\<lambda>r'. k r' = k r) rows > 1) rows"

definition check_subscribers :: "legacy_subscriber list \<Rightarrow> go_error option" where
  "check_subscribers rows =
     (if sql_exists (\<lambda>s. ls_chat_id s = None) rows
      then Some (PlainError ''subscribers.chat_id contains NULL values; fix data before applying constraints'')
      else if has_duplicates ls_chat_id rows
      then Some (PlainError ''subscribers.chat_id contains duplicate values; fix data before applying unique index'')
      else None)"

text \<open>PostgreSQL compares \<^verbatim>\<open>double precision\<close> values with \<^verbatim>\<open>NaN\<close> as the greatest.\<close>

definition pg_less :: "float64 \<Rightarrow> float64 \<Rightarrow> bool" where
  "pg_less x y = (if x = NaN then False else if y = NaN then True else f64_lt x y)"

definition repair_price :: "time \<Rightarrow> legacy_price \<Rightarrow> legacy_price" where
  "repair_price now p =
     p\<lparr>lp_updated_at := (case lp_updated_at p of None \<Rightarrow> Some now | Some t \<Rightarrow> Some t)\<rparr>"

definition check_prices :: "legacy_price list \<Rightarrow> go_error option" where
  "check_prices rows =
     (if sql_exists (\<lambda>p. lp_symbol p = None \<or> lp_symbol p = Some []) rows
      then Some (PlainError ''market_prices.symbol contains NULL or empty values; fix data before applying constraints'')
      else if sql_exists (\<lambda>p. case lp_price p of None \<Rightarrow> True | Some x \<Rightarrow> pg_less x (Fin 0)) rows
      then Some (PlainError ''market_prices.price contains NULL or negative values; fix data before applying constraints'')
      else if has_duplicates lp_symbol rows
      then Some (PlainError ''market_prices.symbol contains duplicate values; fix data before applying unique index'')
      else None)"

text \<open>After the checks the columns are \<^verbatim>\<open>NOT NULL\<close>; migration 003 adds the empty suspension column.\<close>

definition subscriber_row :: "legacy_subscriber \<Rightarrow> subscriber" where
  "subscriber_row s =
     \<lparr>sub_chat_id = the (ls_chat_id s), interval_minutes = ls_interval_minutes s, last_sent = ls_last_sent s,
      language_code = ls_language_code s, is_subscribed = the (ls_is_subscribed s),
      cron_claimed_until = ls_cron_claimed_until s, delivery_suspended_until = None\<rparr>"

definition market_price_row :: "legacy_price \<Rightarrow> price_row" where
  "market_price_row p =
     \<lparr>mp_symbol = the (lp_symbol p), mp_price = the (lp_price p), mp_updated_at = the (lp_updated_at p)\<rparr>"

definition migrate_001 :: "time \<Rightarrow> legacy_db \<Rightarrow> go_error + subscriber list \<times> price_row list" where
  "migrate_001 now l =
     (let subs = map (repair_subscriber now) (legacy_subscribers l);
          prices = map (repair_price now) (legacy_prices l)
      in case check_subscribers subs of
           Some e \<Rightarrow> Inl e
         | None \<Rightarrow>
             (case check_prices prices of
                Some e \<Rightarrow> Inl e
              | None \<Rightarrow> Inr (map subscriber_row subs, map market_price_row prices)))"

section \<open>Migration 009\<close>

definition price_check :: "float64 \<Rightarrow> bool" where
  "price_check x \<longleftrightarrow> pg_less (Fin 0) x \<and> pg_less x PInf \<and> x \<noteq> NaN"

definition migrate_009 :: "price_row list \<Rightarrow> price_row list" where
  "migrate_009 rows = filter (\<lambda>r. price_check (mp_price r)) rows"

section \<open>Migration 012\<close>

text \<open>
  The regular expressions \<^verbatim>\<open>^/(subscribe|unsubscribe)(@[A-Za-z0-9_]+)?([[:space:]]|$)\<close> and
  \<^verbatim>\<open>^int_[0-9]{1,4}$\<close>. The text and the callback data of a stored payload are results of PostgreSQL's
  \<^verbatim>\<open>jsonb\<close> operators: parameters of the migration.
\<close>

definition is_word_char :: "char \<Rightarrow> bool" where
  "is_word_char c \<longleftrightarrow>
     (let n = of_char c :: nat in 65 \<le> n \<and> n \<le> 90 \<or> 97 \<le> n \<and> n \<le> 122) \<or> is_digit c \<or> c = CHR ''_''"

definition is_space_char :: "char \<Rightarrow> bool" where
  "is_space_char c \<longleftrightarrow> c \<in> {CHR 0x09, CHR 0x0A, CHR 0x0B, CHR 0x0C, CHR 0x0D, CHR 0x20}"

definition word_ends :: "string \<Rightarrow> bool" where
  "word_ends s = (case s of [] \<Rightarrow> True | c # _ \<Rightarrow> is_space_char c)"

definition after_command :: "string \<Rightarrow> bool" where
  "after_command s \<longleftrightarrow>
     word_ends s \<or>
     (case s of
        c # t \<Rightarrow> c = CHR ''@'' \<and> takeWhile is_word_char t \<noteq> [] \<and> word_ends (dropWhile is_word_char t)
      | [] \<Rightarrow> False)"

definition subscription_text :: "string \<Rightarrow> bool" where
  "subscription_text s \<longleftrightarrow>
     HasPrefix s ''/subscribe'' \<and> after_command (drop 10 s) \<or>
     HasPrefix s ''/unsubscribe'' \<and> after_command (drop 12 s)"

definition interval_data :: "string \<Rightarrow> bool" where
  "interval_data s \<longleftrightarrow>
     HasPrefix s ''int_'' \<and> list_all is_digit (drop 4 s) \<and> drop 4 s \<noteq> [] \<and> length (drop 4 s) \<le> 4"

definition backfill_setting :: "string option \<Rightarrow> string option \<Rightarrow> string option" where
  "backfill_setting text data =
     (if (case text of None \<Rightarrow> False | Some s \<Rightarrow> subscription_text s) then Some ''subscription''
      else case data of
        None \<Rightarrow> None
      | Some s \<Rightarrow>
          if s \<in> {''setlang_ua'', ''setlang_en'', ''setlang_ru''} then Some ''language''
          else if interval_data s
          then (if 1 \<le> digits_val (drop 4 s) \<and> digits_val (drop 4 s) \<le> 1440 then Some ''interval'' else None)
          else None)"

type_synonym json_access = "string \<Rightarrow> string option \<times> string option"

definition backfill_mutation :: "json_access \<Rightarrow> update_row \<Rightarrow> ((int \<times> string) \<times> int) option" where
  "backfill_mutation json r =
     (if tu_status r = U_Processed
      then map_option (\<lambda>s. ((tu_chat_id r, s), tu_update_id r))
             (backfill_setting (fst (json (tu_payload r))) (snd (json (tu_payload r))))
      else None)"

definition backfill_versions :: "json_access \<Rightarrow> update_row list \<Rightarrow> version_row list" where
  "backfill_versions json rows =
     (let mutations = List.map_filter (backfill_mutation json) rows in
      map (\<lambda>k. \<lparr>mv_chat_id = fst k, mv_setting = snd k, mv_stream_epoch = 0,
                mv_update_id = Max (set (map snd (filter (\<lambda>m. fst m = k) mutations)))\<rparr>)
        (remdups (map fst mutations)))"

definition migrate_012 :: "time \<Rightarrow> (update_row \<Rightarrow> time) \<Rightarrow> json_access \<Rightarrow> db \<Rightarrow> db" where
  "migrate_012 clock created_at json d =
     (let rows = map (\<lambda>r. r\<lparr>tu_stream_epoch := 0\<rparr>) (telegram_updates d) in
      d\<lparr>telegram_updates := rows,
        stream_epoch := 0,
        stream_last_received_at :=
          (case rows of [] \<Rightarrow> clock | _ \<Rightarrow> Max (set (map created_at (telegram_updates d)))),
        telegram_mutation_versions := backfill_versions json rows\<rparr>)"

section \<open>All migrations\<close>

text \<open>
  \<^verbatim>\<open>provider.Up\<close> on a deployment that has applied none of them: the tables of 002 to 008, 010 and 011
  start empty.
\<close>

definition migrate ::
  "time \<Rightarrow> time \<Rightarrow> (update_row \<Rightarrow> time) \<Rightarrow> json_access \<Rightarrow> legacy_db \<Rightarrow> go_error + db" where
  "migrate now clock created_at json l =
     (case migrate_001 now l of
        Inl e \<Rightarrow> Inl e
      | Inr (subs, prices) \<Rightarrow>
          Inr (migrate_012 clock created_at json
                 ((empty_db now)\<lparr>subscribers := subs, market_prices := migrate_009 prices\<rparr>)))"

section \<open>A migrated database is consistent\<close>

text \<open>The \<^verbatim>\<open>CHECK\<close> and \<^verbatim>\<open>NOT NULL\<close> constraints of a subscriber.\<close>

definition sub_row_ok :: "subscriber \<Rightarrow> bool" where
  "sub_row_ok s \<longleftrightarrow>
     (\<exists>m. interval_minutes s = Some m \<and> 1 \<le> m \<and> m \<le> 1440) \<and> last_sent s \<noteq> None \<and>
     (\<exists>l. language_code s = Some l \<and> AllowedLanguage l)"

lemma has_duplicates_iff: "has_duplicates k rows \<longleftrightarrow> \<not> unique_on k rows"
proof
  show "\<not> unique_on k rows" if dup: "has_duplicates k rows"
  proof
    assume u: "unique_on k rows"
    obtain r where "affected (\<lambda>r'. k r' = k r) rows > 1"
      using dup unfolding has_duplicates_def list_ex_iff by blast
    moreover have "affected (\<lambda>r'. k r' = k r) rows \<le> 1"
      using u by (rule affected_le_1) simp
    ultimately show False by simp
  qed
  show "has_duplicates k rows" if "\<not> unique_on k rows"
    using that
  proof (induction rows)
    case Nil
    then show ?case by (simp add: unique_on_def)
  next
    case (Cons r rows)
    show ?case
    proof (cases "k r \<in> k ` set rows")
      case True
      then have "affected (\<lambda>r'. k r' = k r) rows > 0" by (auto simp: affected_pos_iff)
      then show ?thesis by (simp add: has_duplicates_def)
    next
      case False
      with Cons have "has_duplicates k rows" by (simp add: unique_on_def)
      then obtain x where "x \<in> set rows" "affected (\<lambda>r'. k r' = k x) rows > 1"
        by (auto simp: has_duplicates_def list_ex_iff)
      moreover have "affected (\<lambda>r'. k r' = k x) rows \<le> affected (\<lambda>r'. k r' = k x) (r # rows)" by simp
      ultimately show ?thesis by (auto simp: has_duplicates_def list_ex_iff intro: bexI [of _ x])
    qed
  qed
qed

lemma price_check_iff: "price_check x \<longleftrightarrow> isValidMarketPrice x"
  by (cases x) (auto simp: price_check_def pg_less_def isValidMarketPrice_iff)

lemma repair_subscriber_ok:
  "ls_chat_id (repair_subscriber now s) = ls_chat_id s"
  "sub_row_ok (subscriber_row (repair_subscriber now s))"
  by (auto simp: repair_subscriber_def subscriber_row_def sub_row_ok_def AllowedLanguage_def split: option.split)

lemma repair_price_simps [simp]:
  "lp_symbol (repair_price now p) = lp_symbol p" "lp_price (repair_price now p) = lp_price p"
  by (simp_all add: repair_price_def)

text \<open>The data migration 001 accepts: the rest of the tables is repaired.\<close>

definition legacy_ok :: "legacy_db \<Rightarrow> bool" where
  "legacy_ok l \<longleftrightarrow>
     (\<forall>s \<in> set (legacy_subscribers l). ls_chat_id s \<noteq> None) \<and> unique_on ls_chat_id (legacy_subscribers l) \<and>
     (\<forall>p \<in> set (legacy_prices l). \<exists>x. lp_price p = Some x \<and> \<not> pg_less x (Fin 0)) \<and>
     (\<forall>p \<in> set (legacy_prices l). \<exists>c s. lp_symbol p = Some (c # s)) \<and> unique_on lp_symbol (legacy_prices l)"

lemma check_subscribers_None:
  "check_subscribers rows = None \<longleftrightarrow> (\<forall>s \<in> set rows. ls_chat_id s \<noteq> None) \<and> unique_on ls_chat_id rows"
  by (auto simp: check_subscribers_def has_duplicates_iff sql_exists_iff)

lemma symbol_present: "(s \<noteq> None \<and> s \<noteq> Some []) \<longleftrightarrow> (\<exists>c t. s = Some (c # t))"
  by (cases s) (auto simp: neq_Nil_conv)

lemma check_prices_None:
  "check_prices rows = None \<longleftrightarrow>
     (\<forall>p \<in> set rows. \<exists>c s. lp_symbol p = Some (c # s)) \<and>
     (\<forall>p \<in> set rows. \<exists>x. lp_price p = Some x \<and> \<not> pg_less x (Fin 0)) \<and> unique_on lp_symbol rows"
proof -
  have "sql_exists (\<lambda>p. lp_symbol p = None \<or> lp_symbol p = Some []) rows \<longleftrightarrow>
      \<not> (\<forall>p \<in> set rows. \<exists>c s. lp_symbol p = Some (c # s))"
    unfolding symbol_present [symmetric] by (auto simp: sql_exists_iff)
  moreover have "sql_exists (\<lambda>p. case lp_price p of None \<Rightarrow> True | Some x \<Rightarrow> pg_less x (Fin 0)) rows \<longleftrightarrow>
      \<not> (\<forall>p \<in> set rows. \<exists>x. lp_price p = Some x \<and> \<not> pg_less x (Fin 0))"
    by (fastforce simp: sql_exists_iff split: option.splits)
  ultimately show ?thesis by (simp add: check_prices_def has_duplicates_iff)
qed

lemma unique_on_map: "unique_on k (map f rows) = unique_on (\<lambda>r. k (f r)) rows"
  by (simp add: unique_on_def comp_def)

lemma migrate_001_accepts: "(\<exists>r. migrate_001 now l = Inr r) \<longleftrightarrow> legacy_ok l"
proof -
  have "(\<exists>r. migrate_001 now l = Inr r) \<longleftrightarrow>
      check_subscribers (map (repair_subscriber now) (legacy_subscribers l)) = None \<and>
      check_prices (map (repair_price now) (legacy_prices l)) = None"
    by (auto simp: migrate_001_def Let_def split: option.split)
  then show ?thesis
    unfolding check_subscribers_None check_prices_None legacy_ok_def unique_on_map
    by (auto simp: repair_subscriber_ok(1))
qed

lemma migrate_001_cases:
  assumes "migrate_001 now l = Inr (subs, prices)"
  shows "legacy_ok l" "subs = map (\<lambda>s. subscriber_row (repair_subscriber now s)) (legacy_subscribers l)"
    "prices = map (\<lambda>p. market_price_row (repair_price now p)) (legacy_prices l)"
  using assms migrate_001_accepts [of now l]
  by (auto simp: migrate_001_def Let_def split: option.splits)

lemma unique_on_the:
  assumes "unique_on k rows" "\<And>r. r \<in> set rows \<Longrightarrow> k r = Some (k' r)"
  shows "unique_on k' rows"
proof -
  have "map k rows = map (\<lambda>r. Some (k' r)) rows" using assms(2) by (intro map_cong) auto
  then have "distinct (map Some (map k' rows))" using assms(1) unfolding unique_on_def map_map comp_def by metis
  then show ?thesis unfolding unique_on_def distinct_map [of Some] by blast
qed

lemma migrate_001_rows:
  assumes "migrate_001 now l = Inr (subs, prices)"
  shows "unique_on sub_chat_id subs" "unique_on mp_symbol prices" "\<forall>s \<in> set subs. sub_row_ok s"
proof -
  note ok = migrate_001_cases [OF assms]
  show "unique_on sub_chat_id subs"
    unfolding ok(2) unique_on_map
    by (rule unique_on_the [of ls_chat_id])
      (use ok(1) in \<open>auto simp: legacy_ok_def subscriber_row_def repair_subscriber_ok(1)\<close>)
  show "unique_on mp_symbol prices"
    unfolding ok(3) unique_on_map
    by (rule unique_on_the [of lp_symbol]) (use ok(1) in \<open>fastforce simp: legacy_ok_def market_price_row_def\<close>)+
  show "\<forall>s \<in> set subs. sub_row_ok s" using repair_subscriber_ok(2) by (auto simp: ok(2))
qed

lemma backfill_Nil [simp]: "backfill_versions json [] = []"
  by (simp add: backfill_versions_def map_filter_simps)

lemma migrate_012_empty:
  "telegram_updates d = [] \<Longrightarrow>
     migrate_012 clock created_at json d =
       d\<lparr>stream_epoch := 0, stream_last_received_at := clock, telegram_mutation_versions := []\<rparr>"
  by (simp add: migrate_012_def)

lemma migrate_cases:
  assumes "migrate now clock created_at json l = Inr d"
  obtains subs prices where "migrate_001 now l = Inr (subs, prices)"
    "d = (empty_db clock)\<lparr>subscribers := subs, market_prices := migrate_009 prices\<rparr>"
proof -
  obtain subs prices where r: "migrate_001 now l = Inr (subs, prices)"
    using assms by (auto simp: migrate_def split: sum.splits)
  with assms have "d = migrate_012 clock created_at json ((empty_db now)\<lparr>subscribers := subs, market_prices := migrate_009 prices\<rparr>)"
    by (simp add: migrate_def)
  then have "d = (empty_db clock)\<lparr>subscribers := subs, market_prices := migrate_009 prices\<rparr>"
    by (simp add: migrate_012_def empty_db_def)
  with r show ?thesis by (rule that)
qed

lemma migrate_inv: "migrate now clock created_at json l = Inr d \<Longrightarrow> db_inv d"
proof (erule migrate_cases)
  fix subs prices
  assume r: "migrate_001 now l = Inr (subs, prices)"
    and d: "d = (empty_db clock)\<lparr>subscribers := subs, market_prices := migrate_009 prices\<rparr>"
  have "prices_inv (migrate_009 prices)"
    using migrate_001_rows(2) [OF r] by (simp add: prices_inv_def migrate_009_def price_check_iff unique_on_filter)
  then show "db_inv d"
    using db_inv_empty [of clock] migrate_001_rows(1) [OF r] by (simp add: d db_inv_def)
qed

lemma migrate_empty: "migrate now clock created_at json \<lparr>legacy_subscribers = [], legacy_prices = []\<rparr> = Inr (empty_db clock)"
  by (simp add: migrate_def migrate_001_def check_subscribers_def check_prices_def has_duplicates_def sql_exists_def
      migrate_009_def migrate_012_def empty_db_def)

section \<open>The recovered order\<close>

lemma backfill_mutation_Some:
  "backfill_mutation json r = Some m \<longleftrightarrow>
     tu_status r = U_Processed \<and>
     (\<exists>s. backfill_setting (fst (json (tu_payload r))) (snd (json (tu_payload r))) = Some s \<and>
        m = ((tu_chat_id r, s), tu_update_id r))"
  by (auto simp: backfill_mutation_def)

text \<open>The greatest processed update of every chat and setting is recorded, in epoch 0.\<close>

lemma backfill_versions_inv: "versions_inv (backfill_versions json rows)"
  by (simp add: versions_inv_def unique_on_def backfill_versions_def Let_def comp_def)

lemma backfill_versions_of:
  assumes "r \<in> set rows" "tu_status r = U_Processed"
    "backfill_setting (fst (json (tu_payload r))) (snd (json (tu_payload r))) = Some s"
  shows "\<exists>v. version_of (tu_chat_id r) s (backfill_versions json rows) = Some (0, v) \<and> tu_update_id r \<le> v"
proof -
  let ?ms = "List.map_filter (backfill_mutation json) rows"
  let ?k = "(tu_chat_id r, s)"
  let ?v = "Max (set (map snd (filter (\<lambda>m. fst m = ?k) ?ms)))"
  let ?row = "\<lparr>mv_chat_id = tu_chat_id r, mv_setting = s, mv_stream_epoch = 0, mv_update_id = ?v\<rparr>"
  have m: "(?k, tu_update_id r) \<in> set ?ms"
  proof -
    have "backfill_mutation json r = Some (?k, tu_update_id r)" using assms by (simp add: backfill_mutation_def)
    with assms(1) show ?thesis by (force simp: List.map_filter_def intro!: image_eqI [of _ _ r])
  qed
  then have "?row \<in> set (backfill_versions json rows)"
    by (force simp: backfill_versions_def Let_def intro!: image_eqI [of _ _ ?k])
  then have "version_of (tu_chat_id r) s (backfill_versions json rows) = Some (mv_version ?row)"
    by (intro version_of_Some [OF backfill_versions_inv]) (simp_all add: mv_for_def)
  moreover have "tu_update_id r \<le> ?v" using m by (intro Max_ge) force+
  ultimately show ?thesis by (simp add: mv_version_def)
qed

text \<open>
  What the migration recognises is what the program takes for a change of the setting. For a command,
  \<open>m_command\<close> is the result of the library's \<^verbatim>\<open>Command()\<close>: the word after the slash, up to an \<^verbatim>\<open>@\<close>.
\<close>

definition command_word :: "string \<Rightarrow> string" where
  "command_word s = takeWhile (\<lambda>c. c \<noteq> CHR ''@'' \<and> \<not> is_space_char c) (drop 1 s)"

lemma after_command_head:
  "after_command s \<Longrightarrow> takeWhile (\<lambda>c. c \<noteq> CHR ''@'' \<and> \<not> is_space_char c) s = []"
  by (cases s) (auto simp: after_command_def word_ends_def)

lemma subscription_text_command:
  assumes "subscription_text s"
  shows "command_word s \<in> {''subscribe'', ''unsubscribe''}"
proof -
  have split: "takeWhile P (w @ t) = w" if "list_all P w" "takeWhile P t = []" for P and w t :: string
    using that by (induction w) auto
  from assms obtain w t where s: "s = CHR ''/'' # w @ t" "w \<in> {''subscribe'', ''unsubscribe''}" "after_command t"
  proof -
    from assms consider "HasPrefix s ''/subscribe''" "after_command (drop 10 s)"
      | "HasPrefix s ''/unsubscribe''" "after_command (drop 12 s)"
      unfolding subscription_text_def by blast
    then show thesis
    proof cases
      case 1
      then have "s = ''/subscribe'' @ drop 10 s" by (auto simp: HasPrefix_iff)
      with 1(2) show thesis by (intro that [of "''subscribe''" "drop 10 s"]) simp_all
    next
      case 2
      then have "s = ''/unsubscribe'' @ drop 12 s" by (auto simp: HasPrefix_iff)
      with 2(2) show thesis by (intro that [of "''unsubscribe''" "drop 12 s"]) simp_all
    qed
  qed
  have "list_all (\<lambda>c. c \<noteq> CHR ''@'' \<and> \<not> is_space_char c) w" using s(2) by (auto simp: is_space_char_def)
  from split [OF this after_command_head [OF s(3)]] s show ?thesis by (simp add: command_word_def)
qed

lemma backfill_agrees_command:
  assumes "backfill_setting (Some s) None = Some x"
    and "u_callback u = None" "u_message u = Some m" "m_command m = command_word s"
  shows "telegramMutationSetting u = x"
proof -
  have "subscription_text s" "x = ''subscription''"
    using assms(1) by (auto simp: backfill_setting_def split: if_splits)
  with subscription_text_command assms(2-4) show ?thesis by (auto simp: telegramMutationSetting_def)
qed

lemma Atoi_digits:
  assumes "list_all is_digit s" "s \<noteq> []" "length s \<le> 4"
  shows "Atoi s = Some (int (digits_val s))"
proof -
  obtain c t where s: "s = c # t" using assms(2) by (cases s) auto
  then have "c \<noteq> CHR ''-'' \<and> c \<noteq> CHR ''+''" using assms(1) is_digit_not_sign by auto
  moreover have "digits_val s < 10 ^ 4"
    using digits_val_bound [OF assms(1)] power_increasing [OF assms(3), of "10 :: nat"] by linarith
  then have "int64_range (int (digits_val s))" by (simp add: int64_range_def)
  ultimately show ?thesis using assms(1) by (simp add: Atoi_def s)
qed

lemma backfill_agrees_button:
  assumes "backfill_setting None (Some s) = Some x"
    and "u_callback u = Some q" "chat_of (cb_message q) \<noteq> None" "cb_data q = s"
  shows "telegramMutationSetting u = x"
proof -
  from assms(1) consider "s \<in> {''setlang_ua'', ''setlang_en'', ''setlang_ru''}" "x = ''language''"
    | "s \<notin> {''setlang_ua'', ''setlang_en'', ''setlang_ru''}" "interval_data s" "x = ''interval''"
      "1 \<le> digits_val (drop 4 s)" "digits_val (drop 4 s) \<le> 1440"
    by (auto simp: backfill_setting_def split: if_splits)
  then show ?thesis
  proof cases
    case 1
    with assms(2-4) show ?thesis
      by (auto simp: telegramMutationSetting_def HasPrefix_def TrimPrefix_def AllowedLanguage_def)
  next
    case 2
    let ?t = "drop 4 s"
    have t: "list_all is_digit ?t" "?t \<noteq> []" "length ?t \<le> 4" and p: "HasPrefix s ''int_''"
      using 2(2) unfolding interval_data_def by blast+
    then have "\<not> HasPrefix s ''setlang_''" "TrimPrefix s ''int_'' = ?t" by (auto simp: HasPrefix_iff TrimPrefix_def)
    with p 2(3-5) Atoi_digits [OF t] assms(2-4) show ?thesis by (auto simp: telegramMutationSetting_def)
  qed
qed

end
