(* ===== verification/System.thy ===== *)
theory System
  imports Migrations
begin

text \<open>
  The program as a transition system on the database: every transaction any worker of any replica may
  commit is a step, with arbitrary arguments (clocks, tokens, jobs held by slow or restarted workers,
  faults of the connection). A sequence of steps is an interleaving of the workers. The invariant holds
  in every reachable state, and what is settled stays settled.
\<close>

section \<open>Steps\<close>

inductive db_step :: "db \<Rightarrow> db \<Rightarrow> bool" where
  cron: "db_step d (snd (createCronNotificationJobs fault row_locked cache clock now d))"
| claim_notification: "db_step d (snd (claimPendingNotificationJob fault try_lock now tok snapshot d))"
| notification_sent: "db_step d (snd (markNotificationJobSentOnce fault now job d))"
| notification_retry: "db_step d (snd (markNotificationJobRetry token fault now job e d))"
| notification_canceled: "db_step d (snd (markNotificationJobCanceled fault now job d))"
| notification_failed: "db_step d (snd (markNotificationJobFailed token fault now job e permanent d))"
| claim_reply: "db_step d (snd (claimPendingTelegramReply fault try_lock now tok snapshot d))"
| reply_sent: "db_step d (snd (markTelegramReplySentOnce fault now rjob d))"
| reply_retry: "db_step d (snd (markTelegramReplyRetry token fault now rjob e d))"
| reply_failed: "db_step d (snd (markTelegramReplyFailed token fault now rjob e d))"
| save_update: "db_step d (snd (saveTelegramUpdate fault clock1 clock2 now u payload d))"
| claim_update: "db_step d (snd (claimPendingTelegramUpdateForWorker fault row_locked now i n d))"
| process_update: "update_tx env ujob u d = Inr (col, d') \<Longrightarrow> db_step d d'"
| update_retry: "db_step d (snd (markTelegramUpdateRetry fault now ujob e d))"
| update_failed: "db_step d (snd (markTelegramUpdateFailed fault now ujob e d))"
| persist_price:
    "db_step d (snd (persistObservedMarketPrice fault en err storedAt dbNow symbol price startedAt d))"
| drop_stale_crossings: "db_step d (delete_stale_crossings d)"
| trigger_alert: "db_step d (snd (triggerPriceAlert fault try_lock now c d))"
| clean_notifications: "db_step d (snd (delete_notification_batch now d))"
| clean_updates: "db_step d (snd (delete_update_batch now d))"
| clean_replies: "db_step d (snd (delete_reply_batch now d))"
| clean_alerts: "db_step d (snd (delete_alert_batch now d))"

text \<open>
  The service starts after the migrations of a deployment, new (without rows) or with the tables of an
  older one.
\<close>

definition reachable :: "db \<Rightarrow> bool" where
  "reachable d \<longleftrightarrow>
     (\<exists>now clock created_at json l d0. migrate now clock created_at json l = Inr d0 \<and> db_step\<^sup>*\<^sup>* d0 d)"

section \<open>The invariant\<close>

lemmas tx_inv = run_tx_preserves [of db_inv]

lemma notification_marks_inv:
  assumes "db_inv d"
  shows "db_inv (snd (markNotificationJobSentOnce fault now job d))"
    "db_inv (snd (markNotificationJobRetry token fault now job e d))"
    "db_inv (snd (markNotificationJobCanceled fault now job d))"
    "db_inv (snd (markNotificationJobFailed token fault now job e permanent d))"
  unfolding markNotificationJobSentOnce_def markNotificationJobRetry_def markNotificationJobCanceled_def
    markNotificationJobFailed_def Let_def
  by (rule tx_inv [OF assms], erule finish_notification_db_inv;
      simp add: nj_tame_finish nj_tame_cancel assms)+

lemma reply_marks_inv:
  assumes "db_inv d"
  shows "db_inv (snd (markTelegramReplySentOnce fault now rjob d))"
    "db_inv (snd (markTelegramReplyRetry token fault now rjob e d))"
    "db_inv (snd (markTelegramReplyFailed token fault now rjob e d))"
  unfolding markTelegramReplySentOnce_def markTelegramReplyRetry_def markTelegramReplyFailed_def
  by (rule tx_inv [OF assms], erule finish_reply_db_inv; simp add: tr_tame_finish assms)+

lemma update_marks_inv:
  assumes "db_inv d"
  shows "db_inv (snd (markTelegramUpdateRetry fault now ujob e d))"
    "db_inv (snd (markTelegramUpdateFailed fault now ujob e d))"
  unfolding markTelegramUpdateRetry_def markTelegramUpdateFailed_def
  by (rule tx_inv [OF assms], erule finish_update_inv; simp add: tu_tame_ops assms)+

lemma claims_inv:
  assumes "db_inv d"
  shows "db_inv (snd (claimPendingNotificationJob fault try_lock now tok snapshot d))"
    "db_inv (snd (claimPendingTelegramReply fault try_lock now tok snapshot d))"
    "db_inv (snd (claimPendingTelegramUpdateForWorker fault row_locked now i n d))"
proof -
  show "db_inv (snd (claimPendingNotificationJob fault try_lock now tok snapshot d))"
    unfolding claimPendingNotificationJob_def by (rule tx_inv [OF assms]) (erule claim_notification_inv [OF _ assms])
  show "db_inv (snd (claimPendingTelegramReply fault try_lock now tok snapshot d))"
    unfolding claimPendingTelegramReply_def by (rule tx_inv [OF assms]) (erule claim_reply_db_inv [OF _ assms])
  have "db_inv (snd (run_tx fault (claim_update_stmt row_locked now shards) d))" for shards
    by (rule tx_inv [OF assms]) (erule claim_update_inv [OF _ assms])
  with assms show "db_inv (snd (claimPendingTelegramUpdateForWorker fault row_locked now i n d))"
    by (simp add: claimPendingTelegramUpdateForWorker_def Let_def)
qed

lemma producers_inv:
  assumes "db_inv d"
  shows "db_inv (snd (createCronNotificationJobs fault row_locked cache clock now d))"
    "db_inv (snd (saveTelegramUpdate fault clock1 clock2 now u payload d))"
    "db_inv (snd (persistObservedMarketPrice fault en err storedAt dbNow symbol price startedAt d))"
proof -
  show "db_inv (snd (createCronNotificationJobs fault row_locked cache clock now d))"
    unfolding createCronNotificationJobs_def by (rule tx_inv [OF assms]) (erule cron_body_inv [OF _ assms])
  show "db_inv (snd (saveTelegramUpdate fault clock1 clock2 now u payload d))"
    unfolding saveTelegramUpdate_def by (rule tx_inv [OF assms]) (erule save_update_inv [OF _ assms])
  have "db_inv (snd (run_tx fault (persist_body en err storedAt dbNow symbol price startedAt) d))"
    if "isValidMarketPrice price"
    by (rule tx_inv [OF assms]) (erule persist_body_inv [OF _ that assms])
  with assms show "db_inv (snd (persistObservedMarketPrice fault en err storedAt dbNow symbol price startedAt d))"
    by (simp add: persistObservedMarketPrice_def)
qed

lemma db_step_inv: "db_step d d' \<Longrightarrow> db_inv d \<Longrightarrow> db_inv d'"
  by (induction rule: db_step.induct)
    (simp_all add: notification_marks_inv reply_marks_inv update_marks_inv claims_inv producers_inv
      triggerPriceAlert_inv delete_stale_db_inv delete_notification_inv delete_update_inv delete_reply_inv
      delete_alert_inv update_tx_inv)

lemma db_steps_inv: "db_step\<^sup>*\<^sup>* d d' \<Longrightarrow> db_inv d \<Longrightarrow> db_inv d'"
  by (induction rule: rtranclp_induct) (auto intro: db_step_inv)

lemma reachable_inv: "reachable d \<Longrightarrow> db_inv d"
  using db_steps_inv migrate_inv unfolding reachable_def by blast

lemma reachable_empty: "reachable (empty_db t)"
  unfolding reachable_def using migrate_empty by blast

lemma reachable_step: "reachable d \<Longrightarrow> db_step d d' \<Longrightarrow> reachable d'"
  unfolding reachable_def by (meson rtranclp.rtrancl_into_rtrancl)

section \<open>The history of a notification\<close>

text \<open>
  What happens to the notification table: rows disappear, new ones get fresh ids, and a row that is
  not open any more stays as it is; attempts never decrease.
\<close>

definition jobs_evolve :: "db \<Rightarrow> db \<Rightarrow> bool" where
  "jobs_evolve d d' \<longleftrightarrow>
     notification_seq d \<le> notification_seq d' \<and>
     (\<forall>r' \<in> set (notification_jobs d'). notification_seq d \<le> nj_id r' \<or>
        (\<exists>r \<in> set (notification_jobs d). nj_id r' = nj_id r \<and> nj_attempts r \<le> nj_attempts r' \<and> (\<not> nj_open r \<longrightarrow> r' = r)))"

lemma jobs_evolve_same:
  "notification_jobs d' = notification_jobs d \<Longrightarrow> notification_seq d' = notification_seq d \<Longrightarrow> jobs_evolve d d'"
  by (auto simp: jobs_evolve_def)

lemma jobs_evolve_update:
  assumes "notification_jobs d' = sql_update p f (notification_jobs d)" "notification_seq d' = notification_seq d"
    and "\<And>r. p r \<Longrightarrow> nj_open r" "\<And>r. nj_id (f r) = nj_id r" "\<And>r. nj_attempts r \<le> nj_attempts (f r)"
  shows "jobs_evolve d d'"
  unfolding jobs_evolve_def assms(1,2) set_sql_update using assms(3-5) by auto

lemma jobs_evolve_filter:
  "notification_jobs d' = filter p (notification_jobs d) \<Longrightarrow> notification_seq d' = notification_seq d \<Longrightarrow> jobs_evolve d d'"
  by (auto simp: jobs_evolve_def)

lemma jobs_evolve_append:
  "notification_jobs d' = notification_jobs d @ rows \<Longrightarrow> notification_seq d \<le> notification_seq d' \<Longrightarrow>
   (\<And>r. r \<in> set rows \<Longrightarrow> notification_seq d \<le> nj_id r) \<Longrightarrow> jobs_evolve d d'"
  by (auto simp: jobs_evolve_def)

lemma jobs_evolve_tx:
  assumes "\<And>v d'. body d = Inr (v, d') \<Longrightarrow> jobs_evolve d d'"
  shows "jobs_evolve d (snd (run_tx fault body d))"
  by (rule run_tx_preserves [of "jobs_evolve d"]) (simp_all add: jobs_evolve_same assms)

lemma owned_open: "nj_owned job r \<Longrightarrow> nj_open r" "nj_claimable now r \<Longrightarrow> nj_open r"
  by (simp_all add: nj_owned_def nj_open_def nj_claimable_def)

lemma finish_notification_evolves:
  assumes "finish_notification job f g d = Inr (u, d')" "\<And>r. nj_id (f r) = nj_id r" "\<And>r. nj_attempts r \<le> nj_attempts (f r)"
  shows "jobs_evolve d d'"
  using assms owned_open(1) by (auto simp: finish_notification_cases intro!: jobs_evolve_update)

lemma notification_marks_evolve:
  "jobs_evolve d (snd (markNotificationJobSentOnce fault now job d))"
  "jobs_evolve d (snd (markNotificationJobRetry token fault now job e d))"
  "jobs_evolve d (snd (markNotificationJobCanceled fault now job d))"
  "jobs_evolve d (snd (markNotificationJobFailed token fault now job e permanent d))"
  unfolding markNotificationJobSentOnce_def markNotificationJobRetry_def markNotificationJobCanceled_def
    markNotificationJobFailed_def Let_def
  by (rule jobs_evolve_tx, erule finish_notification_evolves;
      simp add: nj_set_sent_def nj_set_retry_def nj_set_canceled_def nj_set_failed_def)+

lemma claim_notification_evolves:
  assumes "claim_notification_loop try_lock now tok cs d = Inr (res, d')"
  shows "jobs_evolve d d'"
proof -
  have "jobs_evolve d (d\<lparr>notification_jobs :=
      sql_update (\<lambda>r. nj_id r = cid \<and> nj_claimable now r) (nj_claim now tok) (notification_jobs d)\<rparr>)" for cid
    by (rule jobs_evolve_update [where p = "\<lambda>r. nj_id r = cid \<and> nj_claimable now r" and f = "nj_claim now tok"])
      (auto simp: nj_claim_def owned_open)
  with claim_notification_loop_cases [OF assms] show ?thesis by (auto simp: jobs_evolve_same)
qed

lemma cron_body_evolves:
  assumes "cron_body row_locked cache clock now d = Inr (n, d')" "db_inv d"
  shows "jobs_evolve d d'"
proof -
  have "unique_on sub_chat_id (subscribers d)" using assms(2) by (simp add: db_inv_def)
  note eq = assms(1) [unfolded cron_body_eq [OF this] Let_def]
  have "r \<in> set (cron_rows cache clock now s ss) \<Longrightarrow> s \<le> nj_id r" for r s ss
    by (induction ss arbitrary: s) (force simp: new_notification_def)+
  with eq show ?thesis
    by (intro jobs_evolve_append [of _ _ "cron_rows cache clock now (notification_seq d) (due_subscribers row_locked now d)"]) auto
qed

text \<open>Handlers only cancel open jobs.\<close>

lemma jobs_evolve_frame [simp]:
  "jobs_evolve d (d'\<lparr>subscribers := a\<rparr>) = jobs_evolve d d'"
  "jobs_evolve d (d'\<lparr>price_alerts := b\<rparr>) = jobs_evolve d d'"
  "jobs_evolve d (d'\<lparr>alert_seq := c\<rparr>) = jobs_evolve d d'"
  "jobs_evolve d (d'\<lparr>price_alert_crossings := e\<rparr>) = jobs_evolve d d'"
  "jobs_evolve d (d'\<lparr>telegram_updates := f\<rparr>) = jobs_evolve d d'"
  "jobs_evolve d (d'\<lparr>telegram_replies := g\<rparr>) = jobs_evolve d d'"
  "jobs_evolve d (d'\<lparr>reply_seq := h\<rparr>) = jobs_evolve d d'"
  "jobs_evolve d (d'\<lparr>telegram_mutation_versions := i\<rparr>) = jobs_evolve d d'"
  "jobs_evolve d (d'\<lparr>stream_epoch := j\<rparr>) = jobs_evolve d d'"
  "jobs_evolve d (d'\<lparr>stream_last_received_at := k\<rparr>) = jobs_evolve d d'"
  "jobs_evolve d (d'\<lparr>market_prices := l\<rparr>) = jobs_evolve d d'"
  by (simp_all add: jobs_evolve_def)

lemma jobs_evolve_refl [simp]: "jobs_evolve d d"
  by (simp add: jobs_evolve_same)

lemma jobs_evolve_cancel:
  "(\<And>r. p r \<Longrightarrow> nj_open r) \<Longrightarrow> jobs_evolve d (d\<lparr>notification_jobs := sql_update p (nj_set_canceled now e) (notification_jobs d)\<rparr>)"
  by (rule jobs_evolve_update [where p = p and f = "nj_set_canceled now e"]) (auto simp: nj_set_canceled_def)

lemma createPriceAlert_evolves:
  "createPriceAlert err cache t1 t2 now u chat lang symbol percent d = Inr (res, d') \<Longrightarrow> jobs_evolve d d'"
  by (drule createPriceAlert_cases) auto

lemma cancelPriceAlert_evolves:
  assumes "cancelPriceAlert err now chat i d = Inr (res, d')"
  shows "jobs_evolve d d'"
proof -
  have "jobs_evolve d (d\<lparr>notification_jobs :=
      sql_update (\<lambda>r. nj_price_alert_id r = Some i \<and> nj_chat_id r = chat \<and> nj_kind r = PriceAlert \<and> nj_open r)
        (nj_set_canceled now ''price alert canceled'') (notification_jobs d)\<rparr>)"
    by (rule jobs_evolve_cancel) simp
  with cancelPriceAlert_cases [OF assms] show ?thesis by (auto simp: jobs_evolve_def)
qed

lemma unsubscribe_evolves: "unsubscribe err now chat d = Inr d' \<Longrightarrow> jobs_evolve d d'"
  by (auto simp: unsubscribe_def Let_def split: option.splits intro!: jobs_evolve_update)
    (auto simp: nj_set_canceled_def)

lemma alert_handlers_evolve:
  "jobs_evolve (hs_db h) (hs_db (snd (addPriceAlertAndReply env u chat lang s p h)))"
  "jobs_evolve (hs_db h) (hs_db (snd (handle_alert_delete env chat data lang h)))"
  by (auto simp: addPriceAlertAndReply_def handle_alert_delete_def Let_def split: option.split sum.split
      intro: createPriceAlert_evolves cancelPriceAlert_evolves)

lemma subscription_handlers_evolve:
  "jobs_evolve (hs_db h) (hs_db (snd (handle_subscribe env chat lang h)))"
  "jobs_evolve (hs_db h) (hs_db (snd (handle_unsubscribe env chat lang h)))"
  "jobs_evolve (hs_db h) (hs_db (snd (handle_interval_menu env chat lang h)))"
  by (auto simp: handle_subscribe_def handle_unsubscribe_def handle_interval_menu_def Let_def activate_subscription_def
      split: option.split sum.split intro: unsubscribe_evolves)

lemma processTelegramUpdateWithDB_evolves:
  "jobs_evolve (hs_db h) (hs_db (snd (processTelegramUpdateWithDB env u h)))"
proof -
  have cmd: "jobs_evolve (hs_db h) (hs_db (snd (handlePriceAlertCommand env i chat args lang h)))" for i chat args lang
    by (simp add: handlePriceAlertCommand_def Let_def alert_handlers_evolve)
  have cb: "jobs_evolve (hs_db h) (hs_db (snd (handlePriceAlertCallback env i chat cid data lang h)))" for i chat cid data lang
    by (auto simp: handlePriceAlertCallback_def Let_def case_prod_unfold alert_handlers_evolve split: list.split)
  have "jobs_evolve (hs_db h) (hs_db (snd (handle_command env i m chat h)))" for i m chat
    by (simp add: handle_command_def Let_def cmd subscription_handlers_evolve)
  moreover have "jobs_evolve (hs_db h) (hs_db (snd (handle_callback env i query h)))" for i query
    by (auto simp: handle_callback_def handle_setlang_def handle_interval_def handle_refresh_def Let_def cb
        set_language_def set_interval_def split: option.split)
  ultimately show ?thesis
    by (auto simp: processTelegramUpdateWithDB_def split: option.split)
qed

lemma insert_replies_evolves: "insert_replies now uid k rs d = Inr d' \<Longrightarrow> jobs_evolve e d \<Longrightarrow> jobs_evolve e d'"
  by (induction rs arbitrary: k d) (auto split: if_splits)

lemma update_tx_evolves:
  assumes "update_tx env job u d = Inr (col, d')"
  shows "jobs_evolve d d'"
proof -
  obtain d1 where d1: "apply_update env job u d = Inr (col, d1)"
    and d2: "completeTelegramUpdateTx (he_err env) (he_now env) job (col_replies col) d1 = Inr d'"
    using assms by (auto simp: update_tx_def split: sum.splits)
  obtain b d0 where d0: "allowTelegramMutation (he_err env) job u d = Inr (b, d0)"
    using d1 by (auto simp: apply_update_def split: sum.splits)
  have frame: "notification_jobs d0 = notification_jobs d" "notification_seq d0 = notification_seq d"
    using allowTelegramMutation_cases [OF d0] by auto
  then have "jobs_evolve d d0" by (rule jobs_evolve_same)
  moreover have "jobs_evolve d0 (hs_db (snd (processTelegramUpdateWithDB env u (empty_handler_state d0))))"
    using processTelegramUpdateWithDB_evolves [of "empty_handler_state d0" env u] by (simp add: empty_handler_state_def)
  ultimately have "jobs_evolve d d1"
    using d1 d0 frame by (auto simp: apply_update_def jobs_evolve_def split: option.splits bool.splits prod.splits)
  then show ?thesis
    using d2 by (auto simp: completeTelegramUpdateTx_def finish_update_cases split: option.splits sum.splits if_splits
        dest: insert_replies_evolves)
qed

lemma other_transactions_evolve:
  "jobs_evolve d (snd (claimPendingTelegramReply fault try_lock now tok snapshot d))"
  "jobs_evolve d (snd (markTelegramReplySentOnce fault now rjob d))"
  "jobs_evolve d (snd (markTelegramReplyRetry token fault now rjob e d))"
  "jobs_evolve d (snd (markTelegramReplyFailed token fault now rjob e d))"
  "jobs_evolve d (snd (saveTelegramUpdate fault clock1 clock2 now u payload d))"
  "jobs_evolve d (snd (markTelegramUpdateRetry fault now ujob e d))"
  "jobs_evolve d (snd (markTelegramUpdateFailed fault now ujob e d))"
  unfolding claimPendingTelegramReply_def markTelegramReplySentOnce_def markTelegramReplyRetry_def
    markTelegramReplyFailed_def saveTelegramUpdate_def markTelegramUpdateRetry_def markTelegramUpdateFailed_def
  by (rule jobs_evolve_tx;
      auto simp: finish_reply_cases finish_update_cases save_update_body_def Let_def split: if_splits
        dest!: claim_reply_loop_cases)+

lemma claim_update_evolves:
  "jobs_evolve d (snd (claimPendingTelegramUpdateForWorker fault row_locked now i n d))"
proof -
  have "jobs_evolve d (snd (run_tx fault (claim_update_stmt row_locked now shards) d))" for shards
    by (rule jobs_evolve_tx) (auto simp: claim_update_stmt_def split: list.splits)
  then show ?thesis by (simp add: claimPendingTelegramUpdateForWorker_def Let_def)
qed

lemma persist_evolves:
  "jobs_evolve d (snd (persistObservedMarketPrice fault en err t1 t2 symbol price startedAt d))"
proof -
  have "jobs_evolve d (snd (run_tx fault (persist_body en err t1 t2 symbol price startedAt) d))"
    by (rule jobs_evolve_tx) (auto dest!: persist_body_cases)
  then show ?thesis by (simp add: persistObservedMarketPrice_def)
qed

lemma trigger_evolves:
  assumes "db_inv d"
  shows "jobs_evolve d (snd (triggerPriceAlert fault try_lock now c d))"
proof -
  have inv: "alerts_inv d" using assms by (simp add: db_inv_def)
  have "jobs_evolve d (trigger_db now i price t a d)" for i price t a
    by (rule jobs_evolve_append [where rows = "[trigger_row now i price t a d]"])
      (auto simp: trigger_db_def trigger_row_def new_notification_def)
  then show ?thesis
    unfolding triggerPriceAlert_def case_prod_unfold
    by (intro jobs_evolve_tx) (auto dest!: trigger_body_cases [OF _ inv])
qed

lemma claim_cron_evolve:
  "jobs_evolve d (snd (claimPendingNotificationJob fault try_lock now tok snapshot d))"
  "db_inv d \<Longrightarrow> jobs_evolve d (snd (createCronNotificationJobs fault row_locked cache clock now d))"
  unfolding claimPendingNotificationJob_def createCronNotificationJobs_def
  by (rule jobs_evolve_tx, erule claim_notification_evolves)
    (rule jobs_evolve_tx, erule (1) cron_body_evolves)

lemma clean_evolve:
  "jobs_evolve d (snd (delete_notification_batch now d))"
  "jobs_evolve d (snd (delete_update_batch now d))"
  "jobs_evolve d (snd (delete_reply_batch now d))"
  "jobs_evolve d (snd (delete_alert_batch now d))"
  "jobs_evolve d (delete_stale_crossings d)"
  by (auto simp: delete_notification_batch_def delete_update_batch_def delete_reply_batch_def
      delete_alert_batch_def delete_batch_def delete_stale_crossings_def Let_def intro: jobs_evolve_filter)

lemma db_step_evolves: "db_step d d' \<Longrightarrow> db_inv d \<Longrightarrow> jobs_evolve d d'"
  by (induction rule: db_step.induct)
    (simp_all add: notification_marks_evolve other_transactions_evolve claim_update_evolves persist_evolves
      trigger_evolves claim_cron_evolve clean_evolve update_tx_evolves)

text \<open>A finished notification never changes again; at most it is removed by the cleaner.\<close>

lemma finished_job_frozen:
  assumes "db_step\<^sup>*\<^sup>* d d'" "db_inv d" "r \<in> set (notification_jobs d)" "\<not> nj_open r"
  shows "\<forall>r' \<in> set (notification_jobs d'). nj_id r' = nj_id r \<longrightarrow> r' = r"
proof -
  have "db_inv d' \<and> nj_id r < notification_seq d' \<and> (\<forall>r' \<in> set (notification_jobs d'). nj_id r' = nj_id r \<longrightarrow> r' = r)"
    using assms(1)
  proof (induction rule: rtranclp_induct)
    case base
    have "jobs_inv (notification_seq d) (notification_jobs d)" using assms(2) by (simp add: db_inv_def)
    with assms(2,3) show ?case unfolding jobs_inv_def by (blast dest: unique_onD)
  next
    case (step y z)
    have inv: "db_inv z" using db_step_inv step by blast
    have ev: "jobs_evolve y z" using db_step_evolves step by blast
    have "r' = r" if r': "r' \<in> set (notification_jobs z)" "nj_id r' = nj_id r" for r'
    proof -
      have "\<not> notification_seq y \<le> nj_id r'" using step.IH r'(2) by simp
      then obtain x where "x \<in> set (notification_jobs y)" "nj_id r' = nj_id x" "\<not> nj_open x \<longrightarrow> r' = x"
        using ev r'(1) unfolding jobs_evolve_def by blast
      with r'(2) step.IH assms(4) show ?thesis by auto
    qed
    with inv ev step.IH show ?case by (auto simp: jobs_evolve_def)
  qed
  then show ?thesis by simp
qed

section \<open>Workers run steps\<close>

text \<open>
  The delivery of a job is a sequence of steps, interleaved with what the other workers commit: if
  they only take steps, so does the whole delivery.
\<close>

definition honest :: "(nat \<Rightarrow> db \<Rightarrow> db) \<Rightarrow> bool" where
  "honest f \<longleftrightarrow> (\<forall>k d. db_step\<^sup>*\<^sup>* d (f k d))"

lemma honest_trans: "honest f \<Longrightarrow> db_step\<^sup>*\<^sup>* d d' \<Longrightarrow> db_step\<^sup>*\<^sup>* d (f k d')"
  unfolding honest_def by (meson rtranclp_trans)

lemma step_trans: "db_step\<^sup>*\<^sup>* d d' \<Longrightarrow> db_step d' d'' \<Longrightarrow> db_step\<^sup>*\<^sup>* d d''"
  by (rule rtranclp.rtrancl_into_rtrancl)

lemma notification_confirmed_steps:
  assumes "honest (de_others env)" "db_step\<^sup>*\<^sup>* d (wdb w)"
  shows "db_step\<^sup>*\<^sup>* d (wdb (notification_send_confirmed env job w))"
proof -
  have step: "db_step\<^sup>*\<^sup>* d (wdb (snd (notification_sent_write env job n w')))" if "db_step\<^sup>*\<^sup>* d (wdb w')" for n w'
    by (simp add: notification_sent_write_def Let_def case_prod_unfold)
      (rule step_trans [OF honest_trans [OF assms(1) that] db_step.notification_sent])
  have "db_step\<^sup>*\<^sup>* d (wdb (snd (finalize p fe (notification_sent_write env job) w)))" for p fe
    by (rule finalize_invariant [where P = "\<lambda>w'. db_step\<^sup>*\<^sup>* d (wdb w')"]) (simp_all add: step assms(2))
  then show ?thesis
    by (auto simp: notification_send_confirmed_def Let_def case_prod_unfold split: option.split)
qed

lemma notification_defer_steps:
  assumes "honest (de_others env)" "db_step\<^sup>*\<^sup>* d (wdb w)"
  shows "db_step\<^sup>*\<^sup>* d (wdb (deferNotificationJob token env job e w))"
    "db_step\<^sup>*\<^sup>* d (wdb (notification_send_failed token env job e w))"
  by (simp_all add: deferNotificationJob_def notification_send_failed_def Let_def
      step_trans [OF honest_trans [OF assms] db_step.notification_retry]
      step_trans [OF honest_trans [OF assms] db_step.notification_failed])

lemma processNotificationJob_steps:
  assumes "honest (de_others env)"
  shows "db_step\<^sup>*\<^sup>* (wdb w) (wdb (processNotificationJob token env job w))"
proof -
  note h = honest_trans [OF assms]
  have w1: "db_step\<^sup>*\<^sup>* (wdb w) (wdb (others env 1 w))" by (simp add: h)
  have w2: "db_step\<^sup>*\<^sup>* (wdb w) (wdb (others env 2 (others env 1 w)))" using h [OF w1] by simp
  have w3: "db_step\<^sup>*\<^sup>* (wdb w) (wdb (send_notification job t (others env 2 (others env 1 w))))" for t
    using w2 by (simp add: send_notification_def)
  show ?thesis
    unfolding processNotificationJob_def
    using notification_defer_steps [OF assms] notification_confirmed_steps [OF assms w3] w1 w2 w3
      step_trans [OF h [OF rtranclp.rtrancl_refl] db_step.notification_retry]
      step_trans [OF h [OF w1] db_step.notification_canceled]
    by (auto simp: Let_def split: option.split sum.split bool.split)
qed

end
