(* ===== verification/Workers.thy ===== *)
theory Workers
  imports System
begin

text \<open>
  The goroutines that run in the background: the notification, reply and update workers
  (\<^verbatim>\<open>alertWorker\<close>, \<^verbatim>\<open>replyWorker\<close>, \<^verbatim>\<open>updateWorkerPartition\<close>), the retention cleaner and the price ticker.

  A goroutine repeats its turn until its context ends, so its behaviour up to some moment is given by the
  finite list of the turns it has taken, each with what it meets: the answers of the database, what
  others commit, and the branch that \<^verbatim>\<open>select\<close> takes. Every goroutine is shown to change the database
  only by the transactions of \<open>db_step\<close>.
\<close>

section \<open>The loop of a worker\<close>

text \<open>
  \<open>turn_ctx_done\<close>: the context is over when a claim fails; \<open>turn_tick\<close>: \<^verbatim>\<open>select\<close> sees the poll ticker,
  otherwise the end of the context.
\<close>

record 'e turn =
  turn_env :: 'e
  turn_ctx_done :: bool
  turn_tick :: bool

definition worker_turn ::
  "('e \<Rightarrow> world \<Rightarrow> (go_error + 'j option) \<times> world) \<Rightarrow> ('e \<Rightarrow> 'j \<Rightarrow> world \<Rightarrow> world) \<Rightarrow> 'e turn \<Rightarrow> world \<Rightarrow> bool \<times> world" where
  "worker_turn claim process t w =
     (case claim (turn_env t) w of
        (Inl e, w1) \<Rightarrow> if turn_ctx_done t then (False, w1) else (turn_tick t, w1)
      | (Inr (Some job), w1) \<Rightarrow> (True, process (turn_env t) job w1)
      | (Inr None, w1) \<Rightarrow> (turn_tick t, w1))"

fun worker_loop ::
  "('e \<Rightarrow> world \<Rightarrow> (go_error + 'j option) \<times> world) \<Rightarrow> ('e \<Rightarrow> 'j \<Rightarrow> world \<Rightarrow> world) \<Rightarrow> 'e turn list \<Rightarrow> world \<Rightarrow> world" where
  "worker_loop claim process [] w = w"
| "worker_loop claim process (t # ts) w =
     (let (again, w') = worker_turn claim process t w
      in if again then worker_loop claim process ts w' else w')"

section \<open>The three workers\<close>

record notification_turn =
  nt_others :: "db \<Rightarrow> db"
  nt_fault :: db_fault
  nt_try_lock :: "int \<Rightarrow> go_error + bool"
  nt_now :: time
  nt_token :: string
  nt_snapshot :: db
  nt_delivery :: delivery_env

definition notification_claim :: "notification_turn \<Rightarrow> world \<Rightarrow> (go_error + notification_job option) \<times> world" where
  "notification_claim t w =
     on_db (claimPendingNotificationJob (nt_fault t) (nt_try_lock t) (nt_now t) (nt_token t) (nt_snapshot t))
       (w\<lparr>wdb := nt_others t (wdb w)\<rparr>)"

definition alertWorker :: "string option \<Rightarrow> notification_turn turn list \<Rightarrow> world \<Rightarrow> world" where
  "alertWorker token = worker_loop notification_claim (\<lambda>t. processNotificationJob token (nt_delivery t))"

record reply_turn =
  rt_others :: "db \<Rightarrow> db"
  rt_fault :: db_fault
  rt_try_lock :: "int \<Rightarrow> go_error + bool"
  rt_now :: time
  rt_token :: string
  rt_snapshot :: db
  rt_delivery :: delivery_env
  rt_decode_err :: "go_error option"

definition reply_claim :: "reply_turn \<Rightarrow> world \<Rightarrow> (go_error + reply_job option) \<times> world" where
  "reply_claim t w =
     on_db (claimPendingTelegramReply (rt_fault t) (rt_try_lock t) (rt_now t) (rt_token t) (rt_snapshot t))
       (w\<lparr>wdb := rt_others t (wdb w)\<rparr>)"

definition replyWorker :: "string option \<Rightarrow> reply_turn turn list \<Rightarrow> world \<Rightarrow> world" where
  "replyWorker token = worker_loop reply_claim (\<lambda>t. processTelegramReply token (rt_delivery t) (rt_decode_err t))"

record update_turn =
  ut_others :: "db \<Rightarrow> db"
  ut_fault :: db_fault
  ut_row_locked :: "int \<Rightarrow> bool"
  ut_now :: time
  ut_update :: update_env

definition update_claim :: "int \<Rightarrow> int \<Rightarrow> update_turn \<Rightarrow> world \<Rightarrow> (go_error + update_job option) \<times> world" where
  "update_claim workerID workerCount t w =
     on_db (claimPendingTelegramUpdateForWorker (ut_fault t) (ut_row_locked t) (ut_now t) workerID workerCount)
       (w\<lparr>wdb := ut_others t (wdb w)\<rparr>)"

definition updateWorkerPartition :: "int \<Rightarrow> int \<Rightarrow> update_turn turn list \<Rightarrow> world \<Rightarrow> world" where
  "updateWorkerPartition workerID workerCount =
     worker_loop (update_claim workerID workerCount) (\<lambda>t. processTelegramUpdateJob (ut_update t))"

section \<open>The contract of a worker\<close>

text \<open>
  If claiming and processing are made of transactions, so is the whole loop. \<open>ok\<close> says that what others
  commit in between are transactions too.
\<close>

locale transactional_worker =
  fixes claim :: "'e \<Rightarrow> world \<Rightarrow> (go_error + 'j option) \<times> world"
    and process :: "'e \<Rightarrow> 'j \<Rightarrow> world \<Rightarrow> world"
    and ok :: "'e \<Rightarrow> bool"
  assumes claim_steps: "ok e \<Longrightarrow> db_step\<^sup>*\<^sup>* (wdb w) (wdb (snd (claim e w)))"
    and process_steps: "ok e \<Longrightarrow> db_step\<^sup>*\<^sup>* (wdb w) (wdb (process e job w))"
begin

lemma turn_steps:
  assumes "ok (turn_env t)"
  shows "db_step\<^sup>*\<^sup>* (wdb w) (wdb (snd (worker_turn claim process t w)))"
proof -
  obtain r w1 where c: "claim (turn_env t) w = (r, w1)" by (cases "claim (turn_env t) w")
  with claim_steps [OF assms, of w] have w1: "db_step\<^sup>*\<^sup>* (wdb w) (wdb w1)" by simp
  from rtranclp_trans [OF w1 process_steps [OF assms]]
  have "db_step\<^sup>*\<^sup>* (wdb w) (wdb (process (turn_env t) job w1))" for job .
  with c w1 show ?thesis by (auto simp: worker_turn_def split: sum.split option.split)
qed

lemma loop_steps: "list_all (ok \<circ> turn_env) ts \<Longrightarrow> db_step\<^sup>*\<^sup>* (wdb w) (wdb (worker_loop claim process ts w))"
proof (induction ts arbitrary: w)
  case (Cons t ts)
  obtain again w' where t: "worker_turn claim process t w = (again, w')" by (cases "worker_turn claim process t w")
  with turn_steps [of t w] Cons.prems have w': "db_step\<^sup>*\<^sup>* (wdb w) (wdb w')" by simp
  from rtranclp_trans [OF w' Cons.IH] Cons.prems t w' show ?case by simp
qed simp

end

section \<open>Deliveries of replies and updates run steps\<close>

lemma reply_confirmed_steps:
  assumes "honest (de_others env)" "db_step\<^sup>*\<^sup>* d (wdb w)"
  shows "db_step\<^sup>*\<^sup>* d (wdb (reply_send_confirmed env job w))"
proof -
  have step: "db_step\<^sup>*\<^sup>* d (wdb (snd (reply_sent_write env job n w')))" if "db_step\<^sup>*\<^sup>* d (wdb w')" for n w'
    by (simp add: reply_sent_write_def Let_def case_prod_unfold)
      (rule step_trans [OF honest_trans [OF assms(1) that] db_step.reply_sent])
  have "db_step\<^sup>*\<^sup>* d (wdb (snd (finalize p fe (reply_sent_write env job) w)))" for p fe
    by (rule finalize_invariant [where P = "\<lambda>w'. db_step\<^sup>*\<^sup>* d (wdb w')"]) (simp_all add: step assms(2))
  then show ?thesis
    by (simp add: reply_send_confirmed_def Let_def case_prod_unfold)
qed

lemma reply_defer_steps:
  assumes "honest (de_others env)" "db_step\<^sup>*\<^sup>* d (wdb w)"
  shows "db_step\<^sup>*\<^sup>* d (wdb (deferTelegramReply token env job e w))"
    "db_step\<^sup>*\<^sup>* d (wdb (reply_send_failed token env job e w))"
  by (simp_all add: deferTelegramReply_def reply_send_failed_def Let_def
      step_trans [OF honest_trans [OF assms] db_step.reply_retry]
      step_trans [OF honest_trans [OF assms] db_step.reply_failed])

lemma sendTelegramReply_wdb: "wdb (snd (sendTelegramReply decode_err answer job w)) = wdb w"
  by (auto simp: sendTelegramReply_def split: option.split)

lemma processTelegramReply_steps:
  assumes "honest (de_others env)"
  shows "db_step\<^sup>*\<^sup>* (wdb w) (wdb (processTelegramReply token env decode_err job w))"
proof -
  have w2: "db_step\<^sup>*\<^sup>* (wdb w) (wdb (others env 2 w))" by (simp add: honest_trans [OF assms])
  have w3: "db_step\<^sup>*\<^sup>* (wdb w) (wdb (snd (sendTelegramReply decode_err (de_send env) job (others env 2 w))))"
    using w2 by (simp add: sendTelegramReply_wdb)
  show ?thesis
    unfolding processTelegramReply_def
    using reply_defer_steps [OF assms] reply_confirmed_steps [OF assms w3] w2 w3
    by (auto simp: Let_def case_prod_unfold split: option.split sum.split)
qed

lemma flush_from_wdb: "wdb (flush_from failed k answers w) = wdb w"
  by (induction failed k answers w rule: flush_from.induct) (auto simp: Let_def)

lemma update_error_steps:
  assumes "honest (ue_others env)" "db_step\<^sup>*\<^sup>* d (wdb w)"
  shows "db_step\<^sup>*\<^sup>* d (wdb (markTelegramUpdateProcessingError env job e w))"
    "db_step\<^sup>*\<^sup>* d (snd (markTelegramUpdateFailed fault now job e (ue_others env 2 (wdb w))))"
  by (simp_all add: markTelegramUpdateProcessingError_def u_others_def
      step_trans [OF honest_trans [OF assms] db_step.update_retry]
      step_trans [OF honest_trans [OF assms] db_step.update_failed])

lemma processTelegramUpdateJob_steps:
  assumes "honest (ue_others env)"
  shows "db_step\<^sup>*\<^sup>* (wdb w) (wdb (processTelegramUpdateJob env job w))"
proof -
  define w1 where "w1 = u_others env 1 w"
  have w1: "db_step\<^sup>*\<^sup>* (wdb w) (wdb w1)" by (simp add: w1_def u_others_def honest_trans [OF assms])
  have tx: "db_step\<^sup>*\<^sup>* (wdb w) d2" if "update_tx (ue_handler env) job u (wdb w1) = Inr (col, d2)" for u col d2
    using step_trans [OF w1 db_step.process_update [OF that]] .
  note err = update_error_steps [OF assms]
  have stored: "db_step\<^sup>*\<^sup>* (wdb w) (wdb (markTelegramUpdateProcessingError env job e (w1\<lparr>wdb := d2\<rparr>)))"
    if "update_tx (ue_handler env) job u (wdb w1) = Inr (col, d2)" for u col d2 e
    by (rule err(1)) (simp add: tx [OF that])
  have bad: "db_step\<^sup>*\<^sup>* (wdb w) (wdb (snd (on_db (markTelegramUpdateFailed fault now job e) (u_others env 2 w))))"
    for fault now e
    using err(2) [OF rtranclp.rtrancl_refl] by (simp add: u_others_def)
  show ?thesis
    unfolding processTelegramUpdateJob_def w1_def [symmetric] Let_def
    using w1 tx stored bad err(1) [OF rtranclp.rtrancl_refl] err(1) [OF w1] err(1) [of _ "count_metric _ _ w1"]
    by (auto simp: flushCallbackAnswers_def flush_from_wdb observeCompletedTelegramUpdate_def
        split: option.split sum.split db_fault.split)
qed


section \<open>The workers fulfil the contract\<close>

lemma claim_step_steps:
  assumes "\<And>d. db_step\<^sup>*\<^sup>* d (f d)" "\<And>d. db_step d (snd (g d))"
  shows "db_step\<^sup>*\<^sup>* (wdb w) (wdb (snd (on_db g (w\<lparr>wdb := f (wdb w)\<rparr>))))"
  using step_trans [OF assms] by simp

interpretation alert_worker: transactional_worker notification_claim "\<lambda>t. processNotificationJob token (nt_delivery t)"
  "\<lambda>t. (\<forall>d. db_step\<^sup>*\<^sup>* d (nt_others t d)) \<and> honest (de_others (nt_delivery t))" for token
  by unfold_locales
    (auto simp: notification_claim_def simp del: on_db_simps
      intro: claim_step_steps db_step.claim_notification processNotificationJob_steps)

interpretation reply_worker: transactional_worker reply_claim
  "\<lambda>t. processTelegramReply token (rt_delivery t) (rt_decode_err t)"
  "\<lambda>t. (\<forall>d. db_step\<^sup>*\<^sup>* d (rt_others t d)) \<and> honest (de_others (rt_delivery t))" for token
  by unfold_locales
    (auto simp: reply_claim_def simp del: on_db_simps
      intro: claim_step_steps db_step.claim_reply processTelegramReply_steps)

interpretation update_worker: transactional_worker "update_claim i n" "\<lambda>t. processTelegramUpdateJob (ut_update t)"
  "\<lambda>t. (\<forall>d. db_step\<^sup>*\<^sup>* d (ut_others t d)) \<and> honest (ue_others (ut_update t))" for i n
  by unfold_locales
    (auto simp: update_claim_def simp del: on_db_simps
      intro: claim_step_steps db_step.claim_update processTelegramUpdateJob_steps)

section \<open>The retention cleaner\<close>

text \<open>The four cleanups of a run, one after the other; errors are logged and do not stop the next one.\<close>

record retention_run =
  rr_errs :: "nat \<Rightarrow> nat \<Rightarrow> go_error option"
  rr_now :: "nat \<Rightarrow> time"

definition runNotificationRetentionCleanup :: "retention_run \<Rightarrow> db \<Rightarrow> db option" where
  "runNotificationRetentionCleanup env d =
     Option.bind (cleanupNotificationJobHistory (rr_errs env 0) (rr_now env 0) d) (\<lambda>(deletedJobs, d1).
     Option.bind (cleanupTelegramUpdateHistory (rr_errs env 1) (rr_now env 1) d1) (\<lambda>(deletedUpdates, d2).
     Option.bind (cleanupTelegramReplyHistory (rr_errs env 2) (rr_now env 2) d2) (\<lambda>(deletedReplies, d3).
     Option.bind (cleanupPriceAlertHistory (rr_errs env 3) (rr_now env 3) d3) (\<lambda>(deletedAlerts, d4).
     Some d4))))"

text \<open>The first run is made at once, the others at the ticks, between which others write.\<close>

fun cleaner_ticks :: "((db \<Rightarrow> db) \<times> retention_run) list \<Rightarrow> db \<Rightarrow> db option" where
  "cleaner_ticks [] d = Some d"
| "cleaner_ticks ((between, env) # ticks) d =
     Option.bind (runNotificationRetentionCleanup env (between d)) (cleaner_ticks ticks)"

definition startNotificationRetentionCleaner ::
  "retention_run \<Rightarrow> ((db \<Rightarrow> db) \<times> retention_run) list \<Rightarrow> db \<Rightarrow> db option" where
  "startNotificationRetentionCleaner env ticks d =
     Option.bind (runNotificationRetentionCleanup env d) (cleaner_ticks ticks)"

text \<open>A cleanup returns and consists of transactions.\<close>

lemma drain_steps:
  assumes "\<And>d. db_step d (snd (f d))" "\<And>d. db_inv d \<Longrightarrow> 0 < fst (f d) \<Longrightarrow> (m (snd (f d)) :: nat) < m d" "db_inv d"
  shows "\<exists>r d'. drainRetentionBatches (fallible err f) d = Some (r, d') \<and> db_step\<^sup>*\<^sup>* d d'"
proof -
  let ?P = "\<lambda>s. db_inv s \<and> db_step\<^sup>*\<^sup>* d s"
  have f: "?P (snd (f s))" if "?P s" for s
    using that assms(1) [of s] db_step_inv [OF assms(1) [of s]] by (auto intro: step_trans)
  have "\<exists>n e s'. drain_from (fallible err f) 0 0 d = Some ((n, e), s') \<and> ?P s' \<and>
      (e = None \<longrightarrow> (\<exists>k t n'. ?P t \<and> fallible err f k t = (Inr n', s') \<and> n' < RetentionCleanupLimit))"
  proof (rule drain_from_returns [where m = m])
    show "?P d" using assms(3) by simp
  next
    fix k s n s'
    assume "?P s" "fallible err f k s = (Inr n, s')"
    with f [of s] assms(2) [of s] show "?P s' \<and> (RetentionCleanupLimit \<le> n \<longrightarrow> m s' < m s)"
      by (auto simp: fallible_def RetentionCleanupLimit_def split: option.splits prod.splits)
  next
    fix k s e s'
    assume "?P s" "fallible err f k s = (Inl e, s')"
    then show "?P s'" by (auto simp: fallible_def split: option.splits prod.splits)
  qed
  then show ?thesis unfolding drainRetentionBatches_def by blast
qed

lemma cleanup_steps:
  assumes "db_inv d"
  shows "\<exists>r d'. cleanupNotificationJobHistory err now d = Some (r, d') \<and> db_step\<^sup>*\<^sup>* d d'"
    "\<exists>r d'. cleanupTelegramUpdateHistory err now d = Some (r, d') \<and> db_step\<^sup>*\<^sup>* d d'"
    "\<exists>r d'. cleanupTelegramReplyHistory err now d = Some (r, d') \<and> db_step\<^sup>*\<^sup>* d d'"
    "\<exists>r d'. cleanupPriceAlertHistory err now d = Some (r, d') \<and> db_step\<^sup>*\<^sup>* d d'"
proof -
  have u: "db_inv e \<Longrightarrow> unique_on nj_id (notification_jobs e)" "db_inv e \<Longrightarrow> unique_on tu_update_id (telegram_updates e)"
    "db_inv e \<Longrightarrow> unique_on tr_id (telegram_replies e)" "db_inv e \<Longrightarrow> unique_on pa_id (price_alerts e)" for e
    by (simp_all add: db_inv_def jobs_inv_def updates_inv_def replies_inv_def alerts_inv_def)
  show "\<exists>r d'. cleanupNotificationJobHistory err now d = Some (r, d') \<and> db_step\<^sup>*\<^sup>* d d'"
    unfolding cleanupNotificationJobHistory_def
    by (rule drain_steps [where m = "\<lambda>d. length (notification_jobs d)", OF db_step.clean_notifications _ assms])
      (rule clean_jobs.batch_progress [OF u(1)])
  show "\<exists>r d'. cleanupTelegramUpdateHistory err now d = Some (r, d') \<and> db_step\<^sup>*\<^sup>* d d'"
    unfolding cleanupTelegramUpdateHistory_def
    by (rule drain_steps [where m = "\<lambda>d. length (telegram_updates d)", OF db_step.clean_updates _ assms])
      (rule clean_updates.batch_progress [OF u(2)])
  show "\<exists>r d'. cleanupTelegramReplyHistory err now d = Some (r, d') \<and> db_step\<^sup>*\<^sup>* d d'"
    unfolding cleanupTelegramReplyHistory_def
    by (rule drain_steps [where m = "\<lambda>d. length (telegram_replies d)", OF db_step.clean_replies _ assms])
      (rule clean_replies.batch_progress [OF u(3)])
  show "\<exists>r d'. cleanupPriceAlertHistory err now d = Some (r, d') \<and> db_step\<^sup>*\<^sup>* d d'"
    unfolding cleanupPriceAlertHistory_def
    by (rule drain_steps [where m = "\<lambda>d. length (price_alerts d)", OF db_step.clean_alerts _ assms])
      (rule clean_alerts.batch_progress [OF u(4)])
qed

text \<open>So a run and the whole cleaner return, too.\<close>

lemma runNotificationRetentionCleanup_steps:
  assumes "db_inv d"
  shows "\<exists>d'. runNotificationRetentionCleanup env d = Some d' \<and> db_step\<^sup>*\<^sup>* d d'"
proof -
  from cleanup_steps(1) [OF assms] obtain r1 d1 where
    1: "cleanupNotificationJobHistory (rr_errs env 0) (rr_now env 0) d = Some (r1, d1)" "db_step\<^sup>*\<^sup>* d d1" by blast
  from cleanup_steps(2) [OF db_steps_inv [OF 1(2) assms]] obtain r2 d2 where
    2: "cleanupTelegramUpdateHistory (rr_errs env 1) (rr_now env 1) d1 = Some (r2, d2)" "db_step\<^sup>*\<^sup>* d1 d2" by blast
  note s2 = rtranclp_trans [OF 1(2) 2(2)]
  from cleanup_steps(3) [OF db_steps_inv [OF s2 assms]] obtain r3 d3 where
    3: "cleanupTelegramReplyHistory (rr_errs env 2) (rr_now env 2) d2 = Some (r3, d3)" "db_step\<^sup>*\<^sup>* d2 d3" by blast
  note s3 = rtranclp_trans [OF s2 3(2)]
  from cleanup_steps(4) [OF db_steps_inv [OF s3 assms]] obtain r4 d4 where
    4: "cleanupPriceAlertHistory (rr_errs env 3) (rr_now env 3) d3 = Some (r4, d4)" "db_step\<^sup>*\<^sup>* d3 d4" by blast
  have "runNotificationRetentionCleanup env d = Some d4"
    by (simp only: runNotificationRetentionCleanup_def 1(1) 2(1) 3(1) 4(1) Option.bind.simps prod.case)
  with rtranclp_trans [OF s3 4(2)] show ?thesis by blast
qed

lemma cleaner_ticks_steps:
  "list_all (\<lambda>(between, env). \<forall>d. db_step\<^sup>*\<^sup>* d (between d)) ticks \<Longrightarrow> db_inv d \<Longrightarrow>
     \<exists>d'. cleaner_ticks ticks d = Some d' \<and> db_step\<^sup>*\<^sup>* d d'"
proof (induction ticks arbitrary: d)
  case (Cons tick ticks)
  obtain between env where tick: "tick = (between, env)" by (cases tick)
  then have b: "db_step\<^sup>*\<^sup>* d (between d)" using Cons.prems(1) by simp
  obtain d1 where d1: "runNotificationRetentionCleanup env (between d) = Some d1" "db_step\<^sup>*\<^sup>* (between d) d1"
    using runNotificationRetentionCleanup_steps db_steps_inv [OF b Cons.prems(2)] by blast
  have s: "db_step\<^sup>*\<^sup>* d d1" using b d1(2) by (rule rtranclp_trans)
  obtain d' where "cleaner_ticks ticks d1 = Some d'" "db_step\<^sup>*\<^sup>* d1 d'"
    using Cons.IH [of d1] Cons.prems db_steps_inv [OF s] by auto
  with s d1(1) tick show ?case by (auto intro: rtranclp_trans)
qed simp

section \<open>The price ticker\<close>

text \<open>One round at once and one per tick; between the rounds the other goroutines write to the database.\<close>

fun ticker_rounds :: "((db \<Rightarrow> db) \<times> feed_env \<times> string list) list \<Rightarrow> feed_state \<Rightarrow> feed_state" where
  "ticker_rounds [] s = s"
| "ticker_rounds ((between, env, order) # rounds) s =
     ticker_rounds rounds (fetchAndCachePrices env order (s\<lparr>fs_db := between (fs_db s)\<rparr>))"

definition startPriceTicker ::
  "feed_env \<Rightarrow> string list \<Rightarrow> ((db \<Rightarrow> db) \<times> feed_env \<times> string list) list \<Rightarrow> feed_state \<Rightarrow> feed_state" where
  "startPriceTicker env order ticks s = ticker_rounds ticks (fetchAndCachePrices env order s)"

lemma fetch_coin_steps: "db_step\<^sup>*\<^sup>* (fs_db s) (fs_db (fetch_coin env t symbol s))"
proof -
  have p: "db_step\<^sup>*\<^sup>* (fs_db s) (snd (persistObservedMarketPrice fault en err t1 t2 sy price t3 (fs_db s)))"
    for fault en err t1 t2 sy price t3
    by (rule r_into_rtranclp) (rule db_step.persist_price)
  have "db_step\<^sup>*\<^sup>* (fs_db s) d" if "persistObservedMarketPrice fault en err t1 t2 sy price t3 (fs_db s) = (r, d)"
    for fault en err t1 t2 sy price t3 r d
    using p [of fault en err t1 t2 sy price t3] that by simp
  then show ?thesis
    by (auto simp: fetch_coin_def feed_metric_def split: ticker_answer.split ticker_body.split sum.split prod.split)
qed

lemma trigger_batch_steps: "db_step\<^sup>*\<^sup>* d (snd (trigger_batch env cs n i d))"
proof (induction env cs n i d rule: trigger_batch.induct)
  case (2 env c cs n i d)
  let ?t = "triggerPriceAlert (ce_fault env (fst c)) (ce_lock env) (ce_now env (fst c)) c d"
  obtain r d' where t: "?t = (r, d')" by (cases ?t)
  have s: "db_step\<^sup>*\<^sup>* d d'" using db_step.trigger_alert [of d] t by (metis r_into_rtranclp snd_conv)
  show ?case
  proof (cases r)
    case (Inl e)
    with s t show ?thesis by simp
  next
    case (Inr b)
    from rtranclp_trans [OF s "2.IH" [OF t [symmetric] Inr]] show ?thesis using t Inr by simp
  qed
qed simp

lemma crossings_loop_steps: "db_step\<^sup>*\<^sup>* d (snd (process_crossings_loop env n i d))"
proof (induction env n i d rule: process_crossings_loop.induct)
  case (1 env n i d)
  show ?case
  proof (cases "ce_query_err env i")
    case (Some e)
    then show ?thesis by (simp add: process_crossings_loop.simps)
  next
    case None
    show ?thesis
    proof (cases "crossing_candidates i d = []")
      case True
      with None show ?thesis by (simp add: process_crossings_loop.simps)
    next
      case False
      obtain m e j d' where b: "trigger_batch env (crossing_candidates i d) n i d = ((m, e, j), d')"
        by (cases "trigger_batch env (crossing_candidates i d) n i d") (metis prod_cases3)
      then have s: "db_step\<^sup>*\<^sup>* d d'" using trigger_batch_steps [of d env "crossing_candidates i d" n i] by simp
      show ?thesis
      proof (cases e)
        case (Some err)
        with s None False b show ?thesis by (simp add: process_crossings_loop.simps)
      next
        case en: None
        have IH: "db_step\<^sup>*\<^sup>* d' (snd (process_crossings_loop env m j d'))"
          using "1.IH" [OF None refl False b [symmetric] refl] en by simp
        from rtranclp_trans [OF s IH] None False b en show ?thesis
          by (subst process_crossings_loop.simps) simp
      qed
    qed
  qed
qed

lemma fetchAndCachePrices_steps: "db_step\<^sup>*\<^sup>* (fs_db s) (fs_db (fetchAndCachePrices env order s))"
proof -
  have coins: "db_step\<^sup>*\<^sup>* (fs_db s) (fs_db (fold (fetch_coin env t) order s))" for t s
  proof (induction order arbitrary: s)
    case (Cons symbol order)
    from rtranclp_trans [OF fetch_coin_steps Cons.IH] show ?case by simp
  qed simp
  have after: "db_step\<^sup>*\<^sup>* (fs_db s) (fs_db (process_after env s))" for s
  proof (cases "ce_delete_err (fe_crossings env)")
    case None
    have "db_step\<^sup>*\<^sup>* (fs_db s) (delete_stale_crossings (fs_db s))"
      by (rule r_into_rtranclp) (rule db_step.drop_stale_crossings)
    from rtranclp_trans [OF this crossings_loop_steps] None show ?thesis
      by (simp add: process_after_def processPriceAlertCrossings_def)
  qed (simp add: process_after_def processPriceAlertCrossings_def)
  from after coins rtranclp_trans [OF coins after] show ?thesis
    by (auto simp: fetchAndCachePrices_def split: sum.split)
qed

lemma ticker_rounds_steps:
  "list_all (\<lambda>(between, env, order). \<forall>d. db_step\<^sup>*\<^sup>* d (between d)) rounds \<Longrightarrow>
     db_step\<^sup>*\<^sup>* (fs_db s) (fs_db (ticker_rounds rounds s))"
proof (induction rounds arbitrary: s)
  case (Cons round rounds)
  obtain between env order where r: "round = (between, env, order)" by (cases round) auto
  let ?s = "s\<lparr>fs_db := between (fs_db s)\<rparr>"
  have "db_step\<^sup>*\<^sup>* (fs_db s) (fs_db ?s)" using Cons.prems by (simp add: r)
  from rtranclp_trans [OF rtranclp_trans [OF this fetchAndCachePrices_steps] Cons.IH] Cons.prems show ?case
    by (simp add: r)
qed simp

lemma ticker_cache_valid:
  "cache_valid (fs_cache s) \<Longrightarrow> cache_valid (fs_cache (startPriceTicker env order ticks s))"
proof -
  have "cache_valid (fs_cache s) \<Longrightarrow> cache_valid (fs_cache (ticker_rounds ticks s))" for s
  proof (induction ticks arbitrary: s)
    case (Cons tick ticks)
    then show ?case by (cases tick) (simp add: fetch_round_cache_valid)
  qed simp
  then show "cache_valid (fs_cache s) \<Longrightarrow> ?thesis" by (simp add: startPriceTicker_def fetch_round_cache_valid)
qed


end
