(* ===== verification/Advisory_Lock.thy ===== *)
theory Advisory_Lock
  imports Schema Sharding
begin

text \<open>
  Session-level advisory locks and the connections that hold them (\<^verbatim>\<open>internal/storage/advisory_lock.go\<close>,
  \<^verbatim>\<open>internal/storage/migrations.go\<close>, the lock helpers of \<^verbatim>\<open>internal/app/http_handlers.go\<close> and
  \<^verbatim>\<open>internal/app/telegram_inbox.go\<close>).

  A session of PostgreSQL owns the locks it took until it unlocks them or ends; they are counted, so
  \<open>held\<close> is the list of acquisitions. The pool of \<^verbatim>\<open>database/sql\<close> lends a session to one user at a time
  (\<open>in_use\<close>) and keeps it open between users (\<open>idle\<close>); \<^verbatim>\<open>Close\<close> of a borrowed connection does not end the
  session, so a lock that is still held would leak into the pool.
\<close>

section \<open>Server and pool\<close>

record lock_db =
  held :: "(nat \<times> int) list"
  in_use :: "nat list"
  idle :: "nat list"

text \<open>
  What a statement meets: the answer arrives, the statement is not executed, or it is executed and its
  answer is lost.
\<close>

datatype call_fault = CallOk | NotExecuted go_error | AnswerLost go_error

definition free_for :: "nat \<Rightarrow> int \<Rightarrow> lock_db \<Rightarrow> bool" where
  "free_for s k st \<longleftrightarrow> list_all (\<lambda>h. snd h = k \<longrightarrow> fst h = s) (held st)"

definition take_lock :: "nat \<Rightarrow> int \<Rightarrow> lock_db \<Rightarrow> lock_db" where
  "take_lock s k st = st\<lparr>held := (s, k) # held st\<rparr>"

text \<open>\<^verbatim>\<open>pg_try_advisory_lock\<close>, \<^verbatim>\<open>pg_advisory_unlock\<close> and their answers.\<close>

definition server_try_lock :: "nat \<Rightarrow> int \<Rightarrow> lock_db \<Rightarrow> bool \<times> lock_db" where
  "server_try_lock s k st = (if free_for s k st then (True, take_lock s k st) else (False, st))"

definition server_unlock :: "nat \<Rightarrow> int \<Rightarrow> lock_db \<Rightarrow> bool \<times> lock_db" where
  "server_unlock s k st =
     (if (s, k) \<in> set (held st) then (True, st\<lparr>held := remove1 (s, k) (held st)\<rparr>) else (False, st))"

definition statement :: "call_fault \<Rightarrow> (lock_db \<Rightarrow> 'a \<times> lock_db) \<Rightarrow> lock_db \<Rightarrow> (go_error + 'a) \<times> lock_db" where
  "statement fault f st =
     (case fault of
        CallOk \<Rightarrow> (let (v, st') = f st in (Inr v, st'))
      | NotExecuted e \<Rightarrow> (Inl e, st)
      | AnswerLost e \<Rightarrow> (Inl e, snd (f st)))"

text \<open>
  \<^verbatim>\<open>pg_advisory_lock\<close> waits while another session holds the lock; then it ends only with the context
  of the caller, \<open>deadline\<close>.
\<close>

definition lock_statement :: "call_fault \<Rightarrow> go_error \<Rightarrow> nat \<Rightarrow> int \<Rightarrow> lock_db \<Rightarrow> go_error option \<times> lock_db" where
  "lock_statement fault deadline s k st =
     (case fault of
        NotExecuted e \<Rightarrow> (Some e, st)
      | CallOk \<Rightarrow> if free_for s k st then (None, take_lock s k st) else (Some deadline, st)
      | AnswerLost e \<Rightarrow> if free_for s k st then (Some e, take_lock s k st) else (Some e, st))"

text \<open>
  \<^verbatim>\<open>db.Conn\<close> lends an idle session or opens a new one, \<open>fresh\<close>; \<^verbatim>\<open>Close\<close> gives it back; a connection on
  which the driver reports \<^verbatim>\<open>ErrBadConn\<close> is closed, which ends the session on the server.
\<close>

definition pool_Conn :: "go_error option \<Rightarrow> nat \<Rightarrow> lock_db \<Rightarrow> go_error + nat \<times> lock_db" where
  "pool_Conn err fresh st =
     (case err of
        Some e \<Rightarrow> Inl e
      | None \<Rightarrow>
          (case idle st of
             s # rest \<Rightarrow> Inr (s, st\<lparr>idle := rest, in_use := s # in_use st\<rparr>)
           | [] \<Rightarrow> Inr (fresh, st\<lparr>in_use := fresh # in_use st\<rparr>)))"

definition conn_Close :: "nat \<Rightarrow> lock_db \<Rightarrow> go_error option \<times> lock_db" where
  "conn_Close s st =
     (if s \<in> set (in_use st) then (None, st\<lparr>in_use := removeAll s (in_use st), idle := s # idle st\<rparr>)
      else (Some (PlainError ''sql: connection is already closed''), st))"

definition end_session :: "nat \<Rightarrow> lock_db \<Rightarrow> lock_db" where
  "end_session s st =
     st\<lparr>in_use := removeAll s (in_use st), held := filter (\<lambda>h. fst h \<noteq> s) (held st)\<rparr>"

section \<open>Discarding and releasing\<close>

text \<open>\<^verbatim>\<open>conn.Raw\<close> with a callback that returns \<^verbatim>\<open>ErrBadConn\<close>: the session ends unless it was given back.\<close>

definition DiscardConnection :: "nat option \<Rightarrow> lock_db \<Rightarrow> go_error option \<times> lock_db" where
  "DiscardConnection conn st =
     (case conn of
        None \<Rightarrow> (None, st)
      | Some s \<Rightarrow> if s \<in> set (in_use st) then (None, end_session s st) else (None, st))"

definition join_err :: "go_error \<Rightarrow> go_error option \<Rightarrow> go_error" where
  "join_err a b = (case b of None \<Rightarrow> a | Some e \<Rightarrow> Joined a e)"

definition ReleaseAdvisoryLock :: "call_fault \<Rightarrow> nat option \<Rightarrow> int \<Rightarrow> lock_db \<Rightarrow> go_error option \<times> lock_db" where
  "ReleaseAdvisoryLock fault conn key st =
     (case conn of
        None \<Rightarrow> (None, st)
      | Some s \<Rightarrow>
          (let (answer, st1) = statement fault (server_unlock s key) st;
               err = (case answer of
                        Inl e \<Rightarrow> Some e
                      | Inr released \<Rightarrow>
                          if released then None
                          else Some (PlainError ''advisory lock was not held by the session''))
           in case err of
                Some e \<Rightarrow> (let (derr, st2) = DiscardConnection conn st1 in (Some (join_err e derr), st2))
              | None \<Rightarrow> conn_Close s st1))"

section \<open>The lock of the cron endpoint\<close>

definition CronAdvisoryLockKey :: int where
  "CronAdvisoryLockKey = 0x63726f6e6c6f636b"

definition acquireCronAdvisoryLock ::
  "go_error option \<Rightarrow> nat \<Rightarrow> call_fault \<Rightarrow> lock_db \<Rightarrow> (go_error + nat option \<times> bool) \<times> lock_db" where
  "acquireCronAdvisoryLock conn_err fresh fault st =
     (case pool_Conn conn_err fresh st of
        Inl e \<Rightarrow> (Inl e, st)
      | Inr (conn, st1) \<Rightarrow>
          (case statement fault (server_try_lock conn CronAdvisoryLockKey) st1 of
             (Inl e, st2) \<Rightarrow>
               (let (derr, st3) = DiscardConnection (Some conn) st2 in (Inl (join_err e derr), st3))
           | (Inr acquired, st2) \<Rightarrow>
               if \<not> acquired then (Inr (None, False), snd (conn_Close conn st2))
               else (Inr (Some conn, True), st2)))"

definition releaseCronAdvisoryLock :: "call_fault \<Rightarrow> nat option \<Rightarrow> lock_db \<Rightarrow> lock_db" where
  "releaseCronAdvisoryLock fault conn st =
     (case conn of
        None \<Rightarrow> st
      | Some s \<Rightarrow> snd (ReleaseAdvisoryLock fault (Some s) CronAdvisoryLockKey st))"

section \<open>The lock of a chat\<close>

definition acquireTelegramChatAdvisoryLock ::
  "go_error option \<Rightarrow> nat \<Rightarrow> call_fault \<Rightarrow> go_error \<Rightarrow> int \<Rightarrow> lock_db \<Rightarrow> (go_error + nat \<times> int) \<times> lock_db" where
  "acquireTelegramChatAdvisoryLock conn_err fresh fault deadline chatID st =
     (case pool_Conn conn_err fresh st of
        Inl e \<Rightarrow> (Inl e, st)
      | Inr (conn, st1) \<Rightarrow>
          (let lockKey = telegramChatAdvisoryLockKey chatID in
           case lock_statement fault deadline conn lockKey st1 of
             (Some e, st2) \<Rightarrow>
               (let (derr, st3) = DiscardConnection (Some conn) st2 in (Inl (join_err e derr), st3))
           | (None, st2) \<Rightarrow> (Inr (conn, lockKey), st2)))"

definition releaseTelegramChatAdvisoryLock :: "call_fault \<Rightarrow> nat option \<Rightarrow> int \<Rightarrow> lock_db \<Rightarrow> lock_db" where
  "releaseTelegramChatAdvisoryLock fault conn lockKey st =
     (case conn of
        None \<Rightarrow> st
      | Some s \<Rightarrow> snd (ReleaseAdvisoryLock fault (Some s) lockKey st))"

text \<open>The lock of a transaction, which its session gives back when the transaction ends.\<close>

definition tryTelegramChatTransactionLock :: "call_fault \<Rightarrow> nat \<Rightarrow> int \<Rightarrow> lock_db \<Rightarrow> (go_error + bool) \<times> lock_db" where
  "tryTelegramChatTransactionLock fault session chatID st =
     statement fault (server_try_lock session (telegramChatAdvisoryLockKey chatID)) st"

lemma tryTelegramChatTransactionLock_exclusive:
  "fst (tryTelegramChatTransactionLock fault session chatID st) = Inr True \<Longrightarrow>
     list_all (\<lambda>h. snd h = telegramChatAdvisoryLockKey chatID \<longrightarrow> fst h = session) (held st)"
  by (auto simp: tryTelegramChatTransactionLock_def statement_def server_try_lock_def free_for_def
      split: call_fault.splits if_splits)

section \<open>Migrations\<close>

text \<open>
  The migrations themselves run in the library goose; \<open>new_provider\<close> and \<open>up\<close> are its answers, the
  latter the number of applied migrations.
\<close>

definition migrationAdvisoryLockKey :: int where
  "migrationAdvisoryLockKey = 0x43727970746f"

definition releaseMigrationLock :: "call_fault \<Rightarrow> nat \<Rightarrow> lock_db \<Rightarrow> lock_db" where
  "releaseMigrationLock fault conn st = snd (ReleaseAdvisoryLock fault (Some conn) migrationAdvisoryLockKey st)"

definition ApplyMigrations ::
  "go_error option \<Rightarrow> nat \<Rightarrow> call_fault \<Rightarrow> go_error \<Rightarrow> call_fault \<Rightarrow> go_error option \<Rightarrow> go_error + int \<Rightarrow>
   lock_db \<Rightarrow> (go_error + int) \<times> lock_db" where
  "ApplyMigrations conn_err fresh fault deadline release_fault new_provider up st =
     (case pool_Conn conn_err fresh st of
        Inl e \<Rightarrow> (Inl (Wrapped ''open migration lock connection'' e), st)
      | Inr (lockConn, st1) \<Rightarrow>
          (case lock_statement fault deadline lockConn migrationAdvisoryLockKey st1 of
             (Some e, st2) \<Rightarrow>
               (let (derr, st3) = DiscardConnection (Some lockConn) st2
                in (Inl (Wrapped ''acquire migration advisory lock'' (join_err e derr)), st3))
           | (None, st2) \<Rightarrow>
               (let result =
                      (case new_provider of
                         Some e \<Rightarrow> Inl (Wrapped ''initialize migration provider'' e)
                       | None \<Rightarrow>
                           (case up of Inl e \<Rightarrow> Inl (Wrapped ''apply database migrations'' e) | Inr n \<Rightarrow> Inr n))
                in (result, releaseMigrationLock release_fault lockConn st2))))"


section \<open>Locks and sessions stay together\<close>

text \<open>
  Every lock belongs to a borrowed session, each session holds at most one lock, each lock has at most
  one holder.
\<close>

definition holders :: "lock_db \<Rightarrow> nat set" where
  "holders st = fst ` set (held st)"

definition lock_inv :: "lock_db \<Rightarrow> bool" where
  "lock_inv st \<longleftrightarrow>
     distinct (in_use st) \<and> distinct (idle st) \<and> set (in_use st) \<inter> set (idle st) = {} \<and>
     holders st \<subseteq> set (in_use st) \<and> distinct (map fst (held st)) \<and> distinct (map snd (held st))"

definition no_locks :: lock_db where
  "no_locks = \<lparr>held = [], in_use = [], idle = []\<rparr>"

lemma lock_inv_no_locks: "lock_inv no_locks"
  by (simp add: lock_inv_def no_locks_def holders_def)

lemma distinct_map_filter: "distinct (map f xs) \<Longrightarrow> distinct (map f (filter p xs))"
  by (induction xs) auto

lemma holders_simps [simp]:
  "holders (st\<lparr>in_use := a\<rparr>) = holders st" "holders (st\<lparr>idle := b\<rparr>) = holders st"
  "holders (take_lock s k st) = insert s (holders st)" "holders (end_session s st) = holders st - {s}"
  by (auto simp: holders_def take_lock_def end_session_def)

lemma take_lock_simps [simp]:
  "held (take_lock s k st) = (s, k) # held st" "in_use (take_lock s k st) = in_use st"
  "idle (take_lock s k st) = idle st"
  by (simp_all add: take_lock_def)

lemma free_for_new: "s \<notin> holders st \<Longrightarrow> free_for s k st \<longleftrightarrow> k \<notin> snd ` set (held st)"
  by (auto simp: free_for_def list_all_iff holders_def)

text \<open>A borrowed session holds nothing yet.\<close>

lemma pool_Conn_spec:
  assumes "pool_Conn err fresh st = Inr (s, st1)" "lock_inv st" "fresh \<notin> set (in_use st) \<union> set (idle st)"
  shows "lock_inv st1" "s \<in> set (in_use st1)" "s \<notin> holders st1" "held st1 = held st"
  using assms by (auto simp: pool_Conn_def lock_inv_def split: option.splits list.splits)

lemma end_session_inv: "lock_inv st \<Longrightarrow> lock_inv (end_session s st)"
  unfolding lock_inv_def
  by (simp add: end_session_def distinct_removeAll distinct_map_filter) (auto simp: holders_def)

lemma end_session_held: "s \<notin> holders st \<Longrightarrow> held (end_session s st) = held st"
  by (force simp: end_session_def filter_id_conv holders_def)

lemma take_lock_inv:
  "lock_inv st \<Longrightarrow> s \<in> set (in_use st) \<Longrightarrow> s \<notin> holders st \<Longrightarrow> free_for s k st \<Longrightarrow> lock_inv (take_lock s k st)"
  by (simp add: lock_inv_def free_for_new) (simp add: holders_def)

lemma end_session_take: "s \<notin> holders st \<Longrightarrow> held (end_session s (take_lock s k st)) = held st"
  by (force simp: end_session_def filter_id_conv holders_def)

lemma conn_Close_inv: "lock_inv st \<Longrightarrow> s \<notin> holders st \<Longrightarrow> lock_inv (snd (conn_Close s st))"
  by (auto simp: lock_inv_def conn_Close_def distinct_removeAll)

lemma conn_Close_held [simp]: "held (snd (conn_Close s st)) = held st"
  by (simp add: conn_Close_def)

text \<open>Acquiring: the caller gets the session with the lock, or the locks are as before.\<close>

definition acquire_ok :: "lock_db \<Rightarrow> lock_db \<Rightarrow> (nat \<times> int) option \<Rightarrow> bool" where
  "acquire_ok st st' sk \<longleftrightarrow>
     lock_inv st' \<and>
     (case sk of
        None \<Rightarrow> held st' = held st
      | Some (s, k) \<Rightarrow> held st' = (s, k) # held st \<and> k \<notin> snd ` set (held st))"

lemma acquire_cron_spec:
  assumes "lock_inv st" "fresh \<notin> set (in_use st) \<union> set (idle st)"
  shows "acquire_ok st (snd (acquireCronAdvisoryLock conn_err fresh fault st))
     (case fst (acquireCronAdvisoryLock conn_err fresh fault st) of
        Inr (Some s, _) \<Rightarrow> Some (s, CronAdvisoryLockKey) | _ \<Rightarrow> None)"
proof (cases "pool_Conn conn_err fresh st")
  case (Inl e)
  with assms show ?thesis by (simp add: acquireCronAdvisoryLock_def acquire_ok_def)
next
  case (Inr r)
  obtain s st1 where r: "r = (s, st1)" by (cases r)
  note sp = pool_Conn_spec [OF Inr [unfolded r] assms]
  show ?thesis
    using Inr sp unfolding r
    by (cases fault; cases "free_for s CronAdvisoryLockKey st1")
      (auto simp: acquireCronAdvisoryLock_def acquire_ok_def statement_def server_try_lock_def DiscardConnection_def
        take_lock_inv end_session_inv end_session_held end_session_take conn_Close_inv free_for_new)
qed


text \<open>Both blocking locks, of a chat and of the migrations, are taken in the same way.\<close>

definition acquire_blocking ::
  "go_error option \<Rightarrow> nat \<Rightarrow> call_fault \<Rightarrow> go_error \<Rightarrow> int \<Rightarrow> lock_db \<Rightarrow> (go_error + nat) \<times> lock_db" where
  "acquire_blocking conn_err fresh fault deadline key st =
     (case pool_Conn conn_err fresh st of
        Inl e \<Rightarrow> (Inl e, st)
      | Inr (conn, st1) \<Rightarrow>
          (case lock_statement fault deadline conn key st1 of
             (Some e, st2) \<Rightarrow> (let (derr, st3) = DiscardConnection (Some conn) st2 in (Inl (join_err e derr), st3))
           | (None, st2) \<Rightarrow> (Inr conn, st2)))"

lemma acquire_blocking_spec:
  assumes "lock_inv st" "fresh \<notin> set (in_use st) \<union> set (idle st)"
  shows "acquire_ok st (snd (acquire_blocking conn_err fresh fault deadline key st))
     (case fst (acquire_blocking conn_err fresh fault deadline key st) of Inl e \<Rightarrow> None | Inr s \<Rightarrow> Some (s, key))"
proof (cases "pool_Conn conn_err fresh st")
  case (Inl e)
  with assms show ?thesis by (simp add: acquire_blocking_def acquire_ok_def)
next
  case (Inr r)
  obtain s st1 where r: "r = (s, st1)" by (cases r)
  note sp = pool_Conn_spec [OF Inr [unfolded r] assms]
  show ?thesis
    using Inr sp unfolding r
    by (cases fault; cases "free_for s key st1")
      (auto simp: acquire_blocking_def acquire_ok_def lock_statement_def DiscardConnection_def
        take_lock_inv end_session_inv end_session_held end_session_take free_for_new)
qed

lemma acquire_chat_eq:
  "acquireTelegramChatAdvisoryLock conn_err fresh fault deadline chat st =
     map_prod (map_sum id (\<lambda>s. (s, telegramChatAdvisoryLockKey chat))) id
       (acquire_blocking conn_err fresh fault deadline (telegramChatAdvisoryLockKey chat) st)"
  by (simp add: acquireTelegramChatAdvisoryLock_def acquire_blocking_def Let_def case_prod_unfold
      split: sum.split option.split prod.split)

text \<open>Releasing, whatever happens to the statement, frees the lock and nothing else.\<close>

lemma remove1_holder:
  assumes "(s, k) \<in> set xs" "distinct (map fst xs)"
  shows "filter (\<lambda>h. fst h \<noteq> s) xs = remove1 (s, k) xs" "s \<notin> fst ` set (remove1 (s, k) xs)"
proof -
  have "filter (\<lambda>h. fst h \<noteq> s) xs = remove1 (s, k) xs \<and> s \<notin> fst ` set (remove1 (s, k) xs)"
    using assms
  proof (induction xs)
    case (Cons h xs)
    show ?case
    proof (cases "h = (s, k)")
      case True
      with Cons.prems have "s \<notin> fst ` set xs" by simp
      then show ?thesis by (auto simp: True filter_id_conv)
    next
      case False
      with Cons.prems have xs: "(s, k) \<in> set xs" by simp
      then have "s \<in> fst ` set xs" by force
      with Cons.prems have "fst h \<noteq> s" by auto
      note xs this
      with Cons False show ?thesis by auto
    qed
  qed simp
  then show "filter (\<lambda>h. fst h \<noteq> s) xs = remove1 (s, k) xs" "s \<notin> fst ` set (remove1 (s, k) xs)" by auto
qed

lemma unlock_inv:
  assumes "lock_inv st" "(s, k) \<in> set (held st)"
  shows "lock_inv (st\<lparr>held := remove1 (s, k) (held st)\<rparr>)"
proof -
  have d: "distinct (map fst (held st))" "distinct (map snd (held st))" using assms(1) by (simp_all add: lock_inv_def)
  note eq = remove1_holder(1) [OF assms(2) d(1)]
  have "holders (st\<lparr>held := remove1 (s, k) (held st)\<rparr>) \<subseteq> holders st"
    using set_remove1_subset [of "(s, k)" "held st"] by (auto simp: holders_def)
  with assms(1) show ?thesis
    using d by (auto simp: lock_inv_def eq [symmetric] distinct_map_filter)
qed

lemma release_spec:
  assumes "lock_inv st" "(s, k) \<in> set (held st)"
  shows "lock_inv (snd (ReleaseAdvisoryLock fault (Some s) k st)) \<and>
     held (snd (ReleaseAdvisoryLock fault (Some s) k st)) = remove1 (s, k) (held st)"
proof -
  let ?st = "st\<lparr>held := remove1 (s, k) (held st)\<rparr>"
  have d: "distinct (map fst (held st))" and use: "s \<in> set (in_use st)"
    using assms by (auto simp: lock_inv_def holders_def)
  note rm = remove1_holder [OF assms(2) d]
  have inv: "lock_inv ?st" using assms by (rule unlock_inv)
  have new: "s \<notin> holders ?st" using rm(2) by (simp add: holders_def)
  have "held (end_session s st) = remove1 (s, k) (held st)" by (simp add: end_session_def rm(1))
  with inv new use end_session_inv [OF assms(1)] end_session_inv [OF inv] end_session_held [OF new] conn_Close_inv [OF inv new]
  show ?thesis
    by (cases fault)
      (simp_all add: ReleaseAdvisoryLock_def statement_def server_unlock_def assms(2) DiscardConnection_def
        conn_Close_def case_prod_unfold Let_def)
qed


section \<open>All users of the pool\<close>

text \<open>
  The requests and workers that share a pool acquire and release independently; a release is always made
  with the connection that was acquired with the lock. The pool may close an idle session at any time.
\<close>

inductive lock_step :: "lock_db \<Rightarrow> lock_db \<Rightarrow> bool" where
  acquire_cron: "fresh \<notin> set (in_use st) \<union> set (idle st) \<Longrightarrow>
    lock_step st (snd (acquireCronAdvisoryLock conn_err fresh fault st))"
| release_cron: "(s, CronAdvisoryLockKey) \<in> set (held st) \<Longrightarrow>
    lock_step st (releaseCronAdvisoryLock fault (Some s) st)"
| acquire_chat: "fresh \<notin> set (in_use st) \<union> set (idle st) \<Longrightarrow>
    lock_step st (snd (acquireTelegramChatAdvisoryLock conn_err fresh fault deadline chat st))"
| release_chat: "(s, telegramChatAdvisoryLockKey chat) \<in> set (held st) \<Longrightarrow>
    lock_step st (releaseTelegramChatAdvisoryLock fault (Some s) (telegramChatAdvisoryLockKey chat) st)"
| migrations: "fresh \<notin> set (in_use st) \<union> set (idle st) \<Longrightarrow>
    lock_step st (snd (ApplyMigrations conn_err fresh fault deadline release_fault new_provider up st))"
| idle_closed: "lock_step st (st\<lparr>idle := removeAll s (idle st)\<rparr>)"

lemma ApplyMigrations_eq:
  "snd (ApplyMigrations conn_err fresh fault deadline release_fault new_provider up st) =
     (case acquire_blocking conn_err fresh fault deadline migrationAdvisoryLockKey st of
        (Inl e, st') \<Rightarrow> st'
      | (Inr s, st') \<Rightarrow> snd (ReleaseAdvisoryLock release_fault (Some s) migrationAdvisoryLockKey st'))"
  by (simp add: ApplyMigrations_def acquire_blocking_def releaseMigrationLock_def Let_def case_prod_unfold
      split: sum.split option.split)

text \<open>The migrations leave the locks as they found them.\<close>

lemma ApplyMigrations_spec:
  assumes "lock_inv st" "fresh \<notin> set (in_use st) \<union> set (idle st)"
  shows "lock_inv (snd (ApplyMigrations conn_err fresh fault deadline release_fault new_provider up st)) \<and>
     held (snd (ApplyMigrations conn_err fresh fault deadline release_fault new_provider up st)) = held st"
proof -
  obtain res st' where acq: "acquire_blocking conn_err fresh fault deadline migrationAdvisoryLockKey st = (res, st')"
    by (cases "acquire_blocking conn_err fresh fault deadline migrationAdvisoryLockKey st")
  note sp = acquire_blocking_spec [OF assms, of conn_err fault deadline migrationAdvisoryLockKey, unfolded acq fst_conv snd_conv]
  show ?thesis
  proof (cases res)
    case (Inl e)
    with sp acq show ?thesis by (simp add: ApplyMigrations_eq acquire_ok_def)
  next
    case (Inr s)
    with sp have "lock_inv st'" "held st' = (s, migrationAdvisoryLockKey) # held st" by (simp_all add: acquire_ok_def)
    with release_spec [of st' s migrationAdvisoryLockKey release_fault] acq Inr show ?thesis
      by (simp add: ApplyMigrations_eq)
  qed
qed

lemma lock_step_inv: "lock_step st st' \<Longrightarrow> lock_inv st \<Longrightarrow> lock_inv st'"
proof (induction rule: lock_step.induct)
  case (acquire_cron fresh st conn_err fault)
  then show ?case using acquire_cron_spec by (simp add: acquire_ok_def)
next
  case (release_cron s st fault)
  then show ?case using release_spec by (simp add: releaseCronAdvisoryLock_def)
next
  case (acquire_chat fresh st conn_err fault deadline chat)
  then show ?case using acquire_blocking_spec by (simp add: acquire_chat_eq acquire_ok_def)
next
  case (release_chat s chat st fault)
  then show ?case using release_spec by (simp add: releaseTelegramChatAdvisoryLock_def)
next
  case (migrations fresh st conn_err fault deadline release_fault new_provider up)
  then show ?case using ApplyMigrations_spec by simp
next
  case (idle_closed st s)
  then show ?case by (auto simp: lock_inv_def distinct_removeAll)
qed

lemma lock_steps_inv: "lock_step\<^sup>*\<^sup>* no_locks st \<Longrightarrow> lock_inv st"
  by (induction rule: rtranclp_induct) (auto intro: lock_inv_no_locks lock_step_inv)


end
