(* ===== verification/Metrics.thy ===== *)
theory Metrics
  imports Price_Cache
begin

text \<open>
  The Prometheus collectors of the program (\<^verbatim>\<open>internal/metrics/metrics.go\<close>), the gauges of the connection
  pools and those of the price ages (\<^verbatim>\<open>internal/app/pricing.go\<close>). Registering two collectors under one name, or giving a vector another number of label values
  than it has labels, is a panic of the library; neither happens.
\<close>

section \<open>Collectors\<close>

datatype metric_kind = NewCounter | NewCounterVec | NewGaugeVec

record metric_desc =
  md_kind :: metric_kind
  md_name :: string
  md_help :: string
  md_labels :: "string list"

definition counter_vec :: "string \<Rightarrow> string \<Rightarrow> string list \<Rightarrow> metric_desc" where
  "counter_vec name help labels = \<lparr>md_kind = NewCounterVec, md_name = name, md_help = help, md_labels = labels\<rparr>"

definition gauge_vec :: "string \<Rightarrow> string \<Rightarrow> string list \<Rightarrow> metric_desc" where
  "gauge_vec name help labels = \<lparr>md_kind = NewGaugeVec, md_name = name, md_help = help, md_labels = labels\<rparr>"

text \<open>The package variables with their collectors.\<close>

definition collectors :: "(string \<times> metric_desc) list" where
  "collectors =
     [(''CronRunsTotal'', counter_vec ''cryptopulse_cron_runs_total''
         ''Total number of cron endpoint executions by result status.'' [''status'']),
      (''CronClaimedSubscribersTotal'',
         \<lparr>md_kind = NewCounter, md_name = ''cryptopulse_cron_claimed_subscribers_total'',
          md_help = ''Total number of subscribers claimed by cron batches.'', md_labels = []\<rparr>),
      (''CronDeliveriesTotal'', counter_vec ''cryptopulse_cron_deliveries_total''
         ''Total number of scheduled Telegram delivery attempts by result status.'' [''status'']),
      (''PriceAlertDeliveriesTotal'', counter_vec ''cryptopulse_price_alert_deliveries_total''
         ''Total number of one-shot price alert delivery attempts by result status.'' [''status'']),
      (''WebhookUpdatesTotal'', counter_vec ''cryptopulse_webhook_updates_total''
         ''Total number of Telegram webhook updates by result status.'' [''status'']),
      (''TelegramSendErrorsTotal'', counter_vec ''cryptopulse_telegram_send_errors_total''
         ''Total number of Telegram send/edit errors by type.'' [''type'']),
      (''TelegramRepliesTotal'', counter_vec ''cryptopulse_telegram_replies_total''
         ''Total number of durable interactive Telegram replies by result status.'' [''status'']),
      (''BinanceRequestsTotal'', counter_vec ''cryptopulse_binance_requests_total''
         ''Total number of Binance ticker requests by symbol and result status.'' [''symbol'', ''status'']),
      (''PriceAgeSeconds'', gauge_vec ''cryptopulse_price_age_seconds''
         ''Age in seconds of the latest successfully fetched price by symbol.'' [''symbol'']),
      (''DBOperationsTotal'', counter_vec ''cryptopulse_db_operations_total''
         ''Total number of database operations by operation name and result status.'' [''operation'', ''status'']),
      (''DBPoolConnections'', gauge_vec ''cryptopulse_db_pool_connections''
         ''Current PostgreSQL connection count by pool and state.'' [''pool'', ''state'']),
      (''DBPoolWaitCount'', gauge_vec ''cryptopulse_db_pool_wait_count''
         ''Cumulative number of waits for a PostgreSQL connection by pool.'' [''pool'']),
      (''DBPoolWaitDurationSeconds'', gauge_vec ''cryptopulse_db_pool_wait_duration_seconds''
         ''Cumulative time spent waiting for PostgreSQL connections by pool.'' [''pool''])]"

definition label_count :: "string \<Rightarrow> nat option" where
  "label_count var = map_option (\<lambda>d. length (md_labels d)) (map_of collectors var)"

section \<open>The gauges of the pools\<close>

type_synonym gauges = "string \<times> string list \<rightharpoonup> float64"

text \<open>\<^verbatim>\<open>sql.DBStats\<close>, the fields that are read.\<close>

record db_stats =
  OpenConnections :: int
  InUse :: int
  Idle :: int
  MaxOpenConnections :: int
  WaitCount :: int
  WaitDuration :: duration

text \<open>\<^verbatim>\<open>float64\<close> of an integer, and \<^verbatim>\<open>Duration.Seconds\<close>.\<close>

definition float_of_int :: "int \<Rightarrow> float64" where
  "float_of_int n = f64 (of_int n)"

definition duration_Seconds :: "duration \<Rightarrow> float64" where
  "duration_Seconds d =
     f64_add (float_of_int (go_div d second)) (f64_div (float_of_int (go_rem d second)) (Fin 1000000000))"

definition ObserveDBPool :: "string \<Rightarrow> db_stats option \<Rightarrow> gauges \<Rightarrow> gauges" where
  "ObserveDBPool poolName db g =
     (case db of
        None \<Rightarrow> g
      | Some stats \<Rightarrow>
          g((''DBPoolConnections'', [poolName, ''open'']) \<mapsto> float_of_int (OpenConnections stats),
            (''DBPoolConnections'', [poolName, ''in_use'']) \<mapsto> float_of_int (InUse stats),
            (''DBPoolConnections'', [poolName, ''idle'']) \<mapsto> float_of_int (Idle stats),
            (''DBPoolConnections'', [poolName, ''max_open'']) \<mapsto> float_of_int (MaxOpenConnections stats),
            (''DBPoolWaitCount'', [poolName]) \<mapsto> float_of_int (WaitCount stats),
            (''DBPoolWaitDurationSeconds'', [poolName]) \<mapsto> duration_Seconds (WaitDuration stats)))"

section \<open>The gauges of the price ages\<close>

definition observe_price_age :: "time \<Rightarrow> price_cache \<Rightarrow> string \<times> string \<Rightarrow> gauges \<Rightarrow> gauges" where
  "observe_price_age now c coin g =
     (case cache_Load c (fst coin) of
        None \<Rightarrow> g
      | Some entry \<Rightarrow>
          if pe_updated_at entry = zero_time then g
          else g((''PriceAgeSeconds'', [fst coin]) \<mapsto> duration_Seconds (priceAge now (pe_updated_at entry))))"

definition observePriceAges :: "time \<Rightarrow> price_cache \<Rightarrow> gauges \<Rightarrow> gauges" where
  "observePriceAges now c g = fold (observe_price_age now c) trackedCoins g"

section \<open>No panic\<close>

lemma collector_names_distinct: "distinct (map (md_name \<circ> snd) collectors) \<and> distinct (map fst collectors)"
  by (simp add: collectors_def counter_vec_def gauge_vec_def)

definition labelled :: "gauges \<Rightarrow> bool" where
  "labelled g \<longleftrightarrow> (\<forall>var labels. (var, labels) \<in> dom g \<longrightarrow> label_count var = Some (length labels))"

lemma pool_label_counts:
  "label_count ''DBPoolConnections'' = Some 2" "label_count ''DBPoolWaitCount'' = Some 1"
  "label_count ''DBPoolWaitDurationSeconds'' = Some 1"
  by code_simp+

lemma labelled_update:
  "labelled g \<Longrightarrow> label_count var = Some (length labels) \<Longrightarrow> labelled (g((var, labels) \<mapsto> x))"
  by (auto simp: labelled_def)

lemma ObserveDBPool_labelled: "labelled g \<Longrightarrow> labelled (ObserveDBPool poolName db g)"
  by (cases db) (simp_all add: ObserveDBPool_def labelled_update pool_label_counts)

lemma observePriceAges_labelled: "labelled g \<Longrightarrow> labelled (observePriceAges now c g)"
proof -
  have n: "label_count ''PriceAgeSeconds'' = Some 1" by code_simp
  have "labelled g \<Longrightarrow> labelled (fold (observe_price_age now c) coins g)" for coins
    by (induction coins arbitrary: g) (simp_all add: observe_price_age_def n labelled_update split: option.split)
  then show "labelled g \<Longrightarrow> ?thesis" by (simp add: observePriceAges_def)
qed

text \<open>Each pool has its own gauges.\<close>

lemma ObserveDBPool_separate:
  assumes "labels = [] \<or> hd labels \<noteq> poolName"
  shows "ObserveDBPool poolName db g (var, labels) = g (var, labels)"
proof -
  have "labels \<noteq> poolName # ls" for ls using assms by auto
  then show ?thesis by (cases db) (simp_all add: ObserveDBPool_def)
qed

end
