(* ===== verification/Http_Server.thy ===== *)
theory Http_Server
  imports Inbox Advisory_Lock Metrics
begin

text \<open>
  The HTTP front end (\<^verbatim>\<open>internal/httpserver/httpserver.go\<close>, \<^verbatim>\<open>internal/app/http_handlers.go\<close>): routes,
  methods, authentication, rate limits, the producers of durable work and their shutdown.

  A handler takes a request and the state of the application and returns the reply and the new state, as
  in the code, where a middleware is a function from handlers to handlers. The token bucket
  \<^verbatim>\<open>golang.org/x/time/rate\<close> is library code and a parameter, \<open>limiter_api\<close>. \<^verbatim>\<open>http.ServeMux\<close> matches
  the paths exactly, as none of the patterns ends in a slash.
\<close>

section \<open>Requests and replies\<close>

record http_request =
  r_method :: string
  r_path :: string
  r_remote_addr :: string
  r_authorization :: string
  r_telegram_secret :: string
  r_body :: string
  r_read_err :: "go_error option"

datatype http_reply = HttpReply (reply_status: int) (reply_header: "(string \<times> string) list") (reply_body: string)

text \<open>\<^verbatim>\<open>http.Error\<close> ends the text with a newline.\<close>

definition http_Error :: "string \<Rightarrow> int \<Rightarrow> http_reply" where
  "http_Error txt code = HttpReply code [] (txt @ [CHR 0x0A])"

section \<open>Rate limits\<close>

record 'l limiter_api =
  rate_Every :: "duration \<Rightarrow> float64"
  NewLimiter :: "float64 \<Rightarrow> int \<Rightarrow> 'l"
  limiter_Allow :: "time \<Rightarrow> 'l \<Rightarrow> bool \<times> 'l"

record 'l client_entry =
  ce_limiter :: 'l
  ce_last_seen :: time

record 'l client_rate_limiter =
  crl_limit :: float64
  crl_burst :: int
  crl_ttl :: duration
  crl_last_cleanup :: time
  crl_clients :: "string \<rightharpoonup> 'l client_entry"

definition NewClientRateLimiter :: "float64 \<Rightarrow> int \<Rightarrow> duration \<Rightarrow> 'l client_rate_limiter" where
  "NewClientRateLimiter limit burst ttl =
     \<lparr>crl_limit = limit, crl_burst = burst, crl_ttl = (if ttl \<le> 0 then 10 * minute else ttl),
      crl_last_cleanup = zero_time, crl_clients = Map.empty\<rparr>"

text \<open>The cleanup of the clients that were idle for the whole period.\<close>

definition cleanup_clients :: "time \<Rightarrow> 'l client_rate_limiter \<Rightarrow> 'l client_rate_limiter" where
  "cleanup_clients now l =
     (if time_Sub now (crl_last_cleanup l) \<ge> crl_ttl l
      then l\<lparr>crl_clients := (\<lambda>key. case crl_clients l key of
                                 None \<Rightarrow> None
                               | Some entry \<Rightarrow> if time_Sub now (ce_last_seen entry) \<ge> crl_ttl l then None else Some entry),
             crl_last_cleanup := now\<rparr>
      else l)"

text \<open>\<open>now\<close> is the reading of the clock in \<^verbatim>\<open>Allow\<close>, \<open>now'\<close> that of the token bucket.\<close>

definition ClientRateLimiter_Allow ::
  "'l limiter_api \<Rightarrow> time \<Rightarrow> time \<Rightarrow> string \<Rightarrow> 'l client_rate_limiter \<Rightarrow> bool \<times> 'l client_rate_limiter" where
  "ClientRateLimiter_Allow api now now' clientKey l =
     (let key = (if clientKey = [] then ''unknown'' else clientKey);
          l1 = cleanup_clients now l;
          limiter = (case crl_clients l1 key of
                       None \<Rightarrow> NewLimiter api (crl_limit l1) (crl_burst l1)
                     | Some entry \<Rightarrow> ce_limiter entry);
          (allowed, limiter') = limiter_Allow api now' limiter
      in (allowed, l1\<lparr>crl_clients := (crl_clients l1)(key \<mapsto> \<lparr>ce_limiter = limiter', ce_last_seen = now\<rparr>)\<rparr>))"

text \<open>\<^verbatim>\<open>net.SplitHostPort\<close>: host and port, or nothing where it reports an error.\<close>

definition split_last_colon :: "string \<Rightarrow> (string \<times> string) option" where
  "split_last_colon s =
     (if CHR '':'' \<notin> set s then None
      else Some (rev (drop 1 (dropWhile (\<lambda>c. c \<noteq> CHR '':'') (rev s))), rev (takeWhile (\<lambda>c. c \<noteq> CHR '':'') (rev s))))"

definition SplitHostPort :: "string \<Rightarrow> (string \<times> string) option" where
  "SplitHostPort hostport =
     (case split_last_colon hostport of
        None \<Rightarrow> None
      | Some (before, port) \<Rightarrow>
          if hd hostport = CHR ''['' then
            (let inner = takeWhile (\<lambda>c. c \<noteq> CHR '']'') (drop 1 hostport);
                 rest = drop (length inner + 2) hostport
             in if CHR '']'' \<notin> set hostport \<or> length inner + 2 \<noteq> length before then None
                else if CHR ''['' \<in> set (drop 1 hostport) \<or> CHR '']'' \<in> set rest then None
                else Some (inner, port))
          else if CHR '':'' \<in> set before \<or> CHR ''['' \<in> set hostport \<or> CHR '']'' \<in> set hostport then None
          else Some (before, port))"

definition ClientKey :: "http_request \<Rightarrow> string" where
  "ClientKey r =
     (case SplitHostPort (r_remote_addr r) of
        Some (host, _) \<Rightarrow> if host \<noteq> [] then host else if r_remote_addr r \<noteq> [] then r_remote_addr r else ''unknown''
      | None \<Rightarrow> if r_remote_addr r \<noteq> [] then r_remote_addr r else ''unknown'')"

section \<open>The application\<close>

record app_config =
  cfg_webhook_secret :: string
  cfg_cron_secret :: string
  cfg_metrics_secret :: string

record 'l app =
  app_world :: world
  app_locks :: lock_db
  app_cron_limiter :: 'l
  app_webhook_limiter :: "'l client_rate_limiter"
  app_shutting_down :: bool
  app_producers :: nat
  app_gauges :: gauges

type_synonym 'l http_handler = "http_request \<Rightarrow> 'l app \<Rightarrow> http_reply \<times> 'l app"

text \<open>
  What one request meets: clocks, the ping of the database and a shutdown during it, the lock
  connection, the faults of the two transactions, the JSON decoder, the page of the metrics library.
\<close>

record 'l http_env =
  hx_api :: "'l limiter_api"
  hx_now :: time
  hx_now' :: time
  hx_ping_err :: "go_error option"
  hx_stop_during_ping :: bool
  hx_conn_err :: "go_error option"
  hx_fresh_session :: nat
  hx_lock_fault :: call_fault
  hx_unlock_fault :: call_fault
  hx_cron_fault :: db_fault
  hx_row_locked :: "int \<Rightarrow> bool"
  hx_cache :: price_cache
  hx_clock :: time
  hx_db_now :: time
  hx_decode :: "string \<Rightarrow> go_error + tg_update"
  hx_save_fault :: db_fault
  hx_clock1 :: time
  hx_clock2 :: time
  hx_save_now :: time
  hx_query_stats :: "db_stats option"
  hx_lock_stats :: "db_stats option"
  hx_metrics_page :: "gauges \<Rightarrow> (string \<times> string) list \<Rightarrow> string"

definition count_app :: "string \<Rightarrow> string \<Rightarrow> 'l app \<Rightarrow> 'l app" where
  "count_app collector label s = s\<lparr>app_world := count_metric collector label (app_world s)\<rparr>"

section \<open>Middleware\<close>

definition Method :: "string \<Rightarrow> 'l http_handler \<Rightarrow> 'l http_handler" where
  "Method method next r s =
     (if r_method r \<noteq> method then (HttpReply 405 [(''Allow'', method)] ''405 Method Not Allowed'', s)
      else next r s)"

definition GlobalRateLimit :: "'l http_env \<Rightarrow> 'l http_handler \<Rightarrow> 'l http_handler" where
  "GlobalRateLimit env next r s =
     (let (allowed, limiter) = limiter_Allow (hx_api env) (hx_now env) (app_cron_limiter s);
          s1 = s\<lparr>app_cron_limiter := limiter\<rparr>
      in if \<not> allowed then (http_Error ''Too Many Requests'' 429, s1) else next r s1)"

definition ClientRateLimit :: "'l http_env \<Rightarrow> 'l http_handler \<Rightarrow> 'l http_handler" where
  "ClientRateLimit env next r s =
     (let (allowed, limiter) =
            ClientRateLimiter_Allow (hx_api env) (hx_now env) (hx_now' env) (ClientKey r) (app_webhook_limiter s);
          s1 = s\<lparr>app_webhook_limiter := limiter\<rparr>
      in if \<not> allowed then (http_Error ''Too Many Requests'' 429, s1) else next r s1)"

text \<open>\<^verbatim>\<open>subtle.ConstantTimeCompare\<close> is equality.\<close>

definition safeSecretCompare :: "string \<Rightarrow> string \<Rightarrow> bool" where
  "safeSecretCompare inputToken expectedSecret =
     (if expectedSecret = [] then False else inputToken = expectedSecret)"

definition bearerToken :: "http_request \<Rightarrow> string" where
  "bearerToken r =
     (if \<not> HasPrefix (r_authorization r) ''Bearer '' then [] else TrimPrefix (r_authorization r) ''Bearer '')"

definition cronAuthMiddleware :: "app_config \<Rightarrow> 'l http_handler \<Rightarrow> 'l http_handler" where
  "cronAuthMiddleware cfg next r s =
     (if \<not> safeSecretCompare (bearerToken r) (cfg_cron_secret cfg)
      then (HttpReply 401 [] [], count_app ''CronRunsTotal'' ''unauthorized'' s)
      else next r s)"

definition webhookAuthMiddleware :: "app_config \<Rightarrow> 'l http_handler \<Rightarrow> 'l http_handler" where
  "webhookAuthMiddleware cfg next r s =
     (if \<not> safeSecretCompare (r_telegram_secret r) (cfg_webhook_secret cfg)
      then (HttpReply 401 [] [], count_app ''WebhookUpdatesTotal'' ''unauthorized'' s)
      else next r s)"

definition metricsAuthMiddleware :: "app_config \<Rightarrow> 'l http_handler \<Rightarrow> 'l http_handler" where
  "metricsAuthMiddleware cfg next r s =
     (let providedToken = (if HasPrefix (r_authorization r) ''Bearer '' then drop 7 (r_authorization r) else [])
      in if \<not> safeSecretCompare providedToken (cfg_metrics_secret cfg) then (HttpReply 401 [] [], s)
         else next r s)"

section \<open>Producers and shutdown\<close>

text \<open>The critical section at the start of \<^verbatim>\<open>producerMiddleware\<close>, and its deferred \<^verbatim>\<open>Done\<close>.\<close>

definition producer_enter :: "'l app \<Rightarrow> 'l app option" where
  "producer_enter s = (if app_shutting_down s then None else Some (s\<lparr>app_producers := app_producers s + 1\<rparr>))"

definition producer_exit :: "'l app \<Rightarrow> 'l app" where
  "producer_exit s = s\<lparr>app_producers := app_producers s - 1\<rparr>"

definition producerMiddleware :: "'l http_handler \<Rightarrow> 'l http_handler" where
  "producerMiddleware next r s =
     (case producer_enter s of
        None \<Rightarrow> (HttpReply 503 [] ''503 Service Unavailable: Server shutting down'', s)
      | Some s1 \<Rightarrow> (let (resp, s2) = next r s1 in (resp, producer_exit s2)))"

definition stopAcceptingProducers :: "'l app \<Rightarrow> 'l app" where
  "stopAcceptingProducers s = s\<lparr>app_shutting_down := True\<rparr>"

definition isShuttingDown :: "'l app \<Rightarrow> bool" where
  "isShuttingDown s = app_shutting_down s"

text \<open>
  One look of \<^verbatim>\<open>waitForProducers\<close>: nothing while it waits, else its result. When the producers are done
  and the context is over, \<^verbatim>\<open>select\<close> may take either branch, \<open>done_first\<close>.
\<close>

definition waitForProducers :: "go_error option \<Rightarrow> bool \<Rightarrow> 'l app \<Rightarrow> go_error option option" where
  "waitForProducers ctx_err done_first s =
     (if app_producers s = 0 \<and> (ctx_err = None \<or> done_first) then Some None
      else case ctx_err of Some e \<Rightarrow> Some (Some e) | None \<Rightarrow> None)"


section \<open>Handlers\<close>

definition live_handler :: "'l http_handler" where
  "live_handler r s = (HttpReply 200 [] ''OK'', s)"

definition ready_handler :: "'l http_env \<Rightarrow> 'l http_handler" where
  "ready_handler env r s =
     (if isShuttingDown s then (http_Error ''Service Shutting Down'' 503, s)
      else (let s1 = (if hx_stop_during_ping env then stopAcceptingProducers s else s) in
            case hx_ping_err env of
              Some e \<Rightarrow> (http_Error ''Database Unreachable'' 503, s1)
            | None \<Rightarrow>
                if app_shutting_down s1 then (http_Error ''Service Shutting Down'' 503, s1)
                else (HttpReply 200 [] ''Ready'', s1)))"

text \<open>\<^verbatim>\<open>lockDatabase\<close>: without a pool of their own the locks use the pool of the queries.\<close>

definition lockDatabase :: "'p option \<Rightarrow> 'p option \<Rightarrow> 'p option" where
  "lockDatabase lockDB db = (if lockDB \<noteq> None then lockDB else db)"

definition metrics_handler :: "'l http_env \<Rightarrow> 'l http_handler" where
  "metrics_handler env r s =
     (let g = ObserveDBPool ''lock'' (lockDatabase (hx_lock_stats env) (hx_query_stats env))
                (ObserveDBPool ''query'' (hx_query_stats env) (app_gauges s))
      in (HttpReply 200 [] (hx_metrics_page env g (metrics (app_world s))), s\<lparr>app_gauges := g\<rparr>))"

definition handleCron :: "'l http_env \<Rightarrow> 'l http_handler" where
  "handleCron env r s =
     (let (res, locks) = acquireCronAdvisoryLock (hx_conn_err env) (hx_fresh_session env) (hx_lock_fault env) (app_locks s);
          s1 = s\<lparr>app_locks := locks\<rparr>
      in case res of
           Inl e \<Rightarrow> (HttpReply 500 [] [], count_app ''CronRunsTotal'' ''lock_error'' s1)
         | Inr (lockConn, acquired) \<Rightarrow>
             if \<not> acquired then
               (HttpReply 409 [] ''Cron execution already in progress'', count_app ''CronRunsTotal'' ''conflict'' s1)
             else
               (let release = (\<lambda>s'. s'\<lparr>app_locks := releaseCronAdvisoryLock (hx_unlock_fault env) lockConn (app_locks s')\<rparr>);
                    (createdJobs, w) =
                      on_db (createCronNotificationJobs (hx_cron_fault env) (hx_row_locked env) (hx_cache env)
                               (hx_clock env) (hx_db_now env)) (app_world s1);
                    s2 = s1\<lparr>app_world := w\<rparr>
                in case createdJobs of
                     Inl e \<Rightarrow> (HttpReply 500 [] [], release (count_app ''CronRunsTotal'' ''create_jobs_error'' s2))
                   | Inr n \<Rightarrow>
                       if n = 0 then
                         (HttpReply 200 [] ''No notification jobs created'',
                          release (count_app ''CronRunsTotal'' ''no_jobs'' s2))
                       else
                         (HttpReply 202 [] ''Cron batch accepted'',
                          release (count_app ''CronRunsTotal'' ''accepted''
                            (s2\<lparr>app_world := (app_world s2)\<lparr>metrics :=
                                  metrics (app_world s2) @ replicate n (''CronClaimedSubscribersTotal'', [])\<rparr>\<rparr>)))))"

text \<open>\<^verbatim>\<open>io.ReadAll\<close> of a body limited by \<^verbatim>\<open>http.MaxBytesReader\<close> to one mebibyte.\<close>

definition read_body :: "http_request \<Rightarrow> go_error + string" where
  "read_body r =
     (case r_read_err r of
        Some e \<Rightarrow> Inl e
      | None \<Rightarrow> if int (length (r_body r)) > 1048576 then Inl (PlainError ''http: request body too large'') else Inr (r_body r))"

definition handleWebhook :: "'l http_env \<Rightarrow> 'l http_handler" where
  "handleWebhook env r s =
     (let bad_request = (HttpReply 400 [] [], count_app ''WebhookUpdatesTotal'' ''bad_request'' s) in
      case read_body r of
        Inl e \<Rightarrow> bad_request
      | Inr payload \<Rightarrow>
          (case hx_decode env payload of
             Inl e \<Rightarrow> bad_request
           | Inr u \<Rightarrow>
               if u_id u = 0 then bad_request
               else
                 (let (inserted, w) =
                        on_db (saveTelegramUpdate (hx_save_fault env) (hx_clock1 env) (hx_clock2 env) (hx_save_now env) u payload)
                          (app_world s);
                      s1 = s\<lparr>app_world := w\<rparr>
                  in case inserted of
                       Inl e \<Rightarrow> (HttpReply 500 [] [], count_app ''WebhookUpdatesTotal'' ''persist_error'' s1)
                     | Inr new \<Rightarrow>
                         (HttpReply 200 [] ''OK'',
                          count_app ''WebhookUpdatesTotal'' (if new then ''accepted'' else ''duplicate'') s1))))"

section \<open>Routes\<close>

definition Handler :: "'l http_env \<Rightarrow> app_config \<Rightarrow> 'l http_handler" where
  "Handler env cfg r s =
     (if r_path r = ''/live'' then Method ''GET'' live_handler r s
      else if r_path r = ''/ready'' then Method ''GET'' (ready_handler env) r s
      else if r_path r = ''/metrics'' then Method ''GET'' (metricsAuthMiddleware cfg (metrics_handler env)) r s
      else if r_path r = ''/cron'' then
        Method ''POST'' (cronAuthMiddleware cfg (GlobalRateLimit env (producerMiddleware (handleCron env)))) r s
      else if r_path r = ''/webhook'' then
        Method ''POST'' (webhookAuthMiddleware cfg (ClientRateLimit env (producerMiddleware (handleWebhook env)))) r s
      else (http_Error ''404 page not found'' 404, s))"

text \<open>The limiters the routes are built with.\<close>

definition initial_app :: "'l limiter_api \<Rightarrow> world \<Rightarrow> 'l app" where
  "initial_app api w =
     \<lparr>app_world = w, app_locks = no_locks, app_cron_limiter = NewLimiter api (rate_Every api (30 * second)) 5,
      app_webhook_limiter = NewClientRateLimiter (Fin 50) 100 (10 * minute),
      app_shutting_down = False, app_producers = 0, app_gauges = Map.empty\<rparr>"

section \<open>The server\<close>

record http_server =
  srv_addr :: string
  srv_read_timeout :: duration
  srv_write_timeout :: duration
  srv_idle_timeout :: duration
  srv_read_header_timeout :: duration

definition New :: "string \<Rightarrow> http_server" where
  "New port =
     \<lparr>srv_addr = '':'' @ port, srv_read_timeout = 5 * second, srv_write_timeout = 10 * second,
      srv_idle_timeout = 120 * second, srv_read_header_timeout = 2 * second\<rparr>"

section \<open>The health check of the container\<close>

text \<open>
  \<^verbatim>\<open>Healthcheck\<close> asks the running server; the answer of the HTTP client is the parameter \<open>answer\<close>. The
  texts of \<^verbatim>\<open>http.StatusText\<close> are given for the codes the server uses.
\<close>

definition StatusText :: "int \<Rightarrow> string" where
  "StatusText code =
     (if code = 200 then ''OK'' else if code = 202 then ''Accepted'' else if code = 400 then ''Bad Request''
      else if code = 401 then ''Unauthorized'' else if code = 404 then ''Not Found''
      else if code = 405 then ''Method Not Allowed'' else if code = 409 then ''Conflict''
      else if code = 429 then ''Too Many Requests'' else if code = 500 then ''Internal Server Error''
      else if code = 503 then ''Service Unavailable'' else [])"

definition live_request :: http_request where
  "live_request =
     \<lparr>r_method = ''GET'', r_path = ''/live'', r_remote_addr = ''127.0.0.1:0'', r_authorization = [],
      r_telegram_secret = [], r_body = [], r_read_err = None\<rparr>"

definition Healthcheck :: "(http_request \<Rightarrow> go_error + http_reply) \<Rightarrow> go_error option" where
  "Healthcheck answer =
     (case answer live_request of
        Inl e \<Rightarrow> Some e
      | Inr resp \<Rightarrow> if reply_status resp \<noteq> 200 then Some (PlainError (StatusText (reply_status resp))) else None)"


end
