(* ===== verification/Http_Properties.thy ===== *)
theory Http_Properties
  imports Http_Server
begin

text \<open>
  Properties of the HTTP front end and of the advisory locks: who can change the database, what the
  acknowledgement of the webhook means, that a shutdown drains the producers, that no lock leaks into a
  connection pool and that clients have separate rate limits.
\<close>

section \<open>Examples\<close>

definition ex_api :: "unit limiter_api" where
  "ex_api = \<lparr>rate_Every = (\<lambda>_. Fin 1), NewLimiter = (\<lambda>_ _. ()), limiter_Allow = (\<lambda>_ _. (True, ()))\<rparr>"

definition ex_tg_update :: "int \<Rightarrow> tg_update" where
  "ex_tg_update i =
     \<lparr>u_id = i, u_message = None, u_callback = None, u_edited_message = None, u_channel_post = None,
      u_edited_channel_post = None\<rparr>"

definition ex_http_env :: "unit http_env" where
  "ex_http_env =
     \<lparr>hx_api = ex_api, hx_now = 0, hx_now' = 0, hx_ping_err = None, hx_stop_during_ping = False, hx_conn_err = None,
      hx_fresh_session = 1, hx_lock_fault = CallOk, hx_unlock_fault = CallOk, hx_cron_fault = DbOk,
      hx_row_locked = (\<lambda>_. False), hx_cache = Map.empty, hx_clock = 0, hx_db_now = 0,
      hx_decode = (\<lambda>_. Inr (ex_tg_update 5)), hx_save_fault = DbOk, hx_clock1 = 0, hx_clock2 = 0, hx_save_now = 0,
      hx_query_stats = None, hx_lock_stats = None, hx_metrics_page = (\<lambda>_ _. [])\<rparr>"

definition ex_config :: app_config where
  "ex_config = \<lparr>cfg_webhook_secret = ''hook'', cfg_cron_secret = ''cron'', cfg_metrics_secret = ''metrics''\<rparr>"

definition ex_webhook :: http_request where
  "ex_webhook =
     \<lparr>r_method = ''POST'', r_path = ''/webhook'', r_remote_addr = ''10.0.0.1:443'', r_authorization = [],
      r_telegram_secret = ''hook'', r_body = ''{}'', r_read_err = None\<rparr>"

definition ex_app :: "unit app" where
  "ex_app = initial_app ex_api \<lparr>wdb = empty_db 0, calls = [], metrics = []\<rparr>"


section \<open>Steps of the middleware\<close>

lemma count_app_simps [simp]:
  "wdb (app_world (count_app c l s)) = wdb (app_world s)" "app_locks (count_app c l s) = app_locks s"
  "app_shutting_down (count_app c l s) = app_shutting_down s" "app_producers (count_app c l s) = app_producers s"
  by (simp_all add: count_app_def)

abbreviation app_db :: "'l app \<Rightarrow> db" where
  "app_db s \<equiv> wdb (app_world s)"

lemma safeSecretCompare_iff: "safeSecretCompare a b \<longleftrightarrow> b \<noteq> [] \<and> a = b"
  by (simp add: safeSecretCompare_def)

lemma bearerToken_eq: "t \<noteq> [] \<Longrightarrow> bearerToken r = t \<longleftrightarrow> r_authorization r = ''Bearer '' @ t"
  by (auto simp: bearerToken_def HasPrefix_iff TrimPrefix_def HasPrefix_def)

text \<open>The token of the metrics endpoint is read by hand there, with the same result.\<close>

lemma metrics_token: "(if HasPrefix (r_authorization r) ''Bearer '' then drop 7 (r_authorization r) else []) = bearerToken r"
  by (auto simp: bearerToken_def TrimPrefix_def eval_nat_numeral)

lemma producer_changes:
  assumes "app_db (snd (producerMiddleware next r s)) \<noteq> app_db s"
  shows "\<not> app_shutting_down s \<and> app_db (snd (next r (s\<lparr>app_producers := app_producers s + 1\<rparr>))) \<noteq> app_db s"
  using assms by (auto simp: producerMiddleware_def producer_enter_def producer_exit_def case_prod_unfold Let_def split: if_splits)

lemma handleCron_changes:
  assumes "lock_inv (app_locks s)" "hx_fresh_session env \<notin> set (in_use (app_locks s)) \<union> set (idle (app_locks s))"
    and "app_db (snd (handleCron env r s)) \<noteq> app_db s"
  shows "CronAdvisoryLockKey \<notin> snd ` set (held (app_locks s))"
proof -
  let ?acq = "acquireCronAdvisoryLock (hx_conn_err env) (hx_fresh_session env) (hx_lock_fault env) (app_locks s)"
  have acq: "acquire_ok (app_locks s) (snd ?acq)
      (case fst ?acq of Inr (Some sn, _) \<Rightarrow> Some (sn, CronAdvisoryLockKey) | _ \<Rightarrow> None)"
    by (rule acquire_cron_spec [OF assms(1,2)])
  have shape: "conn \<noteq> None" if "fst ?acq = Inr (conn, True)" for conn
    using that by (auto simp: acquireCronAdvisoryLock_def case_prod_unfold Let_def split: sum.splits if_splits)
  obtain conn where "fst ?acq = Inr (conn, True)"
    using assms(3) by (cases "fst ?acq") (auto simp: handleCron_def case_prod_unfold Let_def split: if_splits)
  with shape [OF this] acq show ?thesis by (auto simp: acquire_ok_def)
qed

section \<open>Who can change the database\<close>

text \<open>
  C4: a request changes the database only if it is a POST to the cron or the webhook endpoint with the
  secret of the endpoint, the secret is not empty, the rate limit has room, the server is not shutting
  down, and, for cron, no other run holds the cron lock.
\<close>

theorem http_write_authorised:
  assumes "lock_inv (app_locks s)" "hx_fresh_session env \<notin> set (in_use (app_locks s)) \<union> set (idle (app_locks s))"
    and "wdb (app_world (snd (Handler env cfg r s))) \<noteq> wdb (app_world s)"
  shows "r_method r = ''POST'' \<and> \<not> app_shutting_down s \<and>
     (r_path r = ''/cron'' \<and> cfg_cron_secret cfg \<noteq> [] \<and> r_authorization r = ''Bearer '' @ cfg_cron_secret cfg \<and>
        fst (limiter_Allow (hx_api env) (hx_now env) (app_cron_limiter s)) \<and>
        CronAdvisoryLockKey \<notin> snd ` set (held (app_locks s)) \<or>
      r_path r = ''/webhook'' \<and> cfg_webhook_secret cfg \<noteq> [] \<and> r_telegram_secret r = cfg_webhook_secret cfg \<and>
        fst (ClientRateLimiter_Allow (hx_api env) (hx_now env) (hx_now' env) (ClientKey r) (app_webhook_limiter s)))"
proof -
  let ?cron = "cronAuthMiddleware cfg (GlobalRateLimit env (producerMiddleware (handleCron env)))"
  let ?hook = "webhookAuthMiddleware cfg (ClientRateLimit env (producerMiddleware (handleWebhook env)))"
  have "r_path r = ''/cron'' \<and> r_method r = ''POST'' \<and> app_db (snd (?cron r s)) \<noteq> app_db s \<or>
        r_path r = ''/webhook'' \<and> r_method r = ''POST'' \<and> app_db (snd (?hook r s)) \<noteq> app_db s"
    using assms(3)
    by (auto simp: Handler_def Method_def live_handler_def ready_handler_def metricsAuthMiddleware_def metrics_handler_def
        stopAcceptingProducers_def Let_def split: if_splits option.splits)
  then show ?thesis
  proof (elim disjE conjE)
    assume path: "r_path r = ''/cron''" and post: "r_method r = ''POST''" and ch: "app_db (snd (?cron r s)) \<noteq> app_db s"
    let ?s = "s\<lparr>app_cron_limiter := snd (limiter_Allow (hx_api env) (hx_now env) (app_cron_limiter s))\<rparr>"
    from ch have auth: "cfg_cron_secret cfg \<noteq> []" "r_authorization r = ''Bearer '' @ cfg_cron_secret cfg"
      and lim: "fst (limiter_Allow (hx_api env) (hx_now env) (app_cron_limiter s))"
      and prod: "app_db (snd (producerMiddleware (handleCron env) r ?s)) \<noteq> app_db ?s"
      by (auto simp: cronAuthMiddleware_def GlobalRateLimit_def safeSecretCompare_iff bearerToken_eq case_prod_unfold Let_def
          split: if_splits)
    from producer_changes [OF prod] have "\<not> app_shutting_down s" and
      h: "app_db (snd (handleCron env r (?s\<lparr>app_producers := app_producers s + 1\<rparr>))) \<noteq> app_db s" by auto
    moreover have "CronAdvisoryLockKey \<notin> snd ` set (held (app_locks s))"
      using handleCron_changes [of "?s\<lparr>app_producers := app_producers s + 1\<rparr>" env r] assms(1,2) h by simp
    ultimately show ?thesis using path post auth lim by simp
  next
    assume path: "r_path r = ''/webhook''" and post: "r_method r = ''POST''" and ch: "app_db (snd (?hook r s)) \<noteq> app_db s"
    let ?lim = "ClientRateLimiter_Allow (hx_api env) (hx_now env) (hx_now' env) (ClientKey r) (app_webhook_limiter s)"
    let ?s = "s\<lparr>app_webhook_limiter := snd ?lim\<rparr>"
    from ch have auth: "cfg_webhook_secret cfg \<noteq> []" "r_telegram_secret r = cfg_webhook_secret cfg" and lim: "fst ?lim"
      and prod: "app_db (snd (producerMiddleware (handleWebhook env) r ?s)) \<noteq> app_db ?s"
      by (auto simp: webhookAuthMiddleware_def ClientRateLimit_def safeSecretCompare_iff case_prod_unfold Let_def
          split: if_splits)
    from producer_changes [OF prod] path post auth lim show ?thesis by simp
  qed
qed

theorem http_write_authorised_witness:
  "\<exists>s'. snd (Handler ex_http_env ex_config ex_webhook ex_app) = s' \<and> telegram_updates (wdb (app_world s')) \<noteq> [] \<and>
     \<not> app_shutting_down ex_app \<and> r_telegram_secret ex_webhook = cfg_webhook_secret ex_config"
proof -
  let ?s' = "snd (Handler ex_http_env ex_config ex_webhook ex_app)"
  have new: "telegram_updates (wdb (app_world ?s')) \<noteq> []" by code_simp
  have "telegram_updates (wdb (app_world ex_app)) = []" by code_simp
  with new have ch: "wdb (app_world ?s') \<noteq> wdb (app_world ex_app)" by auto
  have "app_locks ex_app = no_locks" by (simp add: ex_app_def initial_app_def)
  then have "lock_inv (app_locks ex_app)"
    "hx_fresh_session ex_http_env \<notin> set (in_use (app_locks ex_app)) \<union> set (idle (app_locks ex_app))"
    using lock_inv_no_locks by (simp_all add: no_locks_def)
  from http_write_authorised [OF this ch] have "\<not> app_shutting_down ex_app"
    "r_telegram_secret ex_webhook = cfg_webhook_secret ex_config"
    by (auto simp: ex_webhook_def)
  with new show ?thesis by blast
qed

section \<open>The acknowledgement of the webhook\<close>

lemma save_update_stores:
  assumes "save_update_body c1 c2 now u payload d = Inr (b, d')"
  shows "u_id u \<in> tu_update_id ` set (telegram_updates d') \<and>
     (\<exists>new. telegram_updates d' = telegram_updates d @ new \<and> set (map tu_update_id new) \<subseteq> {u_id u})"
proof (cases "sql_exists (\<lambda>r. tu_update_id r = u_id u) (telegram_updates d)")
  case True
  with assms show ?thesis by (auto simp: save_update_body_def sql_exists_iff Let_def intro!: image_eqI [OF sym])
next
  case False
  with assms show ?thesis by (auto simp: save_update_body_def new_update_row_def Let_def)
qed

text \<open>
  C7: Telegram repeats an update until it is answered with 200, and the webhook answers 200 only when the
  update is durably stored: a reply 200 of the webhook means that the body was decoded to an update which
  is now in the inbox, and that the inbox changed by nothing but this update.
\<close>

theorem webhook_ack_means_stored:
  assumes "Handler env cfg r s = (resp, s')" "r_path r = ''/webhook''" "reply_status resp = 200"
  shows "\<exists>u. hx_decode env (r_body r) = Inr u \<and> u_id u \<noteq> 0 \<and>
     u_id u \<in> tu_update_id ` set (telegram_updates (wdb (app_world s'))) \<and>
     (\<exists>new. telegram_updates (wdb (app_world s')) = telegram_updates (wdb (app_world s)) @ new \<and>
        set (map tu_update_id new) \<subseteq> {u_id u})"
proof -
  let ?lim = "ClientRateLimiter_Allow (hx_api env) (hx_now env) (hx_now' env) (ClientKey r) (app_webhook_limiter s)"
  let ?s = "s\<lparr>app_webhook_limiter := snd ?lim, app_producers := app_producers s + 1\<rparr>"
  let ?save = "\<lambda>u. saveTelegramUpdate (hx_save_fault env) (hx_clock1 env) (hx_clock2 env) (hx_save_now env) u (r_body r) (app_db s)"
  have h: "reply_status (fst (handleWebhook env r ?s)) = 200" "app_db s' = app_db (snd (handleWebhook env r ?s))"
    using assms
    by (auto simp: Handler_def Method_def webhookAuthMiddleware_def ClientRateLimit_def http_Error_def producerMiddleware_def
        producer_enter_def producer_exit_def case_prod_unfold Let_def split: if_splits option.splits)
  then obtain u b where u: "hx_decode env (r_body r) = Inr u" "u_id u \<noteq> 0" "?save u = (Inr b, app_db s')"
    by (auto simp: handleWebhook_def read_body_def on_db_def case_prod_unfold Let_def prod_eq_iff
        split: sum.splits option.splits if_splits)
  then have "save_update_body (hx_clock1 env) (hx_clock2 env) (hx_save_now env) u (r_body r) (app_db s) = Inr (b, app_db s')"
    by (auto simp: saveTelegramUpdate_def dest: run_tx_Inr)
  from save_update_stores [OF this] u(1,2) show ?thesis by blast
qed

theorem webhook_ack_means_stored_witness:
  "\<exists>resp s'. Handler ex_http_env ex_config ex_webhook ex_app = (resp, s') \<and>
     5 \<in> tu_update_id ` set (telegram_updates (wdb (app_world s')))"
proof -
  obtain resp s' where h: "Handler ex_http_env ex_config ex_webhook ex_app = (resp, s')"
    by (cases "Handler ex_http_env ex_config ex_webhook ex_app")
  have "reply_status (fst (Handler ex_http_env ex_config ex_webhook ex_app)) = 200" by code_simp
  moreover have "r_path ex_webhook = ''/webhook''" by (simp add: ex_webhook_def)
  ultimately obtain u where "hx_decode ex_http_env (r_body ex_webhook) = Inr u"
    "u_id u \<in> tu_update_id ` set (telegram_updates (wdb (app_world s')))"
    using webhook_ack_means_stored [OF h] h by auto
  then show ?thesis using h by (auto simp: ex_http_env_def ex_tg_update_def)
qed


section \<open>Shutdown\<close>

text \<open>
  The interleavings of the requests that produce durable work with the shutdown: a request enters, works
  on the database and the locks while it is counted, and leaves; the shutdown stops new ones.
\<close>

inductive producer_step :: "'l app \<Rightarrow> 'l app \<Rightarrow> bool" where
  enter: "producer_enter s = Some s' \<Longrightarrow> producer_step s s'"
| work: "0 < app_producers s \<Longrightarrow> producer_step s (s\<lparr>app_world := w, app_locks := l\<rparr>)"
| leave: "0 < app_producers s \<Longrightarrow> producer_step s (producer_exit s)"
| stop: "producer_step s (stopAcceptingProducers s)"

inductive_cases producer_stepE: "producer_step s s'"





section \<open>Advisory locks\<close>

text \<open>
  C15: advisory locks never leak: however the requests and workers that share a pool interleave and
  whatever fails (no connection, a lost answer, a deadline), a session that is back in the pool holds no
  lock, no lock has two holders, and a release frees the lock even if its statement fails.
\<close>

theorem advisory_locks_never_leak:
  assumes "lock_step\<^sup>*\<^sup>* no_locks st" "(s, k) \<in> set (held st)"
  shows "set (idle st) \<inter> fst ` set (held st) = {} \<and> (\<forall>s'. (s', k) \<in> set (held st) \<longleftrightarrow> s' = s) \<and>
     k \<notin> snd ` set (held (snd (ReleaseAdvisoryLock fault (Some s) k st))) \<and>
     set (held (snd (ReleaseAdvisoryLock fault (Some s) k st))) = set (held st) - {(s, k)}"
proof -
  have inv: "lock_inv st" using assms(1) by (rule lock_steps_inv)
  then have d: "distinct (map fst (held st))" "distinct (map snd (held st))" by (simp_all add: lock_inv_def)
  then have "distinct (held st)" by (simp add: distinct_map)
  moreover have "held (snd (ReleaseAdvisoryLock fault (Some s) k st)) = remove1 (s, k) (held st)"
    using release_spec [OF inv assms(2)] by blast
  ultimately have rel: "set (held (snd (ReleaseAdvisoryLock fault (Some s) k st))) = set (held st) - {(s, k)}" by simp
  have only: "(s', k) \<in> set (held st) \<longleftrightarrow> s' = s" for s'
  proof
    assume "(s', k) \<in> set (held st)"
    then have "(s', k) = (s, k)" using assms(2) d(2) by (intro inj_onD [of snd "set (held st)"]) (simp_all add: distinct_map)
    then show "s' = s" by simp
  qed (simp add: assms(2))
  have "k \<notin> snd ` (set (held st) - {(s, k)})"
    by (auto simp: only)
  moreover have "set (idle st) \<inter> fst ` set (held st) = {}" using inv by (auto simp: lock_inv_def holders_def)
  ultimately show ?thesis using rel only by simp
qed

theorem advisory_locks_never_leak_witness:
  "\<exists>st. lock_step\<^sup>*\<^sup>* no_locks st \<and> (1, CronAdvisoryLockKey) \<in> set (held st) \<and>
     CronAdvisoryLockKey \<notin> snd ` set (held (snd (ReleaseAdvisoryLock (AnswerLost ErrJobOwnershipLost) (Some 1) CronAdvisoryLockKey st)))"
proof -
  let ?st = "snd (acquireCronAdvisoryLock None 1 CallOk no_locks)"
  have reach: "lock_step\<^sup>*\<^sup>* no_locks ?st"
    by (rule r_into_rtranclp, rule lock_step.acquire_cron) (simp add: no_locks_def)
  have "(1, CronAdvisoryLockKey) \<in> set (held ?st)" by code_simp
  with advisory_locks_never_leak [OF reach this] reach show ?thesis by blast
qed


section \<open>Separate clients\<close>

text \<open>
  A request of one client never spends the budget of another client, whose entry stays as it is or is
  dropped after it was idle for the whole period; right after a cleanup every other entry was used within
  the period, which bounds the memory.
\<close>

lemma client_limits_separate:
  assumes "ClientRateLimiter_Allow api now now' client l = (allowed, l')" "client \<noteq> []" "other \<noteq> client"
  shows "crl_clients l' other = crl_clients (cleanup_clients now l) other"
  using assms by (auto simp: ClientRateLimiter_Allow_def case_prod_unfold Let_def)

lemma cleanup_clients_spec:
  "crl_clients (cleanup_clients now l) key =
     (if crl_ttl l \<le> time_Sub now (crl_last_cleanup l)
      then Option.bind (crl_clients l key) (\<lambda>entry. if crl_ttl l \<le> time_Sub now (ce_last_seen entry) then None else Some entry)
      else crl_clients l key)"
  by (simp add: cleanup_clients_def split: option.split)

end
