(* ===== verification/Config.thy ===== *)
theory Config
  imports Http_Server
begin

text \<open>
  The configuration of the process (\<^verbatim>\<open>internal/config/config.go\<close>). \<open>getenv\<close> is \<^verbatim>\<open>os.Getenv\<close>, the empty
  string for an unset variable; \<open>dotenv\<close> is what \<^verbatim>\<open>godotenv.Load\<close>, a library, makes of the environment.
\<close>

type_synonym environment = "string \<Rightarrow> string"

record config =
  DatabaseURL :: string
  TelegramToken :: string
  WebhookSecret :: string
  CronSecret :: string
  MetricsSecret :: string
  ConfigPort :: string
  TelegramUpdateWorkers :: int
  PriceAlertsEnabled :: bool

definition defaultPort :: string where
  "defaultPort = ''8080''"

definition Port :: "environment \<Rightarrow> string" where
  "Port getenv = (if getenv ''PORT'' \<noteq> [] then getenv ''PORT'' else defaultPort)"

definition optionalPositiveInt :: "environment \<Rightarrow> string \<Rightarrow> int \<Rightarrow> go_error + int" where
  "optionalPositiveInt getenv name defaultValue =
     (let raw = getenv name in
      if raw = [] then Inr defaultValue
      else case Atoi raw of
             Some value \<Rightarrow> if value < 1 then Inl (PlainError (name @ '' must be a positive integer'')) else Inr value
           | None \<Rightarrow> Inl (PlainError (name @ '' must be a positive integer'')))"

text \<open>\<^verbatim>\<open>strconv.ParseBool\<close>.\<close>

definition ParseBool :: "string \<Rightarrow> bool option" where
  "ParseBool s =
     (if s \<in> {''1'', ''t'', ''T'', ''TRUE'', ''true'', ''True''} then Some True
      else if s \<in> {''0'', ''f'', ''F'', ''FALSE'', ''false'', ''False''} then Some False
      else None)"

fun first_missing :: "(string \<times> string) list \<Rightarrow> go_error option" where
  "first_missing [] = None"
| "first_missing ((name, value) # rest) =
     (if value = [] then Some (PlainError (''required environment variable '' @ name @ '' is missing''))
      else first_missing rest)"

definition Load :: "(environment \<Rightarrow> environment) \<Rightarrow> environment \<Rightarrow> go_error + config" where
  "Load dotenv getenv0 =
     (let getenv = dotenv getenv0 in
      case optionalPositiveInt getenv ''TELEGRAM_UPDATE_WORKERS'' DefaultTelegramUpdateWorkerCount of
        Inl e \<Rightarrow> Inl e
      | Inr updateWorkers \<Rightarrow>
          if updateWorkers > MaxTelegramUpdateWorkerCount
          then Inl (PlainError (''TELEGRAM_UPDATE_WORKERS must not exceed '' @ FormatInt MaxTelegramUpdateWorkerCount))
          else
            (case (let raw = getenv ''PRICE_ALERTS_ENABLED'' in if raw \<noteq> [] then ParseBool raw else Some False) of
               None \<Rightarrow> Inl (PlainError ''PRICE_ALERTS_ENABLED must be a boolean'')
             | Some alertsEnabled \<Rightarrow>
                 (let cfg = \<lparr>DatabaseURL = getenv ''DATABASE_URL'', TelegramToken = getenv ''TELEGRAM_APITOKEN'',
                             WebhookSecret = getenv ''WEBHOOK_SECRET_TOKEN'', CronSecret = getenv ''CRON_SECRET'',
                             MetricsSecret = getenv ''METRICS_SECRET'', ConfigPort = Port getenv,
                             TelegramUpdateWorkers = updateWorkers, PriceAlertsEnabled = alertsEnabled\<rparr>;
                      required = [(''DATABASE_URL'', DatabaseURL cfg), (''TELEGRAM_APITOKEN'', TelegramToken cfg),
                                  (''WEBHOOK_SECRET_TOKEN'', WebhookSecret cfg), (''CRON_SECRET'', CronSecret cfg),
                                  (''METRICS_SECRET'', MetricsSecret cfg)]
                  in case first_missing required of
                       Some e \<Rightarrow> Inl e
                     | None \<Rightarrow>
                         if MetricsSecret cfg = CronSecret cfg
                         then Inl (PlainError ''METRICS_SECRET must differ from CRON_SECRET'')
                         else Inr cfg)))"

text \<open>The secrets the application is built with (\<^verbatim>\<open>internal/app/run.go\<close>).\<close>

definition app_secrets :: "config \<Rightarrow> app_config" where
  "app_secrets cfg =
     \<lparr>cfg_webhook_secret = WebhookSecret cfg, cfg_cron_secret = CronSecret cfg, cfg_metrics_secret = MetricsSecret cfg\<rparr>"

section \<open>What is accepted\<close>

definition worker_text :: "string \<Rightarrow> int option" where
  "worker_text raw =
     (if raw = [] then Some DefaultTelegramUpdateWorkerCount
      else case Atoi raw of
             Some n \<Rightarrow> if 1 \<le> n \<and> n \<le> MaxTelegramUpdateWorkerCount then Some n else None
           | None \<Rightarrow> None)"

definition alerts_text :: "string \<Rightarrow> bool option" where
  "alerts_text raw = (if raw = [] then Some False else ParseBool raw)"

text \<open>The configuration of an environment, with none of the checks.\<close>

definition config_of :: "environment \<Rightarrow> int \<Rightarrow> bool \<Rightarrow> config" where
  "config_of env workers alerts =
     \<lparr>DatabaseURL = env ''DATABASE_URL'', TelegramToken = env ''TELEGRAM_APITOKEN'',
      WebhookSecret = env ''WEBHOOK_SECRET_TOKEN'', CronSecret = env ''CRON_SECRET'',
      MetricsSecret = env ''METRICS_SECRET'', ConfigPort = Port env, TelegramUpdateWorkers = workers,
      PriceAlertsEnabled = alerts\<rparr>"

definition complete :: "config \<Rightarrow> bool" where
  "complete cfg \<longleftrightarrow>
     DatabaseURL cfg \<noteq> [] \<and> TelegramToken cfg \<noteq> [] \<and> WebhookSecret cfg \<noteq> [] \<and> CronSecret cfg \<noteq> [] \<and>
     MetricsSecret cfg \<noteq> [] \<and> MetricsSecret cfg \<noteq> CronSecret cfg"

lemma first_missing_None: "first_missing vars = None \<longleftrightarrow> (\<forall>v \<in> set vars. snd v \<noteq> [])"
  by (induction vars rule: first_missing.induct) auto

lemma optionalPositiveInt_worker:
  "(\<exists>n. optionalPositiveInt env name DefaultTelegramUpdateWorkerCount = Inr n \<and> n \<le> MaxTelegramUpdateWorkerCount \<and> n = m) \<longleftrightarrow>
     worker_text (env name) = Some m"
  by (auto simp: optionalPositiveInt_def worker_text_def Let_def split: option.split)

definition required_vars :: "config \<Rightarrow> (string \<times> string) list" where
  "required_vars cfg =
     [(''DATABASE_URL'', DatabaseURL cfg), (''TELEGRAM_APITOKEN'', TelegramToken cfg),
      (''WEBHOOK_SECRET_TOKEN'', WebhookSecret cfg), (''CRON_SECRET'', CronSecret cfg),
      (''METRICS_SECRET'', MetricsSecret cfg)]"

lemma complete_iff: "complete cfg \<longleftrightarrow> first_missing (required_vars cfg) = None \<and> MetricsSecret cfg \<noteq> CronSecret cfg"
  by (simp add: complete_def first_missing_None required_vars_def)

lemma Load_eq:
  "Load dotenv env =
     (case optionalPositiveInt (dotenv env) ''TELEGRAM_UPDATE_WORKERS'' DefaultTelegramUpdateWorkerCount of
        Inl e \<Rightarrow> Inl e
      | Inr workers \<Rightarrow>
          if workers > MaxTelegramUpdateWorkerCount
          then Inl (PlainError (''TELEGRAM_UPDATE_WORKERS must not exceed '' @ FormatInt MaxTelegramUpdateWorkerCount))
          else
            (case alerts_text (dotenv env ''PRICE_ALERTS_ENABLED'') of
               None \<Rightarrow> Inl (PlainError ''PRICE_ALERTS_ENABLED must be a boolean'')
             | Some alerts \<Rightarrow>
                 (case first_missing (required_vars (config_of (dotenv env) workers alerts)) of
                    Some e \<Rightarrow> Inl e
                  | None \<Rightarrow>
                      if MetricsSecret (config_of (dotenv env) workers alerts) = CronSecret (config_of (dotenv env) workers alerts)
                      then Inl (PlainError ''METRICS_SECRET must differ from CRON_SECRET'')
                      else Inr (config_of (dotenv env) workers alerts))))"
proof -
  have alerts: "(if dotenv env ''PRICE_ALERTS_ENABLED'' \<noteq> [] then ParseBool (dotenv env ''PRICE_ALERTS_ENABLED'') else Some False) =
      alerts_text (dotenv env ''PRICE_ALERTS_ENABLED'')"
    by (simp add: alerts_text_def)
  show ?thesis
    unfolding Load_def Let_def alerts config_of_def required_vars_def by (rule refl)
qed

lemma Load_iff:
  "Load dotenv env = Inr cfg \<longleftrightarrow>
     (\<exists>workers alerts. worker_text (dotenv env ''TELEGRAM_UPDATE_WORKERS'') = Some workers \<and>
        alerts_text (dotenv env ''PRICE_ALERTS_ENABLED'') = Some alerts \<and>
        cfg = config_of (dotenv env) workers alerts \<and> complete cfg)"
proof -
  let ?w = "optionalPositiveInt (dotenv env) ''TELEGRAM_UPDATE_WORKERS'' DefaultTelegramUpdateWorkerCount"
  let ?a = "alerts_text (dotenv env ''PRICE_ALERTS_ENABLED'')"
  have "Load dotenv env = Inr cfg \<longleftrightarrow>
     (\<exists>workers alerts. ?w = Inr workers \<and> workers \<le> MaxTelegramUpdateWorkerCount \<and> ?a = Some alerts \<and>
        cfg = config_of (dotenv env) workers alerts \<and> complete cfg)"
    unfolding Load_eq complete_iff
    by (cases ?w; cases ?a) (auto split: option.split)
  then show ?thesis using optionalPositiveInt_worker [of "dotenv env" "''TELEGRAM_UPDATE_WORKERS''"] by blast
qed

lemma worker_text_range: "worker_text raw = Some n \<Longrightarrow> 1 \<le> n \<and> n \<le> 4"
  by (auto simp: worker_text_def split: if_splits option.splits)

end
