(* ===== verification/Constraints.thy ===== *)
theory Constraints
  imports System
begin

text \<open>
  The \<^verbatim>\<open>CHECK\<close> and \<^verbatim>\<open>NOT NULL\<close> constraints of the schema as properties of the tables, and that no
  transaction of the program runs into one: PostgreSQL would refuse the statement. Not covered are the
  constraints on values a step takes from its arguments (\<^verbatim>\<open>trigger_price\<close>, the epoch of a recorded
  version). The operation and message id of a reply come from Telegram; \<open>insert_replies\<close> tests them.
\<close>

section \<open>The columns\<close>

definition mutation_settings :: "string set" where
  "mutation_settings = {''subscription'', ''interval'', ''language''}"

definition reply_row_checks :: "reply_row \<Rightarrow> bool" where
  "reply_row_checks r \<longleftrightarrow>
     0 \<le> tr_sequence_no r \<and>
     (tr_operation r = ''send_message'' \<and> tr_message_id r = 0 \<or> tr_operation r = ''edit_message'' \<and> tr_message_id r > 0)"

definition columns_ok :: "db \<Rightarrow> bool" where
  "columns_ok d \<longleftrightarrow>
     (\<forall>s \<in> set (subscribers d). sub_row_ok s) \<and>
     (\<forall>c \<in> set (price_alert_crossings d). price_check (pc_price c)) \<and>
     (\<forall>v \<in> set (telegram_mutation_versions d). mv_setting v \<in> mutation_settings) \<and>
     (\<forall>r \<in> set (telegram_replies d). reply_row_checks r) \<and>
     0 \<le> stream_epoch d \<and> (\<forall>u \<in> set (telegram_updates d). 0 \<le> tu_stream_epoch u)"

lemma columns_ok_frame [simp]:
  "columns_ok (d\<lparr>notification_jobs := a\<rparr>) = columns_ok d"
  "columns_ok (d\<lparr>notification_seq := b\<rparr>) = columns_ok d"
  "columns_ok (d\<lparr>reply_seq := e\<rparr>) = columns_ok d"
  "columns_ok (d\<lparr>price_alerts := f\<rparr>) = columns_ok d"
  "columns_ok (d\<lparr>alert_seq := g\<rparr>) = columns_ok d"
  "columns_ok (d\<lparr>market_prices := h\<rparr>) = columns_ok d"
  "columns_ok (d\<lparr>stream_last_received_at := i\<rparr>) = columns_ok d"
  by (simp_all add: columns_ok_def)

lemma columns_subscribers:
  "columns_ok d \<Longrightarrow> (\<And>s. s \<in> set subs \<Longrightarrow> sub_row_ok s) \<Longrightarrow> columns_ok (d\<lparr>subscribers := subs\<rparr>)"
  by (simp add: columns_ok_def)

lemma columns_update_subscribers:
  assumes "columns_ok d" "\<And>s. sub_row_ok s \<Longrightarrow> sub_row_ok (g s)"
  shows "columns_ok (d\<lparr>subscribers := sql_update q g (subscribers d)\<rparr>)"
  by (rule columns_subscribers [OF assms(1)]) (use assms in \<open>auto simp: columns_ok_def set_sql_update\<close>)

lemma columns_updates:
  assumes "columns_ok d" "\<And>u. tu_stream_epoch (f u) = tu_stream_epoch u"
  shows "columns_ok (d\<lparr>telegram_updates := sql_update p f (telegram_updates d)\<rparr>)"
  using assms by (auto simp: columns_ok_def set_sql_update)

lemma columns_replies:
  assumes "columns_ok d"
    "\<And>r. tr_operation (f r) = tr_operation r \<and> tr_message_id (f r) = tr_message_id r \<and> tr_sequence_no (f r) = tr_sequence_no r"
  shows "columns_ok (d\<lparr>telegram_replies := sql_update p f (telegram_replies d)\<rparr>)"
  using assms by (auto simp: columns_ok_def set_sql_update reply_row_checks_def)

lemmas tx_columns = run_tx_preserves [of columns_ok]

section \<open>Notifications, replies and updates\<close>

lemma finish_notification_columns:
  assumes "finish_notification job f g d = Inr (u, d')" "columns_ok d" "\<And>s. sub_row_ok s \<Longrightarrow> sub_row_ok (g s)"
  shows "columns_ok d'"
  using assms columns_update_subscribers [of "d\<lparr>notification_jobs := x\<rparr>" g for x]
  by (auto simp: finish_notification_cases)

lemma notification_marks_columns:
  assumes "columns_ok d"
  shows "columns_ok (snd (markNotificationJobSentOnce fault now job d))"
    "columns_ok (snd (markNotificationJobRetry token fault now job e d))"
    "columns_ok (snd (markNotificationJobCanceled fault now job d))"
    "columns_ok (snd (markNotificationJobFailed token fault now job e permanent d))"
  unfolding markNotificationJobSentOnce_def markNotificationJobRetry_def markNotificationJobCanceled_def
    markNotificationJobFailed_def Let_def
  by (rule tx_columns [OF assms], erule finish_notification_columns [OF _ assms]; simp add: sub_row_ok_def)+

lemma reply_marks_columns:
  assumes "columns_ok d"
  shows "columns_ok (snd (markTelegramReplySentOnce fault now rjob d))"
    "columns_ok (snd (markTelegramReplyRetry token fault now rjob e d))"
    "columns_ok (snd (markTelegramReplyFailed token fault now rjob e d))"
  unfolding markTelegramReplySentOnce_def markTelegramReplyRetry_def markTelegramReplyFailed_def
  by (rule tx_columns [OF assms];
      use assms in \<open>auto simp: finish_reply_cases tr_set_sent_def tr_set_retry_def tr_set_failed_def intro!: columns_replies\<close>)+

lemma finish_update_columns:
  assumes "finish_update job f d = Inr (u, d')" "\<And>u. tu_stream_epoch (f u) = tu_stream_epoch u" "columns_ok d"
  shows "columns_ok d'"
  using assms columns_updates by (auto simp: finish_update_cases)

lemma update_marks_columns:
  assumes "columns_ok d"
  shows "columns_ok (snd (markTelegramUpdateRetry fault now ujob e d))"
    "columns_ok (snd (markTelegramUpdateFailed fault now ujob e d))"
  unfolding markTelegramUpdateRetry_def markTelegramUpdateFailed_def
  by (rule tx_columns [OF assms], erule finish_update_columns; simp add: tu_set_retry_def tu_set_failed_def assms)+

lemma claims_columns:
  assumes "columns_ok d"
  shows "columns_ok (snd (claimPendingNotificationJob fault try_lock now tok snapshot d))"
    "columns_ok (snd (claimPendingTelegramReply fault try_lock now tok snapshot d))"
    "columns_ok (snd (claimPendingTelegramUpdateForWorker fault row_locked now i n d))"
proof -
  show "columns_ok (snd (claimPendingNotificationJob fault try_lock now tok snapshot d))"
    unfolding claimPendingNotificationJob_def
    by (rule tx_columns [OF assms], drule claim_notification_loop_cases) (use assms in auto)
  show "columns_ok (snd (claimPendingTelegramReply fault try_lock now tok snapshot d))"
    unfolding claimPendingTelegramReply_def
    by (rule tx_columns [OF assms], drule claim_reply_loop_cases)
      (use assms in \<open>auto simp: tr_claim_def intro!: columns_replies\<close>)
  have "columns_ok (snd (run_tx fault (claim_update_stmt row_locked now shards) d))" for shards
    by (rule tx_columns [OF assms])
      (use assms in \<open>auto simp: claim_update_stmt_def tu_claim_def split: list.splits intro: columns_updates\<close>)
  with assms show "columns_ok (snd (claimPendingTelegramUpdateForWorker fault row_locked now i n d))"
    by (simp add: claimPendingTelegramUpdateForWorker_def Let_def)
qed

section \<open>Producers, prices and alerts\<close>

lemma cron_columns:
  assumes "db_inv d" "columns_ok d"
  shows "columns_ok (snd (createCronNotificationJobs fault row_locked cache clock now d))"
  unfolding createCronNotificationJobs_def
proof (rule tx_columns [OF assms(2)])
  fix n d'
  assume body: "cron_body row_locked cache clock now d = Inr (n, d')"
  have u: "unique_on sub_chat_id (subscribers d)" using assms(1) by (simp add: db_inv_def)
  obtain q t jobs seq where
    "d' = d\<lparr>subscribers := sql_update q (\<lambda>s. s\<lparr>cron_claimed_until := t\<rparr>) (subscribers d),
            notification_jobs := jobs, notification_seq := seq\<rparr>"
    using body unfolding cron_body_eq [OF u] Let_def by (auto simp only: sum.inject prod.inject)
  moreover have "columns_ok (d\<lparr>subscribers := sql_update q (\<lambda>s. s\<lparr>cron_claimed_until := t\<rparr>) (subscribers d)\<rparr>)"
    by (rule columns_update_subscribers [OF assms(2)]) (simp add: sub_row_ok_def)
  ultimately show "columns_ok d'" by (simp add: columns_ok_def)
qed

lemma save_update_columns:
  assumes "columns_ok d"
  shows "columns_ok (snd (saveTelegramUpdate fault clock1 clock2 now u payload d))"
  unfolding saveTelegramUpdate_def
proof (rule tx_columns [OF assms])
  fix b d'
  assume "save_update_body clock1 clock2 now u payload d = Inr (b, d')"
  moreover have "0 \<le> next_epoch clock1 d" using assms by (auto simp: columns_ok_def next_epoch_def)
  ultimately show "columns_ok d'"
    using assms by (auto simp: save_update_body_def Let_def columns_ok_def new_update_row_def split: if_splits)
qed

lemma insert_crossings_prices:
  "price_check price \<Longrightarrow> \<forall>c \<in> set cs. price_check (pc_price c) \<Longrightarrow>
     \<forall>c \<in> set (insert_crossings price t ids cs). price_check (pc_price c)"
proof (induction ids arbitrary: cs)
  case (Cons i ids)
  let ?new = "\<lparr>pc_alert_id = i, pc_price = price, pc_observed_at = t\<rparr>"
  have "\<forall>c \<in> set (cs @ [?new]). price_check (pc_price c)" using Cons.prems by simp
  from Cons.IH [OF Cons.prems(1) this] Cons.IH [OF Cons.prems] show ?case by simp
qed simp

lemma capture_columns:
  assumes "capturePriceAlertCrossings err dbNow symbol price startedAt storedAt d = Inr d'" "columns_ok d"
  shows "columns_ok d'"
proof (cases "alertSymbol symbol = None")
  case True
  with assms show ?thesis by (simp add: capturePriceAlertCrossings_def)
next
  case False
  then have "price_check price"
    and "\<exists>ids. d' = d\<lparr>price_alert_crossings := insert_crossings price storedAt ids (price_alert_crossings d)\<rparr>"
    using assms(1) by (auto simp: capturePriceAlertCrossings_def price_check_iff Let_def split: if_splits option.splits)
  with insert_crossings_prices assms(2) show ?thesis by (auto simp: columns_ok_def)
qed

lemma persist_columns:
  assumes "columns_ok d"
  shows "columns_ok (snd (persistObservedMarketPrice fault en err storedAt dbNow symbol price startedAt d))"
proof -
  have "columns_ok (snd (run_tx fault (persist_body en err storedAt dbNow symbol price startedAt) d))"
  proof (rule tx_columns [OF assms])
    fix t d'
    assume "persist_body en err storedAt dbNow symbol price startedAt d = Inr (t, d')"
    then show "columns_ok d'"
      using assms capture_columns
      by (fastforce simp: persist_body_def Let_def split: if_splits sum.splits option.splits)
  qed
  with assms show ?thesis by (simp add: persistObservedMarketPrice_def)
qed

lemma filter_crossings_columns:
  "columns_ok d \<Longrightarrow> columns_ok (d\<lparr>price_alert_crossings := filter p (price_alert_crossings d)\<rparr>)"
  by (simp add: columns_ok_def)

lemma trigger_columns:
  assumes "db_inv d" "columns_ok d"
  shows "columns_ok (snd (triggerPriceAlert fault try_lock now c d))"
  unfolding triggerPriceAlert_def case_prod_unfold
proof (rule tx_columns [OF assms(2)])
  fix b d'
  assume "trigger_body try_lock now (fst c) (fst (snd c)) (fst (snd (snd c))) (snd (snd (snd c))) d = Inr (b, d')"
  from trigger_body_cases [OF this] assms show "columns_ok d'"
    by (auto simp: db_inv_def trigger_db_def columns_ok_def)
qed

lemma retention_columns:
  assumes "columns_ok d"
  shows "columns_ok (delete_stale_crossings d)" "columns_ok (snd (delete_notification_batch now d))"
    "columns_ok (snd (delete_update_batch now d))" "columns_ok (snd (delete_reply_batch now d))"
    "columns_ok (snd (delete_alert_batch now d))"
  using assms
  by (simp_all add: columns_ok_def delete_stale_crossings_def delete_notification_batch_def delete_update_batch_def
      delete_reply_batch_def delete_alert_batch_def delete_batch_def Let_def)

section \<open>Updates\<close>

lemma getLangWithDB_allowed: "AllowedLanguage (getLangWithDB err chat d)"
  by (auto simp: getLangWithDB_def AllowedLanguage_def split: sum.split option.split)

lemma upsert_subscriber_columns:
  assumes "columns_ok d" "sub_row_ok new" "\<And>s. sub_row_ok s \<Longrightarrow> sub_row_ok (f s)"
  shows "columns_ok (d\<lparr>subscribers := upsert_subscriber new f (subscribers d)\<rparr>)"
  using assms by (intro columns_subscribers) (auto simp: upsert_subscriber_def columns_ok_def set_sql_update split: if_splits)

lemma new_subscriber_ok: "AllowedLanguage lang \<Longrightarrow> sub_row_ok (new_subscriber now chat lang b)"
  by (simp add: sub_row_ok_def new_subscriber_def)

lemma subscriber_ops_columns:
  assumes "columns_ok d"
  shows "AllowedLanguage lang \<Longrightarrow> columns_ok (set_language now chat lang d)"
    "AllowedLanguage lang \<Longrightarrow> columns_ok (activate_subscription now chat lang d)"
    "1 \<le> m \<Longrightarrow> m \<le> 1440 \<Longrightarrow> columns_ok (snd (set_interval now chat m d))"
proof -
  show "columns_ok (set_language now chat lang d)" if "AllowedLanguage lang"
    unfolding set_language_def
    by (intro upsert_subscriber_columns [OF assms] new_subscriber_ok that) (use that in \<open>simp add: sub_row_ok_def\<close>)
  show "columns_ok (activate_subscription now chat lang d)" if "AllowedLanguage lang"
    unfolding activate_subscription_def Let_def
    by (intro upsert_subscriber_columns [OF assms] new_subscriber_ok that)
      (use that in \<open>auto simp: sub_row_ok_def split: option.split\<close>)
  show "columns_ok (snd (set_interval now chat m d))" if "1 \<le> m" "m \<le> 1440"
    unfolding set_interval_def Let_def snd_conv
    by (rule columns_update_subscribers [OF assms]) (use that in \<open>simp add: sub_row_ok_def\<close>)
qed

lemma unsubscribe_columns: "unsubscribe err now chat d = Inr d' \<Longrightarrow> columns_ok d \<Longrightarrow> columns_ok d'"
  using columns_update_subscribers [of d "\<lambda>s. s\<lparr>is_subscribed := False, cron_claimed_until := None, delivery_suspended_until := None\<rparr>"]
  by (auto simp: unsubscribe_def Let_def sub_row_ok_def split: option.splits)

lemma alert_handlers_columns:
  assumes "columns_ok (hs_db h)"
  shows "columns_ok (hs_db (snd (addPriceAlertAndReply env u chat lang s p h)))"
    "columns_ok (hs_db (snd (handle_alert_delete env chat data lang h)))"
  using assms
  by (auto simp: addPriceAlertAndReply_def handle_alert_delete_def Let_def split: option.split sum.split
      dest!: createPriceAlert_cases cancelPriceAlert_cases)

lemma handle_callback_columns:
  assumes "columns_ok (hs_db h)"
  shows "columns_ok (hs_db (snd (handle_callback env u query h)))"
proof -
  have "columns_ok (hs_db (snd (handlePriceAlertCallback env v chat cid data lang h)))" for v chat cid data lang
    using assms by (auto simp: handlePriceAlertCallback_def Let_def case_prod_unfold alert_handlers_columns split: list.split)
  with subscriber_ops_columns(1,3) [OF assms] assms show ?thesis
    by (auto simp: handle_callback_def handle_setlang_def handle_interval_def handle_refresh_def Let_def case_prod_unfold
        split: option.split)
qed

lemma subscription_handlers_columns:
  assumes "columns_ok (hs_db h)"
  shows "AllowedLanguage lang \<Longrightarrow> columns_ok (hs_db (snd (handle_subscribe env chat lang h)))"
    "columns_ok (hs_db (snd (handle_unsubscribe env chat lang h)))"
    "columns_ok (hs_db (snd (handle_interval_menu env chat lang h)))"
  using assms subscriber_ops_columns(2) [OF assms]
  by (auto simp: handle_subscribe_def handle_unsubscribe_def handle_interval_menu_def Let_def
      split: option.split sum.split dest: unsubscribe_columns)

lemma handle_command_columns:
  assumes "columns_ok (hs_db h)"
  shows "columns_ok (hs_db (snd (handle_command env u m chat h)))"
proof -
  have "columns_ok (hs_db (snd (handlePriceAlertCommand env v chat args lang h)))" for v chat args lang
    using assms by (simp add: handlePriceAlertCommand_def Let_def alert_handlers_columns)
  with subscription_handlers_columns [OF assms] getLangWithDB_allowed assms show ?thesis
    by (simp add: handle_command_def Let_def)
qed

lemma processTelegramUpdateWithDB_columns:
  "columns_ok (hs_db h) \<Longrightarrow> columns_ok (hs_db (snd (processTelegramUpdateWithDB env u h)))"
  by (auto simp: processTelegramUpdateWithDB_def handle_callback_columns handle_command_columns split: option.split)

lemma telegramMutationSetting_cases: "telegramMutationSetting u \<in> insert [] mutation_settings"
  by (auto simp: telegramMutationSetting_def mutation_settings_def split: option.split)

lemma upsert_version_setting:
  "\<forall>v \<in> set rows. mv_setting v \<in> S \<Longrightarrow> x \<in> S \<Longrightarrow> \<forall>v \<in> set (snd (upsert_version chat x w rows)). mv_setting v \<in> S"
  by (auto simp: upsert_version_def Let_def set_sql_update split: if_splits)

lemma allowTelegramMutation_columns:
  assumes "allowTelegramMutation err job u d = Inr (b, d')" "columns_ok d"
  shows "columns_ok d'"
proof (cases "telegramMutationSetting u = []")
  case True
  with assms show ?thesis by (simp add: allowTelegramMutation_def)
next
  case False
  then have "telegramMutationSetting u \<in> mutation_settings" using telegramMutationSetting_cases by blast
  then have "\<forall>v \<in> set (snd (upsert_version (uj_chat_id job) (telegramMutationSetting u) (uj_version job)
      (telegram_mutation_versions d))). mv_setting v \<in> mutation_settings"
    using assms(2) by (intro upsert_version_setting) (simp_all add: columns_ok_def)
  with allowTelegramMutation_cases [OF assms(1)] assms(2) show ?thesis by (auto simp: columns_ok_def)
qed

lemma columns_new_reply:
  assumes "columns_ok d" "0 \<le> k" "reply_checks r"
  shows "columns_ok (d\<lparr>telegram_replies := telegram_replies d @ [new_reply_row i now uid k r], reply_seq := j\<rparr>)"
  using assms by (auto simp: columns_ok_def new_reply_row_def reply_row_checks_def reply_checks_def)

lemma insert_replies_columns:
  "insert_replies now uid k rs d = Inr d' \<Longrightarrow> 0 \<le> k \<Longrightarrow> columns_ok d \<Longrightarrow> columns_ok d'"
proof (induction rs arbitrary: k d)
  case (Cons r rs)
  with Cons.IH [of "k + 1"] columns_new_reply [of d k r, where i = "reply_seq d" and now = now and uid = uid and j = "reply_seq d + 1"] show ?case
    by (simp split: if_splits)
qed simp

lemma update_tx_columns:
  assumes "update_tx env job u d = Inr (col, d')" "columns_ok d"
  shows "columns_ok d'"
proof -
  obtain d1 where a: "apply_update env job u d = Inr (col, d1)"
    and c: "completeTelegramUpdateTx (he_err env) (he_now env) job (col_replies col) d1 = Inr d'"
    using assms(1) by (auto simp: update_tx_def split: sum.splits)
  obtain b d0 where m: "allowTelegramMutation (he_err env) job u d = Inr (b, d0)"
    using a by (auto simp: apply_update_def split: sum.splits)
  then have d0: "columns_ok d0" by (rule allowTelegramMutation_columns) (rule assms(2))
  then have "columns_ok (hs_db (snd (processTelegramUpdateWithDB env u (empty_handler_state d0))))"
    by (intro processTelegramUpdateWithDB_columns) (simp add: empty_handler_state_def)
  moreover obtain e h where "processTelegramUpdateWithDB env u (empty_handler_state d0) = (e, h)" by fastforce
  ultimately have "columns_ok d1"
    using a m d0 by (cases b) (auto simp: apply_update_def split: option.splits)
  with c show ?thesis
    using insert_replies_columns finish_update_columns
    by (fastforce simp: completeTelegramUpdateTx_def tu_set_processed_def split: option.splits sum.splits if_splits)
qed

section \<open>Every transaction\<close>

lemma db_step_columns: "db_step d d' \<Longrightarrow> db_inv d \<Longrightarrow> columns_ok d \<Longrightarrow> columns_ok d'"
  by (induction rule: db_step.induct)
    (simp_all add: notification_marks_columns reply_marks_columns update_marks_columns claims_columns cron_columns
      save_update_columns persist_columns trigger_columns retention_columns update_tx_columns)

lemma db_steps_columns: "db_step\<^sup>*\<^sup>* d d' \<Longrightarrow> db_inv d \<Longrightarrow> columns_ok d \<Longrightarrow> db_inv d' \<and> columns_ok d'"
  by (induction rule: rtranclp_induct) (auto intro: db_step_inv db_step_columns)

lemma migrate_columns:
  assumes "migrate now clock created_at json l = Inr d"
  shows "columns_ok d"
proof -
  obtain subs prices where "migrate_001 now l = Inr (subs, prices)"
    and d: "d = (empty_db clock)\<lparr>subscribers := subs, market_prices := migrate_009 prices\<rparr>"
    using assms by (rule migrate_cases)
  then show ?thesis using migrate_001_rows(3) by (simp add: columns_ok_def empty_db_def)
qed

lemma reachable_columns: "reachable d \<Longrightarrow> columns_ok d"
  unfolding reachable_def using db_steps_columns migrate_inv migrate_columns by blast

section \<open>The constraints of the schema\<close>

definition schema_checks :: "db \<Rightarrow> bool" where
  "schema_checks d \<longleftrightarrow>
     list_all sub_row_ok (subscribers d) \<and>
     list_all (\<lambda>r. price_check (mp_price r)) (market_prices d) \<and>
     list_all (\<lambda>r. 0 \<le> nj_attempts r \<and> (nj_kind r = PriceAlert \<longleftrightarrow> nj_price_alert_id r \<noteq> None)) (notification_jobs d) \<and>
     list_all (\<lambda>r. case nj_price_alert_id r of None \<Rightarrow> True
                   | Some i \<Rightarrow> sql_exists (\<lambda>a. pa_id a = i) (price_alerts d)) (notification_jobs d) \<and>
     list_all (\<lambda>r. 0 \<le> tu_attempts r \<and> 0 \<le> tu_shard_id r \<and> 0 \<le> tu_stream_epoch r) (telegram_updates d) \<and>
     0 \<le> stream_epoch d \<and>
     list_all (\<lambda>r. 0 \<le> tr_attempts r \<and> tr_status r \<noteq> Canceled \<and> reply_row_checks r) (telegram_replies d) \<and>
     list_all alert_checks (price_alerts d) \<and>
     list_all (\<lambda>c. price_check (pc_price c)) (price_alert_crossings d) \<and>
     list_all (\<lambda>v. mv_setting v \<in> {''subscription'', ''interval'', ''language''}) (telegram_mutation_versions d)"

lemma telegramShardIndex_nonneg: "0 \<le> telegramShardIndex chat TelegramUpdateShardCount"
  by (simp add: telegramShardIndex_mod TelegramUpdateShardCount_def)

lemma inv_schema_checks:
  assumes "db_inv d" "columns_ok d"
  shows "schema_checks d"
proof -
  have jobs: "\<forall>r \<in> set (notification_jobs d). nj_row_ok r"
    and link: "\<forall>r \<in> set (notification_jobs d). job_linked (price_alerts d) r"
    and replies: "\<forall>r \<in> set (telegram_replies d). tr_row_ok r"
    and updates: "\<forall>r \<in> set (telegram_updates d). tu_row_ok (stream_epoch d) r"
    and alerts: "\<forall>a \<in> set (price_alerts d). alert_checks a"
    and prices: "\<forall>r \<in> set (market_prices d). isValidMarketPrice (mp_price r)"
    using assms(1) by (simp_all add: db_inv_def jobs_inv_def alerts_inv_def replies_inv_def updates_inv_def prices_inv_def)
  have "list_all (\<lambda>r. case nj_price_alert_id r of None \<Rightarrow> True
      | Some i \<Rightarrow> sql_exists (\<lambda>a. pa_id a = i) (price_alerts d)) (notification_jobs d)"
    using link by (fastforce simp: list_all_iff job_linked_def sql_exists_iff split: option.splits)
  moreover have "list_all (\<lambda>r. 0 \<le> tu_attempts r \<and> 0 \<le> tu_shard_id r \<and> 0 \<le> tu_stream_epoch r) (telegram_updates d)"
    using updates assms(2) telegramShardIndex_nonneg by (auto simp: list_all_iff tu_row_ok_def columns_ok_def)
  ultimately show ?thesis
    using assms(2) jobs replies alerts prices
    by (auto simp: schema_checks_def list_all_iff columns_ok_def price_check_iff nj_row_ok_def tr_row_ok_def
        mutation_settings_def)
qed

lemma reachable_schema_checks: "reachable d \<Longrightarrow> schema_checks d"
  using inv_schema_checks reachable_inv reachable_columns by blast

end
