(* ===== verification/System_Properties.thy ===== *)
theory System_Properties
  imports Workers Http_Properties Config Constraints
begin

text \<open>
  Properties of the whole service: all its goroutines and requests change the database by transactions
  only, every database reached this way is consistent, a finished notification stays as it is, the
  cleaner removes what has expired, and an accepted configuration is a safe one.
\<close>

section \<open>Requests are transactions\<close>





section \<open>The goroutines refine the transactions\<close>








section \<open>What every reachable database satisfies\<close>




section \<open>A history\<close>

text \<open>
  A chat subscribes, a cron run queues its notification, a worker claims it and Telegram refuses it for
  good: six transactions from the empty database.
\<close>

definition ex_subscribe :: tg_update where
  "ex_subscribe =
     \<lparr>u_id = 5, u_message = Some \<lparr>m_id = 1, m_chat = Some 42, m_command = ''subscribe'', m_arguments = []\<rparr>,
      u_callback = None, u_edited_message = None, u_channel_post = None, u_edited_channel_post = None\<rparr>"

definition ex_handlers :: handler_env where
  "ex_handlers =
     \<lparr>he_alerts_enabled = True, he_cache = Map.empty, he_clock = 0, he_now = 0, he_db_now = 0, he_created_at = 0,
      he_err = (\<lambda>_. None)\<rparr>"

definition ex_update :: update_job where
  "ex_update = \<lparr>uj_update_id = 5, uj_stream_epoch = 0, uj_chat_id = 42, uj_payload = [], uj_attempts = 1\<rparr>"

definition ex_stored :: db where
  "ex_stored = (empty_db 0)\<lparr>telegram_updates := [new_update_row 0 5 42 0 []]\<rparr>"

definition ex_claimed_update :: db where
  "ex_claimed_update = (empty_db 0)\<lparr>telegram_updates := [tu_claim 0 () (new_update_row 0 5 42 0 [])]\<rparr>"

definition ex_subscribed :: db where
  "ex_subscribed = (empty_db 0)
     \<lparr>subscribers := [new_subscriber 0 42 ''ua'' True],
      telegram_updates := [tu_set_processed 0 (tu_claim 0 () (new_update_row 0 5 42 0 []))],
      telegram_mutation_versions :=
        [\<lparr>mv_chat_id = 42, mv_setting = ''subscription'', mv_stream_epoch = 0, mv_update_id = 5\<rparr>],
      telegram_replies :=
        [new_reply_row 1 0 5 0 \<lparr>rep_operation = telegramReplySendMessage, rep_chat_id = 42, rep_message_id = 0,
                                rep_text = Text ''ua'' ''subscribe'', rep_markup = None\<rparr>],
      reply_seq := 2\<rparr>"

definition ex_scheduled :: notification_row where
  "ex_scheduled =
     new_notification 1 (3 * hour) 42 ''ua'' (scheduled_text Map.empty (3 * hour) ''ua'' (3 * hour)) (3 * hour) (3 * hour)
       Scheduled None"

definition ex_queued :: db where
  "ex_queued = ex_subscribed
     \<lparr>subscribers := [(new_subscriber 0 42 ''ua'' True)\<lparr>cron_claimed_until := Some (3 * hour + 15 * minute)\<rparr>],
      notification_jobs := [ex_scheduled], notification_seq := 2\<rparr>"

definition ex_taken :: db where
  "ex_taken = ex_queued\<lparr>notification_jobs := [nj_claim (3 * hour) ''t'' ex_scheduled]\<rparr>"

definition ex_refused :: db where
  "ex_refused =
     snd (markNotificationJobFailed None DbOk (3 * hour) (nj_job (nj_claim (3 * hour) ''t'' ex_scheduled))
            (TelegramError 403 ''bot was blocked'' 0 ''Forbidden'') True ex_taken)"

lemma ex_history1:
  "snd (saveTelegramUpdate DbOk 0 0 0 ex_subscribe [] (empty_db 0)) = ex_stored"
  by code_simp

lemma ex_history2:
  "snd (claimPendingTelegramUpdateForWorker DbOk (\<lambda>_. False) 0 0 1 ex_stored) = ex_claimed_update"
  by code_simp

lemma ex_history3:
  "map_sum id snd (update_tx ex_handlers ex_update ex_subscribe ex_claimed_update) = Inr ex_subscribed"
  by code_simp

lemma ex_history4:
  "snd (createCronNotificationJobs DbOk (\<lambda>_. False) Map.empty (3 * hour) (3 * hour) ex_subscribed) = ex_queued"
  by code_simp

lemma ex_history5:
  "snd (claimPendingNotificationJob DbOk (\<lambda>_. Inr True) (3 * hour) ''t'' ex_queued ex_queued) = ex_taken"
  by code_simp

lemma ex_history6:
  "map nj_status (notification_jobs ex_refused) = [Failed]"
  by code_simp

lemmas ex_history = ex_history1 ex_history2 ex_history3 ex_history4 ex_history5 ex_history6

lemma ex_queued_reachable: "reachable ex_queued"
proof -
  have "reachable (empty_db 0)" by (rule reachable_empty)
  then have "reachable ex_stored" unfolding ex_history(1) [symmetric] by (rule reachable_step) (rule db_step.save_update)
  then have c: "reachable ex_claimed_update"
    unfolding ex_history(2) [symmetric] by (rule reachable_step) (rule db_step.claim_update)
  obtain col where "update_tx ex_handlers ex_update ex_subscribe ex_claimed_update = Inr (col, ex_subscribed)"
    using ex_history(3) by (cases "update_tx ex_handlers ex_update ex_subscribe ex_claimed_update") auto
  then have "reachable ex_subscribed" using reachable_step [OF c db_step.process_update] by blast
  then show ?thesis unfolding ex_history(4) [symmetric] by (rule reachable_step) (rule db_step.cron)
qed

lemma ex_refused_reachable: "reachable ex_refused"
proof -
  have "reachable ex_taken"
    unfolding ex_history(5) [symmetric] using ex_queued_reachable by (rule reachable_step) (rule db_step.claim_notification)
  then show ?thesis unfolding ex_refused_def by (rule reachable_step) (rule db_step.notification_failed)
qed


section \<open>Finished is finished\<close>

text \<open>
  C6: a notification that was sent, refused for good or canceled stays exactly as it is until the cleaner
  removes it, whatever transactions follow, and no worker ever claims it again: nothing is sent twice
  after its outcome is recorded.
\<close>

theorem finished_notification_final:
  assumes "reachable d" "r \<in> set (notification_jobs d)" "\<not> nj_open r" "db_step\<^sup>*\<^sup>* d d'"
  shows "set (filter (\<lambda>r'. nj_id r' = nj_id r) (notification_jobs d')) \<subseteq> {r} \<and>
     (\<nexists>job. fst (claimPendingNotificationJob fault try_lock now tok snapshot d') = Inr (Some job) \<and> job_id job = nj_id r)"
proof -
  have frozen: "r' = r" if "r' \<in> set (notification_jobs d')" "nj_id r' = nj_id r" for r'
    using finished_job_frozen [OF assms(4) reachable_inv [OF assms(1)] assms(2,3)] that by blast
  have "job_id job \<noteq> nj_id r" if c: "fst (claimPendingNotificationJob fault try_lock now tok snapshot d') = Inr (Some job)" for job
  proof
    assume id: "job_id job = nj_id r"
    obtain d'' where "claimPendingNotificationJob fault try_lock now tok snapshot d' = (Inr (Some job), d'')"
      using c by (cases "claimPendingNotificationJob fault try_lock now tok snapshot d'") simp
    then have loop: "claim_notification_loop try_lock now tok (notification_candidates now snapshot) d' = Inr (Some job, d'')"
      by (auto simp: claimPendingNotificationJob_def dest: run_tx_Inr)
    from claim_notification_loop_cases [OF loop] obtain r0 where
      r0: "r0 \<in> set (notification_jobs d')" "nj_claimable now r0" "job = nj_job (nj_claim now tok r0)" by auto
    then have "nj_id r0 = nj_id r" using id by (simp add: nj_job_def nj_claim_def)
    with frozen r0(1) have "r0 = r" by blast
    with r0(2) owned_open(2) assms(3) show False by blast
  qed
  then show ?thesis using frozen by auto
qed

theorem finished_notification_final_witness:
  "\<exists>r. r \<in> set (notification_jobs ex_refused) \<and> nj_status r = Failed \<and>
     set (filter (\<lambda>r'. nj_id r' = nj_id r) (notification_jobs ex_refused)) \<subseteq> {r}"
proof -
  obtain r where r: "notification_jobs ex_refused = [r]" "nj_status r = Failed"
    using ex_history(6) by (cases "notification_jobs ex_refused") auto
  then have "\<not> nj_open r" by (simp add: nj_open_def)
  from finished_notification_final [OF ex_refused_reachable _ this rtranclp.rtrancl_refl] r show ?thesis by auto
qed


section \<open>Retention\<close>

lemma drain_from_frame:
  assumes "\<And>d. g (snd (f d)) = g d" "drain_from (fallible err f) k acc d = Some res"
  shows "g (snd res) = g d"
proof -
  have batch: "g s' = g s" if "fallible err f k s = (r, s')" for k s r s'
    using that assms(1) [of s] by (auto simp: fallible_def split: option.splits prod.splits)
  have "fallible err f = batch \<longrightarrow> g (snd res) = g d" if "drain_from batch k acc d = Some res" for batch
  proof (rule drain_from.raw_induct [where P = "\<lambda>batch k acc d res. fallible err f = batch \<longrightarrow> g (snd res) = g d", OF _ that])
    fix rec b k acc s res
    assume IH: "\<And>b k acc s res. rec b k acc s = Some res \<Longrightarrow> fallible err f = b \<longrightarrow> g (snd res) = g s"
      and step: "(case b k s of (Inl e, s') \<Rightarrow> Some ((acc, Some e), s')
         | (Inr deleted, s') \<Rightarrow> if deleted < RetentionCleanupLimit then Some ((acc + deleted, None), s')
            else rec b (Suc k) (acc + deleted) s') = Some res"
    show "fallible err f = b \<longrightarrow> g (snd res) = g s"
    proof
      assume b: "fallible err f = b"
      obtain r s' where r: "b k s = (r, s')" by (cases "b k s")
      then have "g s' = g s" using batch b by blast
      with step r IH b show "g (snd res) = g s" by (auto split: sum.splits if_splits)
    qed
  qed
  with assms(2) show ?thesis by blast
qed


lemma drain_from_no_error:
  assumes "drain_from (fallible (\<lambda>_. None) f) k acc d = Some res"
  shows "snd (fst res) = None"
proof -
  have "fallible (\<lambda>_. None) f = batch \<longrightarrow> snd (fst res) = None" if "drain_from batch k acc d = Some res" for batch
  proof (rule drain_from.raw_induct
      [where P = "\<lambda>batch k acc d res. fallible (\<lambda>_. None) f = batch \<longrightarrow> snd (fst res) = None", OF _ that])
    fix rec b k acc s res
    assume IH: "\<And>b k acc s res. rec b k acc s = Some res \<Longrightarrow> fallible (\<lambda>_. None) f = b \<longrightarrow> snd (fst res) = None"
      and step: "(case b k s of (Inl e, s') \<Rightarrow> Some ((acc, Some e), s')
         | (Inr deleted, s') \<Rightarrow> if deleted < RetentionCleanupLimit then Some ((acc + deleted, None), s')
            else rec b (Suc k) (acc + deleted) s') = Some res"
    show "fallible (\<lambda>_. None) f = b \<longrightarrow> snd (fst res) = None"
    proof
      assume b: "fallible (\<lambda>_. None) f = b"
      then have "b k s = (Inr (fst (f s)), snd (f s))" by (auto simp: fallible_def case_prod_unfold Let_def)
      with step IH b show "snd (fst res) = None" by (auto split: if_splits)
    qed
  qed
  with assms show ?thesis by blast
qed

context retention_table
begin

lemma cleaned_exactly:
  assumes "table_inv d"
  shows "\<exists>n d'. drainRetentionBatches (fallible (\<lambda>_. None) batch) d = Some ((n, None), d') \<and>
     set (tab d') = {r \<in> set (tab d). \<not> expired (ctx d) r}"
proof -
  obtain n e d' where r: "drainRetentionBatches (fallible (\<lambda>_. None) batch) d = Some ((n, e), d')"
    "set (tab d') \<subseteq> set (tab d)" "\<forall>r \<in> set (tab d). \<not> expired (ctx d) r \<longrightarrow> r \<in> set (tab d')"
    "e = None \<longrightarrow> (\<forall>r \<in> set (tab d'). \<not> expired (ctx d) r)"
    using cleanup_returns [OF assms, of "\<lambda>_. None"] by blast
  have "e = None" using drain_from_no_error [OF r(1) [unfolded drainRetentionBatches_def]] by simp
  with r show ?thesis by blast
qed

end

lemma drain_frame:
  "drainRetentionBatches (fallible err f) d = Some (r, d') \<Longrightarrow> (\<And>d. g (snd (f d)) = g d) \<Longrightarrow> g d' = g d"
  using drain_from_frame [of g f err 0 0 d "(r, d')"] by (simp add: drainRetentionBatches_def)

lemma batch_frames [simp]:
  "telegram_updates (snd (delete_notification_batch now d)) = telegram_updates d"
  "telegram_replies (snd (delete_notification_batch now d)) = telegram_replies d"
  "price_alerts (snd (delete_notification_batch now d)) = price_alerts d"
  "subscribers (snd (delete_notification_batch now d)) = subscribers d"
  "notification_jobs (snd (delete_update_batch now d)) = notification_jobs d"
  "telegram_replies (snd (delete_update_batch now d)) = telegram_replies d"
  "price_alerts (snd (delete_update_batch now d)) = price_alerts d"
  "subscribers (snd (delete_update_batch now d)) = subscribers d"
  "notification_jobs (snd (delete_reply_batch now d)) = notification_jobs d"
  "telegram_updates (snd (delete_reply_batch now d)) = telegram_updates d"
  "price_alerts (snd (delete_reply_batch now d)) = price_alerts d"
  "subscribers (snd (delete_reply_batch now d)) = subscribers d"
  "notification_jobs (snd (delete_alert_batch now d)) = notification_jobs d"
  "telegram_updates (snd (delete_alert_batch now d)) = telegram_updates d"
  "telegram_replies (snd (delete_alert_batch now d)) = telegram_replies d"
  "subscribers (snd (delete_alert_batch now d)) = subscribers d"
  by (simp_all add: delete_notification_batch_def delete_update_batch_def delete_reply_batch_def delete_alert_batch_def
      case_prod_unfold Let_def)

text \<open>
  C31: a retention run returns and removes exactly what has expired: the finished notifications, updates
  and replies that are older than their period, and the triggered or canceled alerts of 90 days that no
  notification refers to any more; open work and the subscribers are never touched.
\<close>

theorem retention_removes_expired:
  assumes "reachable d" "rr_errs run = (\<lambda>_ _. None)"
  shows "\<exists>d'. runNotificationRetentionCleanup run d = Some d' \<and>
     set (notification_jobs d') = {r \<in> set (notification_jobs d). \<not> nj_expired (rr_now run 0) r} \<and>
     set (telegram_updates d') = {r \<in> set (telegram_updates d). \<not> tu_expired (rr_now run 1) r} \<and>
     set (telegram_replies d') = {r \<in> set (telegram_replies d). \<not> tr_expired (rr_now run 2) r} \<and>
     set (price_alerts d') = {a \<in> set (price_alerts d). \<not> pa_expired (rr_now run 3) (notification_jobs d') a} \<and>
     subscribers d' = subscribers d"
proof -
  have inv: "db_inv d" using assms(1) by (rule reachable_inv)
  then have u: "unique_on nj_id (notification_jobs d)" "unique_on tu_update_id (telegram_updates d)"
    "unique_on tr_id (telegram_replies d)" "unique_on pa_id (price_alerts d)"
    by (simp_all add: db_inv_def jobs_inv_def updates_inv_def replies_inv_def alerts_inv_def)
  obtain n1 d1 where 1: "drainRetentionBatches (fallible (\<lambda>_. None) (delete_notification_batch (rr_now run 0))) d = Some ((n1, None), d1)"
    "set (notification_jobs d1) = {r \<in> set (notification_jobs d). \<not> nj_expired (rr_now run 0) r}"
    using clean_jobs.cleaned_exactly [OF u(1), of "rr_now run 0"] by blast
  have f1: "telegram_updates d1 = telegram_updates d" "telegram_replies d1 = telegram_replies d"
    "price_alerts d1 = price_alerts d" "subscribers d1 = subscribers d"
    by (rule drain_frame [OF 1(1)], simp)+
  obtain n2 d2 where 2: "drainRetentionBatches (fallible (\<lambda>_. None) (delete_update_batch (rr_now run 1))) d1 = Some ((n2, None), d2)"
    "set (telegram_updates d2) = {r \<in> set (telegram_updates d). \<not> tu_expired (rr_now run 1) r}"
    using clean_updates.cleaned_exactly [of d1 "rr_now run 1"] u(2) f1(1) by auto
  have f2: "notification_jobs d2 = notification_jobs d1" "telegram_replies d2 = telegram_replies d1"
    "price_alerts d2 = price_alerts d1" "subscribers d2 = subscribers d1"
    by (rule drain_frame [OF 2(1)], simp)+
  obtain n3 d3 where 3: "drainRetentionBatches (fallible (\<lambda>_. None) (delete_reply_batch (rr_now run 2))) d2 = Some ((n3, None), d3)"
    "set (telegram_replies d3) = {r \<in> set (telegram_replies d). \<not> tr_expired (rr_now run 2) r}"
    using clean_replies.cleaned_exactly [of d2 "rr_now run 2"] u(3) f1(2) f2(2) by auto
  have f3: "notification_jobs d3 = notification_jobs d2" "telegram_updates d3 = telegram_updates d2"
    "price_alerts d3 = price_alerts d2" "subscribers d3 = subscribers d2"
    by (rule drain_frame [OF 3(1)], simp)+
  obtain n4 d4 where 4: "drainRetentionBatches (fallible (\<lambda>_. None) (delete_alert_batch (rr_now run 3))) d3 = Some ((n4, None), d4)"
    "set (price_alerts d4) = {a \<in> set (price_alerts d3). \<not> pa_expired (rr_now run 3) (notification_jobs d3) a}"
    using clean_alerts.cleaned_exactly [of d3 "rr_now run 3"] u(4) f1(3) f2(3) f3(3) by auto
  have f4: "notification_jobs d4 = notification_jobs d3" "telegram_updates d4 = telegram_updates d3"
    "telegram_replies d4 = telegram_replies d3" "subscribers d4 = subscribers d3"
    by (rule drain_frame [OF 4(1)], simp)+
  have "runNotificationRetentionCleanup run d = Some d4"
    by (simp only: runNotificationRetentionCleanup_def cleanupNotificationJobHistory_def cleanupTelegramUpdateHistory_def
        cleanupTelegramReplyHistory_def cleanupPriceAlertHistory_def assms(2) 1(1) 2(1) 3(1) 4(1) Option.bind.simps prod.case)
  then show ?thesis using 1(2) 2(2) 3(2) 4(2) f1 f2 f3 f4 by simp
qed

theorem retention_removes_expired_witness:
  "\<exists>d'. runNotificationRetentionCleanup \<lparr>rr_errs = (\<lambda>_ _. None), rr_now = (\<lambda>_. 200 * day)\<rparr> ex_refused = Some d' \<and>
     notification_jobs d' = []"
proof -
  let ?run = "\<lparr>rr_errs = (\<lambda>_ _. None), rr_now = (\<lambda>_. 200 * day)\<rparr>"
  have "map (\<lambda>r. (nj_status r, nj_failed_at r)) (notification_jobs ex_refused) = [(Failed, Some (3 * hour))]" by code_simp
  then obtain r where r: "notification_jobs ex_refused = [r]" "nj_status r = Failed" "nj_failed_at r = Some (3 * hour)"
    by (cases "notification_jobs ex_refused") auto
  have "before (Some (3 * hour)) (200 * day - pg_interval (PostgresInterval NotificationFailedRetention))"
    by (simp add: before_def pg_interval_PostgresInterval)
  with r have "list_all (nj_expired (200 * day)) (notification_jobs ex_refused)" unfolding nj_expired_def by simp
  then have none: "{r \<in> set (notification_jobs ex_refused). \<not> nj_expired (200 * day) r} = {}"
    by (auto simp: list_all_iff)
  obtain d' where d': "runNotificationRetentionCleanup ?run ex_refused = Some d'"
    "set (notification_jobs d') = {r \<in> set (notification_jobs ex_refused). \<not> nj_expired (200 * day) r}"
    using retention_removes_expired [OF ex_refused_reachable, of ?run] by auto
  have "notification_jobs d' = []" using d'(2) unfolding none by simp
  with d'(1) show ?thesis by blast
qed


section \<open>Configuration\<close>

text \<open>
  C32: an accepted configuration is a safe one. It has all secrets, so the endpoints are never open to
  everybody, and the secret of the metrics does not open the cron endpoint; every chat is served by
  exactly one of the configured update workers; and the connections to the lock pool suffice for all
  workers and the cron run at once, so that no worker waits for a connection of another that waits for
  its lock.
\<close>

theorem accepted_configuration_is_safe:
  assumes "Load dotenv getenv = Inr cfg"
  shows "DatabaseURL cfg \<noteq> [] \<and> TelegramToken cfg \<noteq> [] \<and>
     cfg_webhook_secret (app_secrets cfg) \<noteq> [] \<and> cfg_cron_secret (app_secrets cfg) \<noteq> [] \<and> cfg_metrics_secret (app_secrets cfg) \<noteq> [] \<and>
     cronAuthMiddleware (app_secrets cfg) next (req\<lparr>r_authorization := ''Bearer '' @ MetricsSecret cfg\<rparr>) s =
       (HttpReply 401 [] [], count_app ''CronRunsTotal'' ''unauthorized'' s) \<and>
     (\<exists>!i. 0 \<le> i \<and> i < TelegramUpdateWorkers cfg \<and>
        telegramShardIndex chat TelegramUpdateShardCount \<in> set (telegramWorkerShardIDs i (TelegramUpdateWorkers cfg))) \<and>
     TelegramUpdateWorkers cfg + TelegramReplyWorkerCount + NotificationWorkerCount + CronLockConnectionReserve
       < DatabaseLockPoolMaxOpenConnections"
proof -
  obtain workers alerts where w: "worker_text (dotenv getenv ''TELEGRAM_UPDATE_WORKERS'') = Some workers"
    and cfg: "cfg = config_of (dotenv getenv) workers alerts" "complete cfg"
    using assms by (auto simp: Load_iff)
  have n: "TelegramUpdateWorkers cfg = workers" "1 \<le> workers" "workers \<le> 4"
    using worker_text_range [OF w] by (simp_all add: cfg(1) config_of_def)
  let ?s = "telegramShardIndex chat TelegramUpdateShardCount"
  have s: "0 \<le> ?s" "?s < 64" by (simp_all add: telegramShardIndex_mod)
  have "?s \<in> set (telegramWorkerShardIDs i workers) \<longleftrightarrow> i = ?s mod workers" if "0 \<le> i" "i < workers" for i
    using set_telegramWorkerShardIDs [OF that] s by auto
  then have "\<exists>!i. 0 \<le> i \<and> i < workers \<and> ?s \<in> set (telegramWorkerShardIDs i workers)"
    using n(2) by (intro ex1I [of _ "?s mod workers"]) (auto simp del: TelegramUpdateShardCount_def)
  moreover have "cronAuthMiddleware (app_secrets cfg) next (req\<lparr>r_authorization := ''Bearer '' @ MetricsSecret cfg\<rparr>) s =
       (HttpReply 401 [] [], count_app ''CronRunsTotal'' ''unauthorized'' s)"
    using cfg(2) by (simp add: cronAuthMiddleware_def safeSecretCompare_iff bearerToken_eq app_secrets_def complete_def)
  ultimately show ?thesis
    using cfg(2) n by (simp add: app_secrets_def complete_def)
qed

definition ex_environment :: environment where
  "ex_environment name =
     (if name = ''TELEGRAM_UPDATE_WORKERS'' then ''3'' else if name = ''CRON_SECRET'' then ''c''
      else if name \<in> {''DATABASE_URL'', ''TELEGRAM_APITOKEN'', ''WEBHOOK_SECRET_TOKEN'', ''METRICS_SECRET''} then ''x''
      else [])"

theorem accepted_configuration_is_safe_witness:
  "\<exists>cfg. Load id ex_environment = Inr cfg \<and>
     (\<exists>!i. 0 \<le> i \<and> i < TelegramUpdateWorkers cfg \<and>
        telegramShardIndex 42 TelegramUpdateShardCount \<in> set (telegramWorkerShardIDs i (TelegramUpdateWorkers cfg)))"
proof -
  have "\<not> isl (Load id ex_environment)" by code_simp
  then obtain cfg where cfg: "Load id ex_environment = Inr cfg" by (cases "Load id ex_environment") auto
  with accepted_configuration_is_safe [OF cfg, of undefined undefined undefined 42] show ?thesis by blast
qed


end
