(* ===== verification/Catalogue.thy ===== *)
theory Catalogue
  imports Schema
begin

text \<open>
  The translations of \<^verbatim>\<open>internal/telegram/catalog.go\<close> and \<^verbatim>\<open>internal/telegram/alerts.go\<close>, as the bytes of
  their UTF-8 encoding, with the look-ups \<^verbatim>\<open>Text\<close> and \<^verbatim>\<open>AlertText\<close>.

  The theories are ASCII, so the tables are written in a transliteration that \<open>decode\<close> turns into the
  bytes: \<^verbatim>\<open>{...}\<close> holds Cyrillic letters, one ASCII character for each by the table \<open>cyrillic\<close>,
  \<^verbatim>\<open><1F504>\<close> is the character with that code point, \<^verbatim>\<open>~\<close> a newline, everything else stands for itself.
\<close>

section \<open>Encoding\<close>

definition utf8 :: "int \<Rightarrow> string" where
  "utf8 n =
     (if n < 0x80 then [char_of n]
      else if n < 0x800 then [char_of (0xC0 + n div 64), char_of (0x80 + n mod 64)]
      else if n < 0x10000 then [char_of (0xE0 + n div 4096), char_of (0x80 + n div 64 mod 64), char_of (0x80 + n mod 64)]
      else [char_of (0xF0 + n div 262144), char_of (0x80 + n div 4096 mod 64), char_of (0x80 + n div 64 mod 64),
            char_of (0x80 + n mod 64)])"

text \<open>The letters, the frequent ones first.\<close>

definition cyrillic :: "(char \<times> int) list" where
  "cyrillic =
     [(CHR ''o'', 0x43E), (CHR ''n'', 0x43D), (CHR ''e'', 0x435), (CHR ''a'', 0x430), (CHR ''t'', 0x442),
      (CHR ''y'', 0x438), (CHR ''r'', 0x440), (CHR ''v'', 0x432), (CHR ''s'', 0x441), (CHR ''l'', 0x43B),
      (CHR ''k'', 0x43A), (CHR ''u'', 0x443), (CHR ''i'', 0x456), (CHR ''d'', 0x434), (CHR ''p'', 0x43F),
      (CHR ''m'', 0x43C), (CHR ''9'', 0x44F), (CHR ''5'', 0x44B), (CHR ''z'', 0x437), (CHR ''b'', 0x431),
      (CHR ''h'', 0x439), (CHR ''j'', 0x436), (CHR 0x60, 0x44C), (CHR ''q'', 0x447), (CHR ''x'', 0x445),
      (CHR ''g'', 0x433), (CHR ''P'', 0x41F), (CHR ''c'', 0x446), (CHR ''A'', 0x410), (CHR ''7'', 0x44E),
      (CHR ''w'', 0x448), (CHR ''3'', 0x454), (CHR ''D'', 0x414), (CHR ''K'', 0x41A), (CHR ''8'', 0x449),
      (CHR ''V'', 0x412), (CHR ''1'', 0x457), (CHR ''S'', 0x421), (CHR ''C'', 0x426), (CHR ''O'', 0x41E),
      (CHR ''T'', 0x422), (CHR ''N'', 0x41D), (CHR ''B'', 0x411), (CHR ''M'', 0x41C), (CHR ''Z'', 0x417),
      (CHR ''R'', 0x420), (CHR ''6'', 0x451), (CHR ''U'', 0x423), (CHR ''Q'', 0x427), (CHR ''2'', 0x44D),
      (CHR ''Y'', 0x418), (CHR ''L'', 0x41B), (CHR ''f'', 0x444), (CHR ''F'', 0x424), (CHR ''J'', 0x416),
      (CHR ''G'', 0x413), (CHR ''E'', 0x415), (CHR ''I'', 0x406), (CHR ''X'', 0x425), (CHR ''W'', 0x428),
      (CHR ''H'', 0x419)]"

definition hex_digits :: "(char \<times> int) list" where
  "hex_digits = zip ''0123456789ABCDEF'' [0, 1, 2, 3, 4, 5, 6, 7, 8, 9, 10, 11, 12, 13, 14, 15]"

text \<open>The decoder is between characters, of Cyrillic text or not, or inside a code point.\<close>

datatype decoder = Chars bool | Point bool int

definition next_state :: "decoder \<Rightarrow> char \<Rightarrow> decoder" where
  "next_state st c =
     (case st of
        Chars cyr \<Rightarrow>
          (if c = CHR ''{'' then Chars True else if c = CHR ''}'' then Chars False
           else if c = CHR ''<'' then Point cyr 0 else st)
      | Point cyr n \<Rightarrow>
          (if c = CHR ''>'' then Chars cyr
           else Point cyr (16 * n + (case map_of hex_digits c of None \<Rightarrow> 0 | Some v \<Rightarrow> v))))"

definition decoded :: "decoder \<Rightarrow> char \<Rightarrow> string" where
  "decoded st c =
     (case st of
        Chars cyr \<Rightarrow>
          (if c = CHR ''{'' \<or> c = CHR ''}'' \<or> c = CHR ''<'' then []
           else if c = CHR ''~'' then [CHR 0x0A]
           else (case (if cyr then map_of cyrillic c else None) of None \<Rightarrow> [c] | Some n \<Rightarrow> utf8 n))
      | Point cyr n \<Rightarrow> (if c = CHR ''>'' then utf8 n else []))"

fun decode_from :: "decoder \<Rightarrow> string \<Rightarrow> string" where
  "decode_from st [] = []"
| "decode_from st (c # s) = decoded st c @ decode_from (next_state st c) s"

definition decode :: "string \<Rightarrow> string" where
  "decode s = decode_from (Chars False) s"

section \<open>The catalogue of the bot\<close>

definition messages_ua :: "(string \<times> string) list" where
  "messages_ua =
     [(''welcome'', ''{Vita7}! <1F596> {Tvih krypto-asystent uje na zv}<2019>{9zku}! <26A1><FE0F>~~<1F539> Live-{kursy}: BTC, ETH, SOL, BNB, USDT.~<1F539> Smart-{spovi8enn9: Obyrah qastotu} (1 {xv} <2013> 24 {god}).~<1F539> UAH-{market: Kurs} USDT {do gryvni}.~~{Tysny} **/subscribe** {dl9 startu}!''),
      (''subscribe'', ''<2705> {Pidpyska aktyvovana! Zminyty qastotu}: /interval''),
      (''subscribe_first'', ''<26A0><FE0F> {Spoqatku aktyvuhte pidpysku}: /subscribe''),
      (''unsubscribe'', ''<274C> {Vy vidpysalys9 vid rozsylky. Nalawtuvann9 movy zberejeno}.''),
      (''price_hdr'', ''<1F4B0> *{Kursy kryptoval7t}:*''),
      (''interval_m'', ''<2699><FE0F> *{Oberit` qastotu povidomlen`}:*''),
      (''interval_set'', ''<2705> {Teper 9 budu nadsylaty kurs kojni} %d %s.''),
      (''lang_sel'', ''<1F30D> *{Oberit` movu}:*''),
      (''lang_fixed'', ''<2705> {Movu zmineno na Ukra1ns`ku}!''),
      (''price_data_time'', ''<1F552> _{Dani stanom na} %s ({Ky1v})_''),
      (''stale_data'', ''<26A0><FE0F> {Qastyna danyx zastarila: ostann3 uspiwne onovlenn9 bulo ponad} 1 {xv tomu}.''),
      (''alert_hdr'', ''<1F552> *{Planove onovlenn9} (%s)*''),
      (''dynamics'', ''{Zmina vid poperedn`ogo uspiwnogo onovlenn9}''),
      (''delay_warning'', ''<26A0><FE0F> {Dostavku zatrymano; znimok cin moje buty zastarilym}.''),
      (''unit_m'', ''{xv}''),
      (''unit_h'', ''{god}''),
      (''btn_upd'', ''<1F504> {Onovyty}''),
      (''db_err'', ''<274C> {Vynykla texniqna pomylka pry zberejenni danyx. Bud` laska, sprobuhte pizniwe}.''),
      (''no_data'', ''{nema3 danyx}'')]"

definition messages_en :: "(string \<times> string) list" where
  "messages_en =
     [(''welcome'', ''Welcome! <1F596> Your crypto assistant is online! <26A1><FE0F>~~<1F539> Live rates: BTC, ETH, SOL, BNB, USDT.~<1F539> Smart alerts: Frequency (1 min <2013> 24h).~<1F539> UAH market: USDT to UAH rate.~~Press **/subscribe** to start!''),
      (''subscribe'', ''<2705> Subscription activated! Change frequency: /interval''),
      (''subscribe_first'', ''<26A0><FE0F> Please subscribe first: /subscribe''),
      (''unsubscribe'', ''<274C> You have unsubscribed. Language settings saved.''),
      (''price_hdr'', ''<1F4B0> *Cryptocurrency rates:*''),
      (''interval_m'', ''<2699><FE0F> *Choose alert frequency:*''),
      (''interval_set'', ''<2705> Now I will send the rates every %d %s.''),
      (''lang_sel'', ''<1F30D> *Select your language:*''),
      (''lang_fixed'', ''<2705> Language changed to English!''),
      (''price_data_time'', ''<1F552> _Data as of %s (Kyiv)_''),
      (''stale_data'', ''<26A0><FE0F> Some data is stale: the last successful update was more than 1 minute ago.''),
      (''alert_hdr'', ''<1F552> *Scheduled update (%s)*''),
      (''dynamics'', ''Change since the previous successful update''),
      (''delay_warning'', ''<26A0><FE0F> Delivery was delayed; this price snapshot may be stale.''),
      (''unit_m'', ''min''),
      (''unit_h'', ''h''),
      (''btn_upd'', ''<1F504> Update''),
      (''db_err'', ''<274C> A technical error occurred while saving data. Please try again later.''),
      (''no_data'', ''no data available'')]"

definition messages_ru :: "(string \<times> string) list" where
  "messages_ru =
     [(''welcome'', ''{Pryvet}! <1F596> {Tvoh krypto-assystent uje na sv9zy}! <26A1><FE0F>~~<1F539> Live-{kurs5}: BTC, ETH, SOL, BNB, USDT.~<1F539> Smart-{uvedomleny9: Qastota} (1 {myn} <2013> 24 {q}).~<1F539> UAH-{market: Kurs} USDT {k gryvne}.~~{Jmy} **/subscribe** {dl9 starta}!''),
      (''subscribe'', ''<2705> {Podpyska aktyvyrovana! Yzmenyt` qastotu}: /interval''),
      (''subscribe_first'', ''<26A0><FE0F> {Snaqala aktyvyruhte podpysku}: /subscribe''),
      (''unsubscribe'', ''<274C> {V5 otpysalys` ot rass5lky. Nastrohky 9z5ka soxranen5}.''),
      (''price_hdr'', ''<1F4B0> *{Kurs5 kryptoval7t}:*''),
      (''interval_m'', ''<2699><FE0F> *{V5beryte qastotu uvedomlenyh}:*''),
      (''interval_set'', ''<2705> {Teper` 9 budu prys5lat` kurs kajd5e} %d %s.''),
      (''lang_sel'', ''<1F30D> *{V5beryte 9z5k}:*''),
      (''lang_fixed'', ''<2705> <42F>{z5k yzmenen na Russkyh}!''),
      (''price_data_time'', ''<1F552> _{Dann5e na} %s ({Kyev})_''),
      (''stale_data'', ''<26A0><FE0F> {Qast` dann5x ustarela: poslednee uspewnoe obnovlenye b5lo bolee} 1 {mynut5 nazad}.''),
      (''alert_hdr'', ''<1F552> *{Planovoe obnovlenye} (%s)*''),
      (''dynamics'', ''{Yzmenenye s pred5du8ego uspewnogo obnovleny9}''),
      (''delay_warning'', ''<26A0><FE0F> {Dostavka zaderjalas`; snymok cen mojet b5t` ustarevwym}.''),
      (''unit_m'', ''{myn}''),
      (''unit_h'', ''{q}''),
      (''btn_upd'', ''<1F504> Update''),
      (''db_err'', ''<274C> {Proyzowla texnyqeska9 owybka pry soxranenyy dann5x. Pojaluhsta, poprobuhte pozje}.''),
      (''no_data'', ''{net dann5x}'')]"

definition messages :: "(string \<times> (string \<times> string) list) list" where
  "messages = [(''ua'', messages_ua), (''en'', messages_en), (''ru'', messages_ru)]"

section \<open>The catalogue of the alerts\<close>

definition alertMessages_ua :: "(string \<times> string) list" where
  "alertMessages_ua =
     [(''menu'', ''*{Cinovi alerty}*~{Oberit` monetu. Vidsotok raxu3t`s9 vid ciny pid qas stvorenn9. Alert odnorazovyh}.~{Vlasnyh vidsotok}: `/alerts BTC +7.5` {abo} `/alerts ETH -12`.''),
      (''coin'', ''*%s: {oberit` zminu ciny}*''),
      (''up'', ''{Zrostann9 na} %s%%''),
      (''down'', ''{Padinn9 na} %s%%''),
      (''list'', ''{Alerty qatu}''),
      (''back'', ''{Monety}''),
      (''cancel'', ''{Skasuvaty} #%d''),
      (''created'', ''*{Alert} #%d {stvoreno}: %s %+.2f%%*~{Bazova cina}: %.8g USDT~{Porig}: %.8g USDT~{Dani}: %s ({Ky1v}).~{Porig fiksovanyh; perevirka za otrymanymy kotyruvann9my, ne za kojno7 birjovo7 ugodo7}.''),
      (''triggered_message'', ''*{Cinovyh alert}: %s %+.2f%%*~{Bazova cina}: %.8g USDT~{Porig}: %.8g USDT~{Cina pry sprac7vanni}: %.8g USDT~{Dani}: %s ({Ky1v}).~{Alert odnorazovyh. Novyh}: /alerts''),
      (''invalid'', ''{Format}: `/alerts BTC +7.5`. {Monety}: BTC, ETH, SOL, BNB. {Zrostann9}: 0.01<2013>1000%; {padinn9}: 0.01<2013>99.99%. {Do dvox znakiv pisl9 krapky}.''),
      (''stale'', ''{Nema3 svijo1 korektno1 ciny. Alert ne stvoreno; sprobuhte pisl9 onovlenn9 kotyruvan`}.''),
      (''limit'', ''{Limit}: 10 {aktyvnyx alertiv abo povidomlen`, 8o oqiku7t` dostavky. Skasuhte zahvi qerez} /alerts.''),
      (''duplicate'', ''{Takyh aktyvnyh alert uje isnu3, abo c7 komandu vje obrobleno}.''),
      (''disabled'', ''{Stvorenn9 ta perevirku novyx alertiv vymkneno. Raniwe stvoreni povidomlenn9 mojut` 8e dostavl9tys9; 1x mojna skasuvaty u spysku}.''),
      (''empty'', ''{Alertiv nema3}.''),
      (''canceled'', ''{Alert skasovano}.''),
      (''not_found'', ''{Aktyvnogo alerta v c`omu qati nema3. Uje nadislane povidomlenn9 ne vidklyka3t`s9}.''),
      (''independent'', ''{Cinovi alerty nezalejni vid regul9rno1 rozsylky. Peregl9d i skasuvann9}: /alerts.''),
      (''active'', ''{aktyvnyh}''),
      (''triggered'', ''{sprac7vav}''),
      (''pending'', ''{oqiku3 dostavky}''),
      (''sending'', ''{dostavl93t`s9}''),
      (''sent'', ''{dostavleno}''),
      (''failed'', ''{ne dostavleno}''),
      (''canceled_state'', ''{skasovano}'')]"

definition alertMessages_en :: "(string \<times> string) list" where
  "alertMessages_en =
     [(''menu'', ''*Price alerts*~Choose a coin. The percentage is relative to the price when the alert is created. Each alert fires once.~Custom percentage: `/alerts BTC +7.5` or `/alerts ETH -12`.''),
      (''coin'', ''*%s: choose a price change*''),
      (''up'', ''Rise by %s%%''),
      (''down'', ''Fall by %s%%''),
      (''list'', ''Chat alerts''),
      (''back'', ''Coins''),
      (''cancel'', ''Cancel #%d''),
      (''created'', ''*Alert #%d created: %s %+.2f%%*~Base price: %.8g USDT~Target: %.8g USDT~Data: %s (Kyiv).~The target is fixed; checks use sampled quotes, not every exchange trade.''),
      (''triggered_message'', ''*Price alert: %s %+.2f%%*~Base price: %.8g USDT~Target: %.8g USDT~Price at trigger: %.8g USDT~Data: %s (Kyiv).~This is a one-shot alert. New alert: /alerts''),
      (''invalid'', ''Format: `/alerts BTC +7.5`. Coins: BTC, ETH, SOL, BNB. Rise: 0.01<2013>1000%; fall: 0.01<2013>99.99%. Up to two decimal places.''),
      (''stale'', ''No fresh valid price is available. Alert not created; try again after quotes update.''),
      (''limit'', ''Limit: 10 active alerts or queued deliveries. Cancel unwanted alerts with /alerts.''),
      (''duplicate'', ''This active alert already exists, or this command has already been processed.''),
      (''disabled'', ''New alert creation and evaluation are disabled. Previously queued messages may still be delivered; you can cancel them in the list.''),
      (''empty'', ''No alerts.''),
      (''canceled'', ''Alert canceled.''),
      (''not_found'', ''No active alert in this chat. Messages already sent cannot be recalled.''),
      (''independent'', ''Price alerts are independent of regular updates. View and cancel them with /alerts.''),
      (''active'', ''active''),
      (''triggered'', ''triggered''),
      (''pending'', ''awaiting delivery''),
      (''sending'', ''sending''),
      (''sent'', ''delivered''),
      (''failed'', ''delivery failed''),
      (''canceled_state'', ''canceled'')]"

definition alertMessages_ru :: "(string \<times> string) list" where
  "alertMessages_ru =
     [(''menu'', ''*{Cenov5e alert5}*~{V5beryte monetu. Procent sqytaets9 ot cen5 pry sozdanyy. Alert odnorazov5h}.~{Svoh procent}: `/alerts BTC +7.5` {yly} `/alerts ETH -12`.''),
      (''coin'', ''*%s: {v5beryte yzmenenye cen5}*''),
      (''up'', ''{Rost na} %s%%''),
      (''down'', ''{Padenye na} %s%%''),
      (''list'', ''{Alert5 qata}''),
      (''back'', ''{Monet5}''),
      (''cancel'', ''{Otmenyt`} #%d''),
      (''created'', ''*{Alert} #%d {sozdan}: %s %+.2f%%*~{Bazova9 cena}: %.8g USDT~{Porog}: %.8g USDT~{Dann5e}: %s ({Kyev}).~{Porog fyksyrovan; proverka po poluqenn5m kotyrovkam, ne po kajdoh byrjevoh sdelke}.''),
      (''triggered_message'', ''*{Cenovoh alert}: %s %+.2f%%*~{Bazova9 cena}: %.8g USDT~{Porog}: %.8g USDT~{Cena pry srabat5vanyy}: %.8g USDT~{Dann5e}: %s ({Kyev}).~{Alert odnorazov5h. Nov5h}: /alerts''),
      (''invalid'', ''{Format}: `/alerts BTC +7.5`. {Monet5}: BTC, ETH, SOL, BNB. {Rost}: 0.01<2013>1000%; {padenye}: 0.01<2013>99.99%. {Do dvux znakov posle toqky}.''),
      (''stale'', ''{Net svejeh korrektnoh cen5. Alert ne sozdan; poprobuhte posle obnovleny9 kotyrovok}.''),
      (''limit'', ''{Lymyt}: 10 {aktyvn5x alertov yly soob8enyh v oqeredy. Otmenyte lywnye qerez} /alerts.''),
      (''duplicate'', ''{Takoh aktyvn5h alert uje su8estvuet, yly 2ta komanda uje obrabotana}.''),
      (''disabled'', ''{Sozdanye y proverka nov5x alertov v5kl7qen5. Soob8eny9 yz oqeredy mogut e86 dostavl9t`s9; yx mojno otmenyt` v spyske}.''),
      (''empty'', ''{Alertov net}.''),
      (''canceled'', ''{Alert otmen6n}.''),
      (''not_found'', ''{Aktyvnogo alerta v 2tom qate net. Uje otpravlennoe soob8enye ne otz5vaets9}.''),
      (''independent'', ''{Cenov5e alert5 nezavysym5 ot regul9rnoh rass5lky. Prosmotr y otmena}: /alerts.''),
      (''active'', ''{aktyvn5h}''),
      (''triggered'', ''{srabotal}''),
      (''pending'', ''{ojydaet dostavky}''),
      (''sending'', ''{dostavl9ets9}''),
      (''sent'', ''{dostavleno}''),
      (''failed'', ''{ne dostavleno}''),
      (''canceled_state'', ''{otmen6n}'')]"

definition alertMessages :: "(string \<times> (string \<times> string) list) list" where
  "alertMessages = [(''ua'', alertMessages_ua), (''en'', alertMessages_en), (''ru'', alertMessages_ru)]"

section \<open>Look-ups\<close>

text \<open>An index into nested Go maps: the zero value, the empty string, where a key is missing.\<close>

definition entry :: "(string \<times> (string \<times> string) list) list \<Rightarrow> string \<Rightarrow> string \<Rightarrow> string" where
  "entry tables language key =
     (case map_of tables language of
        None \<Rightarrow> []
      | Some texts \<Rightarrow> (case map_of texts key of None \<Rightarrow> [] | Some txt \<Rightarrow> decode txt))"

definition catalogue_Text :: "string \<Rightarrow> string \<Rightarrow> string" where
  "catalogue_Text language key =
     (if entry messages language key \<noteq> [] then entry messages language key
      else if entry messages ''ua'' key \<noteq> [] then entry messages ''ua'' key
      else decode ''<26A0><FE0F> [Missing Translation]'')"

definition catalogue_AlertText :: "string \<Rightarrow> string \<Rightarrow> string" where
  "catalogue_AlertText lang key =
     (if entry alertMessages lang key \<noteq> [] then entry alertMessages lang key else entry alertMessages ''ua'' key)"

end
