(* ===== verification/Catalogue_Facts.thy ===== *)
theory Catalogue_Facts
  imports Catalogue
begin

text \<open>
  The catalogues are complete: every key has a text in every language, and the translations of a text
  that is used as a format have the same directives, so the arguments fit in every language.
\<close>

section \<open>Formats\<close>

text \<open>The directives of a \<^verbatim>\<open>fmt\<close> format, without the percent sign; \<^verbatim>\<open>%%\<close> is none.\<close>

definition is_verb :: "char \<Rightarrow> bool" where
  "is_verb c \<longleftrightarrow> c \<in> {CHR ''s'', CHR ''d'', CHR ''f'', CHR ''g''}"

text \<open>\<open>Some v\<close>: the directive with the characters \<open>v\<close> so far.\<close>

fun directive_step :: "string option \<Rightarrow> char \<Rightarrow> string list \<times> string option" where
  "directive_step None c = ([], if c = CHR ''%'' then Some [] else None)"
| "directive_step (Some v) c =
     (if v = [] \<and> c = CHR ''%'' then ([], None)
      else if is_verb c then ([v @ [c]], None)
      else ([], Some (v @ [c])))"

fun directives_from :: "string option \<Rightarrow> string \<Rightarrow> string list" where
  "directives_from None [] = []"
| "directives_from (Some v) [] = [v]"
| "directives_from st (c # s) = fst (directive_step st c) @ directives_from (snd (directive_step st c)) s"

definition directives :: "string \<Rightarrow> string list" where
  "directives s = directives_from None s"

text \<open>A text that no language lacks.\<close>

definition translated :: "(string \<times> (string \<times> string) list) list \<Rightarrow> string \<Rightarrow> bool" where
  "translated tables key \<longleftrightarrow> list_all (\<lambda>language. entry tables language key \<noteq> []) [''ua'', ''en'', ''ru'']"

section \<open>The entries of the catalogues\<close>

text \<open>The directives every translation of a key has, where the key is used as a format.\<close>

definition formats :: "(string \<times> string list) list" where
  "formats =
     [(''interval_set'', [''d'', ''s'']), (''price_data_time'', [''s'']), (''alert_hdr'', [''s'']), (''price_hdr'', []),
      (''coin'', [''s'']), (''up'', [''s'']), (''down'', [''s'']), (''cancel'', [''d'']),
      (''created'', [''d'', ''s'', ''+.2f'', ''.8g'', ''.8g'', ''s'']),
      (''triggered_message'', [''s'', ''+.2f'', ''.8g'', ''.8g'', ''.8g'', ''s''])]"

definition text_ok :: "string list option \<Rightarrow> string \<Rightarrow> bool" where
  "text_ok ds txt \<longleftrightarrow> txt \<noteq> [] \<and> (case ds of None \<Rightarrow> True | Some ds \<Rightarrow> directives txt = ds)"

definition entry_ok :: "string \<times> string \<Rightarrow> bool" where
  "entry_ok kt \<longleftrightarrow> text_ok (map_of formats (fst kt)) (decode (snd kt))"

lemma messages_ua_ok: "list_all entry_ok messages_ua"
  unfolding messages_ua_def list.pred_inject by (intro conjI TrueI; code_simp)

lemma messages_en_ok: "list_all entry_ok messages_en"
  unfolding messages_en_def list.pred_inject by (intro conjI TrueI; code_simp)

lemma messages_ru_ok: "list_all entry_ok messages_ru"
  unfolding messages_ru_def list.pred_inject by (intro conjI TrueI; code_simp)

lemma alertMessages_ua_ok: "list_all entry_ok alertMessages_ua"
  unfolding alertMessages_ua_def list.pred_inject by (intro conjI TrueI; code_simp)

lemma alertMessages_en_ok: "list_all entry_ok alertMessages_en"
  unfolding alertMessages_en_def list.pred_inject by (intro conjI TrueI; code_simp)

lemma alertMessages_ru_ok: "list_all entry_ok alertMessages_ru"
  unfolding alertMessages_ru_def list.pred_inject by (intro conjI TrueI; code_simp)

section \<open>The look-ups\<close>

definition text_keys :: "string list" where
  "text_keys =
     [''welcome'', ''subscribe'', ''subscribe_first'', ''unsubscribe'', ''price_hdr'', ''interval_m'',
      ''interval_set'', ''lang_sel'', ''lang_fixed'', ''price_data_time'', ''stale_data'', ''alert_hdr'',
      ''dynamics'', ''delay_warning'', ''unit_m'', ''unit_h'', ''btn_upd'', ''db_err'', ''no_data'']"

definition alert_text_keys :: "string list" where
  "alert_text_keys =
     [''menu'', ''coin'', ''up'', ''down'', ''list'', ''back'', ''cancel'', ''created'',
      ''triggered_message'', ''invalid'', ''stale'', ''limit'', ''duplicate'', ''disabled'', ''empty'',
      ''canceled'', ''not_found'', ''independent'', ''active'', ''triggered'', ''pending'', ''sending'',
      ''sent'', ''failed'', ''canceled_state'']"

text \<open>All languages have the same keys, and every entry is in order.\<close>

definition tables_ok :: "string list \<Rightarrow> (string \<times> (string \<times> string) list) list \<Rightarrow> bool" where
  "tables_ok keys tables \<longleftrightarrow>
     map fst tables = [''ua'', ''en'', ''ru''] \<and>
     list_all (\<lambda>(language, texts). map fst texts = keys \<and> list_all entry_ok texts) tables"

lemma messages_tables_ok: "tables_ok text_keys messages"
  by (simp add: tables_ok_def messages_def messages_ua_ok messages_en_ok messages_ru_ok)
    (simp add: messages_ua_def messages_en_def messages_ru_def text_keys_def)

lemma alertMessages_tables_ok: "tables_ok alert_text_keys alertMessages"
  by (simp add: tables_ok_def alertMessages_def alertMessages_ua_ok alertMessages_en_ok alertMessages_ru_ok)
    (simp add: alertMessages_ua_def alertMessages_en_def alertMessages_ru_def alert_text_keys_def)

lemma entry_found:
  assumes "tables_ok keys tables" "key \<in> set keys" "language \<in> {''ua'', ''en'', ''ru''}"
  shows "text_ok (map_of formats key) (entry tables language key)"
proof -
  have "language \<in> fst ` set tables"
    using assms(1,3) by (simp add: tables_ok_def flip: list.set_map)
  then obtain texts where tab: "map_of tables language = Some texts"
    by (metis domIff dom_map_of_conv_image_fst not_None_eq)
  then have "(language, texts) \<in> set tables" by (rule map_of_SomeD)
  with assms(1) have ts: "map fst texts = keys" "list_all entry_ok texts" by (auto simp: tables_ok_def list_all_iff)
  from ts(1) assms(2) obtain t where x: "map_of texts key = Some t"
    by (metis domIff dom_map_of_conv_image_fst list.set_map not_None_eq)
  then have "entry_ok (key, t)" using ts(2) by (auto simp: list_all_iff dest: map_of_SomeD)
  with tab x show ?thesis by (simp add: entry_ok_def entry_def)
qed

lemma entry_nonempty: "text_ok ds txt \<Longrightarrow> txt \<noteq> []"
  by (simp add: text_ok_def)

lemma translated_key: "tables_ok keys tables \<Longrightarrow> key \<in> set keys \<Longrightarrow> translated tables key"
  by (simp add: translated_def entry_nonempty [OF entry_found])

text \<open>Every other language code falls back to Ukrainian.\<close>

lemma entry_unknown:
  assumes "tables_ok keys tables" "language \<notin> {''ua'', ''en'', ''ru''}"
  shows "entry tables language key = []"
proof -
  have "language \<notin> fst ` set tables"
    using assms by (simp add: tables_ok_def flip: list.set_map)
  then have "map_of tables language = None" by (simp add: map_of_eq_None_iff)
  then show ?thesis by (simp add: entry_def)
qed

lemma catalogue_Text_ok:
  assumes "key \<in> set text_keys"
  shows "text_ok (map_of formats key) (catalogue_Text language key)"
proof (cases "language \<in> {''ua'', ''en'', ''ru''}")
  case True
  from entry_found [OF messages_tables_ok assms True] show ?thesis
    by (simp add: catalogue_Text_def entry_nonempty)
next
  case False
  from entry_found [OF messages_tables_ok assms, of "''ua''"] show ?thesis
    by (simp add: catalogue_Text_def entry_unknown [OF messages_tables_ok False] entry_nonempty)
qed

lemma catalogue_AlertText_ok:
  assumes "key \<in> set alert_text_keys"
  shows "text_ok (map_of formats key) (catalogue_AlertText language key)"
proof (cases "language \<in> {''ua'', ''en'', ''ru''}")
  case True
  from entry_found [OF alertMessages_tables_ok assms True] show ?thesis
    by (simp add: catalogue_AlertText_def entry_nonempty)
next
  case False
  from entry_found [OF alertMessages_tables_ok assms, of "''ua''"] show ?thesis
    by (simp add: catalogue_AlertText_def entry_unknown [OF alertMessages_tables_ok False] entry_nonempty)
qed

lemma directives_append: "directives s = [] \<Longrightarrow> directives (s @ t) = directives t"
proof -
  have "directives_from st s = [] \<Longrightarrow> directives_from st (s @ t) = directives_from None t" for st
    by (induction st s rule: directives_from.induct) auto
  then show "directives s = [] \<Longrightarrow> ?thesis" by (simp add: directives_def)
qed

end
