(* ===== verification/Message_Facts.thy ===== *)
theory Message_Facts
  imports Catalogue_Facts Inbox
begin

text \<open>
  Every text of the bot is complete: its catalogue entries exist in every language, and the directives of
  every format fit the arguments it is given, so no user sees \<^verbatim>\<open>[Missing Translation]\<close>, an empty message
  part or a \<^verbatim>\<open>%!d(MISSING)\<close>.
\<close>

section \<open>Complete messages\<close>

text \<open>What an argument can be printed with.\<close>

fun fits :: "string \<Rightarrow> arg \<Rightarrow> bool" where
  "fits v (AInt i) = (v = ''d'')"
| "fits v (AStr s) = (v = ''s'')"
| "fits v (AFloat x) = (v = ''.8g'' \<or> v = ''+.2f'' \<or> v = ''.2f'')"
| "fits v (ATime l t) = (v = ''s'')"
| "fits v (AMsg m) = (v = ''s'')"

text \<open>The format string of a message that is not itself formatted.\<close>

fun format_text :: "msg \<Rightarrow> string option" where
  "format_text (Lit s) = Some s"
| "format_text (Text language key) = Some (catalogue_Text language key)"
| "format_text (AlertText lang key) = Some (catalogue_AlertText lang key)"
| "format_text (Cat a b) =
     (case (format_text a, format_text b) of (Some s, Some t) \<Rightarrow> Some (s @ t) | _ \<Rightarrow> None)"
| "format_text (Sprintf f args) = None"

fun complete_msg :: "msg \<Rightarrow> bool" and complete_arg :: "arg \<Rightarrow> bool" where
  "complete_msg (Lit s) = True"
| "complete_msg (Text language key) = translated messages key"
| "complete_msg (AlertText lang key) = translated alertMessages key"
| "complete_msg (Cat a b) = (complete_msg a \<and> complete_msg b)"
| "complete_msg (Sprintf f args) =
     (complete_msg f \<and> list_all complete_arg args \<and>
      (case format_text f of None \<Rightarrow> False | Some s \<Rightarrow> list_all2 fits (directives s) args))"
| "complete_arg (AMsg m) = complete_msg m"
| "complete_arg (AInt i) = True"
| "complete_arg (AStr s) = True"
| "complete_arg (AFloat x) = True"
| "complete_arg (ATime l t) = True"

lemma complete_Text [simp]: "key \<in> set text_keys \<Longrightarrow> complete_msg (Text language key)"
  by (simp add: translated_key [OF messages_tables_ok])

lemma complete_AlertText [simp]: "key \<in> set alert_text_keys \<Longrightarrow> complete_msg (AlertText language key)"
  by (simp add: translated_key [OF alertMessages_tables_ok])

text \<open>Formats of the catalogues, of literals, and of a title followed by a literal.\<close>

lemma format_directives:
  "key \<in> set text_keys \<Longrightarrow> map_of formats key = Some ds \<Longrightarrow> directives (catalogue_Text language key) = ds"
  "key' \<in> set alert_text_keys \<Longrightarrow> map_of formats key' = Some ds \<Longrightarrow> directives (catalogue_AlertText language key') = ds"
  using catalogue_Text_ok [of key language] catalogue_AlertText_ok [of key' language] by (simp_all add: text_ok_def)

lemma complete_Sprintf_Text:
  "key \<in> set text_keys \<Longrightarrow> map_of formats key = Some ds \<Longrightarrow> list_all complete_arg args \<Longrightarrow> list_all2 fits ds args \<Longrightarrow>
   complete_msg (Sprintf (Text language key) args)"
  by (simp add: format_directives translated_key [OF messages_tables_ok] translated_key [OF alertMessages_tables_ok])

lemma complete_Sprintf_AlertText:
  "key \<in> set alert_text_keys \<Longrightarrow> map_of formats key = Some ds \<Longrightarrow> list_all complete_arg args \<Longrightarrow> list_all2 fits ds args \<Longrightarrow>
   complete_msg (Sprintf (AlertText language key) args)"
  by (simp add: format_directives translated_key [OF messages_tables_ok] translated_key [OF alertMessages_tables_ok])

lemma complete_Sprintf_Lit:
  "list_all complete_arg args \<Longrightarrow> list_all2 fits (directives f) args \<Longrightarrow> complete_msg (Sprintf (Lit f) args)"
  by simp

lemma complete_Sprintf_titled:
  "key \<in> set text_keys \<Longrightarrow> map_of formats key = Some [] \<Longrightarrow> list_all complete_arg args \<Longrightarrow>
   list_all2 fits (directives f) args \<Longrightarrow> complete_msg (Sprintf (Cat (Text language key) (Lit f)) args)"
  by (simp add: format_directives directives_append translated_key [OF messages_tables_ok])

declare complete_msg.simps(2,3,5) [simp del]

lemma complete_join_lines: "list_all complete_msg ms \<Longrightarrow> complete_msg (join_lines ms)"
  by (induction ms rule: join_lines.induct) auto

section \<open>The price list\<close>

lemma price_formats:
  "directives (emoji_white @ '' %s: %s'') = [''s'', ''s'']"
  "directives ''+%.2f%%'' = [''.2f'']" "directives ''%.2f%%'' = [''.2f'']"
  "directives hryvnia_fmt = [''s'', ''s'', ''.2f'', ''s'']"
  "directives ''%s %s: *$%.2f* (`%s`)'' = [''s'', ''s'', ''.2f'', ''s'']"
  by code_simp+

lemma complete_price_line: "complete_msg (price_line now lang c coin)"
  by (auto simp: price_line_def Let_def price_formats text_keys_def
      intro!: complete_Sprintf_Lit split: option.split)

lemma complete_price_lines: "list_all complete_msg (price_lines lang now c)"
proof -
  have "complete_msg (Sprintf (Text lang ''price_data_time'') [ATime l t])" for l t
    by (rule complete_Sprintf_Text [where ds = "[''s'']"]) (simp_all add: text_keys_def formats_def)
  then show ?thesis
    by (auto simp: price_lines_def complete_price_line list_all_iff text_keys_def)
qed

lemma complete_prices: "complete_msg (getFormattedPricesFromCacheAt lang now c)"
  by (simp add: getFormattedPricesFromCacheAt_def complete_join_lines complete_price_lines)

section \<open>Keyboards and replies\<close>

definition complete_keyboard :: "keyboard \<Rightarrow> bool" where
  "complete_keyboard k \<longleftrightarrow> list_all (list_all (\<lambda>b. complete_msg (btn_text b))) k"

fun complete_markup :: "markup_arg \<Rightarrow> bool" where
  "complete_markup MNil = True"
| "complete_markup (MKeyboard k) = complete_keyboard k"
| "complete_markup (MKeyboardPtr p) = (case p of None \<Rightarrow> True | Some k \<Rightarrow> complete_keyboard k)"
| "complete_markup (MOther t) = False"

definition complete_reply :: "telegram_reply \<Rightarrow> bool" where
  "complete_reply r \<longleftrightarrow>
     complete_msg (rep_text r) \<and> (case rep_markup r of None \<Rightarrow> True | Some k \<Rightarrow> complete_keyboard k)"

definition complete_collector :: "collector \<Rightarrow> bool" where
  "complete_collector c \<longleftrightarrow>
     list_all complete_reply (col_replies c) \<and> list_all (\<lambda>a. complete_msg (ans_text a)) (col_callbacks c) \<and>
     col_err c = None"

lemma complete_collector_add:
  "complete_collector c \<Longrightarrow> complete_msg txt \<Longrightarrow> complete_markup m \<Longrightarrow> complete_collector (sendSafeMessage chat txt m c)"
  "complete_collector c \<Longrightarrow> complete_msg txt \<Longrightarrow> complete_markup m \<Longrightarrow> complete_collector (editSafeMessage chat i txt m c)"
  "complete_collector c \<Longrightarrow> complete_msg txt \<Longrightarrow> complete_collector (answerCallback callbackID txt c)"
  by (cases m; auto simp: complete_collector_def complete_reply_def sendSafeMessage_def editSafeMessage_def
      encodeTelegramReplyMarkup_def collector_add_def answerCallback_def collector_addCallback_def split: option.splits)+

lemma complete_keyboards:
  "complete_keyboard (IntervalKeyboard lang)" "complete_keyboard LanguageKeyboard"
  "complete_keyboard (AlertsKeyboard lang)" "complete_keyboard (RefreshKeyboard lang)"
  by (simp_all add: complete_keyboard_def IntervalKeyboard_def LanguageKeyboard_def AlertsKeyboard_def
      RefreshKeyboard_def data_button_def Let_def text_keys_def alert_text_keys_def)

lemma complete_AlertPercentKeyboard: "complete_keyboard (AlertPercentKeyboard lang coin)"
proof -
  have "complete_msg (Sprintf (AlertText lang ''up'') [AStr p])" "complete_msg (Sprintf (AlertText lang ''down'') [AStr p])" for p
    by ((rule complete_Sprintf_AlertText [where ds = "[''s'']"]; simp add: alert_text_keys_def formats_def), (rule complete_Sprintf_AlertText [where ds = "[''s'']"]; simp add: alert_text_keys_def formats_def))
  then show ?thesis
    by (simp add: complete_keyboard_def AlertPercentKeyboard_def data_button_def alert_text_keys_def)
qed

section \<open>The handlers\<close>

definition complete_state :: "handler_state \<Rightarrow> bool" where
  "complete_state h \<longleftrightarrow> complete_collector (hs_col h)"

lemma complete_state_reply [simp]:
  "complete_state h \<Longrightarrow> complete_msg txt \<Longrightarrow> complete_markup m \<Longrightarrow> complete_state (reply chat txt m h)"
  "complete_state h \<Longrightarrow> complete_msg txt \<Longrightarrow> complete_state (ack callbackID txt h)"
  by (simp_all add: complete_state_def reply_def ack_def complete_collector_add)

lemma complete_state_db [simp]: "complete_state (h\<lparr>hs_db := d\<rparr>) = complete_state h"
  by (simp add: complete_state_def)

lemmas keyboards_complete = complete_keyboards complete_AlertPercentKeyboard

lemma created_text_complete: "complete_msg (created_text lang alert symbol percent)"
  unfolding created_text_def
  by (rule complete_Sprintf_AlertText [where ds = "[''d'', ''s'', ''+.2f'', ''.8g'', ''.8g'', ''s'']"])
    (simp_all add: alert_text_keys_def formats_def)

lemma problem_key:
  "createPriceAlert err cache dbNow createdAt now u chat lang symbol percent d = Inr (Inl problem, d') \<Longrightarrow>
     problem \<in> {''stale'', ''invalid'', ''limit'', ''duplicate''}"
  by (auto simp: createPriceAlert_def Let_def split: option.splits sum.splits if_splits)

lemma alert_keys: "alert_state_key ad \<in> set alert_text_keys"
  by (simp add: alert_state_key_def alert_status_key_def job_status_key_def alert_text_keys_def Let_def
      split: option.split alert_status.split job_status.split)

lemma alert_line_format:
  "directives (''#%d %s %+.2f%%: %.8g '' @ map byte [226, 134, 146] @ '' %.8g USDT (%s)'') =
     [''d'', ''s'', ''+.2f'', ''.8g'', ''.8g'', ''s'']"
  by code_simp

lemma alert_line_complete: "complete_msg (alert_line lang ad)"
  unfolding alert_line_def
  by (rule complete_Sprintf_Lit, simp add: alert_keys, unfold alert_line_format, simp)

lemma alert_cancel_row_complete: "list_all (\<lambda>b. complete_msg (btn_text b)) (alert_cancel_row lang ad)"
proof -
  have "complete_msg (Sprintf (AlertText lang ''cancel'') [AInt i])" for i
    by (rule complete_Sprintf_AlertText [where ds = "[''d'']"]) (simp_all add: alert_text_keys_def formats_def)
  then show ?thesis by (simp add: alert_cancel_row_def data_button_def)
qed

text \<open>Alerts.\<close>

lemma menu_complete: "complete_state h \<Longrightarrow> complete_state (showPriceAlertMenu env chat lang h)"
  by (auto simp: showPriceAlertMenu_def alert_text_keys_def keyboards_complete)

lemma add_complete: "complete_state h \<Longrightarrow> complete_state (snd (addPriceAlertAndReply env u chat lang s p h))"
proof -
  assume h: "complete_state h"
  have problem: "complete_msg (AlertText lang problem)"
    if "createPriceAlert err cache dbNow createdAt now u chat lang symbol percent d = Inr (Inl problem, d')"
    for err cache dbNow createdAt now symbol percent d d' problem
    using problem_key [OF that] by (auto simp: alert_text_keys_def)
  have invalid: "complete_msg (AlertText lang ''invalid'')" by (simp add: alert_text_keys_def)
  show ?thesis
    using h problem invalid
    by (auto simp: addPriceAlertAndReply_def menu_complete created_text_complete keyboards_complete split: option.split sum.split)
qed

lemma list_complete: "complete_state h \<Longrightarrow> complete_state (snd (showPriceAlertList env chat lang h))"
proof -
  assume h: "complete_state h"
  have keys: "complete_msg (AlertText lang ''empty'')" "complete_msg (AlertText lang ''list'')" "complete_msg (AlertText lang ''back'')"
    by (simp_all add: alert_text_keys_def)
  have body: "complete_msg (join_lines (Cat (Lit ''*'') (Cat (AlertText lang ''list'') (Lit ''*'')) # map (alert_line lang) alerts))" for alerts
    by (rule complete_join_lines) (simp add: list.pred_map comp_def alert_line_complete keys list.pred_True)
  have kb: "complete_keyboard (map (alert_cancel_row lang) alerts @ [[data_button (AlertText lang ''back'') ''alerts_menu'']])" for alerts
    by (simp add: complete_keyboard_def list.pred_map comp_def alert_cancel_row_complete data_button_def keys list.pred_True)
  show ?thesis
    using h keys(1) body kb
    by (auto simp: showPriceAlertList_def keyboards_complete simp del: join_lines.simps split: sum.split)
qed

lemma alert_command_complete: "complete_state h \<Longrightarrow> complete_state (snd (handlePriceAlertCommand env u chat args lang h))"
  by (auto simp: handlePriceAlertCommand_def Let_def menu_complete list_complete add_complete alert_text_keys_def)

lemma delete_complete: "complete_state h \<Longrightarrow> complete_state (snd (handle_alert_delete env chat data lang h))"
  by (auto simp: handle_alert_delete_def Let_def alert_text_keys_def
      split: option.split sum.split)

lemma coin_complete: "complete_state h \<Longrightarrow> complete_state (handle_alert_coin chat data lang h)"
proof -
  assume h: "complete_state h"
  have "complete_msg (Sprintf (AlertText lang ''coin'') [AStr coin])" for coin
    by (rule complete_Sprintf_AlertText [where ds = "[''s'']"]) (simp_all add: alert_text_keys_def formats_def)
  moreover have "complete_msg (AlertText lang ''invalid'')" by (simp add: alert_text_keys_def)
  ultimately show ?thesis
    using h by (auto simp: handle_alert_coin_def Let_def keyboards_complete split: option.split)
qed

lemma alert_callback_complete:
  "complete_state h \<Longrightarrow> complete_state (snd (handlePriceAlertCallback env u chat callbackID data lang h))"
proof -
  assume h: "complete_state h"
  have invalid: "complete_state (reply chat (AlertText lang ''invalid'') MNil h)"
    using h by (auto simp: alert_text_keys_def)
  show ?thesis
    using h invalid
    by (auto simp: handlePriceAlertCallback_def Let_def case_prod_unfold menu_complete list_complete add_complete
        delete_complete coin_complete split: list.split)
qed

text \<open>The other callbacks and the commands.\<close>

lemma setlang_complete: "complete_state h \<Longrightarrow> complete_state (snd (handle_setlang env chat callbackID data h))"
  by (auto simp: handle_setlang_def Let_def text_keys_def split: option.split)

lemma interval_text_complete: "complete_msg (interval_text lang minutes)"
proof -
  have "complete_msg (Sprintf (Text lang ''interval_set'') [AInt n, AMsg (Text lang unit)])"
    if "unit \<in> {''unit_h'', ''unit_m''}" for n unit
    using that by (intro complete_Sprintf_Text [where ds = "[''d'', ''s'']"])
      (auto simp: text_keys_def formats_def)
  then show ?thesis by (simp add: interval_text_def)
qed

lemma interval_complete: "complete_state h \<Longrightarrow> complete_state (snd (handle_interval env chat callbackID data lang h))"
  by (auto simp: handle_interval_def Let_def case_prod_unfold text_keys_def interval_text_complete split: option.split)

lemma price_texts:
  "complete_msg (Sprintf (Cat (Text lang ''price_hdr'') (Lit ([CHR 0x0A, CHR 0x0A] @ ''%s'')))
     [AMsg (getFormattedPricesFromCacheAt lang now c)])"
  "complete_msg (Sprintf (Cat (Text lang ''price_hdr'') (Lit ([CHR 0x0A, CHR 0x0A] @ ''%s'' @ [CHR 0x0A, CHR 0x0A] @ ''_%s_'')))
     [AMsg (getFormattedPricesFromCacheAt lang now c), AMsg (Text lang ''dynamics'')])"
proof -
  have f: "directives ([CHR 0x0A, CHR 0x0A] @ ''%s'') = [''s'']"
    "directives ([CHR 0x0A, CHR 0x0A] @ ''%s'' @ [CHR 0x0A, CHR 0x0A] @ ''_%s_'') = [''s'', ''s'']" by code_simp+
  have d: "complete_msg (Text lang ''dynamics'')" by (simp add: text_keys_def)
  show "complete_msg (Sprintf (Cat (Text lang ''price_hdr'') (Lit ([CHR 0x0A, CHR 0x0A] @ ''%s'')))
     [AMsg (getFormattedPricesFromCacheAt lang now c)])"
    by (rule complete_Sprintf_titled; (unfold f)?; simp add: text_keys_def formats_def complete_prices)
  show "complete_msg (Sprintf (Cat (Text lang ''price_hdr'') (Lit ([CHR 0x0A, CHR 0x0A] @ ''%s'' @ [CHR 0x0A, CHR 0x0A] @ ''_%s_'')))
     [AMsg (getFormattedPricesFromCacheAt lang now c), AMsg (Text lang ''dynamics'')])"
    by (rule complete_Sprintf_titled; (unfold f)?; simp add: text_keys_def formats_def complete_prices d)
qed

lemma refresh_complete: "complete_state h \<Longrightarrow> complete_state (handle_refresh env chat callbackID i lang h)"
  using price_texts(2) [of lang "he_clock env" "he_cache env"]
  by (simp add: handle_refresh_def Let_def complete_state_def ack_def complete_collector_add keyboards_complete
      del: append.simps)

lemma callback_complete: "complete_state h \<Longrightarrow> complete_state (snd (handle_callback env u query h))"
  by (auto simp: handle_callback_def Let_def setlang_complete alert_callback_complete interval_complete refresh_complete
      split: option.split)

lemma command_complete: "complete_state h \<Longrightarrow> complete_state (snd (handle_command env u m chat h))"
proof -
  assume h: "complete_state h"
  have keys: "complete_msg (Text lang key)"
    if "key \<in> {''db_err'', ''subscribe'', ''unsubscribe'', ''subscribe_first'', ''interval_m'', ''welcome'', ''lang_sel''}" for lang key
    using that by (auto simp: text_keys_def)
  have akeys: "complete_msg (AlertText lang ''menu'')" "complete_msg (AlertText lang ''independent'')" for lang
    by (simp_all add: alert_text_keys_def)
  have sub: "complete_state (snd (handle_subscribe env chat lang h))" for lang
    using h keys by (auto simp: handle_subscribe_def split: option.split)
  have unsub: "complete_state (snd (handle_unsubscribe env chat lang h))" for lang
    using h keys akeys by (auto simp: handle_unsubscribe_def Let_def split: sum.split)
  have imenu: "complete_state (snd (handle_interval_menu env chat lang h))" for lang
    using h keys by (auto simp: handle_interval_menu_def keyboards_complete split: sum.split)
  show ?thesis
    using h sub unsub imenu keys akeys price_texts(1)
    by (auto simp: handle_command_def Let_def alert_command_complete keyboards_complete
        simp del: append.simps)
qed

lemma handlers_complete:
  "complete_collector (hs_col (snd (processTelegramUpdateWithDB env u (empty_handler_state d))))"
proof -
  have "complete_state (empty_handler_state d)"
    by (simp add: complete_state_def empty_handler_state_def empty_collector_def complete_collector_def)
  then show ?thesis
    by (auto simp: processTelegramUpdateWithDB_def callback_complete command_complete
        simp flip: complete_state_def split: option.split)
qed

section \<open>Notifications\<close>

lemma scheduled_text_complete: "complete_msg (scheduled_text cache clock lang due_at)"
proof -
  have f: "directives (''%s'' @ [CHR 0x0A, CHR 0x0A] @ ''%s'' @ [CHR 0x0A, CHR 0x0A] @ ''_%s_'') = [''s'', ''s'', ''s'']"
    by code_simp
  have "complete_msg (Sprintf (Text lang ''alert_hdr'') [ATime l t])" for l t
    by (rule complete_Sprintf_Text [where ds = "[''s'']"]) (simp_all add: text_keys_def formats_def)
  then show ?thesis
    unfolding scheduled_text_def
    by (intro complete_Sprintf_Lit; (unfold f)?) (simp_all add: complete_prices text_keys_def)
qed

lemma triggered_text_complete: "complete_msg (triggered_text lang a price fetchedAt)"
  unfolding triggered_text_def
  by (rule complete_Sprintf_AlertText [where ds = "[''s'', ''+.2f'', ''.8g'', ''.8g'', ''.8g'', ''s'']"])
    (simp_all add: alert_text_keys_def formats_def)

lemma delivery_text_complete:
  "complete_msg (job_text job) \<Longrightarrow> complete_msg (notificationMessageForDelivery job deliveredAt)"
proof -
  assume t: "complete_msg (job_text job)"
  have f: "directives (''%s'' @ [CHR 0x0A, CHR 0x0A] @ ''%s'') = [''s'', ''s'']" by code_simp
  have "complete_msg (Sprintf (Lit (''%s'' @ [CHR 0x0A, CHR 0x0A] @ ''%s''))
      [AMsg (job_text job), AMsg (Text (job_lang job) ''delay_warning'')])"
    by (intro complete_Sprintf_Lit; (unfold f)?) (simp_all add: t text_keys_def)
  with t show ?thesis by (simp add: notificationMessageForDelivery_def)
qed

end
