(* ===== verification/Bot_Menu.thy ===== *)
theory Bot_Menu
  imports Catalogue Advisory_Lock
begin

text \<open>
  The command menu of the bot (\<^verbatim>\<open>internal/app/telegram_menu.go\<close>): at start-up the command \<^verbatim>\<open>/alerts\<close> is added
  to the menu of the default scope in four languages, and all other commands stay.

  The menus are kept by Telegram: \<open>menus\<close> gives the commands of a language code, empty when the code has
  no menu of its own. A call may fail before or after Telegram carried it out (\<open>call_fault\<close>).
\<close>

section \<open>The code\<close>

record bot_command =
  cmd_command :: string
  cmd_description :: string

type_synonym menus = "string \<Rightarrow> bot_command list"

fun set_alert_description :: "string \<Rightarrow> bot_command list \<Rightarrow> bot_command list option" where
  "set_alert_description description [] = None"
| "set_alert_description description (c # cs) =
     (if cmd_command c = ''alerts'' then Some (c\<lparr>cmd_description := description\<rparr> # cs)
      else map_option ((#) c) (set_alert_description description cs))"

definition withPriceAlertCommand :: "bot_command list \<Rightarrow> string \<Rightarrow> bot_command list" where
  "withPriceAlertCommand commands description =
     (case set_alert_description description commands of
        Some result \<Rightarrow> result
      | None \<Rightarrow> commands @ [\<lparr>cmd_command = ''alerts'', cmd_description = description\<rparr>])"

definition menu_locales :: "(string \<times> string) list" where
  "menu_locales =
     [([], decode ''{Zrostann9 abo padinn9 cyny na} X%''), (''uk'', decode ''{Zrostann9 abo padinn9 cyny na} X%''),
      (''en'', ''Price rise or fall by X%''), (''ru'', decode ''{Zrostann9 abo padinn9 cyny na} X%'')]"

definition initial_commands :: "bot_command list" where
  "initial_commands =
     [\<lparr>cmd_command = ''start'', cmd_description = ''Start''\<rparr>, \<lparr>cmd_command = ''price'', cmd_description = ''Current prices''\<rparr>,
      \<lparr>cmd_command = ''subscribe'', cmd_description = ''Subscribe''\<rparr>,
      \<lparr>cmd_command = ''unsubscribe'', cmd_description = ''Unsubscribe''\<rparr>,
      \<lparr>cmd_command = ''interval'', cmd_description = ''Update interval''\<rparr>,
      \<lparr>cmd_command = ''language'', cmd_description = ''Language''\<rparr>]"

record menu_env =
  me_enabled :: bool
  me_over :: "string \<Rightarrow> bool"
  me_over' :: "string \<Rightarrow> bool"
  me_get_err :: "string \<Rightarrow> go_error option"
  me_set :: "string \<Rightarrow> call_fault"

text \<open>
  \<open>me_over\<close> and \<open>me_over'\<close>: the context is over before the menu is read, and before it is written. The
  commands to write for a locale: its own, else those of the default language, else the built-in ones.
\<close>

definition next_commands :: "bot_command list \<Rightarrow> bot_command list \<Rightarrow> string \<Rightarrow> bot_command list" where
  "next_commands commands defaults description =
     (let commands1 = (if commands = [] then defaults else commands);
          commands2 = (if commands1 = [] then initial_commands else commands1)
      in withPriceAlertCommand commands2 description)"

fun sync_locales :: "menu_env \<Rightarrow> (string \<times> string) list \<Rightarrow> bot_command list \<Rightarrow> menus \<Rightarrow> menus" where
  "sync_locales env [] defaults ms = ms"
| "sync_locales env ((code, description) # locales) defaults ms =
     (if me_over env code then ms
      else case me_get_err env code of
        Some e \<Rightarrow> ms
      | None \<Rightarrow>
          (let commands = next_commands (ms code) defaults description in
           if length commands > 100 then sync_locales env locales defaults ms
           else if me_over' env code then ms
           else case me_set env code of
             NotExecuted e \<Rightarrow> ms
           | AnswerLost e \<Rightarrow> ms(code := commands)
           | CallOk \<Rightarrow> sync_locales env locales (if code = [] then commands else defaults) (ms(code := commands))))"

definition syncPriceAlertMenu :: "menu_env \<Rightarrow> menus \<Rightarrow> menus" where
  "syncPriceAlertMenu env ms = (if \<not> me_enabled env then ms else sync_locales env menu_locales [] ms)"

section \<open>Adding the command\<close>

definition is_alerts :: "bot_command \<Rightarrow> bool" where
  "is_alerts c \<longleftrightarrow> cmd_command c = ''alerts''"

lemma set_alert_description_None: "set_alert_description d cs = None \<longleftrightarrow> list_all (\<lambda>c. \<not> is_alerts c) cs"
  by (induction cs) (auto simp: is_alerts_def)

lemma set_alert_description_Some:
  "set_alert_description d cs = Some cs' \<Longrightarrow>
     length cs' = length cs \<and> filter (\<lambda>c. \<not> is_alerts c) cs' = filter (\<lambda>c. \<not> is_alerts c) cs \<and>
     list_ex is_alerts cs' \<and> set_alert_description d cs' = Some cs'"
  by (induction cs arbitrary: cs') (auto simp: is_alerts_def split: if_splits)

text \<open>The other commands stay, in their order; the command is there; a second time changes nothing.\<close>

lemma withPriceAlertCommand_spec:
  "filter (\<lambda>c. \<not> is_alerts c) (withPriceAlertCommand cs d) = filter (\<lambda>c. \<not> is_alerts c) cs"
  "list_ex is_alerts (withPriceAlertCommand cs d)"
  "withPriceAlertCommand (withPriceAlertCommand cs d) d = withPriceAlertCommand cs d"
  "length (withPriceAlertCommand cs d) \<le> length cs + 1"
proof -
  have app: "set_alert_description d (xs @ [\<lparr>cmd_command = ''alerts'', cmd_description = d\<rparr>]) =
      Some (xs @ [\<lparr>cmd_command = ''alerts'', cmd_description = d\<rparr>])" if "list_all (\<lambda>c. \<not> is_alerts c) xs" for xs
    using that by (induction xs) (auto simp: is_alerts_def)
  note cases = set_alert_description_None [of d cs] set_alert_description_Some [of d cs]
  show "filter (\<lambda>c. \<not> is_alerts c) (withPriceAlertCommand cs d) = filter (\<lambda>c. \<not> is_alerts c) cs"
    "list_ex is_alerts (withPriceAlertCommand cs d)" "length (withPriceAlertCommand cs d) \<le> length cs + 1"
    using cases by (auto simp: withPriceAlertCommand_def is_alerts_def split: option.split)
  show "withPriceAlertCommand (withPriceAlertCommand cs d) d = withPriceAlertCommand cs d"
    using cases app by (auto simp: withPriceAlertCommand_def split: option.split)
qed

section \<open>The menus\<close>

definition kept :: "bot_command list \<Rightarrow> bot_command list \<Rightarrow> bool" where
  "kept old new \<longleftrightarrow>
     (old \<noteq> [] \<longrightarrow> filter (\<lambda>c. \<not> is_alerts c) new = filter (\<lambda>c. \<not> is_alerts c) old) \<and>
     (length old \<le> 100 \<longrightarrow> length new \<le> 100)"

lemma kept_next: "length (next_commands old defaults d) \<le> 100 \<Longrightarrow> kept old (next_commands old defaults d)"
  by (simp add: kept_def next_commands_def Let_def withPriceAlertCommand_spec)

lemma sync_locales_frame: "code \<notin> fst ` set ls \<Longrightarrow> sync_locales env ls ds ms code = ms code"
  by (induction env ls ds ms rule: sync_locales.induct) (auto simp: Let_def split: option.split call_fault.split)

lemma sync_locales_kept: "distinct (map fst locales) \<Longrightarrow> kept (ms code) (sync_locales env locales defaults ms code)"
proof (induction locales arbitrary: defaults ms)
  case Nil
  show ?case by (simp add: kept_def)
next
  case (Cons cd locales)
  obtain c d where cd: "cd = (c, d)" by (cases cd)
  let ?n = "next_commands (ms c) defaults d"
  have refl: "kept xs xs" for xs by (simp add: kept_def)
  note steps = cd Let_def refl
  show ?case
  proof (cases "code = c")
    case True
    then have "c \<notin> fst ` set locales" using Cons.prems cd by auto
    note fr = sync_locales_frame [OF this]
    show ?thesis
      using kept_next [of "ms c" defaults d] unfolding True
      by (cases "me_over env c"; cases "me_get_err env c"; cases "100 < length ?n"; cases "me_over' env c";
          cases "me_set env c"; simp add: steps fr)
  next
    case False
    have IH: "kept (m code) (sync_locales env locales ds m code)" for ds m
      using Cons.IH Cons.prems by simp
    from IH [of "ms(c := ?n)"] IH [of ms] False show ?thesis
      by (cases "me_over env c"; cases "me_get_err env c"; cases "100 < length ?n"; cases "me_over' env c";
          cases "me_set env c"; simp add: steps fun_upd_other del: fun_upd_apply)
  qed
qed

text \<open>Nothing fails.\<close>

definition quiet :: "menu_env \<Rightarrow> (string \<times> string) list \<Rightarrow> bool" where
  "quiet env locales \<longleftrightarrow>
     list_all (\<lambda>(c, d). \<not> me_over env c \<and> \<not> me_over' env c \<and> me_get_err env c = None \<and> me_set env c = CallOk) locales"

definition has_alerts :: "bot_command list \<Rightarrow> string \<Rightarrow> bool" where
  "has_alerts cs d \<longleftrightarrow> list_ex is_alerts cs \<and> withPriceAlertCommand cs d = cs \<and> length cs \<le> 100"

lemma length_with_alerts: "list_ex is_alerts cs \<Longrightarrow> length (withPriceAlertCommand cs d) = length cs"
  using set_alert_description_None [of d cs] set_alert_description_Some [of d cs]
  by (auto simp: withPriceAlertCommand_def list_all_iff list_ex_iff split: option.split)

lemma next_commands_has_alerts:
  assumes "length cs < 100" "defaults = [] \<or> list_ex is_alerts defaults \<and> length defaults \<le> 100"
  shows "has_alerts (next_commands cs defaults d) d"
proof -
  have "length (next_commands cs defaults d) \<le> 100"
  proof (cases "cs = []")
    case True
    then show ?thesis
      using assms(2) withPriceAlertCommand_spec(4) [of initial_commands d]
      by (auto simp: next_commands_def length_with_alerts initial_commands_def)
  next
    case False
    then show ?thesis
      using assms(1) withPriceAlertCommand_spec(4) [of cs d] by (simp add: next_commands_def)
  qed
  then show ?thesis by (simp add: has_alerts_def next_commands_def Let_def withPriceAlertCommand_spec)
qed

lemma sync_locales_quiet:
  assumes "quiet env locales" "distinct (map fst locales)" "\<forall>c \<in> fst ` set locales. length (ms c) < 100"
    and "defaults = [] \<or> list_ex is_alerts defaults \<and> length defaults \<le> 100" "(c, d) \<in> set locales"
  shows "has_alerts (sync_locales env locales defaults ms c) d"
  using assms
proof (induction env locales defaults ms rule: sync_locales.induct)
  case (2 env c' d' locales defaults ms)
  let ?n = "next_commands (ms c') defaults d'"
  have n: "has_alerts ?n d'" using "2.prems"(3,4) by (intro next_commands_has_alerts) auto
  let ?ds = "if c' = [] then ?n else defaults"
  have step: "sync_locales env ((c', d') # locales) defaults ms = sync_locales env locales ?ds (ms(c' := ?n))"
    using "2.prems"(1) n by (simp add: quiet_def has_alerts_def Let_def)
  show ?case
  proof (cases "(c, d) = (c', d')")
    case True
    then have "c \<notin> fst ` set locales" using "2.prems"(2) by auto
    with True n show ?thesis by (simp only: step) (simp add: sync_locales_frame)
  next
    case False
    then have cd: "(c, d) \<in> set locales" using "2.prems"(5) by auto
    have IH: "has_alerts (sync_locales env locales ?ds (ms(c' := ?n)) c) d"
    proof (rule "2.IH" [of ?n])
      show "quiet env locales" "distinct (map fst locales)" "(c, d) \<in> set locales"
        using "2.prems"(1,2) cd by (simp_all add: quiet_def)
      show "\<forall>c \<in> fst ` set locales. length ((ms(c' := ?n)) c) < 100" using "2.prems"(2,3) by auto
      show "?ds = [] \<or> list_ex is_alerts ?ds \<and> length ?ds \<le> 100" using n "2.prems"(4) by (auto simp: has_alerts_def)
      show "me_get_err env c' = None" "me_set env c' = CallOk" "\<not> me_over env c'" "\<not> me_over' env c'" "\<not> 100 < length ?n"
        using "2.prems"(1) n by (simp_all add: quiet_def has_alerts_def)
    qed (simp_all)
    then show ?thesis by (simp only: step)
  qed
qed simp

lemma sync_locales_stable:
  assumes "quiet env locales" "\<forall>(c, d) \<in> set locales. has_alerts (ms c) d"
  shows "sync_locales env locales defaults ms = ms"
  using assms
proof (induction env locales defaults ms rule: sync_locales.induct)
  case (2 env c d locales defaults ms)
  have c: "has_alerts (ms c) d" using "2.prems"(2) by simp
  then have "ms c \<noteq> []" by (auto simp: has_alerts_def)
  with c have n: "next_commands (ms c) defaults d = ms c" by (simp add: next_commands_def has_alerts_def)
  with "2.IH" [of "ms c"] "2.prems" c show ?case
    by (simp add: quiet_def Let_def has_alerts_def fun_upd_triv)
qed simp

end
