(* ===== verification/Storage.thy ===== *)
theory Storage
  imports Go_Errors
begin

text \<open>
  Opening the connection pools and checking the schema (\<^verbatim>\<open>internal/storage/postgres.go\<close>,
  \<^verbatim>\<open>internal/storage/schema.go\<close>).

  Whether an error carries a \<^verbatim>\<open>*pgconn.ParseConfigError\<close>, a type of the driver, is the parameter
  \<open>is_parse_config\<close>. The system catalogue of PostgreSQL is a record of names; the text
  \<^verbatim>\<open>'public.market_prices'::regclass\<close> raises an error when the relation does not exist, where
  \<^verbatim>\<open>to_regclass\<close> is null.
\<close>

section \<open>Pools\<close>

definition postgresPoolError :: "(go_error \<Rightarrow> bool) \<Rightarrow> string \<Rightarrow> string \<Rightarrow> go_error \<Rightarrow> go_error" where
  "postgresPoolError is_parse_config operation poolName err =
     (if is_parse_config err
      then PlainError (operation @ '' postgres '' @ poolName @ '' pool: invalid PostgreSQL connection configuration'')
      else Wrapped (operation @ '' postgres '' @ poolName @ '' pool'') err)"

text \<open>The settings of a pool that was opened and answered the ping.\<close>

record pool_settings =
  ps_max_open :: int
  ps_max_idle :: int
  ps_max_lifetime :: duration
  ps_max_idle_time :: duration

definition openPool ::
  "(go_error \<Rightarrow> bool) \<Rightarrow> go_error option \<Rightarrow> go_error option \<Rightarrow> string \<Rightarrow> int \<Rightarrow> int \<Rightarrow> go_error + pool_settings" where
  "openPool is_parse_config open_err ping_err poolName maxOpenConnections maxIdleConnections =
     (case open_err of
        Some e \<Rightarrow> Inl (postgresPoolError is_parse_config ''open'' poolName e)
      | None \<Rightarrow>
          (case ping_err of
             Some e \<Rightarrow> Inl (postgresPoolError is_parse_config ''ping'' poolName e)
           | None \<Rightarrow>
               Inr \<lparr>ps_max_open = maxOpenConnections, ps_max_idle = maxIdleConnections,
                    ps_max_lifetime = 5 * minute, ps_max_idle_time = 5 * minute\<rparr>))"

definition DatabaseQueryPoolMaxOpenConnections :: int where
  "DatabaseQueryPoolMaxOpenConnections = 16"

definition DatabaseQueryPoolMaxIdleConnections :: int where
  "DatabaseQueryPoolMaxIdleConnections = 8"

definition DatabaseLockPoolMaxIdleConnections :: int where
  "DatabaseLockPoolMaxIdleConnections = 2"

definition Open :: "(go_error \<Rightarrow> bool) \<Rightarrow> go_error option \<Rightarrow> go_error option \<Rightarrow> go_error + pool_settings" where
  "Open is_parse_config open_err ping_err =
     openPool is_parse_config open_err ping_err ''query''
       DatabaseQueryPoolMaxOpenConnections DatabaseQueryPoolMaxIdleConnections"

definition OpenLockPool :: "(go_error \<Rightarrow> bool) \<Rightarrow> go_error option \<Rightarrow> go_error option \<Rightarrow> go_error + pool_settings" where
  "OpenLockPool is_parse_config open_err ping_err =
     openPool is_parse_config open_err ping_err ''lock''
       DatabaseLockPoolMaxOpenConnections DatabaseLockPoolMaxIdleConnections"

section \<open>The schema check\<close>

record catalog =
  cat_relations :: "string list"
  cat_columns :: "(string \<times> string) list"
  cat_constraints :: "(string \<times> string) list"

text \<open>The sixteen columns of the query, in its order.\<close>

definition schema_row :: "catalog \<Rightarrow> go_error + bool list" where
  "schema_row cat =
     (let rel = (\<lambda>t. t \<in> set (cat_relations cat));
          col = (\<lambda>t c. (t, c) \<in> set (cat_columns cat))
      in if \<not> rel ''market_prices''
         then Inl (PlainError ''ERROR: relation \"public.market_prices\" does not exist (SQLSTATE 42P01)'')
         else Inr
          [rel ''subscribers'', rel ''market_prices'', rel ''notification_jobs'', rel ''telegram_updates'',
           rel ''telegram_replies'', rel ''price_alerts'', rel ''notification_jobs_one_per_price_alert'',
           rel ''price_alert_crossings'', rel ''telegram_mutation_versions'', rel ''telegram_update_stream'',
           col ''telegram_updates'' ''stream_epoch'', col ''subscribers'' ''delivery_suspended_until'',
           col ''notification_jobs'' ''claim_token'', col ''notification_jobs'' ''canceled_at'',
           col ''telegram_updates'' ''shard_id'',
           (''market_prices'', ''market_prices_price_check'') \<in> set (cat_constraints cat)])"

text \<open>The list \<^verbatim>\<open>required\<close>, over the variables the row is scanned into.\<close>

definition required_objects :: "bool list \<Rightarrow> (string \<times> bool) list" where
  "required_objects row =
     [(''table subscribers'', row ! 0), (''table market_prices'', row ! 1), (''table notification_jobs'', row ! 2),
      (''table telegram_updates'', row ! 3), (''table telegram_replies'', row ! 4), (''table price_alerts'', row ! 5),
      (''table price_alert_crossings'', row ! 7), (''table telegram_mutation_versions'', row ! 8),
      (''table telegram_update_stream'', row ! 9), (''column telegram_updates.stream_epoch'', row ! 10),
      (''index notification_jobs_one_per_price_alert'', row ! 6),
      (''column subscribers.delivery_suspended_until'', row ! 11), (''column notification_jobs.claim_token'', row ! 12),
      (''column notification_jobs.canceled_at'', row ! 13), (''column telegram_updates.shard_id'', row ! 14),
      (''constraint market_prices_price_check'', row ! 15)]"

fun Join :: "string list \<Rightarrow> string \<Rightarrow> string" where
  "Join [] sep = []"
| "Join [s] sep = s"
| "Join (s # t # ss) sep = s @ sep @ Join (t # ss) sep"

definition VerifySchema :: "go_error option \<Rightarrow> catalog \<Rightarrow> go_error option" where
  "VerifySchema conn_err cat =
     (case (case conn_err of Some e \<Rightarrow> Inl e | None \<Rightarrow> schema_row cat) of
        Inl e \<Rightarrow> Some (Wrapped ''inspect database schema'' e)
      | Inr row \<Rightarrow>
          (let missing = map fst (filter (\<lambda>object. \<not> snd object) (required_objects row)) in
           if missing \<noteq> []
           then Some (PlainError (''missing required database objects after migration: '' @ Join missing '', ''))
           else None))"

section \<open>What the check accepts\<close>

definition required_relations :: "string list" where
  "required_relations =
     [''subscribers'', ''market_prices'', ''notification_jobs'', ''telegram_updates'', ''telegram_replies'',
      ''price_alerts'', ''notification_jobs_one_per_price_alert'', ''price_alert_crossings'',
      ''telegram_mutation_versions'', ''telegram_update_stream'']"

definition required_columns :: "(string \<times> string) list" where
  "required_columns =
     [(''telegram_updates'', ''stream_epoch''), (''subscribers'', ''delivery_suspended_until''),
      (''notification_jobs'', ''claim_token''), (''notification_jobs'', ''canceled_at''),
      (''telegram_updates'', ''shard_id'')]"

lemma VerifySchema_row:
  "VerifySchema None cat = None \<longleftrightarrow> (case schema_row cat of Inl e \<Rightarrow> False | Inr row \<Rightarrow> list_all snd (required_objects row))"
  by (auto simp: VerifySchema_def Let_def filter_empty_conv list_all_iff split: sum.split)

lemma required_objects_all:
  "list_all snd (required_objects [a0, a1, a2, a3, a4, a5, a6, a7, a8, a9, a10, a11, a12, a13, a14, a15]) \<longleftrightarrow>
     a0 \<and> a1 \<and> a2 \<and> a3 \<and> a4 \<and> a5 \<and> a6 \<and> a7 \<and> a8 \<and> a9 \<and> a10 \<and> a11 \<and> a12 \<and> a13 \<and> a14 \<and> a15"
  by (simp add: required_objects_def) blast

lemma VerifySchema_accepts:
  "VerifySchema None cat = None \<longleftrightarrow>
     set required_relations \<subseteq> set (cat_relations cat) \<and> set required_columns \<subseteq> set (cat_columns cat) \<and>
     (''market_prices'', ''market_prices_price_check'') \<in> set (cat_constraints cat)"
  unfolding VerifySchema_row schema_row_def required_relations_def required_columns_def Let_def list.set
  by (cases "''market_prices'' \<in> set (cat_relations cat)")
    (simp_all only: if_True if_False not_True_eq_False not_False_eq_True sum.case required_objects_all
      insert_subset empty_subsetI simp_thms conj_assoc)

text \<open>A missing table of prices never shows in the list of missing objects: the query itself fails.\<close>

lemma VerifySchema_market_prices:
  "''market_prices'' \<notin> set (cat_relations cat) \<Longrightarrow>
   VerifySchema None cat = Some (Wrapped ''inspect database schema''
     (PlainError ''ERROR: relation \"public.market_prices\" does not exist (SQLSTATE 42P01)''))"
  by (simp add: VerifySchema_def schema_row_def Let_def)

text \<open>A configuration error never carries the connection string, in which the password stands.\<close>

lemma postgresPoolError_hides:
  "is_parse_config e \<Longrightarrow>
   Error (postgresPoolError is_parse_config operation poolName e) =
     operation @ '' postgres '' @ poolName @ '' pool: invalid PostgreSQL connection configuration''"
  by (simp add: postgresPoolError_def)

end
