(* ===== verification/Run.thy ===== *)
theory Run
  imports Workers Config Storage Advisory_Lock
begin

text \<open>
  Start-up and shutdown (\<^verbatim>\<open>internal/app/run.go\<close>, \<^verbatim>\<open>cmd/cryptopulse/main.go\<close>): the order in which the
  process opens its dependencies, starts its goroutines and stops them again.

  The goroutines themselves are the definitions of \<open>Workers\<close> and \<open>Http_Server\<close>; a run is the list of the
  events of the main goroutine with the error it returns. \<open>run_env\<close> gives what the calls answer.
\<close>

section \<open>Events\<close>

text \<open>\<^verbatim>\<open>time.LoadLocation\<close> reads the zone, else the fixed offset of Kyiv is used.\<close>

datatype location = LoadedLocation string | FixedZone string int

datatype run_event =
    LocationChosen location
  | DatabaseOpened pool_settings
  | MigrationsApplied int
  | SchemaVerified
  | LockPoolOpened pool_settings
  | BotReady
  | CacheWarmed
  | MenuSyncStarted
  | PriceTickerStarted
  | RetentionCleanerStarted
  | UpdateWorkerStarted int int
  | ReplyWorkerStarted
  | AlertWorkerStarted
  | ServerStarted http_server
  | ProducersStopped
  | ServerShutDown
  | ServerClosed
  | ProducersDrained
  | ProducerDrainTimedOut
  | WorkersStopped
  | RuntimeDrained
  | RuntimeDrainTimedOut
  | ConnectionsClosed
  | ProducersWaited
  | RuntimeWaited
  | LockPoolClosed
  | DatabaseClosed

text \<open>
  Why the process stops: its context is canceled by a signal, or the server fails; the failure is seen
  either through the channel or through the context that the server goroutine cancels.
\<close>

datatype stop_cause = SignalReceived | ServerFailed go_error

record run_env =
  re_location_err :: "go_error option"
  re_is_parse_config :: "go_error \<Rightarrow> bool"
  re_open_err :: "go_error option"
  re_ping_err :: "go_error option"
  re_migrations :: "go_error + int"
  re_schema_err :: "go_error option"
  re_catalog :: catalog
  re_lock_open_err :: "go_error option"
  re_lock_ping_err :: "go_error option"
  re_bot_err :: "go_error option"
  re_stop :: stop_cause
  re_shutdown_err :: "go_error option"
  re_producer_drain_err :: "go_error option"
  re_runtime_drain_err :: "go_error option"

section \<open>Starting\<close>

text \<open>The goroutines, in the order in which they are started.\<close>

definition started_goroutines :: "config \<Rightarrow> run_event list" where
  "started_goroutines cfg =
     [MenuSyncStarted, PriceTickerStarted, RetentionCleanerStarted]
     @ map (\<lambda>workerID. UpdateWorkerStarted workerID (TelegramUpdateWorkers cfg)) [0..TelegramUpdateWorkers cfg - 1]
     @ replicate (nat TelegramReplyWorkerCount) ReplyWorkerStarted
     @ replicate (nat NotificationWorkerCount) AlertWorkerStarted
     @ [ServerStarted (New (ConfigPort cfg))]"

section \<open>Stopping\<close>

text \<open>
  The server stops accepting, running requests and their producers end, then the workers are told to
  stop; if one of the two waits ran out of time, the connections are closed and the waits repeated
  without a limit.
\<close>

definition shutdown_events :: "run_env \<Rightarrow> run_event list" where
  "shutdown_events env =
     [ProducersStopped]
     @ (case re_shutdown_err env of None \<Rightarrow> [ServerShutDown] | Some e \<Rightarrow> [ServerClosed])
     @ [if re_producer_drain_err env = None then ProducersDrained else ProducerDrainTimedOut]
     @ [WorkersStopped]
     @ [if re_runtime_drain_err env = None then RuntimeDrained else RuntimeDrainTimedOut]
     @ (if re_producer_drain_err env \<noteq> None \<or> re_runtime_drain_err env \<noteq> None
        then [ServerClosed, ConnectionsClosed, ProducersWaited, RuntimeWaited] else [])"

text \<open>
  One look of \<^verbatim>\<open>waitForWaitGroup\<close> at a group with \<open>running\<close> goroutines: nothing while it waits, else its
  result; \<open>done_first\<close> is the branch that \<^verbatim>\<open>select\<close> takes when both are ready.
\<close>

definition waitForWaitGroup :: "go_error option \<Rightarrow> bool \<Rightarrow> nat \<Rightarrow> go_error option option" where
  "waitForWaitGroup ctx_err done_first running =
     (if running = 0 \<and> (ctx_err = None \<or> done_first) then Some None
      else case ctx_err of Some e \<Rightarrow> Some (Some e) | None \<Rightarrow> None)"

definition run_error :: "stop_cause \<Rightarrow> go_error option" where
  "run_error cause =
     (case cause of
        SignalReceived \<Rightarrow> None
      | ServerFailed e \<Rightarrow> Some (Wrapped ''HTTP server stopped unexpectedly'' e))"

definition kyivLocation :: "go_error option \<Rightarrow> location" where
  "kyivLocation err =
     (case err of None \<Rightarrow> LoadedLocation ''Europe/Kyiv'' | Some e \<Rightarrow> FixedZone ''Kyiv'' (3 * 60 * 60))"

definition Run :: "run_env \<Rightarrow> config \<Rightarrow> run_event list \<times> go_error option" where
  "Run env cfg =
     (let chosen = LocationChosen (kyivLocation (re_location_err env)) in
      case Open (re_is_parse_config env) (re_open_err env) (re_ping_err env) of
        Inl e \<Rightarrow> ([chosen], Some (Wrapped ''database unreachable'' e))
      | Inr pool \<Rightarrow>
     (case re_migrations env of
        Inl e \<Rightarrow> ([chosen, DatabaseOpened pool, DatabaseClosed], Some (Wrapped ''database migration failed'' e))
      | Inr n \<Rightarrow>
     (case VerifySchema (re_schema_err env) (re_catalog env) of
        Some e \<Rightarrow>
          ([chosen, DatabaseOpened pool, MigrationsApplied n, DatabaseClosed], Some (Wrapped ''database schema incompatible'' e))
      | None \<Rightarrow>
     (case OpenLockPool (re_is_parse_config env) (re_lock_open_err env) (re_lock_ping_err env) of
        Inl e \<Rightarrow>
          ([chosen, DatabaseOpened pool, MigrationsApplied n, SchemaVerified, DatabaseClosed],
           Some (Wrapped ''database lock pool unreachable'' e))
      | Inr lockPool \<Rightarrow>
     (case re_bot_err env of
        Some e \<Rightarrow>
          ([chosen, DatabaseOpened pool, MigrationsApplied n, SchemaVerified, LockPoolOpened lockPool, LockPoolClosed, DatabaseClosed],
           map_option (Wrapped ''initialize Telegram API'') (redactTelegramError (Some e) (TelegramToken cfg)))
      | None \<Rightarrow>
          ([chosen, DatabaseOpened pool, MigrationsApplied n, SchemaVerified, LockPoolOpened lockPool, BotReady, CacheWarmed]
           @ started_goroutines cfg @ shutdown_events env @ [LockPoolClosed, DatabaseClosed],
           run_error (re_stop env)))))))"

section \<open>The program\<close>

text \<open>\<^verbatim>\<open>main\<close>: the exit code. \<open>args\<close> are the arguments after the name of the program.\<close>

definition main :: "string list \<Rightarrow> (http_request \<Rightarrow> go_error + http_reply) \<Rightarrow> (environment \<Rightarrow> environment) \<Rightarrow> environment
    \<Rightarrow> run_env \<Rightarrow> int" where
  "main args answer dotenv getenv env =
     (if args \<noteq> [] \<and> hd args = ''healthcheck'' then (if Healthcheck answer = None then 0 else 1)
      else case Load dotenv getenv of
             Inl e \<Rightarrow> 1
           | Inr cfg \<Rightarrow> (if snd (Run env cfg) = None then 0 else 1))"

section \<open>Nothing runs on a closed database\<close>

text \<open>
  The database is closed last, and only after all producers and all goroutines are known to be finished,
  by a drain in time or by a wait without limit.
\<close>

lemma shutdown_waits:
  "(ProducersDrained \<in> set (shutdown_events env) \<or> ProducersWaited \<in> set (shutdown_events env)) \<and>
   (RuntimeDrained \<in> set (shutdown_events env) \<or> RuntimeWaited \<in> set (shutdown_events env)) \<and>
   LockPoolClosed \<notin> set (shutdown_events env) \<and> DatabaseClosed \<notin> set (shutdown_events env)"
  by (auto simp: shutdown_events_def split: option.split)

text \<open>The workers are stopped only after the producers were refused and waited for.\<close>

lemma shutdown_order:
  "\<exists>before after. shutdown_events env = before @ WorkersStopped # after \<and> hd before = ProducersStopped \<and>
     (ProducersDrained \<in> set before \<or> ProducerDrainTimedOut \<in> set before)"
  by (rule exI [of _ "take 3 (shutdown_events env)"], rule exI [of _ "drop 4 (shutdown_events env)"])
    (auto simp: shutdown_events_def eval_nat_numeral split: option.split)

lemma waitForWaitGroup_drained: "waitForWaitGroup ctx_err done_first running = Some None \<Longrightarrow> running = 0"
  by (simp add: waitForWaitGroup_def split: if_splits option.splits)

lemma Run_closes:
  "(\<exists>es. fst (Run env cfg) = es @ [DatabaseClosed]) \<or> DatabaseClosed \<notin> set (fst (Run env cfg))"
  by (auto simp: Run_def Let_def split: sum.split option.split)

lemma Run_started:
  assumes "ServerStarted p \<in> set (fst (Run env cfg))"
  shows "\<exists>start. fst (Run env cfg) = start @ shutdown_events env @ [LockPoolClosed, DatabaseClosed] \<and>
     set start \<inter> {LockPoolClosed, DatabaseClosed} = {}"
  using assms
  by (auto simp: Run_def Let_def started_goroutines_def split: sum.splits option.splits)

end
