(* ===== verification/Policy_Properties.thy ===== *)
theory Policy_Properties
  imports Sharding Go_Errors Finalization
begin

text \<open>
  Properties of the shared policies: redaction of the bot token, retry delays, error texts, the
  partition of the inbox into shards, the keys of the chat locks, the bounded finalization.
\<close>

text \<open>
  C14: an error passed through \<^verbatim>\<open>safeTelegramError\<close> never shows the bot token, neither as it is nor in
  the two URL-escaped spellings that \<^verbatim>\<open>net/http\<close> errors contain, whatever the error is. (A token is
  \<^verbatim>\<open><id>:<secret>\<close>: it has a colon and no brackets.)
\<close>

theorem token_never_logged:
  assumes "bracket_free token" "CHR '':'' \<in> set token"
    and "v = token \<or> v = PathEscape token \<or> v = QueryEscape token"
  shows "\<not> Contains (Error (safeTelegramError (Some token) err)) v"
  using safeTelegramError_hides [OF assms(1,2), of v] assms(3) by simp

theorem token_never_logged_witness:
  "\<not> Contains (Error (safeTelegramError (Some ''1:a'') (PlainError ''Post /bot1:a/send''))) ''1:a''"
  using token_never_logged [of "''1:a''" "''1:a''" "PlainError ''Post /bot1:a/send''"]
  by (simp add: bracket_free_def)

text \<open>
  After an error of the Telegram API the next attempt waits for the longer of the policy's delay
  (one minute per attempt, at least one and at most ten) and the \<^verbatim>\<open>retry_after\<close> seconds Telegram asks for.
\<close>

lemma retry_delay_exact:
  assumes "attempts \<le> 153722867" "as_telegram err = Some (code, description, retryAfter)" "retryAfter \<le> 9223372036"
  shows "telegramRetryDelay attempts err = max (min 10 (max 1 attempts) * minute) (retryAfter * second)"
proof -
  define D where "D = min 10 (max 1 attempts) * minute"
  have D: "RetryDelay attempts = D" "0 < D" by (simp_all add: D_def RetryDelay_eq [OF assms(1)] min_def max_def)
  have "wrap64 (retryAfter * second) = retryAfter * second" if "0 < retryAfter"
    using that assms(3) by (intro wrap64_id) (simp add: int64_range_def)
  with D show ?thesis
    unfolding D_def [symmetric]
    by (cases "0 < retryAfter") (auto simp: telegramRetryDelay_def assms(2) Let_def max_def)
qed

text \<open>
  An interval parameter means the whole seconds of the duration: what PostgreSQL reads from the
  text built by \<^verbatim>\<open>PostgresInterval\<close> is never longer than the duration and less than a second shorter;
  a negative duration is read as zero.
\<close>

lemma postgres_interval_seconds:
  "pg_interval (PostgresInterval d) \<le> max 0 d \<and> max 0 d < pg_interval (PostgresInterval d) + second"
proof -
  have "max 0 d div second * second + max 0 d mod second = max 0 d" by simp
  moreover have "0 \<le> max 0 d mod second" "max 0 d mod second < second" by simp_all
  ultimately show ?thesis unfolding pg_interval_PostgresInterval by linarith
qed

text \<open>
  \<^verbatim>\<open>TruncateError\<close> cuts bytes, not characters: a valid UTF-8 text longer than the limit can be cut
  inside a character, and the rest is not valid UTF-8 any more. (PostgreSQL refuses such a text, so the
  update that was to record the error fails.)
\<close>

lemma truncate_error_splits_characters:
  "\<exists>text. utf8_valid text \<and> \<not> utf8_valid (TruncateError text 500)"
proof -
  let ?t = "replicate 499 CHR ''a'' @ map byte [208, 191]"
  have "utf8_valid ?t = utf8_valid (map byte [208, 191])"
    by (rule utf8_valid_ascii) (simp add: list_all_iff)
  moreover have "utf8_valid (map byte [208, 191])" by (simp add: byte_def cont_def)
  moreover have "TruncateError ?t 500 = replicate 499 CHR ''a'' @ [byte 208]" by (simp add: TruncateError_def)
  moreover have "utf8_valid (replicate 499 CHR ''a'' @ [byte 208]) = utf8_valid [byte 208]"
    by (rule utf8_valid_ascii) (simp add: list_all_iff)
  moreover have "\<not> utf8_valid [byte 208]" by (simp add: byte_def)
  ultimately show ?thesis by (intro exI [of _ ?t]) simp
qed

text \<open>
  The shards of \<open>n\<close> workers partition the inbox: every update, whatever its chat id (negative ids of
  groups included), belongs to the shards of exactly one worker.
\<close>

lemma shards_partition_updates:
  assumes "1 \<le> n"
  shows "\<exists>!i. 0 \<le> i \<and> i < n \<and>
     telegramShardIndex chatID TelegramUpdateShardCount \<in> set (telegramWorkerShardIDs i n)"
proof -
  let ?s = "telegramShardIndex chatID TelegramUpdateShardCount"
  have "0 \<le> ?s mod n \<and> ?s mod n < n \<and> ?s \<in> set (telegramWorkerShardIDs (?s mod n) n)"
    using assms set_telegramWorkerShardIDs [of "?s mod n" n] by (simp add: telegramShardIndex_mod)
  moreover have "i = ?s mod n" if "0 \<le> i \<and> i < n \<and> ?s \<in> set (telegramWorkerShardIDs i n)" for i
    using that set_telegramWorkerShardIDs [of i n] by simp
  ultimately show ?thesis by blast
qed

text \<open>
  Two chat ids whose decimal texts have the same length and differ in one digit have different
  advisory lock keys: FNV-1a does not collide there, so the locks of such chats never block each other.
\<close>

lemma chat_lock_keys_differ:
  assumes "FormatInt a = s @ c # t" "FormatInt b = s @ c' # t" "c \<noteq> c'"
  shows "telegramChatAdvisoryLockKey a \<noteq> telegramChatAdvisoryLockKey b"
  using fnv_write_one_byte [OF assms(3)] assms(1,2)
  by (auto simp: telegramChatAdvisoryLockKey_def dest: signed_word_eqI)

text \<open>
  After a confirmed delivery the durable write is attempted at most five times, and the loop always ends,
  whatever the database and the clock do.
\<close>

lemma finalization_bounded:
  "\<exists>n err s'. finalize defaultSentFinalizationPolicy env act s = ((n, err), s') \<and> n \<le> 5"
proof -
  have "fst (fst (finalize_loop env act 1 sentFinalizationRetryDelays None s)) \<le> 5"
    using finalize_loop_bound [of env act 1 sentFinalizationRetryDelays None s]
    by (simp add: sentFinalizationRetryDelays_def)
  then show ?thesis
    by (cases "finalize_loop env act 1 sentFinalizationRetryDelays None s")
      (auto simp: finalize_def defaultSentFinalizationPolicy_def sentFinalizationBudget_def)
qed

end
