(* ===== verification/Delivery_Properties.thy ===== *)
theory Delivery_Properties
  imports Reply_Facts
begin

text \<open>
  Properties of the two outboxes: claims are exclusive and fair, a stale worker has no effect, a
  message is sent only under a current claim, a delivery ends in the right state, the cron run creates
  exactly the due jobs, the replies of a chat leave in order.
\<close>

section \<open>Example rows\<close>

definition ex_job_row :: notification_row where
  "ex_job_row = new_notification 7 0 42 ''en'' (Lit ''hi'') 0 0 Scheduled None"

definition ex_subscriber :: subscriber where
  "ex_subscriber =
     \<lparr>sub_chat_id = 42, interval_minutes = Some 60, last_sent = None, language_code = Some ''en'',
      is_subscribed = True, cron_claimed_until = None, delivery_suspended_until = None\<rparr>"

definition ex_db :: db where
  "ex_db = (empty_db 0)\<lparr>notification_jobs := [ex_job_row], notification_seq := 8, subscribers := [ex_subscriber]\<rparr>"

definition ex_free :: "int \<Rightarrow> go_error + bool" where
  "ex_free chat = Inr True"

definition ex_job :: notification_job where
  "ex_job = nj_job (nj_claim 0 ''t'' ex_job_row)"

definition ex_claimed_db :: db where
  "ex_claimed_db = ex_db\<lparr>notification_jobs := [nj_claim 0 ''t'' ex_job_row]\<rparr>"

text \<open>A delivery without disturbances.\<close>

definition quiet_env :: "time \<Rightarrow> go_error + int \<Rightarrow> delivery_env" where
  "quiet_env now answer =
     \<lparr>de_ctx_err = None, de_lock_err = None, de_check_err = None, de_claim_err = None, de_send = answer,
      de_now = (\<lambda>_. now), de_delivered_at = now, de_fault = DbOk, de_fin_fault = (\<lambda>_. DbOk),
      de_fin = \<lparr>fe_ctx_err = (\<lambda>_. None), fe_timer = (\<lambda>_ _. None)\<rparr>, de_others = (\<lambda>_ d. d)\<rparr>"

lemmas ex_simps = ex_job_row_def ex_subscriber_def ex_db_def ex_free_def ex_job_def ex_claimed_db_def
  new_notification_def empty_db_def

lemma ex_claim:
  "claimPendingNotificationJob DbOk ex_free 0 ''t'' ex_db ex_db = (Inr (Some ex_job), ex_claimed_db)"
  by (simp add: claimPendingNotificationJob_def notification_candidates_def sql_select_def nj_claimable_def nj_open_def
      ex_simps)

lemma ex_current:
  "notificationEnabled None ex_job ex_claimed_db = Inr True"
  "ensureNotificationJobClaimCurrent None 1 ex_job ex_claimed_db = None"
  by (simp_all add: notificationEnabled_def isSubscribedWithDB_def find_subscriber_def ensureNotificationJobClaimCurrent_def
      sql_exists_def nj_lease_current_def nj_owned_def nj_job_def nj_claim_def ex_simps)

section \<open>Claims\<close>

text \<open>
  C2: a claim excludes all others for its window: after a worker claimed a notification, no claim made
  up to 45 seconds later, by any worker and whatever its view of the queue, returns the same notification.
\<close>

theorem claim_excludes_others:
  assumes u: "unique_on nj_id (notification_jobs d)"
    and c1: "claimPendingNotificationJob fault try_lock now tok snapshot d = (Inr (Some job), d')"
    and c2: "claimPendingNotificationJob fault' try_lock' t tok' snapshot' d' = (Inr (Some job'), d'')"
    and t: "t \<le> now + 45 * second"
  shows "job_id job' \<noteq> job_id job"
proof
  assume same: "job_id job' = job_id job"
  from claim_notification_loop_cases [OF run_tx_Inr [OF c1 [unfolded claimPendingNotificationJob_def]]]
  obtain r where r: "r \<in> set (notification_jobs d)" "nj_claimable now r" "job = nj_job (nj_claim now tok r)"
    and d': "notification_jobs d' = sql_update (\<lambda>x. nj_id x = nj_id r \<and> nj_claimable now x) (nj_claim now tok) (notification_jobs d)"
    by auto
  from claim_notification_loop_cases [OF run_tx_Inr [OF c2 [unfolded claimPendingNotificationJob_def]]]
  obtain s where s: "s \<in> set (notification_jobs d')" "nj_claimable t s" "job' = nj_job (nj_claim t tok' s)" by auto
  have "nj_claim now tok r \<in> set (notification_jobs d')" using r by (force simp: d' set_sql_update)
  moreover have "unique_on nj_id (notification_jobs d')" unfolding d' using u by (rule nq.claim_update_unique)
  moreover have "nj_id s = nj_id (nj_claim now tok r)"
    using same r(3) s(3) by (simp add: nq.job_identity nq.claim_key)
  ultimately have "s = nj_claim now tok r" using s(1) unique_onD by metis
  with s(2) nq.claim_lease [of t now tok r] t show False by simp
qed

theorem claim_excludes_others_witness:
  "\<not> (\<exists>job' d''. claimPendingNotificationJob DbOk ex_free (45 * second) ''u'' ex_claimed_db ex_claimed_db =
        (Inr (Some job'), d'') \<and> job_id job' = 7)"
  using claim_excludes_others [OF _ ex_claim, of DbOk ex_free "45 * second" "''u''" ex_claimed_db]
  by (auto simp: ex_simps unique_on_def nj_job_def nj_claim_def)

text \<open>
  C36: claiming makes progress and is fair: with the chats free, a worker that finds a claimable
  notification claims one, and none with an earlier (scheduled time, id) was claimable.
\<close>

theorem claim_takes_earliest:
  assumes "unique_on nj_id (notification_jobs d)" "\<And>chat. try_lock chat = Inr True"
    and "r \<in> set (notification_jobs d)" "nj_claimable now r"
  shows "\<exists>job d'. claimPendingNotificationJob DbOk try_lock now tok d d = (Inr (Some job), d') \<and>
     (job_scheduled_at job, job_id job) \<le> (nj_scheduled_at r, nj_id r) \<and>
     affected (nj_owned job) (notification_jobs d') = 1"
proof -
  obtain r0 where r0: "r0 \<in> set (notification_jobs d)" "nj_claimable now r0"
      "(nj_scheduled_at r0, nj_id r0) \<le> (nj_scheduled_at r, nj_id r)"
    and loop: "claim_notification_loop try_lock now tok (notification_candidates now d) d =
       Inr (Some (nj_job (nj_claim now tok r0)),
            d\<lparr>notification_jobs :=
               sql_update (\<lambda>x. nj_id x = nj_id r0 \<and> nj_claimable now x) (nj_claim now tok) (notification_jobs d)\<rparr>)"
    using claim_notification_first [of d try_lock r now tok] assms by blast
  have "job_scheduled_at (nj_job (nj_claim now tok r0)) = nj_scheduled_at r0" "job_id (nj_job (nj_claim now tok r0)) = nj_id r0"
    by (simp_all add: nj_job_def nj_claim_def)
  with r0 loop nq.claimed_row_owned [of "notification_jobs d" r0 "nj_id r0" "nj_claimable now" now tok] assms(1) show ?thesis
    by (simp add: claimPendingNotificationJob_def)
qed

theorem claim_takes_earliest_witness:
  "\<exists>job d'. claimPendingNotificationJob DbOk ex_free 0 ''t'' ex_db ex_db = (Inr (Some job), d') \<and>
     (job_scheduled_at job, job_id job) \<le> (0, 7) \<and> affected (nj_owned job) (notification_jobs d') = 1"
  using claim_takes_earliest [of ex_db ex_free ex_job_row 0 "''t''"]
  by (simp add: ex_simps unique_on_def nj_claimable_def nj_open_def)

text \<open>
  C3: a worker that lost its claim cannot record a result: once another worker has claimed the
  notification again, the first one's write reports \<^verbatim>\<open>errJobOwnershipLost\<close> and changes nothing, whether
  it wants to mark the job sent, retried, canceled or failed.
\<close>

theorem stale_worker_has_no_effect:
  assumes u: "unique_on nj_id (notification_jobs d)"
    and c: "claimPendingNotificationJob fault try_lock now tok snapshot d = (Inr (Some job'), d')"
    and stale: "job_id job = job_id job'" "job_attempts job < job_attempts job'"
  shows "markNotificationJobSentOnce DbOk t job d' = (Inl ErrJobOwnershipLost, d') \<and>
     markNotificationJobRetry token DbOk t job e d' = (Inl ErrJobOwnershipLost, d') \<and>
     markNotificationJobCanceled DbOk t job d' = (Inl ErrJobOwnershipLost, d') \<and>
     markNotificationJobFailed token DbOk t job e permanent d' = (Inl ErrJobOwnershipLost, d')"
proof -
  from claim_notification_loop_cases [OF run_tx_Inr [OF c [unfolded claimPendingNotificationJob_def]]]
  obtain r where r: "r \<in> set (notification_jobs d)" "nj_claimable now r" "job' = nj_job (nj_claim now tok r)"
    and d': "notification_jobs d' = sql_update (\<lambda>x. nj_id x = nj_id r \<and> nj_claimable now x) (nj_claim now tok) (notification_jobs d)"
    by auto
  have "job_id job = nj_id r" "job_attempts job \<le> nj_attempts r"
    using stale r(3) by (simp_all add: nq.job_identity nq.claim_key nq.claim_attempts)
  then have "affected (nj_owned job) (notification_jobs d') = 0"
    unfolding d' using r(2) by (intro nq.reclaimed_is_stale [OF u r(1) refl]) auto
  then have "finish_notification job f g d' = Inl ErrJobOwnershipLost" for f g
    by (simp add: finish_notification_lost)
  then show ?thesis
    by (simp add: markNotificationJobSentOnce_def markNotificationJobRetry_def markNotificationJobCanceled_def
        markNotificationJobFailed_def Let_def)
qed

theorem stale_worker_has_no_effect_witness:
  "markNotificationJobSentOnce DbOk 5 (ex_job\<lparr>job_attempts := 0\<rparr>) ex_claimed_db = (Inl ErrJobOwnershipLost, ex_claimed_db)"
  using stale_worker_has_no_effect [OF _ ex_claim, of "ex_job\<lparr>job_attempts := 0\<rparr>" 5 None ErrJobOwnershipLost True]
  by (simp add: ex_simps unique_on_def nj_job_def nj_claim_def)

section \<open>Delivery\<close>

text \<open>
  C5: a notification is sent only when it may be: if processing a job calls Telegram at all, it makes
  exactly one call, to the chat of the job; the check just before found the job still claimed by this
  worker with more than 15 seconds of the lease left, and the subscription (or the alert) still on.
\<close>

theorem message_only_under_claim:
  assumes "calls (processNotificationJob token env job w) \<noteq> calls w"
  shows "(\<exists>text markup. calls (processNotificationJob token env job w) = calls w @ [SendMessage (job_chat_id job) text markup]) \<and>
     (\<exists>r \<in> set (notification_jobs (claim_db env (wdb w))). nj_owned job r \<and>
        (\<exists>u. nj_claimed_until r = Some u \<and> de_now env 2 + 15 * second < u)) \<and>
     notificationEnabled None job (check_db env (wdb w)) = Inr True"
proof -
  have *: "notificationEnabled (de_check_err env) job (check_db env (wdb w)) = Inr True"
    "ensureNotificationJobClaimCurrent (de_claim_err env) (de_now env 2) job (claim_db env (wdb w)) = None"
    using assms unfolding processNotificationJob_calls by (auto split: if_splits)
  have "notificationEnabled None job (check_db env (wdb w)) = Inr True"
    using *(1) by (auto simp: notificationEnabled_def isSubscribedWithDB_def run_read_def split: if_splits option.splits)
  moreover have "sql_exists (nj_lease_current (de_now env 2) job) (notification_jobs (claim_db env (wdb w)))"
    using *(2) by (auto simp: ensureNotificationJobClaimCurrent_def run_read_def split: if_splits option.splits)
  then have "\<exists>r \<in> set (notification_jobs (claim_db env (wdb w))). nj_owned job r \<and>
        (\<exists>u. nj_claimed_until r = Some u \<and> de_now env 2 + 15 * second < u)"
    by (auto simp: sql_exists_iff nj_lease_current_def split: option.splits)
  moreover have "\<exists>text markup. calls (processNotificationJob token env job w) = calls w @ [SendMessage (job_chat_id job) text markup]"
    using assms unfolding processNotificationJob_calls by (simp split: if_splits)
  ultimately show ?thesis by blast
qed

theorem message_only_under_claim_witness:
  "\<exists>text markup. calls (processNotificationJob None (quiet_env 1 (Inr 5)) ex_job \<lparr>wdb = ex_claimed_db, calls = [], metrics = []\<rparr>)
     = [SendMessage 42 text markup]"
proof -
  let ?w = "\<lparr>wdb = ex_claimed_db, calls = [], metrics = []\<rparr>"
  have "calls (processNotificationJob None (quiet_env 1 (Inr 5)) ex_job ?w) \<noteq> calls ?w"
    unfolding processNotificationJob_calls by (simp add: quiet_env_def check_db_def claim_db_def ex_current)
  from message_only_under_claim [OF this] show ?thesis
    by (simp add: ex_simps nj_job_def nj_claim_def)
qed











text \<open>
  A commit whose acknowledgement is lost does no harm: the notification is already recorded as sent,
  and the repeated write of the finalization loop changes nothing and reports the lost claim.
\<close>

lemma lost_acknowledgement_is_harmless:
  assumes "0 < affected (nj_owned job) (notification_jobs d)"
    and "markNotificationJobSentOnce (DbCommitLost e) now job d = (result, d')"
  shows "result = Inl e \<and> markNotificationJobSentOnce DbOk now' job d' = (Inl ErrJobOwnershipLost, d') \<and>
     d' = snd (markNotificationJobSentOnce DbOk now job d)"
proof -
  have "d' = snd (markNotificationJobSentOnce DbOk now job d)"
    using assms by (auto simp: markNotificationJobSentOnce_def run_tx_def split: sum.splits)
  with markSent_after_commit_lost(1) [OF assms] markSent_after_commit_lost(2) [OF assms, of DbOk now'] show ?thesis
    by simp
qed

section \<open>The cron run\<close>

text \<open>
  C18: a cron run cannot fail for reasons of its own: it appends one pending notification for each due
  subscriber (at most 100, each subscribed, with no open scheduled notification and with its interval
  passed), in the order of the query, and returns their number.
\<close>

theorem cron_one_job_per_due_subscriber:
  assumes "unique_on sub_chat_id (subscribers d)"
  shows "\<exists>d' new. createCronNotificationJobs DbOk row_locked cache clock now d =
       (Inr (length (due_subscribers row_locked now d)), d') \<and>
     notification_jobs d' = notification_jobs d @ new \<and>
     map nj_chat_id new = map sub_chat_id (due_subscribers row_locked now d) \<and>
     length new \<le> 100 \<and> distinct (map nj_chat_id new) \<and>
     (\<forall>r \<in> set new. nj_status r = Pending \<and> nj_scheduled_at r = now) \<and>
     (\<forall>s \<in> set (due_subscribers row_locked now d). s \<in> set (subscribers d) \<and> sub_due now (notification_jobs d) s)"
proof -
  let ?due = "due_subscribers row_locked now d"
  let ?new = "cron_rows cache clock now (notification_seq d) ?due"
  have "length ?due \<le> 100"
    unfolding due_subscribers_def using length_sql_select [of _ last_sent CronBatchLimit] by fastforce
  moreover have "\<forall>r \<in> set ?new. nj_status r = Pending \<and> nj_scheduled_at r = now" using cron_rows_fresh by blast
  moreover have "distinct (map nj_chat_id ?new)"
    using distinct_due_subscribers [OF assms, of row_locked now] by (simp add: cron_rows_chats)
  ultimately show ?thesis
    using due_subscribersD [of _ row_locked now d]
    by (auto simp: createCronNotificationJobs_def cron_body_eq [OF assms] Let_def cron_rows_chats intro!: exI [of _ ?new])
qed

theorem cron_one_job_per_due_subscriber_witness:
  "\<exists>d' new. createCronNotificationJobs DbOk (\<lambda>_. False) Map.empty 0 (100 * minute) (ex_db\<lparr>notification_jobs := []\<rparr>) = (Inr 1, d') \<and>
     notification_jobs d' = new \<and> map nj_chat_id new = [42]"
proof -
  let ?d = "ex_db\<lparr>notification_jobs := []\<rparr>"
  have u: "unique_on sub_chat_id (subscribers ?d)" by (simp add: ex_simps unique_on_def)
  have "due_subscribers (\<lambda>_. False) (100 * minute) ?d = [ex_subscriber]"
    by (simp add: due_subscribers_def sql_select_def sub_due_def sql_exists_def date_trunc_minute_def ex_simps)
  moreover have "notification_jobs ?d = []" "sub_chat_id ex_subscriber = 42" by (simp_all add: ex_simps)
  ultimately show ?thesis
    using cron_one_job_per_due_subscriber [OF u, of "\<lambda>_. False" Map.empty 0 "100 * minute"] by auto
qed

text \<open>
  Overlapping or repeated cron runs do not notify a chat twice: right after a run, none of the chats
  it served is due, at any time, for as long as their notifications are open.
\<close>

lemma cron_run_not_repeated:
  assumes "unique_on sub_chat_id (subscribers d)"
    and "createCronNotificationJobs DbOk row_locked cache clock now d = (Inr n, d')"
    and "s \<in> set (due_subscribers row_locked now d)"
    and "s' \<in> set (due_subscribers row_locked' t d')"
  shows "sub_chat_id s' \<noteq> sub_chat_id s"
proof
  assume same: "sub_chat_id s' = sub_chat_id s"
  let ?new = "cron_rows cache clock now (notification_seq d) (due_subscribers row_locked now d)"
  have d': "notification_jobs d' = notification_jobs d @ ?new"
    using assms(2) by (auto simp: createCronNotificationJobs_def cron_body_eq [OF assms(1)] Let_def)
  have "sub_chat_id s \<in> set (map nj_chat_id ?new)" using assms(3) by (simp add: cron_rows_chats)
  then obtain r where r: "r \<in> set ?new" "nj_chat_id r = sub_chat_id s" by auto
  have "\<not> sub_due t (notification_jobs d') s'"
    using r same cron_rows_fresh [OF r(1)] by (intro not_due_with_job [of r]) (auto simp: d')
  with due_subscribersD [OF assms(4)] show False by simp
qed

text \<open>The interval the user chose is kept: the subscriber is not due again before it has passed.\<close>

lemma cadence_respected:
  assumes "last_sent s = Some (date_trunc_minute scheduledAt)" "interval_minutes s = Some m"
    and "date_trunc_minute now < date_trunc_minute scheduledAt + m * minute"
  shows "s \<notin> set (due_subscribers row_locked now d)"
  using not_due_before_interval [OF assms] due_subscribersD [of s row_locked now d] by blast

section \<open>Replies\<close>

text \<open>
  C8: the replies of a chat leave in the order they were queued: a claimed reply is the earliest reply
  of its chat that is not yet sent or given up, and after the claim it is the only one of the chat in flight.
\<close>

theorem replies_in_order:
  assumes inv: "replies_inv (reply_seq d) (telegram_replies d)"
    and c: "claimPendingTelegramReply fault try_lock now tok snapshot d = (Inr (Some job), d')"
  shows "(\<forall>e \<in> set (telegram_replies d). tr_chat_id e = rj_chat_id job \<longrightarrow> tr_open e \<longrightarrow> rj_id job \<le> tr_id e) \<and>
     (\<forall>e \<in> set (telegram_replies d'). tr_chat_id e = rj_chat_id job \<longrightarrow> tr_status e = Sending \<longrightarrow> tr_id e = rj_id job)"
proof -
  note loop = run_tx_Inr [OF c [unfolded claimPendingTelegramReply_def]]
  from claim_reply_loop_cases [OF loop] obtain r where
    r: "r \<in> set (telegram_replies d)" "tr_claimable now r" "tr_head (telegram_replies d) r" "job = tr_job (tr_claim now tok r)"
    and d': "telegram_replies d' = sql_update (\<lambda>x. tr_id x = tr_id r \<and> tr_claimable now x \<and> tr_head (telegram_replies d) x)
        (tr_claim now tok) (telegram_replies d)"
    by auto
  have job: "rj_id job = tr_id r" "rj_chat_id job = tr_chat_id r"
    by (simp_all add: r(4) tr_job_def tr_claim_def)
  have "tr_claim now tok r \<in> set (telegram_replies d')" using r by (force simp: d' set_sql_update)
  moreover have "replies_inv (reply_seq d') (telegram_replies d')" using claim_reply_loop_inv [OF loop inv] .
  ultimately have "e = tr_claim now tok r"
    if "e \<in> set (telegram_replies d')" "tr_chat_id e = tr_chat_id r" "tr_status e = Sending" for e
    using that one_in_flight [of "reply_seq d'" "telegram_replies d'" e "tr_claim now tok r"] by (simp add: tr_claim_def)
  then have "tr_id e = tr_id r"
    if "e \<in> set (telegram_replies d')" "tr_chat_id e = tr_chat_id r" "tr_status e = Sending" for e
    using that rq.claim_key [of now tok r] by fastforce
  then show ?thesis
    using r(3) by (auto simp: job tr_head_iff)
qed

definition ex_reply_row :: reply_row where
  "ex_reply_row =
     \<lparr>tr_id = 3, tr_source_update_id = 9, tr_sequence_no = 0, tr_chat_id = 42, tr_operation = telegramReplySendMessage,
      tr_message_id = 0, tr_message_text = Lit ''a'', tr_reply_markup = None, tr_status = Pending, tr_attempts = 0,
      tr_claim_token = None, tr_claimed_until = None, tr_next_attempt_at = 0, tr_sent_at = None, tr_failed_at = None,
      tr_last_error = None, tr_updated_at = 0\<rparr>"

definition ex_reply_db :: db where
  "ex_reply_db = (empty_db 0)\<lparr>reply_seq := 5,
     telegram_replies := [ex_reply_row, ex_reply_row\<lparr>tr_id := 4, tr_sequence_no := 1\<rparr>]\<rparr>"

theorem replies_in_order_witness:
  "\<exists>job d'. claimPendingTelegramReply DbOk ex_free 0 ''t'' ex_reply_db ex_reply_db = (Inr (Some job), d') \<and> rj_id job \<le> 3"
proof -
  have "replies_inv (reply_seq ex_reply_db) (telegram_replies ex_reply_db)"
    by (auto simp: ex_reply_db_def ex_reply_row_def empty_db_def replies_inv_def unique_on_def tr_row_ok_def)
  moreover obtain job d' where "claimPendingTelegramReply DbOk ex_free 0 ''t'' ex_reply_db ex_reply_db = (Inr (Some job), d')"
    "rj_chat_id job = 42"
    by (simp add: claimPendingTelegramReply_def reply_candidates_def sql_select_def tr_claimable_def tr_open_def tr_head_def
        sql_exists_def ex_reply_db_def ex_reply_row_def empty_db_def ex_free_def tr_job_def tr_claim_def)
  ultimately show ?thesis
    using replies_in_order [of ex_reply_db DbOk ex_free 0 "''t''" ex_reply_db job d']
    by (fastforce simp: ex_reply_db_def ex_reply_row_def empty_db_def tr_open_def)
qed

text \<open>
  C37: a reply makes at most one call to Telegram, the one it was queued for, and only while its claim is
  current: unless the chat lock, the claim check or the decoding of the keyboard stops it, exactly that call.
\<close>

theorem reply_sends_what_was_queued:
  "calls (processTelegramReply token env decode_err job w) =
     (if de_lock_err env = None \<and>
         ensureTelegramReplyClaimCurrent (de_claim_err env) (de_now env 2) job (de_others env 2 (wdb w)) = None \<and>
         (rj_markup job = None \<or> decode_err = None)
      then calls w @
        (if rj_operation job = ''send_message'' then [SendMessage (rj_chat_id job) (rj_text job) (rj_markup job)]
         else if rj_operation job = ''edit_message''
         then [EditMessage (rj_chat_id job) (rj_message_id job) (rj_text job) (rj_markup job)] else [])
      else calls w)"
  by (simp add: processTelegramReply_calls reply_call_def)

end
