(* ===== verification/Alert_Target.thy ===== *)
theory Alert_Target
  imports Alert_Percent
begin

text \<open>
  The target price of an alert in floating point (\<^verbatim>\<open>alertTarget\<close>): for a percentage of whole hundredths
  the factor \<^verbatim>\<open>10000 + math.Round(percent*100)\<close> is exact, only the multiplication and the division
  round, and the target lies on the right side of the base price.
\<close>

lemma pos_int_representable: "0 < n \<Longrightarrow> n \<le> 999999 \<Longrightarrow> f64 (of_int n) = Fin (of_int n)"
proof (rule f64_representable)
  assume n: "0 < n" "n \<le> 999999"
  have "(of_int n :: rat) \<le> of_int 999999" using n(2) by (simp only: of_int_le_iff)
  also have "\<dots> < pow2 1024" using pow2_mono [of 20 1024] by (simp add: pow2_def)
  finally have "(of_int n :: rat) < pow2 1024" .
  moreover have "(of_int n :: rat) = of_int n * pow2 0" by (simp add: pow2_def)
  ultimately show "representable (of_int n)"
    unfolding representable_def using n by (intro exI [of _ n] exI [of _ 0]) simp
qed

text \<open>A product or quotient in the ordinary range is rounded with a relative error of at most \<open>2 ^ -53\<close>.\<close>

lemma f64_ordinary:
  assumes "1 / 100000000000000000000 \<le> x" "x \<le> 100000000000000000000"
  shows "\<exists>r. f64 x = Fin r \<and> \<bar>r - x\<bar> \<le> x / 9007199254740992"
proof -
  have "(100000000000000000000 :: rat) \<le> pow2 70" by (simp add: pow2_def)
  moreover have "pow2 70 \<le> pow2 1022" "pow2 (- 1022) \<le> pow2 (- 70)" by (intro pow2_mono; simp)+
  moreover have "pow2 (- 70) \<le> 1 / 100000000000000000000" by (simp add: pow2_def)
  moreover have "0 \<le> x" using assms(1) by (rule order_trans [rotated]) simp
  ultimately have "pow2 (- 1022) \<le> \<bar>x\<bar>" "\<bar>x\<bar> \<le> pow2 1022" using assms by auto
  from f64_close [OF this] \<open>0 \<le> x\<close> show ?thesis by (simp add: pow2_def)
qed

text \<open>The rounding errors of the two operations together stay below \<open>2 ^ -51\<close>, far below one hundredth of a percent.\<close>

lemma target_error:
  fixes b m r1 r2 :: rat
  assumes "0 < m" "\<bar>r1 - m\<bar> \<le> m / 9007199254740992" "\<bar>r2 - r1 / 10000\<bar> \<le> r1 / 10000 / 9007199254740992"
  shows "\<bar>r2 - m / 10000\<bar> \<le> m / 10000 / 2251799813685248"
proof -
  have "r1 \<le> 2 * m" using assms(1,2) by linarith
  then have "r1 / 10000 / 9007199254740992 \<le> m / 10000 / 4503599627370496" by (simp add: field_simps)
  with assms show ?thesis by linarith
qed

lemma target_side:
  fixes b t :: rat and h :: int
  assumes "0 < b" "h \<noteq> 0" "- 10000 < h" "h \<le> 100000"
    and "\<bar>t - b * of_int (10000 + h) / 10000\<bar> \<le> b * of_int (10000 + h) / 10000 / 2251799813685248"
  shows "0 < t" "0 < h \<longleftrightarrow> b < t" "h < 0 \<longleftrightarrow> t < b"
proof -
  let ?x = "of_int (10000 + h) :: rat"
  have x: "1 \<le> ?x" "?x \<le> 110000" using assms(3,4) by (simp_all flip: of_int_add)
  have near: "m * (1 - 1 / 2251799813685248) \<le> 10000 * t \<and> 10000 * t \<le> m * (1 + 1 / 2251799813685248)"
    if "\<bar>t - m / 10000\<bar> \<le> m / 10000 / 2251799813685248" for t m :: rat
    using that by (simp add: distrib_left right_diff_distrib; linarith)
  have t: "b * ?x * (1 - 1 / 2251799813685248) \<le> 10000 * t" "10000 * t \<le> b * ?x * (1 + 1 / 2251799813685248)"
    using near [of t "b * ?x"] assms(5) by simp_all
  have "0 < b * ?x * (1 - 1 / 2251799813685248)" using assms(1) x by simp
  with t(1) show "0 < t" by simp
  have up: "b < t" if "0 < h"
  proof -
    have "10001 \<le> ?x" using that by (simp flip: of_int_add)
    then have "10000 < ?x * (1 - 1 / 2251799813685248)" by simp
    with assms(1) have "b * 10000 < b * (?x * (1 - 1 / 2251799813685248))" by (rule mult_strict_left_mono [rotated])
    also have "\<dots> \<le> 10000 * t" using t(1) by (simp only: mult.assoc)
    finally show ?thesis by simp
  qed
  have down: "t < b" if "h < 0"
  proof -
    have "?x \<le> 9999" using that by (simp flip: of_int_add)
    then have x': "?x * (1 + 1 / 2251799813685248) < 10000" by simp
    have "10000 * t \<le> b * (?x * (1 + 1 / 2251799813685248))" using t(2) by (simp only: mult.assoc)
    also have "\<dots> < b * 10000" using x' assms(1) by (rule mult_strict_left_mono)
    finally show ?thesis by simp
  qed
  show "0 < h \<longleftrightarrow> b < t" "h < 0 \<longleftrightarrow> t < b" using up down assms(2) by fastforce+
qed

lemma alertTarget_percent:
  assumes h: "h \<noteq> 0" "- 9999 \<le> h" "h \<le> 100000" and b: "1 / 10000000000 \<le> b" "b \<le> 1000000000000"
  shows "\<exists>t. alertTarget (Fin b) (percent_float h) = Inr (Fin t) \<and>
     \<bar>t - b * of_int (10000 + h) / 10000\<bar> \<le> b * of_int (10000 + h) / 10000 / 2251799813685248 \<and>
     0 < t \<and> (0 < h \<longleftrightarrow> b < t)"
proof -
  let ?x = "of_int (10000 + h) :: rat"
  have b0: "0 < b" using b(1) by (rule less_le_trans [rotated]) simp
  have x: "1 \<le> ?x" "?x \<le> 110000" using h(2,3) by (simp_all flip: of_int_add)
  have m: "b * 1 \<le> b * ?x" "b * ?x \<le> 1000000000000 * 110000" using b0 b x by (intro mult_mono; simp)+
  have "1 / 100000000000000000000 \<le> b * ?x" using m(1) b(1) by linarith
  moreover have "b * ?x \<le> 100000000000000000000" using m(2) by linarith
  ultimately obtain r1 where r1: "f64 (b * ?x) = Fin r1" "\<bar>r1 - b * ?x\<bar> \<le> b * ?x / 9007199254740992"
    using f64_ordinary by blast
  have "0 < b * ?x" using b0 x(1) by simp
  with r1(2) have "b * ?x / 2 \<le> r1" "r1 \<le> 2 * (b * ?x)" by linarith+
  then have "1 / 100000000000000000000 \<le> r1 / 10000" "r1 / 10000 \<le> 100000000000000000000" using m b by linarith+
  from f64_ordinary [OF this] obtain r2 where r2: "f64 (r1 / 10000) = Fin r2" "\<bar>r2 - r1 / 10000\<bar> \<le> r1 / 10000 / 9007199254740992" by blast
  have err: "\<bar>r2 - b * ?x / 10000\<bar> \<le> b * ?x / 10000 / 2251799813685248"
    by (rule target_error [OF _ r1(2) r2(2)]) (use b0 x(1) in simp)
  have side: "0 < r2" "0 < h \<longleftrightarrow> b < r2" "h < 0 \<longleftrightarrow> r2 < b"
    using target_side [OF b0 h(1) _ h(3) err] h(2) by simp_all
  have big: "\<bar>h\<bar> \<le> 999999" using h by simp
  have range: "percent_in_range (percent_float h)" using percent_in_range_iff [OF big] h by simp
  have sgn: "f64_lt (Fin 0) (percent_float h) \<longleftrightarrow> 0 < h" "f64_lt (percent_float h) (Fin 0) \<longleftrightarrow> h < 0"
    using percent_float_less_iff [of 0 h] percent_float_less_iff [of h 0] big by simp_all
  have sum: "f64 (10000 + of_int h) = Fin ?x" using pos_int_representable [of "10000 + h"] h by simp
  obtain q where q: "percent_float h = Fin q" using percent_float_Fin [OF big] by blast
  have target: "f64_div (f64_mul (Fin b) (f64_add (Fin 10000) (f64_Round (f64_mul (percent_float h) (Fin 100))))) (Fin 10000) = Fin r2"
    using r1(1) r2(1) sum by (simp add: round_percent [OF big])
  have "alertTarget (Fin b) (percent_float h) = Inr (Fin r2)"
    unfolding alertTarget_def target Let_def sgn
    using range b0 side h(1) by (auto simp: isValidMarketPrice_iff q)
  with err side show ?thesis by blast
qed

end
