(* ===== verification/Alert_Progress.thy ===== *)
theory Alert_Progress
  imports Alert_Facts
begin

text \<open>
  Recorded crossings are not lost: when no statement fails and the chats are free, one run of
  \<^verbatim>\<open>processPriceAlertCrossings\<close> triggers every active alert that has a crossing, with the recorded price,
  and queues its notification, however many batches that takes.
\<close>

section \<open>What one triggering does\<close>

definition fired :: "int \<Rightarrow> float64 \<Rightarrow> time \<Rightarrow> db \<Rightarrow> bool" where
  "fired i price t d \<longleftrightarrow>
     (\<exists>a \<in> set (price_alerts d). pa_id a = i \<and> pa_status a = A_Triggered \<and>
        pa_trigger_price a = Some price \<and> pa_triggered_at a = Some t) \<and>
     (\<exists>r \<in> set (notification_jobs d). nj_price_alert_id r = Some i \<and> nj_status r = Pending)"

text \<open>What triggering the alerts \<open>ids\<close> leaves alone.\<close>

definition others_kept :: "int set \<Rightarrow> db \<Rightarrow> db \<Rightarrow> bool" where
  "others_kept ids d d' \<longleftrightarrow>
     alerts_inv d' \<and> (\<forall>a \<in> set (price_alerts d). pa_id a \<notin> ids \<longrightarrow> a \<in> set (price_alerts d')) \<and>
     set (notification_jobs d) \<subseteq> set (notification_jobs d') \<and>
     price_alert_crossings d' = filter (\<lambda>c. pc_alert_id c \<notin> ids) (price_alert_crossings d)"

lemma others_kept_refl: "alerts_inv d \<Longrightarrow> others_kept {} d d"
  by (simp add: others_kept_def)

lemma others_kept_trans:
  "others_kept I d d1 \<Longrightarrow> others_kept J d1 d2 \<Longrightarrow> others_kept (I \<union> J) d d2"
  by (auto simp: others_kept_def filter_filter intro!: filter_cong)

lemma fired_kept: "fired i p t d \<Longrightarrow> others_kept ids d d' \<Longrightarrow> i \<notin> ids \<Longrightarrow> fired i p t d'"
  unfolding fired_def others_kept_def by blast

definition has_active :: "db \<Rightarrow> int \<Rightarrow> bool" where
  "has_active d i \<longleftrightarrow> (\<exists>a \<in> set (price_alerts d). pa_id a = i \<and> pa_status a = A_Active)"

lemma has_active_kept: "has_active d i \<Longrightarrow> others_kept ids d d' \<Longrightarrow> i \<notin> ids \<Longrightarrow> has_active d' i"
  unfolding has_active_def others_kept_def by blast

lemma trigger_fires:
  assumes inv: "alerts_inv d" and lock: "try_lock chat = Inr True" and act: "has_active d i"
  shows "\<exists>d'. triggerPriceAlert DbOk try_lock now (i, chat, price, t) d = (Inr True, d') \<and>
     others_kept {i} d d' \<and> fired i price t d'"
proof -
  from act obtain a where a: "a \<in> set (price_alerts d)" "pa_id a = i" "pa_status a = A_Active"
    unfolding has_active_def by blast
  let ?d' = "trigger_db now i price t a d"
  have run: "triggerPriceAlert DbOk try_lock now (i, chat, price, t) d = (Inr True, ?d')"
    using trigger_body_active [of d try_lock chat a i] inv lock a by (simp add: triggerPriceAlert_def)
  have "alerts_inv ?d'" by (rule trigger_db_alerts_inv [OF inv a])
  moreover have "b \<in> set (price_alerts ?d')" if "b \<in> set (price_alerts d)" "pa_id b \<noteq> i" for b
    using that by (force simp: trigger_db_def set_sql_update)
  moreover have "pa_set_triggered now price t a \<in> set (price_alerts ?d')"
    using a by (force simp: trigger_db_def set_sql_update)
  then have "\<exists>b \<in> set (price_alerts ?d'). pa_id b = i \<and> pa_status b = A_Triggered \<and>
      pa_trigger_price b = Some price \<and> pa_triggered_at b = Some t"
    by (rule bexI [rotated]) (simp add: pa_set_triggered_def a(2))
  then have "fired i price t ?d'"
    unfolding fired_def by (simp add: trigger_db_def trigger_row_def new_notification_def)
  ultimately show ?thesis
    using run by (auto simp: others_kept_def trigger_db_def)
qed

section \<open>A batch\<close>

definition undisturbed_run :: "crossing_env \<Rightarrow> bool" where
  "undisturbed_run env \<longleftrightarrow>
     ce_delete_err env = None \<and> ce_query_err env = (\<lambda>_. None) \<and> ce_lock env = (\<lambda>_. Inr True) \<and> ce_fault env = (\<lambda>_. DbOk)"

lemma trigger_batch_fires:
  assumes "undisturbed_run env" "alerts_inv d" "distinct (map fst cs)" "\<forall>x \<in> set cs. has_active d (fst x)"
  shows "\<exists>d'. trigger_batch env cs created afterID d =
       ((created + length cs, None, if cs = [] then afterID else fst (last cs)), d') \<and>
     others_kept (fst ` set cs) d d' \<and> (\<forall>(i, chat, price, t) \<in> set cs. fired i price t d')"
  using assms
proof (induction cs arbitrary: created afterID d)
  case Nil
  then show ?case by (simp add: others_kept_refl)
next
  case (Cons c cs)
  obtain i chat price t where c: "c = (i, chat, price, t)" by (cases c)
  have "has_active d i" "ce_lock env chat = Inr True" "ce_fault env i = DbOk"
    using Cons.prems c by (simp_all add: undisturbed_run_def)
  then obtain d1 where d1: "triggerPriceAlert (ce_fault env i) (ce_lock env) (ce_now env i) c d = (Inr True, d1)"
      "others_kept {i} d d1" "fired i price t d1"
    using trigger_fires [OF Cons.prems(2)] c by metis
  have "\<forall>x \<in> set cs. has_active d1 (fst x)"
    using Cons.prems(3,4) has_active_kept [OF _ d1(2)] c by (metis fst_conv image_eqI list.set_intros(2) list.simps(9)
        distinct.simps(2) set_map singletonD)
  moreover have "alerts_inv d1" using d1(2) by (simp add: others_kept_def)
  ultimately obtain d2 where d2: "trigger_batch env cs (created + 1) i d1 =
       ((created + 1 + length cs, None, if cs = [] then i else fst (last cs)), d2)"
      "others_kept (fst ` set cs) d1 d2" "\<forall>(i, chat, price, t) \<in> set cs. fired i price t d2"
    using Cons.IH [of d1 "created + 1" i] Cons.prems by auto
  have "fired i price t d2" using fired_kept [OF d1(3) d2(2)] Cons.prems(3) c by simp
  moreover have "others_kept (fst ` set (c # cs)) d d2"
    using others_kept_trans [OF d1(2) d2(2)] c by simp
  ultimately show ?case using d1(1) d2 c by simp
qed

section \<open>The loop\<close>

lemma candidate_iff:
  "crossing_candidate d c \<noteq> None \<longleftrightarrow> has_active d (pc_alert_id c)"
  by (auto simp: crossing_candidate_def has_active_def find_None_iff)

lemma crossing_candidate_Some:
  "crossing_candidate d c = Some x \<Longrightarrow> \<exists>chat. x = (pc_alert_id c, chat, pc_price c, pc_observed_at c)"
  by (auto simp: crossing_candidate_def find_Some_iff)

text \<open>The rows of the query: the first hundred pending crossings after \<open>afterID\<close>, in the order of their alerts.\<close>

lemma crossing_candidates_ids:
  "map fst (crossing_candidates afterID d) =
     map pc_alert_id (sql_select (\<lambda>c. pc_alert_id c > afterID \<and> crossing_candidate d c \<noteq> None) pc_alert_id
        priceAlertBatchLimit (price_alert_crossings d))" (is "_ = map _ ?sel")
proof -
  have "map fst (List.map_filter (crossing_candidate d) cs) = map pc_alert_id cs"
    if "\<forall>c \<in> set cs. crossing_candidate d c \<noteq> None" for cs
  proof -
    have "fst (the (crossing_candidate d c)) = pc_alert_id c" if "c \<in> set cs" for c
      using crossing_candidate_Some that \<open>\<forall>c \<in> set cs. crossing_candidate d c \<noteq> None\<close> by fastforce
    with that show ?thesis by (simp add: List.map_filter_def)
  qed
  moreover have "\<forall>c \<in> set ?sel. crossing_candidate d c \<noteq> None" using sql_selectD by fastforce
  ultimately show ?thesis by (simp add: crossing_candidates_def)
qed

lemma distinct_sql_select: "unique_on k rows \<Longrightarrow> distinct (map k (sql_select p k' n rows))"
proof -
  assume "unique_on k rows"
  then have "distinct (map k (filter p rows))" by (auto simp: unique_on_def distinct_map inj_on_def)
  then have "distinct (map k (sort_key k' (filter p rows)))"
    by (simp add: distinct_map)
  then show ?thesis unfolding sql_select_def take_map [symmetric] by (rule distinct_take)
qed

lemma le_last: "sorted xs \<Longrightarrow> x \<in> set xs \<Longrightarrow> x \<le> last xs"
  by (cases xs rule: rev_cases) (auto simp: sorted_append)

text \<open>A pending crossing is in the batch or comes after it.\<close>

lemma candidate_in_batch_or_later:
  assumes "c \<in> set (price_alert_crossings d)" "afterID < pc_alert_id c" "has_active d (pc_alert_id c)"
    and ne: "crossing_candidates afterID d \<noteq> []"
  shows "pc_alert_id c \<in> fst ` set (crossing_candidates afterID d) \<or> fst (last (crossing_candidates afterID d)) < pc_alert_id c"
proof -
  let ?p = "\<lambda>c. pc_alert_id c > afterID \<and> crossing_candidate d c \<noteq> None"
  let ?sel = "sql_select ?p pc_alert_id priceAlertBatchLimit (price_alert_crossings d)"
  let ?cs = "crossing_candidates afterID d"
  have p: "?p c" using assms(2,3) candidate_iff by blast
  have "length ?cs = length ?sel"
    using arg_cong [OF crossing_candidates_ids [of afterID d], of length] by (simp only: length_map)
  with ne have sel: "?sel \<noteq> []" by (metis length_0_conv)
  then have l: "last ?sel \<in> set ?sel" by (rule last_in_set)
  have l2: "fst (last ?cs) = pc_alert_id (last ?sel)"
    using last_map [OF ne, of fst] last_map [OF sel, of pc_alert_id] crossing_candidates_ids [of afterID d] by simp
  have ids: "fst ` set ?cs = pc_alert_id ` set ?sel"
    using arg_cong [OF crossing_candidates_ids [of afterID d], of set] by (simp only: list.set_map)
  show ?thesis
  proof (cases "pc_alert_id c \<in> pc_alert_id ` set ?sel")
    case True
    with ids show ?thesis by simp
  next
    case False
    then have "c \<notin> set ?sel" by blast
    from sql_select_least [OF l assms(1) p this] have "pc_alert_id (last ?sel) \<le> pc_alert_id c" .
    moreover have "pc_alert_id (last ?sel) \<noteq> pc_alert_id c"
      using False imageI [OF l, of pc_alert_id] by (metis (no_types))
    ultimately show ?thesis unfolding l2 by linarith
  qed
qed

lemma no_candidates:
  assumes "crossing_candidates afterID d = []" "c \<in> set (price_alert_crossings d)" "afterID < pc_alert_id c"
  shows "\<not> has_active d (pc_alert_id c)"
proof -
  let ?p = "\<lambda>c. pc_alert_id c > afterID \<and> crossing_candidate d c \<noteq> None"
  have "map pc_alert_id (sql_select ?p pc_alert_id priceAlertBatchLimit (price_alert_crossings d)) = []"
    using crossing_candidates_ids [of afterID d] assms(1) by (simp only: list.map)
  then have sel: "sql_select ?p pc_alert_id priceAlertBatchLimit (price_alert_crossings d) = []" by (simp only: map_is_Nil_conv)
  have lim: "0 < priceAlertBatchLimit" by simp
  have "\<forall>c \<in> set (price_alert_crossings d). \<not> ?p c" using sel by (rule sql_select_Nil_iff [OF lim, THEN iffD1])
  with assms(2,3) candidate_iff [of d c] show ?thesis by blast
qed

lemma crossing_candidates_facts:
  assumes "alerts_inv d"
  shows "distinct (map fst (crossing_candidates afterID d))" "sorted (map fst (crossing_candidates afterID d))"
    "\<forall>x \<in> set (crossing_candidates afterID d). has_active d (fst x) \<and> afterID < fst x"
    "\<And>c i chat price t. c \<in> set (price_alert_crossings d) \<Longrightarrow> (i, chat, price, t) \<in> set (crossing_candidates afterID d) \<Longrightarrow>
       pc_alert_id c = i \<Longrightarrow> price = pc_price c \<and> t = pc_observed_at c"
proof -
  have u: "unique_on pc_alert_id (price_alert_crossings d)" using assms by (simp add: alerts_inv_def)
  then show "distinct (map fst (crossing_candidates afterID d))" "sorted (map fst (crossing_candidates afterID d))"
    unfolding crossing_candidates_ids by (simp_all only: distinct_sql_select sorted_sql_select)
  show "\<forall>x \<in> set (crossing_candidates afterID d). has_active d (fst x) \<and> afterID < fst x"
  proof
    fix x
    assume "x \<in> set (crossing_candidates afterID d)"
    from set_crossing_candidates [OF this] obtain c where c: "afterID < pc_alert_id c" "crossing_candidate d c = Some x" by blast
    with candidate_iff [of d c] crossing_candidate_Some [OF c(2)] show "has_active d (fst x) \<and> afterID < fst x" by auto
  qed
  show "price = pc_price c \<and> t = pc_observed_at c"
    if c: "c \<in> set (price_alert_crossings d)" "(i, chat, price, t) \<in> set (crossing_candidates afterID d)" "pc_alert_id c = i"
    for c i chat price t
  proof -
    from set_crossing_candidates [OF c(2)] obtain c' where
      c': "c' \<in> set (price_alert_crossings d)" "crossing_candidate d c' = Some (i, chat, price, t)" by blast
    from crossing_candidate_Some [OF c'(2)] unique_onD [OF u c'(1) c(1)] c(3) show ?thesis by auto
  qed
qed

lemma crossings_loop_fires:
  assumes env: "undisturbed_run env" and inv: "alerts_inv d"
  shows "\<exists>n d' ids. process_crossings_loop env created afterID d = ((n, None), d') \<and>
     others_kept ids d d' \<and> (\<forall>i \<in> ids. afterID < i) \<and>
     (\<forall>c \<in> set (price_alert_crossings d). afterID < pc_alert_id c \<longrightarrow> has_active d (pc_alert_id c) \<longrightarrow>
        fired (pc_alert_id c) (pc_price c) (pc_observed_at c) d')"
  using inv
proof (induction "crossings_after afterID d" arbitrary: created afterID d rule: less_induct)
  case less
  let ?cs = "crossing_candidates afterID d"
  note facts = crossing_candidates_facts [OF less.prems, where afterID = afterID]
  have q: "ce_query_err env afterID = None" using env by (simp add: undisturbed_run_def)
  show ?case
  proof (cases "?cs = []")
    case True
    have "\<not> has_active d (pc_alert_id c)" if "c \<in> set (price_alert_crossings d)" "afterID < pc_alert_id c" for c
      using no_candidates [OF True that(1,2)] .
    with True q less.prems show ?thesis
      by (subst process_crossings_loop.simps) (auto simp: others_kept_refl intro!: exI [of _ "{}"])
  next
    case False
    obtain d1 where d1: "trigger_batch env ?cs created afterID d = ((created + length ?cs, None, fst (last ?cs)), d1)"
      "others_kept (fst ` set ?cs) d d1" "\<forall>(i, chat, price, t) \<in> set ?cs. fired i price t d1"
      using trigger_batch_fires [OF env less.prems facts(1), of created afterID] facts(3) False by auto
    have after: "afterID < fst (last ?cs)" using facts(3) False last_in_set by blast
    have "alerts_inv d1" using d1(2) by (simp add: others_kept_def)
    with less.hyps [OF crossings_after_decreases [OF False d1(1)], of "created + length ?cs"] obtain n d2 ids where
      d2: "process_crossings_loop env (created + length ?cs) (fst (last ?cs)) d1 = ((n, None), d2)"
        "others_kept ids d1 d2" "\<forall>i \<in> ids. fst (last ?cs) < i"
        "\<forall>c \<in> set (price_alert_crossings d1). fst (last ?cs) < pc_alert_id c \<longrightarrow> has_active d1 (pc_alert_id c) \<longrightarrow>
           fired (pc_alert_id c) (pc_price c) (pc_observed_at c) d2" by blast
    have "fired (pc_alert_id c) (pc_price c) (pc_observed_at c) d2"
      if c: "c \<in> set (price_alert_crossings d)" "afterID < pc_alert_id c" "has_active d (pc_alert_id c)" for c
    proof (cases "pc_alert_id c \<in> fst ` set ?cs")
      case True
      then obtain chat price t where x: "(pc_alert_id c, chat, price, t) \<in> set ?cs" by auto
      then have "fired (pc_alert_id c) (pc_price c) (pc_observed_at c) d1" using facts(4) [OF c(1) x refl] d1(3) by auto
      moreover have "pc_alert_id c \<le> fst (last ?cs)"
        using le_last [OF facts(2), of "pc_alert_id c"] True last_map [OF False, of fst] by simp
      then have "pc_alert_id c \<notin> ids" using d2(3) by fastforce
      ultimately show ?thesis using fired_kept d2(2) by blast
    next
      case False
      then have "fst (last ?cs) < pc_alert_id c"
        using candidate_in_batch_or_later [OF c \<open>?cs \<noteq> []\<close>] by blast
      moreover have "c \<in> set (price_alert_crossings d1)" using d1(2) c(1) False by (simp add: others_kept_def)
      ultimately show ?thesis using d2(4) has_active_kept [OF c(3) d1(2) False] by blast
    qed
    moreover have "others_kept (fst ` set ?cs \<union> ids) d d2" by (rule others_kept_trans [OF d1(2) d2(2)])
    moreover have "\<forall>i \<in> fst ` set ?cs \<union> ids. afterID < i" using facts(3) d2(3) after by auto
    ultimately show ?thesis
      using q False d1(1) d2(1) by (subst process_crossings_loop.simps) (auto simp: Let_def)
  qed
qed

end
