(* ===== verification/Alert_Properties.thy ===== *)
theory Alert_Properties
  imports Alert_Target Alert_Progress
begin

text \<open>
  Properties of price alerts: percentages are read exactly, the target lies where the user asked for, a
  valid request is accepted, a crossing is recorded exactly for the crossed alerts, every recorded
  crossing triggers its alert, an alert is triggered and notified once, a canceled alert stays silent.
\<close>

section \<open>Example\<close>

definition ex_alert :: alert_row where
  "ex_alert = new_alert 1 9 42 ''en'' ''BTCUSDT'' 500 (Fin 100) 10 (Fin 105) 20 20"

definition ex_alert_db :: db where
  "ex_alert_db = (empty_db 0)\<lparr>price_alerts := [ex_alert], alert_seq := 2,
     price_alert_crossings := [\<lparr>pc_alert_id = 1, pc_price = Fin 106, pc_observed_at = 30\<rparr>]\<rparr>"

definition ex_entry :: price_entry where
  "ex_entry = \<lparr>pe_current = Fin 100, pe_previous = Fin 99, pe_updated_at = 10\<rparr>"

lemmas ex_alert_simps = ex_alert_def ex_alert_db_def ex_entry_def new_alert_def empty_db_def

lemma ex_alert_inv: "alerts_inv ex_alert_db" "jobs_inv (notification_seq ex_alert_db) (notification_jobs ex_alert_db)"
  by (simp_all add: alerts_inv_def ex_alert_simps unique_on_def unique_where_def alert_checks_def
      isValidMarketPrice_iff live_count_def jobs_inv_def)

section \<open>Percentages and targets\<close>

text \<open>
  C12: percentages are read exactly: a text is accepted as \<open>h\<close> hundredths of a percent exactly when it
  matches the pattern, denotes that number and is not zero and between -99.99 and 1000 percent. The
  detour over a binary floating point number loses nothing.
\<close>

theorem alert_percent_exact:
  "(\<exists>p. parseAlertPercent raw = Inr p \<and> numeric_hundredths p = h) \<longleftrightarrow>
     alertPercentPattern raw \<and> percent_hundredths raw = h \<and> h \<noteq> 0 \<and> - 9999 \<le> h \<and> h \<le> 100000"
proof (cases "alertPercentPattern raw")
  case False
  then show ?thesis by (simp add: parseAlertPercent_def)
next
  case True
  show ?thesis
    using numeric_hundredths_percent [OF percent_hundredths_bound [OF True]]
    by (auto simp: parseAlertPercent_eq [OF True] Let_def True)
qed

text \<open>
  C13: the target price is the base price changed by the percentage, up to a relative rounding error of
  \<open>2 ^ -51\<close>, and it lies on the right side of the base price. For any accepted percentage and any base
  price between \<open>10 ^ -10\<close> and \<open>10 ^ 12\<close> the computation succeeds.
\<close>

theorem alert_target_exact:
  assumes "parseAlertPercent raw = Inr p" "h = percent_hundredths raw" "1 / 10 ^ 10 \<le> b" "b \<le> 10 ^ 12"
  shows "\<exists>t. alertTarget (Fin b) p = Inr (Fin t) \<and>
     \<bar>t - b * (1 + of_int h / 10000)\<bar> \<le> b * (1 + of_int h / 10000) / 2 ^ 51 \<and> (0 < h \<longleftrightarrow> b < t)"
proof -
  have pat: "alertPercentPattern raw" using assms(1) by (auto simp: parseAlertPercent_def split: if_splits)
  from assms(1,2) have p: "p = percent_float h" "h \<noteq> 0" "- 9999 \<le> h" "h \<le> 100000"
    by (simp_all add: parseAlertPercent_eq [OF pat] Let_def split: if_splits)
  have eq: "b * (1 + of_int h / 10000) = b * of_int (10000 + h) / 10000" by (simp add: field_simps)
  obtain t where "alertTarget (Fin b) (percent_float h) = Inr (Fin t)" "0 < h \<longleftrightarrow> b < t"
    "\<bar>t - b * of_int (10000 + h) / 10000\<bar> \<le> b * of_int (10000 + h) / 10000 / 2251799813685248"
    using alertTarget_percent [OF p(2-4), of b] assms(3,4) by auto
  then show ?thesis unfolding eq p(1) by (intro exI [of _ t]) simp
qed

theorem alert_target_exact_witness:
  "\<exists>t. alertTarget (Fin 100) (percent_float (- 150)) = Inr (Fin t) \<and>
     \<bar>t - 100 * (1 + of_int (- 150) / 10000)\<bar> \<le> 100 * (1 + of_int (- 150) / 10000) / 2 ^ 51 \<and> (0 < (- 150 :: int) \<longleftrightarrow> 100 < t)"
proof -
  have "alertPercentPattern ''-1,5%''" "percent_hundredths ''-1,5%'' = - 150" by code_simp+
  then have "parseAlertPercent ''-1,5%'' = Inr (percent_float (- 150))" "- 150 = percent_hundredths ''-1,5%''"
    by (simp_all add: parseAlertPercent_eq)
  from alert_target_exact [OF this, of 100] show ?thesis by simp
qed

section \<open>Creation\<close>

text \<open>
  C23: a valid request is accepted: with a fresh cached price, room for another alert and no conflicting
  alert, the alert is created with the percentage the user wrote and the price from the cache. No
  constraint of the table can reject it.
\<close>

theorem valid_alert_accepted:
  assumes raw: "parseAlertPercent raw = Inr p" "alertSymbol rawSymbol = Some symbol" "lang \<in> {''ua'', ''en'', ''ru''}"
    and price: "cache_Load cache symbol = Some e" "pe_current e = Fin b" "1 / 10 ^ 10 \<le> b" "b \<le> 10 ^ 12"
    and fresh: "pe_updated_at e \<noteq> zero_time" "pe_updated_at e \<le> dbNow" "priceAge dbNow (pe_updated_at e) \<le> minute"
    and room: "live_count chat d < 10"
    and new: "\<not> sql_exists (\<lambda>a. pa_source_update_id a = u) (price_alerts d)"
      "\<not> sql_exists (\<lambda>a. pa_status a = A_Active \<and> pa_chat_id a = chat \<and> pa_symbol a = symbol \<and>
           pa_change_percent a = percent_hundredths raw) (price_alerts d)"
  shows "\<exists>a. createPriceAlert (\<lambda>_. None) cache dbNow createdAt now u chat lang symbol p d =
       Inr (Inr a, d\<lparr>alert_seq := alert_seq d + 1, price_alerts := price_alerts d @ [a]\<rparr>) \<and>
     pa_chat_id a = chat \<and> pa_symbol a = symbol \<and> pa_status a = A_Active \<and>
     pa_change_percent a = percent_hundredths raw \<and> pa_base_price a = Fin b"
proof -
  let ?h = "percent_hundredths raw"
  have pat: "alertPercentPattern raw" using raw(1) by (auto simp: parseAlertPercent_def split: if_splits)
  from raw(1) have p: "p = percent_float ?h" "?h \<noteq> 0" "- 9999 \<le> ?h" "?h \<le> 100000"
    by (simp_all add: parseAlertPercent_eq [OF pat] Let_def split: if_splits)
  obtain t where t: "alertTarget (Fin b) p = Inr (Fin t)" "0 < t" "0 < ?h \<longleftrightarrow> b < t" "t \<noteq> b"
    using alertTarget_percent [OF p(2-4), of b] price(3,4) p(1) p(2) by (fastforce simp: alertTarget_def Let_def split: if_splits)
  have stored: "numeric_hundredths p = ?h"
    using numeric_hundredths_percent [OF percent_hundredths_bound [OF pat]] p(1) by simp
  have sym: "symbol \<in> {''BTCUSDT'', ''ETHUSDT'', ''SOLUSDT'', ''BNBUSDT''}"
    using raw(2) by (auto simp: alertSymbol_def Let_def split: if_splits)
  have b: "0 < b" using price(3) by (rule less_le_trans [rotated]) simp
  let ?a = "new_alert (alert_seq d) u chat lang symbol ?h (Fin b) (pe_updated_at e) (Fin t) createdAt now"
  have "alert_checks ?a"
    using raw(3) sym p(2-4) b t by (auto simp: alert_checks_def new_alert_def isValidMarketPrice_iff)
  moreover have "\<not> alert_conflict (price_alerts d) ?a"
    using new by (auto simp: alert_conflict_def new_alert_def sql_exists_iff)
  ultimately show ?thesis
    using price(1,2) fresh room t(1) stored
    by (simp add: createPriceAlert_def Let_def new_alert_def not_less)
qed

theorem valid_alert_accepted_witness:
  "\<exists>a. createPriceAlert (\<lambda>_. None) [''BTCUSDT'' \<mapsto> ex_entry] 15 15 15 9 42 ''en'' ''BTCUSDT'' (percent_float 500) (empty_db 0) =
     Inr (Inr a, (empty_db 0)\<lparr>alert_seq := 2, price_alerts := [a]\<rparr>) \<and> pa_change_percent a = 500"
proof -
  have "alertPercentPattern ''+5''" "percent_hundredths ''+5'' = 500" "alertSymbol ''btc'' = Some ''BTCUSDT''" by code_simp+
  then have raw: "parseAlertPercent ''+5'' = Inr (percent_float 500)" "alertSymbol ''btc'' = Some ''BTCUSDT''"
    "percent_hundredths ''+5'' = 500"
    by (simp_all add: parseAlertPercent_eq)
  show ?thesis
    using valid_alert_accepted [OF raw(1,2), of "''en''" "[''BTCUSDT'' \<mapsto> ex_entry]" ex_entry 100 15 42 "empty_db 0" 9 15 15] raw(3)
    by (auto simp: cache_Load_def ex_entry_def zero_time_def priceAge_def time_Sub_def wrap64_id live_count_def sql_exists_def empty_db_def)
qed

section \<open>Crossings\<close>

text \<open>
  C22: a valid price, stored within the freshness limit after its observation began, is recorded exactly for
  the alerts it crosses: active, of its symbol, created before the observation began and with the target
  reached from the right side. Crossings recorded before stay as they are.
\<close>

theorem crossings_recorded_exactly:
  assumes "alertSymbol symbol \<noteq> None" "isValidMarketPrice price" "startedAt \<noteq> zero_time" "storedAt \<noteq> zero_time"
    and "startedAt \<le> storedAt" "storedAt \<le> dbNow" "dbNow - minute \<le> startedAt"
  shows "\<exists>d'. capturePriceAlertCrossings None dbNow symbol price startedAt storedAt d = Inr d' \<and>
     pc_alert_id ` set (price_alert_crossings d') =
       pc_alert_id ` set (price_alert_crossings d) \<union>
       {pa_id a | a. a \<in> set (price_alerts d) \<and> pa_symbol a = symbol \<and> pa_status a = A_Active \<and>
          pa_created_at a < startedAt \<and> pa_base_price_at a \<le> startedAt \<and>
          (if 0 < pa_change_percent a then f64_le (pa_target_price a) price
           else pa_change_percent a < 0 \<and> f64_le price (pa_target_price a))} \<and>
     set (price_alert_crossings d) \<subseteq> set (price_alert_crossings d')"
  using assms
  by (auto simp: capturePriceAlertCrossings_def insert_crossings_ids alert_crossed_def not_less
      intro: subsetD [OF insert_crossings_keeps])

theorem crossings_recorded_exactly_witness:
  "\<exists>d'. capturePriceAlertCrossings None 40 ''BTCUSDT'' (Fin 107) 30 35 (ex_alert_db\<lparr>price_alert_crossings := []\<rparr>) = Inr d' \<and>
     pc_alert_id ` set (price_alert_crossings d') = {1}"
proof -
  have "alertSymbol ''BTCUSDT'' \<noteq> None" by code_simp
  then show ?thesis
    using crossings_recorded_exactly [of "''BTCUSDT''" "Fin 107" 30 35 40 "ex_alert_db\<lparr>price_alert_crossings := []\<rparr>"]
    by (simp add: isValidMarketPrice_iff zero_time_def ex_alert_simps)
qed

text \<open>
  C21: no recorded crossing is lost: one undisturbed run of \<^verbatim>\<open>processPriceAlertCrossings\<close> (no error, the chats
  free) ends without error and triggers every active alert with a recorded crossing, at the recorded
  price and time, each with its notification queued, however many batches of a hundred that takes.
\<close>

theorem crossings_all_processed:
  assumes inv: "alerts_inv d" and env: "undisturbed_run env"
    and c: "c \<in> set (price_alert_crossings d)" "0 < pc_alert_id c"
    and a: "a \<in> set (price_alerts d)" "pa_id a = pc_alert_id c" "pa_status a = A_Active"
  shows "\<exists>n d'. processPriceAlertCrossings env d = ((n, None), d') \<and> fired (pc_alert_id c) (pc_price c) (pc_observed_at c) d'"
proof -
  let ?d = "delete_stale_crossings d"
  have "\<not> crossing_stale d c"
    using alert_unique [OF inv _ a(1)] a(2,3) by (auto simp: crossing_stale_def sql_exists_iff)
  then have c': "c \<in> set (price_alert_crossings ?d)" using c(1) by (simp add: delete_stale_crossings_def)
  have act: "has_active ?d (pc_alert_id c)" unfolding has_active_def using a by (auto simp: delete_stale_crossings_def)
  have "ce_delete_err env = None" using env by (simp add: undisturbed_run_def)
  with crossings_loop_fires [OF env delete_stale_inv [OF inv], of 0 0] c' c(2) act show ?thesis
    by (auto simp: processPriceAlertCrossings_def)
qed

theorem crossings_all_processed_witness:
  "\<exists>n d'. processPriceAlertCrossings \<lparr>ce_delete_err = None, ce_query_err = (\<lambda>_. None), ce_lock = (\<lambda>_. Inr True),
       ce_fault = (\<lambda>_. DbOk), ce_now = (\<lambda>_. 50)\<rparr> ex_alert_db = ((n, None), d') \<and> fired 1 (Fin 106) 30 d'"
  using crossings_all_processed [OF ex_alert_inv(1), of "\<lparr>ce_delete_err = None, ce_query_err = (\<lambda>_. None), ce_lock = (\<lambda>_. Inr True),
       ce_fault = (\<lambda>_. DbOk), ce_now = (\<lambda>_. 50)\<rparr>" "\<lparr>pc_alert_id = 1, pc_price = Fin 106, pc_observed_at = 30\<rparr>" ex_alert]
  by (simp add: undisturbed_run_def ex_alert_simps)

section \<open>Triggering and cancellation\<close>

text \<open>
  C20: an alert is triggered once: triggering an active alert cannot fail for reasons of its own and leaves
  exactly one notification for it; a commit whose acknowledgement is lost has the same effect; and any
  later attempt to trigger it again, by any worker, changes nothing.
\<close>

theorem alert_triggered_once:
  assumes inv: "alerts_inv d" and a: "a \<in> set (price_alerts d)" "pa_id a = i" "pa_status a = A_Active"
    and lock: "try_lock chat = Inr True"
  shows "\<exists>d'. triggerPriceAlert DbOk try_lock now (i, chat, price, t) d = (Inr True, d') \<and>
     affected (\<lambda>r. nj_price_alert_id r = Some i) (notification_jobs d') = 1 \<and>
     triggerPriceAlert (DbCommitLost e) try_lock now (i, chat, price, t) d = (Inl e, d') \<and>
     snd (triggerPriceAlert fault try_lock' now' (i, chat', price', t') d') = d'"
proof -
  let ?d' = "trigger_db now i price t a d"
  have body: "trigger_body try_lock now i chat price t d = Inr (True, ?d')"
    by (rule trigger_body_active [OF inv _ a]) (rule lock)
  have "affected (\<lambda>r. nj_price_alert_id r = Some i) (notification_jobs d) = 0"
    using active_no_job [OF inv a(1,3)] a(2) by (auto simp: affected_0_iff)
  then have one: "affected (\<lambda>r. nj_price_alert_id r = Some i) (notification_jobs ?d') = 1"
    by (simp add: trigger_db_def trigger_row_def new_notification_def)
  have "pa_status b \<noteq> A_Active" if "b \<in> set (price_alerts ?d')" "pa_id b = i" for b
  proof -
    from that(1) consider b0 where "b = pa_set_triggered now price t b0" | "\<not> (pa_id b = i \<and> pa_status b = A_Active)"
      unfolding trigger_db_def by (auto simp: set_sql_update)
    with that(2) show ?thesis by cases (simp_all add: pa_set_triggered_def)
  qed
  then have "trigger_body try_lock' now' i chat' price' t' ?d' = Inr (x, d'') \<Longrightarrow> d'' = ?d'" for x d''
    using trigger_body_cases [OF _ trigger_db_alerts_inv [OF inv a]] by blast
  then have "snd (triggerPriceAlert fault try_lock' now' (i, chat', price', t') ?d') = ?d'"
    unfolding triggerPriceAlert_def prod.case by (intro run_tx_preserves [where P = "\<lambda>d. d = ?d'"]) auto
  with one show ?thesis by (simp add: triggerPriceAlert_def run_tx_def body)
qed

theorem alert_triggered_once_witness:
  "\<exists>d'. triggerPriceAlert DbOk (\<lambda>_. Inr True) 50 (1, 42, Fin 106, 30) ex_alert_db = (Inr True, d') \<and>
     affected (\<lambda>r. nj_price_alert_id r = Some 1) (notification_jobs d') = 1"
proof -
  have "ex_alert \<in> set (price_alerts ex_alert_db)" "pa_id ex_alert = 1" "pa_status ex_alert = A_Active"
    by (simp_all add: ex_alert_simps)
  from alert_triggered_once [OF ex_alert_inv(1) this, of "\<lambda>_. Inr True" 42 50 "Fin 106" 30] show ?thesis by blast
qed

text \<open>
  C19: a canceled alert stays silent: after a successful cancellation no notification of the alert is
  open, and the check before the delivery refuses one that a worker still holds.
\<close>

theorem canceled_alert_silent:
  assumes inv: "alerts_inv d" "jobs_inv (notification_seq d) (notification_jobs d)"
    and cancel: "cancelPriceAlert err now chat i d = Inr (True, d')"
    and job: "job_kind job = PriceAlert" "job_price_alert_id job = i"
  shows "notificationEnabled None job d' = Inr False \<and>
     affected (\<lambda>r. nj_price_alert_id r = Some i \<and> nj_open r) (notification_jobs d') = 0"
proof -
  let ?p = "\<lambda>a. pa_id a = i \<and> pa_chat_id a = chat \<and> alert_live d a"
  from cancelPriceAlert_cases [OF cancel] obtain a where
    a: "a \<in> set (price_alerts d)" "pa_id a = i" "pa_chat_id a = chat" "alert_live d a"
    and d': "price_alerts d' = sql_update ?p (pa_set_canceled now) (price_alerts d)"
      "notification_jobs d' = sql_update (\<lambda>r. nj_price_alert_id r = Some i \<and> nj_chat_id r = chat \<and> nj_kind r = PriceAlert \<and> nj_open r)
          (nj_set_canceled now ''price alert canceled'') (notification_jobs d)" by auto
  have "\<not> alert_queued (notification_jobs d') a"
    unfolding d'(2) using inv(2) by (intro canceled_not_queued [OF inv(1) _ a(1-3)]) (simp add: jobs_inv_def)
  then have "affected (\<lambda>r. nj_price_alert_id r = Some i \<and> nj_open r) (notification_jobs d') = 0"
    using a(2) by (auto simp: alert_queued_def sql_exists_iff affected_0_iff)
  moreover have "pa_status b \<noteq> A_Triggered" if "b \<in> set (price_alerts d')" "pa_id b = i" for b
  proof -
    from that(1) obtain b0 where b0: "b0 \<in> set (price_alerts d)" "b = (if ?p b0 then pa_set_canceled now b0 else b0)"
      by (auto simp: d'(1) set_sql_update)
    then have "pa_id b0 = i" using that(2) by (simp add: pa_set_canceled_def split: if_splits)
    with alert_unique [OF inv(1) b0(1) a(1)] a have "?p b0" by simp
    with b0(2) show ?thesis by (simp add: pa_set_canceled_def)
  qed
  then have "notificationEnabled None job d' = Inr False"
    by (auto simp: notificationEnabled_def job sql_exists_iff)
  ultimately show ?thesis by simp
qed

theorem canceled_alert_silent_witness:
  "\<exists>d'. cancelPriceAlert (\<lambda>_. None) 60 42 1 ex_alert_db = Inr (True, d') \<and>
     affected (\<lambda>r. nj_price_alert_id r = Some 1 \<and> nj_open r) (notification_jobs d') = 0"
proof -
  obtain d' where d': "cancelPriceAlert (\<lambda>_. None) 60 42 1 ex_alert_db = Inr (True, d')"
    by (simp add: cancelPriceAlert_def Let_def alert_live_def ex_alert_simps)
  from canceled_alert_silent [OF ex_alert_inv this,
      of "\<lparr>job_kind = PriceAlert, job_price_alert_id = 1, job_id = 1, job_chat_id = 42, job_lang = ''en'', job_text = Lit [],
           job_claim_token = [], job_scheduled_at = 0, job_attempts = 1\<rparr>"] d'
  show ?thesis by simp
qed

end
