(* ===== verification/Setting_Order.thy ===== *)
theory Setting_Order
  imports Database_Invariant
begin

text \<open>
  Settings are last-writer-wins registers. The table \<^verbatim>\<open>telegram_mutation_versions\<close> implements one register
  per chat and setting, which accepts a write only if its version is newer; so updates that arrive or are
  processed out of order leave the setting the newest one asked for.
\<close>

section \<open>The abstract register\<close>

type_synonym version = "int \<times> int"

definition register_write :: "version \<Rightarrow> version option \<Rightarrow> bool \<times> version option" where
  "register_write v cur = (case cur of None \<Rightarrow> (True, Some v) | Some w \<Rightarrow> (w < v, Some (max w v)))"

definition registers :: "version_row list \<Rightarrow> int \<times> string \<Rightarrow> version option" where
  "registers rows = (\<lambda>(chat, setting). version_of chat setting rows)"

lemma upsert_version_registers:
  assumes "versions_inv rows"
  shows "0 < fst (upsert_version chat setting v rows) \<longleftrightarrow> fst (register_write v (registers rows (chat, setting)))"
    and "registers (snd (upsert_version chat setting v rows)) =
      (registers rows)((chat, setting) := snd (register_write v (registers rows (chat, setting))))"
  using upsert_version_spec [OF assms, where chat = chat and setting = setting and v = v]
  by (auto simp: registers_def register_write_def fun_eq_iff split: option.splits)

text \<open>Is the interval change superseded by a newer (un)subscription?\<close>

definition superseded :: "version \<Rightarrow> version option \<Rightarrow> bool" where
  "superseded v sub = (case sub of None \<Rightarrow> False | Some w \<Rightarrow> v < w)"

lemma sql_superseded:
  assumes "versions_inv rows"
  shows "sql_exists (\<lambda>r. mv_for chat setting r \<and> mv_version r > v) rows = superseded v (registers rows (chat, setting))"
proof (cases "sql_exists (mv_for chat setting) rows")
  case False
  then have "version_of chat setting rows = None" by (simp add: version_of_None_iff)
  with False show ?thesis by (auto simp: registers_def superseded_def sql_exists_iff)
next
  case True
  then obtain r where r: "r \<in> set rows" "mv_for chat setting r" by (auto simp: sql_exists_iff)
  have reg: "registers rows (chat, setting) = Some (mv_version s)" if "s \<in> set rows" "mv_for chat setting s" for s
    using version_of_Some [OF assms that] by (simp add: registers_def)
  have same: "mv_version s = mv_version r" if "s \<in> set rows" "mv_for chat setting s" for s
    using reg [OF that] reg [OF r] by simp
  have "sql_exists (\<lambda>r. mv_for chat setting r \<and> mv_version r > v) rows \<longleftrightarrow> v < mv_version r"
  proof
    assume "sql_exists (\<lambda>r. mv_for chat setting r \<and> mv_version r > v) rows"
    then obtain s where "s \<in> set rows" "mv_for chat setting s" "v < mv_version s" by (auto simp: sql_exists_iff)
    with same [of s] show "v < mv_version r" by metis
  next
    assume "v < mv_version r"
    with r show "sql_exists (\<lambda>r. mv_for chat setting r \<and> mv_version r > v) rows" by (auto simp: sql_exists_iff)
  qed
  then show ?thesis by (simp add: superseded_def reg [OF r])
qed

text \<open>The decision of \<^verbatim>\<open>allowTelegramMutation\<close> over the abstract registers.\<close>

definition mutation_spec ::
  "int \<Rightarrow> string \<Rightarrow> version \<Rightarrow> (int \<times> string \<Rightarrow> version option) \<Rightarrow> bool \<times> (int \<times> string \<Rightarrow> version option)" where
  "mutation_spec chat setting v regs =
     (if setting = '''' then (True, regs)
      else if setting = ''interval'' \<and> superseded v (regs (chat, ''subscription'')) then (False, regs)
      else (let (accepted, new) = register_write v (regs (chat, setting)) in (accepted, regs((chat, setting) := new))))"

lemma allowTelegramMutation_spec:
  assumes "versions_inv (telegram_mutation_versions d)" "err = (\<lambda>_. None)"
  shows "\<exists>rows. allowTelegramMutation err job u d =
       Inr (fst (mutation_spec (uj_chat_id job) (telegramMutationSetting u) (uj_version job)
                   (registers (telegram_mutation_versions d))), d\<lparr>telegram_mutation_versions := rows\<rparr>) \<and>
     versions_inv rows \<and>
     registers rows = snd (mutation_spec (uj_chat_id job) (telegramMutationSetting u) (uj_version job)
                             (registers (telegram_mutation_versions d)))"
proof -
  let ?rows = "telegram_mutation_versions d" and ?s = "telegramMutationSetting u"
  let ?c = "uj_chat_id job" and ?v = "uj_version job"
  have sup: "sql_exists (\<lambda>r. mv_for ?c ''subscription'' r \<and> ?v < mv_version r) ?rows =
      superseded ?v (registers ?rows (?c, ''subscription''))"
    by (rule sql_superseded [OF assms(1)])
  note up = upsert_version_registers [OF assms(1), of ?c ?s ?v]
  show ?thesis
  proof (cases "?s = '''' \<or> ?s = ''interval'' \<and> superseded ?v (registers ?rows (?c, ''subscription''))")
    case True
    then show ?thesis
      using assms by (intro exI [of _ ?rows]) (auto simp: allowTelegramMutation_def mutation_spec_def Let_def sup)
  next
    case False
    then show ?thesis
      using up versions_inv_upsert [OF assms(1)]
      by (intro exI [of _ "snd (upsert_version ?c ?s ?v ?rows)"])
        (auto simp: allowTelegramMutation_def mutation_spec_def Let_def sup case_prod_unfold assms(2))
  qed
qed


section \<open>Languages\<close>

definition language_of :: "int \<Rightarrow> db \<Rightarrow> string option" where
  "language_of chat d = Option.bind (find_subscriber chat d) language_code"

lemma find_sql_update:
  "(\<And>s. p (f s) = p s) \<Longrightarrow> find p (sql_update p f rows) = map_option f (find p rows)"
  by (induction rows) auto

lemma find_append: "find p (xs @ ys) = (case find p xs of None \<Rightarrow> find p ys | Some x \<Rightarrow> Some x)"
  by (induction xs) auto

lemma language_of_set_language: "language_of chat (set_language now chat lang d) = Some lang"
proof (cases "sql_exists (\<lambda>s. sub_chat_id s = chat) (subscribers d)")
  case True
  then have "find (\<lambda>s. sub_chat_id s = chat) (subscribers d) \<noteq> None" by (auto simp: find_None_iff sql_exists_iff)
  with True show ?thesis
    by (auto simp: language_of_def find_subscriber_def set_language_def upsert_subscriber_def new_subscriber_def find_sql_update)
next
  case False
  then have "find (\<lambda>s. sub_chat_id s = chat) (subscribers d) = None" by (auto simp: find_None_iff sql_exists_iff)
  then have "find (\<lambda>s. sub_chat_id s = chat) (subscribers d @ [s]) = (if sub_chat_id s = chat then Some s else None)" for s
    by (simp add: find_append)
  with False show ?thesis
    by (simp add: language_of_def find_subscriber_def set_language_def upsert_subscriber_def new_subscriber_def)
qed

text \<open>A callback that selects a language.\<close>

definition selects_language :: "int \<Rightarrow> string \<Rightarrow> update_job \<times> tg_update \<Rightarrow> bool" where
  "selects_language chat lang ju \<longleftrightarrow>
     uj_chat_id (fst ju) = chat \<and> AllowedLanguage lang \<and>
     (\<exists>query m. u_callback (snd ju) = Some query \<and> cb_message query = Some m \<and> m_chat m = Some chat \<and>
        cb_data query = ''setlang_'' @ lang)"

lemma selects_language_setting: "selects_language chat lang (job, u) \<Longrightarrow> telegramMutationSetting u = ''language''"
  by (auto simp: selects_language_def telegramMutationSetting_def chat_of_def HasPrefix_def TrimPrefix_def)

text \<open>Processing one such update, in the absence of errors.\<close>

lemma apply_select_language:
  assumes sel: "selects_language chat lang (job, u)" and env: "he_err env = (\<lambda>_. None)"
    and inv: "versions_inv (telegram_mutation_versions d)"
  shows "\<exists>col d'. apply_update env job u d = Inr (col, d') \<and> versions_inv (telegram_mutation_versions d') \<and>
     registers (telegram_mutation_versions d') = (registers (telegram_mutation_versions d))((chat, ''language'') :=
       snd (register_write (uj_version job) (registers (telegram_mutation_versions d) (chat, ''language'')))) \<and>
     language_of chat d' =
       (if fst (register_write (uj_version job) (registers (telegram_mutation_versions d) (chat, ''language'')))
        then Some lang else language_of chat d)"
proof -
  let ?rows = "telegram_mutation_versions d"
  let ?new = "snd (upsert_version chat ''language'' (uj_version job) ?rows)"
  let ?d = "d\<lparr>telegram_mutation_versions := ?new\<rparr>"
  have chat: "uj_chat_id job = chat" using sel by (simp add: selects_language_def)
  have allow: "allowTelegramMutation (he_err env) job u d =
      Inr (fst (register_write (uj_version job) (registers ?rows (chat, ''language''))), ?d)"
    using upsert_version_registers(1) [OF inv, where chat = chat and setting = "''language''" and v = "uj_version job"]
    by (simp add: allowTelegramMutation_def selects_language_setting [OF sel] Let_def env chat case_prod_unfold)
  obtain query m where u: "u_callback u = Some query" "cb_message query = Some m" "m_chat m = Some chat"
      "cb_data query = ''setlang_'' @ lang" "AllowedLanguage lang"
    using sel by (auto simp: selects_language_def)
  have run: "processTelegramUpdateWithDB env u (empty_handler_state ?d) =
      (None, reply chat (Text lang ''lang_fixed'') MNil
               (ack (cb_id query) (Lit []) ((empty_handler_state ?d)\<lparr>hs_db := set_language (he_now env) chat lang ?d\<rparr>)))"
    using u env
    by (simp add: processTelegramUpdateWithDB_def handle_callback_def handle_setlang_def Let_def HasPrefix_def
        empty_handler_state_def)
  have col: "col_err (hs_col (reply chat (Text lang ''lang_fixed'') MNil
               (ack (cb_id query) (Lit []) ((empty_handler_state ?d)\<lparr>hs_db := set_language (he_now env) chat lang ?d\<rparr>)))) = None"
    by (simp add: reply_def ack_def empty_handler_state_def sendSafeMessage_def answerCallback_def encodeTelegramReplyMarkup_def
        collector_add_def collector_addCallback_def empty_collector_def)
  have "language_of chat ?d = language_of chat d" by (simp add: language_of_def find_subscriber_def)
  then show ?thesis
    using upsert_version_registers(2) [OF inv, where chat = chat and setting = "''language''" and v = "uj_version job"] versions_inv_upsert [OF inv]
    by (simp add: apply_update_def allow run col language_of_set_language split: bool.split)
      (simp add: reply_def ack_def language_of_set_language set_language_def)
qed

section \<open>Any number of updates, in any order\<close>

fun apply_updates :: "handler_env \<Rightarrow> (update_job \<times> tg_update) list \<Rightarrow> db \<Rightarrow> go_error + db" where
  "apply_updates env [] d = Inr d"
| "apply_updates env (ju # jus) d =
     (case apply_update env (fst ju) (snd ju) d of
        Inl e \<Rightarrow> Inl e
      | Inr (_, d') \<Rightarrow> apply_updates env jus d')"

lemma apply_updates_append:
  "apply_updates env (xs @ ys) d = (case apply_updates env xs d of Inl e \<Rightarrow> Inl e | Inr d' \<Rightarrow> apply_updates env ys d')"
  by (induction xs arbitrary: d) (auto split: sum.split)

text \<open>
  A register that has seen writes holds the greatest version, and the setting is that of the write with
  this version.
\<close>

lemma language_register:
  assumes sel: "\<And>ju. ju \<in> set jus \<Longrightarrow> selects_language chat (lang (uj_version (fst ju))) ju"
    and env: "he_err env = (\<lambda>_. None)" and inv: "versions_inv (telegram_mutation_versions d)"
    and fresh: "registers (telegram_mutation_versions d) (chat, ''language'') = None" and ne: "jus \<noteq> []"
  shows "\<exists>d'. apply_updates env jus d = Inr d' \<and> versions_inv (telegram_mutation_versions d') \<and>
     registers (telegram_mutation_versions d') (chat, ''language'') = Some (Max ((uj_version \<circ> fst) ` set jus)) \<and>
     language_of chat d' = Some (lang (Max ((uj_version \<circ> fst) ` set jus)))"
  using ne sel
proof (induction jus rule: rev_nonempty_induct)
  case (single ju)
  obtain job u where ju: "ju = (job, u)" by (cases ju)
  from apply_select_language [OF _ env inv, of chat "lang (uj_version job)" job u] single ju fresh
  show ?case by (auto simp: register_write_def)
next
  case (snoc ju jus)
  let ?m = "Max ((uj_version \<circ> fst) ` set jus)"
  obtain job u where ju: "ju = (job, u)" by (cases ju)
  from snoc obtain d1 where d1: "apply_updates env jus d = Inr d1" "versions_inv (telegram_mutation_versions d1)"
      "registers (telegram_mutation_versions d1) (chat, ''language'') = Some ?m" "language_of chat d1 = Some (lang ?m)"
    by auto
  have "Max ((uj_version \<circ> fst) ` set (jus @ [ju])) = max ?m (uj_version job)"
    using snoc.hyps by (simp add: ju max.commute)
  moreover obtain col d' where d': "apply_update env job u d1 = Inr (col, d')" "versions_inv (telegram_mutation_versions d')"
      "registers (telegram_mutation_versions d') = (registers (telegram_mutation_versions d1))((chat, ''language'') :=
         snd (register_write (uj_version job) (Some ?m)))"
      "language_of chat d' = (if fst (register_write (uj_version job) (Some ?m)) then Some (lang (uj_version job)) else language_of chat d1)"
    using apply_select_language [OF _ env d1(2), of chat "lang (uj_version job)" job u] snoc.prems ju d1(3) by auto
  ultimately show ?case
    using d1 by (auto simp: apply_updates_append ju register_write_def max_def)
qed

end
