(* ===== verification/Update_Facts.thy ===== *)
theory Update_Facts
  imports Database_Invariant
begin

text \<open>
  What the transaction of one update leaves alone: the handlers and the queued replies do not touch the
  inbox, and only the owner of the claim commits.
\<close>

lemma apply_update_ok:
  assumes "apply_update env job u d = Inr (col, d')" "db_inv d"
  shows "db_inv d' \<and> telegram_updates d' = telegram_updates d \<and> telegram_replies d' = telegram_replies d"
proof -
  obtain b d1 where a: "allowTelegramMutation (he_err env) job u d = Inr (b, d1)"
    using assms(1) by (auto simp: apply_update_def split: sum.splits)
  then have d1: "db_inv d1" "telegram_updates d1 = telegram_updates d" "telegram_replies d1 = telegram_replies d"
    using allowTelegramMutation_inv assms(2) allowTelegramMutation_cases [OF a] by auto
  show ?thesis
  proof (cases b)
    case False
    with assms(1) a d1 show ?thesis by (auto simp: apply_update_def)
  next
    case True
    obtain e h where h: "processTelegramUpdateWithDB env u (empty_handler_state d1) = (e, h)"
      by (cases "processTelegramUpdateWithDB env u (empty_handler_state d1)")
    with processTelegramUpdateWithDB_ok [of "empty_handler_state d1" env u] d1
    have "db_inv (hs_db h)" "telegram_updates (hs_db h) = telegram_updates d" "telegram_replies (hs_db h) = telegram_replies d"
      by (simp_all add: handler_ok_def empty_handler_state_def)
    with assms(1) a True h show ?thesis by (auto simp: apply_update_def split: option.splits)
  qed
qed

lemma insert_replies_updates:
  "insert_replies now uid k rs d = Inr d' \<Longrightarrow> telegram_updates d' = telegram_updates d"
  by (induction rs arbitrary: k d) (fastforce split: if_splits)+

lemma update_tx_Inr:
  assumes "update_tx env job u d = Inr (col, d')"
  obtains d1 d2 where "apply_update env job u d = Inr (col, d1)"
    "insert_replies (he_now env) (uj_update_id job) 0 (col_replies col) d1 = Inr d2"
    "0 < affected (tu_owned job) (telegram_updates d2)"
    "d' = d2\<lparr>telegram_updates := sql_update (tu_owned job) (tu_set_processed (he_now env)) (telegram_updates d2)\<rparr>"
  using assms
  by (auto simp: update_tx_def completeTelegramUpdateTx_def finish_update_cases split: sum.splits option.splits)

lemma update_tx_finishes:
  assumes "update_tx env job u d = Inr (col, d')" "db_inv d"
  shows "0 < affected (tu_owned job) (telegram_updates d) \<and>
     telegram_updates d' = sql_update (tu_owned job) (tu_set_processed (he_now env)) (telegram_updates d)"
proof -
  obtain d1 d2 where tx: "apply_update env job u d = Inr (col, d1)"
    "insert_replies (he_now env) (uj_update_id job) 0 (col_replies col) d1 = Inr d2"
    "0 < affected (tu_owned job) (telegram_updates d2)"
    "d' = d2\<lparr>telegram_updates := sql_update (tu_owned job) (tu_set_processed (he_now env)) (telegram_updates d2)\<rparr>"
    using assms(1) by (rule update_tx_Inr)
  with apply_update_ok [OF tx(1) assms(2)] insert_replies_updates [OF tx(2)] show ?thesis by simp
qed

end
