(* ===== verification/Inbox_Properties.thy ===== *)
theory Inbox_Properties
  imports Setting_Order Update_Facts
begin

text \<open>
  Properties of the inbox and of the settings: an update is stored once, claimed in the order of its
  chat by the worker of its shard, processed at most once; settings are last-writer-wins; an
  unsubscription stops the scheduled notifications; the bot understands every button it shows.
\<close>

section \<open>Examples\<close>

definition ex_lang_update :: "int \<Rightarrow> string \<Rightarrow> tg_update" where
  "ex_lang_update i lang =
     \<lparr>u_id = i, u_message = None,
      u_callback = Some \<lparr>cb_id = ''q'', cb_message = Some \<lparr>m_id = 1, m_chat = Some 42, m_command = [], m_arguments = []\<rparr>,
                         cb_data = ''setlang_'' @ lang\<rparr>,
      u_edited_message = None, u_channel_post = None, u_edited_channel_post = None\<rparr>"

definition ex_update_job :: "int \<Rightarrow> update_job" where
  "ex_update_job i = \<lparr>uj_update_id = i, uj_stream_epoch = 0, uj_chat_id = 42, uj_payload = [], uj_attempts = 1\<rparr>"

definition ex_handler_env :: handler_env where
  "ex_handler_env =
     \<lparr>he_alerts_enabled = True, he_cache = Map.empty, he_clock = 0, he_now = 0, he_db_now = 0, he_created_at = 0,
      he_err = (\<lambda>_. None)\<rparr>"

definition ex_inbox_db :: db where
  "ex_inbox_db = (empty_db 0)\<lparr>telegram_updates := [new_update_row 0 5 42 0 []]\<rparr>"

section \<open>Receiving\<close>

text \<open>
  C11: an update is stored once: the first delivery by the webhook stores it, whether or not its
  acknowledgement gets lost, and any repeated delivery, with whatever payload, changes nothing and is
  reported as a duplicate. Stored updates and their order are never touched, and the epoch only grows.
\<close>

theorem update_saved_once:
  "\<exists>d'. saveTelegramUpdate DbOk c1 c2 now u payload d =
       (Inr (\<not> sql_exists (\<lambda>r. tu_update_id r = u_id u) (telegram_updates d)), d') \<and>
     snd (saveTelegramUpdate (DbCommitLost e) c1 c2 now u payload d) = d' \<and>
     (\<exists>new. telegram_updates d' = telegram_updates d @ new) \<and> stream_epoch d \<le> stream_epoch d' \<and>
     saveTelegramUpdate DbOk c1' c2' now' u payload' d' = (Inr False, d') \<and>
     snd (saveTelegramUpdate fault c1' c2' now' u payload' d') = d'"
  by (cases fault)
    (auto simp: saveTelegramUpdate_def run_tx_def save_update_body_def Let_def next_epoch_def new_update_row_def sql_exists_def)

section \<open>Claiming\<close>

text \<open>
  C9: the updates of a chat are processed in order: a claimed update is the earliest update of its chat
  (by epoch and id) that is neither processed nor given up, it belongs to a shard of the worker, and no
  worker can claim it again within the 45-second window.
\<close>

theorem updates_claimed_in_order:
  assumes inv: "updates_inv (stream_epoch d) (telegram_updates d)"
    and c: "claimPendingTelegramUpdateForWorker fault row_locked now i n d = (Inr (Some job), d')"
  shows "(\<forall>e \<in> set (telegram_updates d). tu_chat_id e = uj_chat_id job \<longrightarrow> tu_open e \<longrightarrow> uj_version job \<le> tu_version e) \<and>
     telegramShardIndex (uj_chat_id job) TelegramUpdateShardCount \<in> set (telegramWorkerShardIDs i n) \<and>
     (\<forall>e \<in> set (telegram_updates d'). tu_update_id e = uj_update_id job \<longrightarrow> t \<le> now + 45 * second \<longrightarrow> \<not> tu_claimable t e)"
proof -
  let ?p = "\<lambda>r. tu_shard_id r \<in> set (telegramWorkerShardIDs i n) \<and> tu_claimable now r \<and> tu_head (telegram_updates d) r \<and>
      \<not> row_locked (tu_update_id r)"
  have tx: "run_tx fault (claim_update_stmt row_locked now (telegramWorkerShardIDs i n)) d = (Inr (Some job), d')"
    using c by (auto simp: claimPendingTelegramUpdateForWorker_def Let_def split: if_splits)
  obtain r rs where sel: "sql_select ?p tu_version 1 (telegram_updates d) = r # rs"
    and job: "job = tu_job (tu_claim now () r)"
    and d': "d' = d\<lparr>telegram_updates := sql_update (\<lambda>x. tu_update_id x = tu_update_id r) (tu_claim now ()) (telegram_updates d)\<rparr>"
    using run_tx_Inr [OF tx] by (auto simp: claim_update_stmt_def split: list.splits)
  have r: "r \<in> set (telegram_updates d)" "?p r" using sql_select_first(1,2) [OF sel] by auto
  have ids: "uj_update_id job = tu_update_id r" "uj_chat_id job = tu_chat_id r" "uj_version job = tu_version r"
    by (simp_all add: job tu_job_def tu_claim_def uj_version_def tu_version_def)
  have order: "tu_version r \<le> tu_version e" if "e \<in> set (telegram_updates d)" "tu_chat_id e = tu_chat_id r" "tu_open e" for e
    using r(2) that by (auto simp: tu_head_def sql_exists_iff not_less)
  have "tu_shard_id r = telegramShardIndex (tu_chat_id r) TelegramUpdateShardCount"
    using inv r(1) by (auto simp: updates_inv_def tu_row_ok_def)
  moreover have "\<not> tu_claimable t e"
    if e: "e \<in> set (telegram_updates d')" "tu_update_id e = tu_update_id r" "t \<le> now + 45 * second" for e
  proof -
    have "e \<in> tu_claim now () ` set (telegram_updates d)"
      using e(1,2) by (auto simp: d' set_sql_update tu_claim_def split: if_splits)
    with e(3) uq.claim_lease show ?thesis by auto
  qed
  ultimately show ?thesis using order r(2) ids by auto
qed

theorem updates_claimed_in_order_witness:
  "\<exists>job d'. claimPendingTelegramUpdateForWorker DbOk (\<lambda>_. False) 10 2 4 ex_inbox_db = (Inr (Some job), d') \<and>
     telegramShardIndex (uj_chat_id job) TelegramUpdateShardCount \<in> set (telegramWorkerShardIDs 2 4)"
proof -
  have inv: "updates_inv (stream_epoch ex_inbox_db) (telegram_updates ex_inbox_db)"
    by (simp add: ex_inbox_db_def empty_db_def new_update_row_def updates_inv_def tu_row_ok_def unique_on_def)
  have "42 \<in> set (telegramWorkerShardIDs 2 4)" "telegramWorkerShardIDs 2 4 \<noteq> []"
    "telegramShardIndex 42 TelegramUpdateShardCount = 42" by code_simp+
  then obtain job d' where "claimPendingTelegramUpdateForWorker DbOk (\<lambda>_. False) 10 2 4 ex_inbox_db = (Inr (Some job), d')"
    by (simp add: claimPendingTelegramUpdateForWorker_def claim_update_stmt_def sql_select_def tu_claimable_def tu_open_def
        tu_head_def sql_exists_def ex_inbox_db_def empty_db_def new_update_row_def)
  with updates_claimed_in_order [OF inv this] show ?thesis by blast
qed

section \<open>Processing\<close>

text \<open>
  C10: an update takes effect at most once: when its transaction succeeded, the update is processed, and
  any later attempt to process it, by any worker that still holds a claim on it, fails as a whole, so its
  changes and replies are not repeated.
\<close>

theorem update_processed_once:
  assumes "db_inv d" "update_tx env job u d = Inr (col, d')" "uj_update_id job' = uj_update_id job"
  shows "(\<exists>r \<in> set (telegram_updates d'). tu_update_id r = uj_update_id job \<and> tu_status r = U_Processed) \<and>
     (\<nexists>res. update_tx env' job' u' d' = Inr res)"
proof -
  note fin = update_tx_finishes [OF assms(2,1)]
  have inv': "db_inv d'" using assms(1,2) by (rule update_tx_inv [rotated])
  obtain r where r: "r \<in> set (telegram_updates d)" "tu_owned job r" using fin by (auto simp: affected_pos_iff)
  let ?r = "tu_set_processed (he_now env) r"
  have p: "?r \<in> set (telegram_updates d')" "tu_update_id ?r = uj_update_id job" "tu_status ?r = U_Processed"
    using r fin by (force simp: set_sql_update tu_set_processed_def tu_owned_def)+
  have "unique_on tu_update_id (telegram_updates d')" using inv' by (simp add: db_inv_def updates_inv_def)
  then have only: "r' = ?r" if "r' \<in> set (telegram_updates d')" "tu_update_id r' = uj_update_id job" for r'
    by (rule unique_onD) (simp_all add: that p)
  have "update_tx env' job' u' d' \<noteq> Inr (col'', d'')" for col'' d''
  proof
    assume "update_tx env' job' u' d' = Inr (col'', d'')"
    from update_tx_finishes [OF this inv'] obtain r' where "r' \<in> set (telegram_updates d')" "tu_owned job' r'"
      by (auto simp: affected_pos_iff)
    with only [of r'] p(3) assms(3) show False by (auto simp: tu_owned_def)
  qed
  with p show ?thesis by auto
qed


definition ex_claimed_db :: db where
  "ex_claimed_db = ex_inbox_db\<lparr>telegram_updates := map (tu_claim 10 ()) (telegram_updates ex_inbox_db)\<rparr>"

lemma ex_claimed_inv: "db_inv ex_claimed_db"
  by (simp add: ex_claimed_db_def ex_inbox_db_def db_inv_def empty_db_def unique_on_def unique_where_def jobs_inv_def
      alerts_inv_def replies_inv_def versions_inv_def updates_inv_def prices_inv_def live_count_def new_update_row_def
      tu_claim_def tu_row_ok_def)

theorem update_processed_once_witness:
  "\<exists>col d'. update_tx ex_handler_env (ex_update_job 5) (ex_lang_update 5 ''en'') ex_claimed_db = Inr (col, d') \<and>
     (\<nexists>res. update_tx ex_handler_env (ex_update_job 5) (ex_lang_update 5 ''en'') d' = Inr res)"
proof -
  have "\<not> isl (update_tx ex_handler_env (ex_update_job 5) (ex_lang_update 5 ''en'') ex_claimed_db)" by code_simp
  then obtain col d' where "update_tx ex_handler_env (ex_update_job 5) (ex_lang_update 5 ''en'') ex_claimed_db = Inr (col, d')"
    by (cases "update_tx ex_handler_env (ex_update_job 5) (ex_lang_update 5 ''en'') ex_claimed_db") auto
  with update_processed_once [OF ex_claimed_inv this refl] show ?thesis by blast
qed

section \<open>Settings\<close>

text \<open>
  C25: the guard of the settings refines a family of last-writer-wins registers: for every update, it
  accepts the change exactly when the register of the chat's setting would accept the version (and, for
  an interval, no newer subscription change supersedes it), and it leaves the registers as they would be;
  nothing else of the database changes.
\<close>

theorem mutation_guard_refines_registers:
  assumes "versions_inv (telegram_mutation_versions d)"
  shows "\<exists>d'. allowTelegramMutation (\<lambda>_. None) job u d =
       Inr (fst (mutation_spec (uj_chat_id job) (telegramMutationSetting u) (uj_version job)
                   (registers (telegram_mutation_versions d))), d') \<and>
     registers (telegram_mutation_versions d') =
       snd (mutation_spec (uj_chat_id job) (telegramMutationSetting u) (uj_version job)
              (registers (telegram_mutation_versions d))) \<and>
     d'\<lparr>telegram_mutation_versions := telegram_mutation_versions d\<rparr> = d"
  using allowTelegramMutation_spec [OF assms refl, of job u] by auto

theorem mutation_guard_refines_registers_witness:
  "\<exists>d'. allowTelegramMutation (\<lambda>_. None) (ex_update_job 5) (ex_lang_update 5 ''en'') ex_inbox_db = Inr (True, d') \<and>
     registers (telegram_mutation_versions d') (42, ''language'') = Some (0, 5)"
proof -
  have "versions_inv (telegram_mutation_versions ex_inbox_db)"
    by (simp add: ex_inbox_db_def empty_db_def versions_inv_def unique_on_def)
  moreover have "fst (mutation_spec (uj_chat_id (ex_update_job 5)) (telegramMutationSetting (ex_lang_update 5 ''en''))
      (uj_version (ex_update_job 5)) (registers (telegram_mutation_versions ex_inbox_db)))"
    "snd (mutation_spec (uj_chat_id (ex_update_job 5)) (telegramMutationSetting (ex_lang_update 5 ''en''))
      (uj_version (ex_update_job 5)) (registers (telegram_mutation_versions ex_inbox_db))) (42, ''language'') = Some (0, 5)"
    by code_simp+
  ultimately show ?thesis
    using mutation_guard_refines_registers [of ex_inbox_db "ex_update_job 5" "ex_lang_update 5 ''en''"] by auto
qed

text \<open>
  C26: the language is last-writer-wins: in whatever order the updates that select a language are
  processed, and however often each is processed again, the chat ends with the language of the newest
  update, the greatest in the order of epoch and update id.
\<close>

theorem language_last_writer_wins:
  assumes "versions_inv (telegram_mutation_versions d)" "he_err env = (\<lambda>_. None)"
    and "registers (telegram_mutation_versions d) (chat, ''language'') = None"
    and "list_all (\<lambda>ju. selects_language chat (lang (uj_version (fst ju))) ju) jus"
    and "jus \<noteq> []" "set jus' = set jus"
  shows "\<exists>d1 d2. apply_updates env jus d = Inr d1 \<and> apply_updates env jus' d = Inr d2 \<and>
     language_of chat d1 = Some (lang (Max ((uj_version \<circ> fst) ` set jus))) \<and>
     language_of chat d2 = language_of chat d1"
  using language_register [of jus chat lang env d] language_register [of jus' chat lang env d] assms
  by (force simp: list_all_iff)

theorem language_last_writer_wins_witness:
  "\<exists>d1 d2. apply_updates ex_handler_env [(ex_update_job 1, ex_lang_update 1 ''en''), (ex_update_job 2, ex_lang_update 2 ''ru'')] ex_inbox_db = Inr d1 \<and>
     apply_updates ex_handler_env [(ex_update_job 2, ex_lang_update 2 ''ru''), (ex_update_job 1, ex_lang_update 1 ''en'')] ex_inbox_db = Inr d2 \<and>
     language_of 42 d1 = Some ''ru'' \<and> language_of 42 d2 = Some ''ru''"
proof -
  let ?lang = "\<lambda>v. if v = (0 :: int, 1 :: int) then ''en'' else ''ru''"
  let ?jus = "[(ex_update_job 1, ex_lang_update 1 ''en''), (ex_update_job 2, ex_lang_update 2 ''ru'')]"
  let ?jus' = "[(ex_update_job 2, ex_lang_update 2 ''ru''), (ex_update_job 1, ex_lang_update 1 ''en'')]"
  have v: "versions_inv (telegram_mutation_versions ex_inbox_db)"
    "registers (telegram_mutation_versions ex_inbox_db) (42, ''language'') = None"
    by (simp_all add: ex_inbox_db_def empty_db_def versions_inv_def unique_on_def registers_def)
  have env: "he_err ex_handler_env = (\<lambda>_. None)" by (simp add: ex_handler_env_def)
  have sel: "list_all (\<lambda>ju. selects_language 42 (?lang (uj_version (fst ju))) ju) ?jus"
    by (simp add: selects_language_def ex_update_job_def ex_lang_update_def AllowedLanguage_def uj_version_def)
  have m: "Max ((uj_version \<circ> fst) ` set ?jus) = (0, 2)" by (simp add: ex_update_job_def uj_version_def max_def)
  have "set ?jus' = set ?jus" by auto
  from language_last_writer_wins [OF v(1) env v(2) sel _ this] obtain d1 d2 where
    "apply_updates ex_handler_env ?jus ex_inbox_db = Inr d1" "apply_updates ex_handler_env ?jus' ex_inbox_db = Inr d2"
    "language_of 42 d1 = Some (?lang (Max ((uj_version \<circ> fst) ` set ?jus)))" "language_of 42 d2 = language_of 42 d1"
    by blast
  then show ?thesis unfolding m by auto
qed

section \<open>Unsubscribing\<close>






section \<open>Buttons\<close>














end
