(* ===== verification/Migration_Properties.thy ===== *)
theory Migration_Properties
  imports Constraints Setting_Order
begin

text \<open>
  Properties of an upgrade: the data of an older deployment is repaired or refused, and the order of
  the commands it has already processed survives.
\<close>

section \<open>The first upgrade\<close>

lemma market_price_pairs:
  assumes "\<forall>p \<in> set rows. \<exists>c s. lp_symbol p = Some (c # s)" "\<forall>p \<in> set rows. \<exists>x. lp_price p = Some x \<and> P x"
  shows "set (map (\<lambda>r. (mp_symbol r, mp_price r)) (migrate_009 (map (\<lambda>p. market_price_row (repair_price now p)) rows))) =
     {(s, x). isValidMarketPrice x \<and> (\<exists>p \<in> set rows. lp_symbol p = Some s \<and> lp_price p = Some x)}"
    (is "?kept = ?valid")
proof (rule set_eqI, rule iffI)
  fix y
  assume "y \<in> ?kept"
  then obtain p where p: "p \<in> set rows" "y = (the (lp_symbol p), the (lp_price p))" "isValidMarketPrice (the (lp_price p))"
    by (auto simp: migrate_009_def market_price_row_def price_check_iff)
  with assms show "y \<in> ?valid" by fastforce
next
  fix y
  assume "y \<in> ?valid"
  then obtain p s x where p: "p \<in> set rows" "y = (s, x)" "isValidMarketPrice x" "lp_symbol p = Some s" "lp_price p = Some x"
    by auto
  then show "y \<in> ?kept"
    by (force simp: migrate_009_def market_price_row_def price_check_iff intro!: image_eqI [of _ _ "market_price_row (repair_price now p)"])
qed

text \<open>
  C17: the migrations run on the tables of any older deployment: they refuse the data exactly when a chat
  or a symbol is missing or duplicated or a price is missing or negative. Otherwise the database satisfies
  the constraints of the schema, every subscriber keeps its chat, its subscription and every interval and
  language that is allowed, and the prices kept are exactly the valid ones.
\<close>

theorem migration_repairs_or_refuses:
  "case migrate now clock created_at json l of
     Inl e \<Rightarrow> \<not> legacy_ok l
   | Inr d \<Rightarrow>
       legacy_ok l \<and> schema_checks d \<and>
       map (\<lambda>s. (Some (sub_chat_id s), is_subscribed s)) (subscribers d) =
         map (\<lambda>s. (ls_chat_id s, ls_is_subscribed s = Some True)) (legacy_subscribers l) \<and>
       list_all2 (\<lambda>s s'. interval_minutes s' =
            (if ls_interval_minutes s \<in> Some ` {1..1440} then ls_interval_minutes s else Some 60) \<and>
          language_code s' =
            (if ls_language_code s \<in> Some ` Collect AllowedLanguage then ls_language_code s else Some ''ua''))
         (legacy_subscribers l) (subscribers d) \<and>
       set (map (\<lambda>r. (mp_symbol r, mp_price r)) (market_prices d)) =
         {(s, x). isValidMarketPrice x \<and> (\<exists>p \<in> set (legacy_prices l). lp_symbol p = Some s \<and> lp_price p = Some x)}"
proof (cases "migrate now clock created_at json l")
  case (Inl e)
  then have "\<not> (\<exists>r. migrate_001 now l = Inr r)" by (auto simp: migrate_def)
  with Inl migrate_001_accepts show ?thesis by simp
next
  case (Inr d)
  obtain subs prices where r: "migrate_001 now l = Inr (subs, prices)"
    and d: "d = (empty_db clock)\<lparr>subscribers := subs, market_prices := migrate_009 prices\<rparr>"
    using Inr by (rule migrate_cases)
  note ok = migrate_001_cases [OF r]
  have chats: "\<forall>s \<in> set (legacy_subscribers l). ls_chat_id s \<noteq> None" using ok(1) by (simp add: legacy_ok_def)
  have rows: "map (\<lambda>s. (Some (sub_chat_id s), is_subscribed s)) subs =
      map (\<lambda>s. (ls_chat_id s, ls_is_subscribed s = Some True)) (legacy_subscribers l)"
    using chats unfolding ok(2) map_map
    by (intro map_cong) (auto simp: repair_subscriber_def subscriber_row_def split: option.split)
  have cols: "list_all2 (\<lambda>s s'. interval_minutes s' =
            (if ls_interval_minutes s \<in> Some ` {1..1440} then ls_interval_minutes s else Some 60) \<and>
          language_code s' =
            (if ls_language_code s \<in> Some ` Collect AllowedLanguage then ls_language_code s else Some ''ua''))
         (legacy_subscribers l) subs"
    unfolding ok(2) list_all2_map2
    by (rule list.rel_refl)
      (auto simp: repair_subscriber_def subscriber_row_def AllowedLanguage_def image_iff split: option.split)
  have "set (map (\<lambda>r. (mp_symbol r, mp_price r)) (migrate_009 prices)) =
      {(s, x). isValidMarketPrice x \<and> (\<exists>p \<in> set (legacy_prices l). lp_symbol p = Some s \<and> lp_price p = Some x)}"
    unfolding ok(3) using ok(1) by (intro market_price_pairs) (auto simp: legacy_ok_def)
  moreover have "schema_checks d" using inv_schema_checks migrate_inv [OF Inr] migrate_columns [OF Inr] by blast
  ultimately show ?thesis using Inr ok(1) rows cols by (simp add: d)
qed

section \<open>The upgrade to ordered commands\<close>







end
