(* ===== verification/Contexts.thy ===== *)
theory Contexts
  imports Finalization Policy
begin

text \<open>
  Go's \<^verbatim>\<open>context.Context\<close> as the program uses it (\<^verbatim>\<open>internal/app/context.go\<close>, the context functions of
  \<^verbatim>\<open>telegram_reply_outbox.go\<close>): a deadline, the instant of a cancellation, and the one value stored
  under a key, the collector of replies. A context describes a finished execution, so it knows when its
  cancel function was called.

  The finalization loop of \<open>Finalization\<close> meets its context as a list of answers; \<open>timed_env\<close> computes
  these from a context and the instants at which the writes returned.
\<close>

section \<open>Contexts\<close>

record 'c go_context =
  ctx_deadline :: "time option"
  ctx_canceled :: "time option"
  ctx_collector :: "'c option"

definition Background :: "'c go_context" where
  "Background = \<lparr>ctx_deadline = None, ctx_canceled = None, ctx_collector = None\<rparr>"

definition earliest :: "time option \<Rightarrow> time option \<Rightarrow> time option" where
  "earliest a b = (case (a, b) of (Some s, Some t) \<Rightarrow> Some (min s t) | (None, t) \<Rightarrow> t | (s, None) \<Rightarrow> s)"

definition WithTimeout :: "time \<Rightarrow> duration \<Rightarrow> 'c go_context \<Rightarrow> 'c go_context" where
  "WithTimeout now timeout parent = parent\<lparr>ctx_deadline := earliest (ctx_deadline parent) (Some (now + timeout))\<rparr>"

text \<open>\<open>at\<close> is the instant at which the cancel function is called, if it is.\<close>

definition WithCancel :: "time option \<Rightarrow> 'c go_context \<Rightarrow> 'c go_context" where
  "WithCancel called parent = parent\<lparr>ctx_canceled := earliest (ctx_canceled parent) called\<rparr>"

definition WithoutCancel :: "'c go_context \<Rightarrow> 'c go_context" where
  "WithoutCancel parent = parent\<lparr>ctx_deadline := None, ctx_canceled := None\<rparr>"

definition Canceled_error :: go_error where
  "Canceled_error = PlainError ''context canceled''"

definition DeadlineExceeded :: go_error where
  "DeadlineExceeded = PlainError ''context deadline exceeded''"

text \<open>\<^verbatim>\<open>ctx.Err()\<close> at an instant: the error of what came first.\<close>

definition ctx_Err :: "'c go_context \<Rightarrow> time \<Rightarrow> go_error option" where
  "ctx_Err ctx now =
     (case earliest (ctx_canceled ctx) (ctx_deadline ctx) of
        None \<Rightarrow> None
      | Some t \<Rightarrow>
          if now < t then None
          else if ctx_canceled ctx = Some t then Some Canceled_error else Some DeadlineExceeded)"

definition finalizationContext :: "time \<Rightarrow> 'c go_context \<Rightarrow> duration \<Rightarrow> 'c go_context" where
  "finalizationContext now parent timeout = WithTimeout now timeout (WithoutCancel parent)"

definition withTelegramReplyCollector :: "'c go_context \<Rightarrow> 'c \<Rightarrow> 'c go_context" where
  "withTelegramReplyCollector ctx collector = ctx\<lparr>ctx_collector := Some collector\<rparr>"

definition telegramReplyCollectorFromContext :: "'c go_context \<Rightarrow> 'c option" where
  "telegramReplyCollectorFromContext ctx = ctx_collector ctx"

section \<open>Laws\<close>

lemma earliest_simps [simp]:
  "earliest None t = t" "earliest s None = s" "earliest (Some a) (Some b) = Some (min a b)"
  by (auto simp: earliest_def split: option.split)

lemma collector_kept [simp]:
  "telegramReplyCollectorFromContext (withTelegramReplyCollector ctx c) = Some c"
  "telegramReplyCollectorFromContext (WithTimeout now d ctx) = telegramReplyCollectorFromContext ctx"
  "telegramReplyCollectorFromContext (WithCancel called ctx) = telegramReplyCollectorFromContext ctx"
  "telegramReplyCollectorFromContext (finalizationContext now ctx d) = telegramReplyCollectorFromContext ctx"
  by (simp_all add: telegramReplyCollectorFromContext_def withTelegramReplyCollector_def WithTimeout_def
      WithCancel_def finalizationContext_def WithoutCancel_def)

text \<open>A context that is done stays done, and a child is done when its parent is.\<close>

lemma ctx_Err_mono: "ctx_Err ctx t \<noteq> None \<Longrightarrow> t \<le> t' \<Longrightarrow> ctx_Err ctx t' \<noteq> None"
  by (auto simp: ctx_Err_def split: option.splits if_splits)

lemma WithTimeout_parent: "ctx_Err ctx t \<noteq> None \<Longrightarrow> ctx_Err (WithTimeout now d ctx) t \<noteq> None"
  by (cases "ctx_canceled ctx"; cases "ctx_deadline ctx") (auto simp: ctx_Err_def WithTimeout_def split: if_splits)

lemma WithTimeout_bound: "ctx_Err (WithTimeout now d ctx) t = None \<Longrightarrow> t < now + d"
  by (cases "ctx_canceled ctx"; cases "ctx_deadline ctx") (auto simp: ctx_Err_def WithTimeout_def split: if_splits)

text \<open>A finalization context only knows its own timeout: the parent may be canceled or expired.\<close>

lemma finalizationContext_Err:
  "ctx_Err (finalizationContext now parent d) t = (if t < now + d then None else Some DeadlineExceeded)"
  by (simp add: ctx_Err_def finalizationContext_def WithTimeout_def WithoutCancel_def)

text \<open>
  The workers' context (\<^verbatim>\<open>run.go\<close>) is not canceled by the signal that cancels the process' context, only
  by \<^verbatim>\<open>stopWorkers\<close>.
\<close>

definition worker_context :: "time option \<Rightarrow> 'c go_context \<Rightarrow> 'c go_context" where
  "worker_context stopWorkers runCtx = WithCancel stopWorkers (WithoutCancel runCtx)"

lemma worker_context_Err:
  "ctx_Err (worker_context stop runCtx) t =
     (case stop of None \<Rightarrow> None | Some s \<Rightarrow> if t < s then None else Some Canceled_error)"
  by (simp add: ctx_Err_def worker_context_def WithCancel_def WithoutCancel_def split: option.split)

section \<open>The finalization in time\<close>

text \<open>
  The loop starts at \<open>start\<close>; its write number \<open>n\<close> returns at \<open>written n\<close>, then the timer runs for the delay.
  The next attempt looks at the context when the timer has fired.
\<close>

definition timed_env :: "'c go_context \<Rightarrow> time \<Rightarrow> (nat \<Rightarrow> time) \<Rightarrow> duration list \<Rightarrow> finalization_env" where
  "timed_env ctx start written ds =
     \<lparr>fe_ctx_err = (\<lambda>n. ctx_Err ctx (if n \<le> 1 then start else written (n - 1) + ds ! (n - 2))),
      fe_timer = (\<lambda>n d. ctx_Err ctx (written n + d))\<rparr>"

text \<open>All attempts before the last have waited for their timer.\<close>

lemma finalize_loop_waited:
  assumes "finalize_loop env act m ds le s = ((n, err), s')" "m \<le> k" "k < n"
  shows "fe_timer env k (ds ! (k - m)) = None"
  using assms
proof (induction ds arbitrary: m le s)
  case Nil
  then show ?case
    by (subst (asm) finalize_loop.simps) (auto split: option.splits prod.splits if_splits)
next
  case (Cons d ds)
  from Cons.prems show ?case
  proof (cases "k = m")
    case True
    with Cons.prems show ?thesis
      by (subst (asm) finalize_loop.simps) (auto split: option.splits prod.splits if_splits)
  next
    case False
    with Cons.prems obtain le' s'' where "finalize_loop env act (m + 1) ds le' s'' = ((n, err), s')"
      by (subst (asm) finalize_loop.simps) (auto split: option.splits prod.splits if_splits)
    from Cons.IH [OF this] False Cons.prems show ?thesis by (simp add: nth_Cons')
  qed
qed

lemma finalize_loop_attempts:
  assumes "finalize_loop env act m ds le s = ((n, err), s')" "fe_ctx_err env m = None"
  shows "m \<le> n"
  using assms
proof (induction ds arbitrary: m le s)
  case Nil
  then show ?case
    by (subst (asm) finalize_loop.simps) (auto split: option.splits prod.splits if_splits)
next
  case (Cons d ds)
  have "m \<le> n" if "finalize_loop env act (m + 1) ds le' s'' = ((n, err), s')" for le' s''
  proof (cases "fe_ctx_err env (m + 1)")
    case None
    from Cons.IH [OF that None] show ?thesis by simp
  next
    case (Some e)
    with that show ?thesis by (subst (asm) finalize_loop.simps) simp
  qed
  with Cons.prems show ?case
    by (subst (asm) finalize_loop.simps) (auto split: option.splits prod.splits if_splits)
qed

end
