(* ===== verification/Delivery_Timing.thy ===== *)
theory Delivery_Timing
  imports Contexts Reply_Facts
begin

text \<open>
  The time a delivery takes: every call of \<^verbatim>\<open>processNotificationJob\<close> and \<^verbatim>\<open>processTelegramReply\<close> has a
  context or a client with a timeout, and the windows of \<^verbatim>\<open>internal/workers/policy.go\<close> are chosen so that
  the lease of the row outlives them. The functions themselves are in \<open>Notification_Outbox\<close> and
  \<open>Reply_Outbox\<close>; here a record gives the instants of one execution of them, on one clock.

  A call that returned without an error returned before its context was done. The locale \<open>leased_send\<close>
  is the contract both queues give to the sender.
\<close>

section \<open>Timeouts\<close>

definition TelegramChatLockTimeout :: duration where
  [simp]: "TelegramChatLockTimeout = 10 * second"

definition NotificationSubscriptionCheckTimeout :: duration where
  [simp]: "NotificationSubscriptionCheckTimeout = 5 * second"

definition NotificationClaimValidationTimeout :: duration where
  [simp]: "NotificationClaimValidationTimeout = 5 * second"

definition TelegramReplyClaimValidationTimeout :: duration where
  [simp]: "TelegramReplyClaimValidationTimeout = 5 * second"

definition GracefulShutdownTimeout :: duration where
  [simp]: "GracefulShutdownTimeout = 30 * second"

text \<open>The two HTTP clients of \<^verbatim>\<open>run.go\<close>; 0 stands for the library's default.\<close>

record http_client =
  Timeout :: duration
  MaxIdleConns :: int
  MaxIdleConnsPerHost :: int
  IdleConnTimeout :: duration

definition telegramHTTPClient :: http_client where
  "telegramHTTPClient = \<lparr>Timeout = 10 * second, MaxIdleConns = 0, MaxIdleConnsPerHost = 0, IdleConnTimeout = 0\<rparr>"

definition newMarketHTTPClient :: http_client where
  "newMarketHTTPClient =
     \<lparr>Timeout = 5 * second, MaxIdleConns = 100, MaxIdleConnsPerHost = 30, IdleConnTimeout = 90 * second\<rparr>"

section \<open>Calls in time\<close>

text \<open>A call under \<open>ctx\<close> that started at \<open>t\<close> and returned without an error at \<open>t'\<close>.\<close>

definition returned :: "'c go_context \<Rightarrow> time \<Rightarrow> time \<Rightarrow> bool" where
  "returned ctx t t' \<longleftrightarrow> t \<le> t' \<and> ctx_Err ctx t' = None"

lemma returned_WithTimeout: "returned (WithTimeout t d ctx) t t' \<Longrightarrow> t \<le> t' \<and> t' < t + d"
  by (auto simp: returned_def dest: WithTimeout_bound)

text \<open>
  The instants of a delivery that reaches Telegram: the worker asks for the chat lock, has it, knows that
  the notification is enabled, the database evaluates \<^verbatim>\<open>NOW()\<close> of the claim check, the check returns, the
  request starts and ends. A reply has no check between the lock and the claim: \<open>dt_locked = dt_checked\<close>.
\<close>

record delivery_times =
  dt_started :: time
  dt_locked :: time
  dt_checked :: time
  dt_now :: time
  dt_validated :: time
  dt_requested :: time
  dt_answered :: time

text \<open>The time between the claim check and the request, when the process does nothing for the delivery.\<close>

definition pause :: "delivery_times \<Rightarrow> duration" where
  "pause T = dt_requested T - dt_validated T"

definition requested_in_time :: "delivery_times \<Rightarrow> bool" where
  "requested_in_time T \<longleftrightarrow>
     dt_validated T \<le> dt_requested T \<and> dt_requested T \<le> dt_answered T \<and>
     dt_answered T \<le> dt_requested T + Timeout telegramHTTPClient"

definition notification_in_time :: "'c go_context \<Rightarrow> delivery_times \<Rightarrow> bool" where
  "notification_in_time ctx T \<longleftrightarrow>
     returned (WithTimeout (dt_started T) (10 * second) ctx) (dt_started T) (dt_locked T) \<and>
     returned (WithTimeout (dt_locked T) NotificationSubscriptionCheckTimeout ctx) (dt_locked T) (dt_checked T) \<and>
     returned (WithTimeout (dt_checked T) NotificationClaimValidationTimeout ctx) (dt_checked T) (dt_validated T) \<and>
     dt_checked T \<le> dt_now T \<and> dt_now T \<le> dt_validated T \<and> requested_in_time T"

definition reply_in_time :: "'c go_context \<Rightarrow> delivery_times \<Rightarrow> bool" where
  "reply_in_time ctx T \<longleftrightarrow>
     returned (WithTimeout (dt_started T) TelegramChatLockTimeout ctx) (dt_started T) (dt_locked T) \<and>
     dt_checked T = dt_locked T \<and>
     returned (WithTimeout (dt_checked T) TelegramReplyClaimValidationTimeout ctx) (dt_checked T) (dt_validated T) \<and>
     dt_checked T \<le> dt_now T \<and> dt_now T \<le> dt_validated T \<and> requested_in_time T"

text \<open>From the \<^verbatim>\<open>NOW()\<close> of the check to the answer: the validation and the request, and the pause.\<close>

definition answer_window :: duration where
  "answer_window = 15 * second"

lemma notification_answer: "notification_in_time ctx T \<Longrightarrow> dt_answered T < dt_now T + answer_window + pause T"
  by (auto simp: notification_in_time_def requested_in_time_def pause_def answer_window_def telegramHTTPClient_def
      dest!: returned_WithTimeout)

lemma reply_answer: "reply_in_time ctx T \<Longrightarrow> dt_answered T < dt_now T + answer_window + pause T"
  by (auto simp: reply_in_time_def requested_in_time_def pause_def answer_window_def telegramHTTPClient_def
      dest!: returned_WithTimeout)

section \<open>The lease outlives the request\<close>

locale leased_send =
  fixes key :: "'r \<Rightarrow> int"
    and claimable :: "time \<Rightarrow> 'r \<Rightarrow> bool"
    and lease :: "'r \<Rightarrow> time option"
    and opened :: "'r \<Rightarrow> bool"
    and owned :: "'j \<Rightarrow> 'r \<Rightarrow> bool"
    and job_key :: "'j \<Rightarrow> int"
    and current :: "time \<Rightarrow> 'j \<Rightarrow> 'r \<Rightarrow> bool"
  assumes current_lease: "current now j r \<Longrightarrow> owned j r \<and> (\<exists>u. lease r = Some u \<and> now + answer_window < u)"
    and owned_key: "owned j r \<Longrightarrow> key r = job_key j"
    and owned_excludes: "owned j r \<Longrightarrow> lease r = Some u \<Longrightarrow> t \<le> u \<Longrightarrow> \<not> claimable t r"
    and claimable_opened: "claimable t r \<Longrightarrow> opened r"
begin

lemma not_claimable_before_answer:
  assumes "current now j r" "answered < now + answer_window + gap" "t \<le> answered - gap"
  shows "\<not> claimable t r"
proof -
  obtain u where u: "owned j r" "lease r = Some u" "now + answer_window < u" using current_lease [OF assms(1)] by blast
  with assms(2,3) show ?thesis by (intro owned_excludes [of j r u]) simp_all
qed

text \<open>
  Nobody can claim the row until the answer is there, as long as the row is the one that was checked or
  has been closed meanwhile.
\<close>

lemma no_claim_before_answer:
  assumes "unique_on key rows" "r \<in> set rows" "current now j r" "answered < now + answer_window + gap"
    and "\<And>s. s \<in> set rows' \<Longrightarrow> key s = job_key j \<Longrightarrow> s \<in> set rows \<or> \<not> opened s"
    and "t \<le> answered - gap" "s \<in> set rows'" "claimable t s"
  shows "key s \<noteq> job_key j"
proof
  assume k: "key s = job_key j"
  have "owned j r" using current_lease [OF assms(3)] by blast
  then have "key r = job_key j" by (rule owned_key)
  moreover have "s \<in> set rows" using assms(5) [OF assms(7) k] claimable_opened [OF assms(8)] by blast
  ultimately have "s = r" using unique_onD [OF assms(1) _ assms(2)] k by metis
  with not_claimable_before_answer [OF assms(3,4,6)] assms(8) show False by simp
qed

end

interpretation notification_send: leased_send nj_id nj_claimable nj_claimed_until nj_open nj_owned job_id nj_lease_current
  by unfold_locales
    (auto simp: nj_lease_current_def nj_owned_def nj_claimable_def nj_open_def answer_window_def split: option.splits)

interpretation reply_send: leased_send tr_id tr_claimable tr_claimed_until tr_open tr_owned rj_id tr_lease_current
  by unfold_locales
    (auto simp: tr_lease_current_def tr_owned_def tr_claimable_def tr_open_def answer_window_def split: option.splits)

section \<open>The claim window covers a delivery\<close>

text \<open>
  The lock, the checks, the request and the finalization together take less than 35 seconds: a delivery
  that starts within ten seconds of its claim has written its result before the claim ends.
\<close>

lemma delivery_fits_claim:
  assumes "notification_in_time ctx T" "dt_started T \<le> claimed + 10 * second" "pause T = 0"
  shows "dt_answered T + sentFinalizationBudget < claimed + NotificationJobClaimWindow"
  using assms
  by (auto simp: notification_in_time_def requested_in_time_def pause_def telegramHTTPClient_def
      sentFinalizationBudget_def dest!: returned_WithTimeout)

lemma reply_fits_claim:
  assumes "reply_in_time ctx T" "dt_started T \<le> claimed + 15 * second" "pause T = 0"
  shows "dt_answered T + sentFinalizationBudget < claimed + TelegramReplyClaimWindow"
  using assms
  by (auto simp: reply_in_time_def requested_in_time_def pause_def telegramHTTPClient_def
      sentFinalizationBudget_def dest!: returned_WithTimeout)

text \<open>
  The processing of an update: the chat lock, then one transaction under one context until its commit. It
  commits while its claim lasts if it started within 25 seconds of the claim, so no other worker processes
  the update at the same time.
\<close>

definition update_in_time :: "'c go_context \<Rightarrow> time \<Rightarrow> time \<Rightarrow> time \<Rightarrow> bool" where
  "update_in_time ctx started locked committed \<longleftrightarrow>
     returned (WithTimeout started (10 * second) ctx) started locked \<and>
     returned (WithTimeout locked (10 * second) ctx) locked committed"

lemma update_fits_claim:
  "update_in_time ctx started locked committed \<Longrightarrow> started \<le> claimed + 25 * second \<Longrightarrow>
     committed < claimed + TelegramUpdateClaimWindow"
  by (auto simp: update_in_time_def dest!: returned_WithTimeout)

text \<open>A request that is running when the workers are told to stop is answered and recorded 15 seconds later.\<close>

lemma request_ends_after_stop:
  "requested_in_time T \<Longrightarrow> dt_requested T \<le> stop \<Longrightarrow> dt_answered T + sentFinalizationBudget \<le> stop + 15 * second"
  by (auto simp: requested_in_time_def telegramHTTPClient_def sentFinalizationBudget_def)

text \<open>
  The waits of the shutdown share one context, made from \<^verbatim>\<open>context.Background()\<close>: when its time is over, a
  wait has returned. The condition on the group is that of \<open>waitForWaitGroup\<close> in \<open>Run\<close>.
\<close>

definition shutdown_context :: "time \<Rightarrow> 'c go_context" where
  "shutdown_context now = WithTimeout now GracefulShutdownTimeout Background"

lemma shutdown_context_Err:
  "ctx_Err (shutdown_context now) t = (if t < now + 30 * second then None else Some DeadlineExceeded)"
  by (simp add: shutdown_context_def ctx_Err_def WithTimeout_def Background_def)

end
