(* ===== verification/Timing_Properties.thy ===== *)
theory Timing_Properties
  imports Delivery_Properties Delivery_Timing Run
begin

text \<open>
  Properties of the timeouts: a lease outlives the request to Telegram made under it, the final write
  happens in its budget even while the workers are being stopped, and the waits of the shutdown end.
\<close>

section \<open>One sender at a time\<close>

text \<open>
  C35: no two workers talk to Telegram about the same notification at the same time: from the check of the
  claim until the answer (less any time the process was suspended before the request) no claim by any
  worker returns the notification, unless its own worker has given the claim back.
\<close>

theorem telegram_call_within_lease:
  assumes "calls (processNotificationJob token env job w) \<noteq> calls w"
    and u: "unique_on nj_id (notification_jobs (claim_db env (wdb w)))"
    and time: "notification_in_time ctx T" "de_now env 2 = dt_now T"
    and row: "\<And>r. r \<in> set (notification_jobs d) \<Longrightarrow> nj_id r = job_id job \<Longrightarrow>
      r \<in> set (notification_jobs (claim_db env (wdb w))) \<or> \<not> nj_open r"
    and claim: "claimPendingNotificationJob fault try_lock t tok snapshot d = (Inr (Some job'), d')"
    and t: "t \<le> dt_answered T - pause T"
  shows "job_id job' \<noteq> job_id job"
proof -
  let ?rows = "notification_jobs (claim_db env (wdb w))"
  have "ensureNotificationJobClaimCurrent (de_claim_err env) (de_now env 2) job (claim_db env (wdb w)) = None"
    using assms(1) unfolding processNotificationJob_calls by (auto split: if_splits)
  then obtain r where r: "r \<in> set ?rows" "nj_lease_current (dt_now T) job r"
    using time(2)
    by (auto simp: ensureNotificationJobClaimCurrent_def run_read_def sql_exists_iff split: if_splits option.splits)
  from claim_notification_loop_cases [OF run_tx_Inr [OF claim [unfolded claimPendingNotificationJob_def]]]
  obtain s where s: "s \<in> set (notification_jobs d)" "nj_claimable t s" "job' = nj_job (nj_claim t tok s)" by auto
  have "nj_id s \<noteq> job_id job"
    by (rule notification_send.no_claim_before_answer [OF u r notification_answer [OF time(1)] row t s(1,2)])
  with s(3) show ?thesis by (simp add: nq.job_identity nq.claim_key)
qed

text \<open>A delivery that takes its time: the claim is checked after 30 seconds and Telegram answers 14 seconds later.\<close>

definition ex_times :: delivery_times where
  "ex_times =
     \<lparr>dt_started = 16 * second, dt_locked = 25 * second, dt_checked = 28 * second, dt_now = 29 * second,
      dt_validated = 32 * second, dt_requested = 32 * second, dt_answered = 42 * second\<rparr>"

lemma ex_times_ok: "notification_in_time Background ex_times" "pause ex_times = 0"
  by (simp_all add: notification_in_time_def requested_in_time_def returned_def ctx_Err_def WithTimeout_def
      Background_def ex_times_def telegramHTTPClient_def pause_def)

theorem telegram_call_within_lease_witness:
  "\<not> (\<exists>job' d'. claimPendingNotificationJob DbOk ex_free (42 * second) ''u'' ex_claimed_db ex_claimed_db =
        (Inr (Some job'), d') \<and> job_id job' = job_id ex_job)"
proof -
  let ?w = "\<lparr>wdb = ex_claimed_db, calls = [], metrics = []\<rparr>"
  let ?env = "(quiet_env (29 * second) (Inr 5))"
  have cur: "ensureNotificationJobClaimCurrent None 29000000000 ex_job ex_claimed_db = None"
    by (simp add: ensureNotificationJobClaimCurrent_def sql_exists_def nj_lease_current_def nj_owned_def nj_job_def
        nj_claim_def ex_simps)
  have "calls (processNotificationJob None ?env ex_job ?w) \<noteq> calls ?w"
    unfolding processNotificationJob_calls by (simp add: quiet_env_def check_db_def claim_db_def ex_current cur)
  moreover have "claim_db ?env (wdb ?w) = ex_claimed_db" "de_now ?env 2 = dt_now ex_times"
    by (simp_all add: quiet_env_def claim_db_def check_db_def ex_times_def)
  moreover have "unique_on nj_id (notification_jobs ex_claimed_db)" by (simp add: ex_simps unique_on_def)
  ultimately show ?thesis
    using telegram_call_within_lease [of None ?env ex_job ?w, OF _ _ ex_times_ok(1), of ex_claimed_db]
      ex_times_ok(2)
    by (fastforce simp: ex_times_def)
qed

text \<open>The same for replies.\<close>

lemma reply_call_within_lease:
  assumes "calls (processTelegramReply token env decode_err job w) \<noteq> calls w"
    and u: "unique_on tr_id (telegram_replies (de_others env 2 (wdb w)))"
    and time: "reply_in_time ctx T" "de_now env 2 = dt_now T"
    and row: "\<And>r. r \<in> set (telegram_replies d) \<Longrightarrow> tr_id r = rj_id job \<Longrightarrow>
      r \<in> set (telegram_replies (de_others env 2 (wdb w))) \<or> \<not> tr_open r"
    and claim: "claimPendingTelegramReply fault try_lock t tok snapshot d = (Inr (Some job'), d')"
    and t: "t \<le> dt_answered T - pause T"
  shows "rj_id job' \<noteq> rj_id job"
proof -
  let ?rows = "telegram_replies (de_others env 2 (wdb w))"
  have "ensureTelegramReplyClaimCurrent (de_claim_err env) (de_now env 2) job (de_others env 2 (wdb w)) = None"
    using assms(1) unfolding processTelegramReply_calls by (auto split: if_splits)
  then obtain r where r: "r \<in> set ?rows" "tr_lease_current (dt_now T) job r"
    using time(2)
    by (auto simp: ensureTelegramReplyClaimCurrent_def run_read_def sql_exists_iff split: if_splits option.splits)
  from claim_reply_loop_cases [OF run_tx_Inr [OF claim [unfolded claimPendingTelegramReply_def]]]
  obtain s where s: "s \<in> set (telegram_replies d)" "tr_claimable t s" "job' = tr_job (tr_claim t tok s)" by auto
  have "tr_id s \<noteq> rj_id job"
    by (rule reply_send.no_claim_before_answer [OF u r reply_answer [OF time(1)] row t s(1,2)])
  with s(3) show ?thesis by (simp add: rq.job_identity rq.claim_key)
qed

section \<open>The final write\<close>

text \<open>
  C40: after a confirmed delivery the result is written whatever happens to the worker: even when its
  context is canceled or expired, the write is attempted, at most five times, and no attempt starts after
  the budget of five seconds; the loop always ends.
\<close>

theorem finalization_in_budget:
  "\<exists>n err s'. finalize defaultSentFinalizationPolicy
       (timed_env (finalizationContext start parent sentFinalizationBudget) start written sentFinalizationRetryDelays)
       act s = ((n, err), s') \<and> 1 \<le> n \<and> n \<le> 5 \<and>
     list_all (\<lambda>k. written k + sentFinalizationRetryDelays ! (k - 1) < start + 5 * second) [1..<n]"
proof -
  let ?env = "timed_env (finalizationContext start parent sentFinalizationBudget) start written sentFinalizationRetryDelays"
  obtain n err s' where run: "finalize_loop ?env act 1 sentFinalizationRetryDelays None s = ((n, err), s')"
    by (metis prod.exhaust)
  have "n \<le> 5"
    using finalize_loop_bound [of ?env act 1 sentFinalizationRetryDelays None s] run
    by (simp add: sentFinalizationRetryDelays_def)
  moreover have "1 \<le> n"
    by (rule finalize_loop_attempts [OF run]) (simp add: timed_env_def finalizationContext_Err sentFinalizationBudget_def)
  moreover have "written k + sentFinalizationRetryDelays ! (k - 1) < start + 5 * second" if "1 \<le> k" "k < n" for k
    using finalize_loop_waited [OF run that]
    by (simp add: timed_env_def finalizationContext_Err sentFinalizationBudget_def split: if_splits)
  ultimately show ?thesis
    using run by (auto simp: finalize_def defaultSentFinalizationPolicy_def sentFinalizationBudget_def list_all_iff)
qed

section \<open>The shutdown\<close>

lemma shutdown_wait_ends:
  "shutdown + 30 * second \<le> t \<Longrightarrow> waitForWaitGroup (ctx_Err (shutdown_context shutdown) t) done_first running \<noteq> None"
  by (simp add: waitForWaitGroup_def shutdown_context_Err)

end
