(* ===== verification/Direct_Paths.thy ===== *)
theory Direct_Paths
  imports Contexts Reply_Facts Alert_Facts
begin

text \<open>
  The paths beside the queues: \<^verbatim>\<open>sendSafeMessage\<close>, \<^verbatim>\<open>editSafeMessage\<close> and \<^verbatim>\<open>answerCallback\<close> of
  \<^verbatim>\<open>internal/app/app.go\<close> as they are, with their choice between the collector of the context and a call to
  Telegram, and \<^verbatim>\<open>evaluatePriceAlerts\<close>. The processing of an update always has a collector, so
  \<open>Reply_Outbox\<close> models the first branch under the names of the functions.
\<close>

section \<open>Replies\<close>

text \<open>
  The collector is a pointer in the context: the functions return its new value. \<open>markup_json\<close> is the
  keyboard Telegram gets for a markup argument, the work of the Telegram library; \<open>refused\<close> tells whether
  the call fails.
\<close>

definition sendSafeMessage_ctx ::
  "(markup_arg \<Rightarrow> keyboard option) \<Rightarrow> bool \<Rightarrow> collector go_context \<Rightarrow> int \<Rightarrow> msg \<Rightarrow> markup_arg \<Rightarrow> world
    \<Rightarrow> collector option \<times> world" where
  "sendSafeMessage_ctx markup_json refused ctx chatID txt markup w =
     (case telegramReplyCollectorFromContext ctx of
        Some c \<Rightarrow> (Some (sendSafeMessage chatID txt markup c), w)
      | None \<Rightarrow>
          (let w' = w\<lparr>calls := calls w @
                 [SendMessage chatID txt (if markup = MNil then None else markup_json markup)]\<rparr>
           in (None, if refused then count_metric ''TelegramSendErrorsTotal'' ''interactive_message'' w' else w')))"

definition editSafeMessage_ctx ::
  "(markup_arg \<Rightarrow> keyboard option) \<Rightarrow> bool \<Rightarrow> collector go_context \<Rightarrow> int \<Rightarrow> int \<Rightarrow> msg \<Rightarrow> keyboard option \<Rightarrow> world
    \<Rightarrow> collector option \<times> world" where
  "editSafeMessage_ctx markup_json refused ctx chatID messageID txt markup w =
     (case telegramReplyCollectorFromContext ctx of
        Some c \<Rightarrow> (Some (editSafeMessage chatID messageID txt (MKeyboardPtr markup) c), w)
      | None \<Rightarrow>
          (let w' = w\<lparr>calls := calls w @
                 [EditMessage chatID messageID txt (if markup = None then None else markup_json (MKeyboardPtr markup))]\<rparr>
           in (None, if refused then count_metric ''TelegramSendErrorsTotal'' ''interactive_edit'' w' else w')))"

definition answerCallback_ctx ::
  "bool \<Rightarrow> collector go_context \<Rightarrow> string \<Rightarrow> msg \<Rightarrow> world \<Rightarrow> collector option \<times> world" where
  "answerCallback_ctx refused ctx callbackID txt w =
     (case telegramReplyCollectorFromContext ctx of
        Some c \<Rightarrow> (Some (answerCallback callbackID txt c), w)
      | None \<Rightarrow>
          (let w' = w\<lparr>calls := calls w @ [AnswerCallback callbackID txt]\<rparr>
           in (None, if refused then count_metric ''TelegramSendErrorsTotal'' ''callback_answer'' w' else w')))"

text \<open>With a collector nothing is sent, whatever deadline the context got meanwhile.\<close>

lemma collected_not_sent:
  assumes "telegramReplyCollectorFromContext ctx = Some c"
  shows "snd (sendSafeMessage_ctx enc refused (WithTimeout now d ctx) chat txt markup w) = w"
    "snd (editSafeMessage_ctx enc refused (WithTimeout now d ctx) chat i txt kb w) = w"
    "snd (answerCallback_ctx refused (WithTimeout now d ctx) cid txt w) = w"
  using assms by (simp_all add: sendSafeMessage_ctx_def editSafeMessage_ctx_def answerCallback_ctx_def)

text \<open>
  Queued or direct, Telegram gets the same call: the job of a collected reply makes the call that the
  function without a collector makes at once.
\<close>

definition reply_job_of :: "telegram_reply \<Rightarrow> reply_job" where
  "reply_job_of r =
     \<lparr>rj_id = 0, rj_operation = rep_operation r, rj_chat_id = rep_chat_id r, rj_message_id = rep_message_id r,
      rj_text = rep_text r, rj_markup = rep_markup r, rj_claim_token = [], rj_attempts = 1\<rparr>"

lemma queued_call_is_direct_call:
  assumes "\<And>m k. encodeTelegramReplyMarkup m = Inr k \<Longrightarrow> m \<noteq> MNil \<Longrightarrow> enc m = k"
    and "encodeTelegramReplyMarkup markup = Inr k" "col_err c = None"
  shows "calls (snd (sendTelegramReply None ans (reply_job_of (last (col_replies (sendSafeMessage chat txt markup c)))) w)) =
     calls (snd (sendSafeMessage_ctx enc False Background chat txt markup w))"
proof -
  have "(if markup = MNil then None else enc markup) = k"
    using assms(1) [OF assms(2)] assms(2) by (auto simp: encodeTelegramReplyMarkup_def)
  then show ?thesis
    using assms(2,3)
    by (cases k) (simp_all add: sendSafeMessage_def collector_add_def reply_job_of_def sendTelegramReply_def
        sendSafeMessage_ctx_def telegramReplyCollectorFromContext_def Background_def)
qed

section \<open>Evaluation of alerts at once\<close>

text \<open>
  \<^verbatim>\<open>evaluatePriceAlerts\<close>: record the crossings of one observed price, then process what is recorded. Both
  statements run outside a transaction.
\<close>

definition evaluatePriceAlerts ::
  "bool \<Rightarrow> go_error option \<Rightarrow> crossing_env \<Rightarrow> time \<Rightarrow> string \<Rightarrow> float64 \<Rightarrow> time \<Rightarrow> time \<Rightarrow> db
    \<Rightarrow> (nat \<times> go_error option) \<times> db" where
  "evaluatePriceAlerts priceAlertsEnabled err env dbNow symbol price startedAt storedAt d =
     (if \<not> priceAlertsEnabled then ((0, None), d)
      else case capturePriceAlertCrossings err dbNow symbol price startedAt storedAt d of
             Inl e \<Rightarrow> ((0, Some e), d)
           | Inr d' \<Rightarrow> processPriceAlertCrossings env d')"

lemma evaluatePriceAlerts_disabled:
  "evaluatePriceAlerts False err env dbNow symbol price startedAt storedAt d = ((0, None), d)"
  by (simp add: evaluatePriceAlerts_def)

text \<open>A symbol without alerts only processes what earlier prices left behind.\<close>

lemma evaluatePriceAlerts_untracked:
  "alertSymbol symbol = None \<Longrightarrow>
     evaluatePriceAlerts True err env dbNow symbol price startedAt storedAt d = processPriceAlertCrossings env d"
  by (simp add: evaluatePriceAlerts_def capturePriceAlertCrossings_def)

end
