(* ===== verification/Spec2Isabelle.thy ===== *)
theory Spec2Isabelle
  imports System_Properties Interface_Properties Policy_Properties Delivery_Properties Alert_Properties
    Inbox_Properties Migration_Properties Timing_Properties Direct_Paths
begin

text \<open>
  CryptoPulse, a Telegram bot for crypto prices, in Isabelle/HOL.

  \<^bold>\<open>The program.\<close> One process, possibly in several replicas, serves a webhook for Telegram and a cron
  endpoint, fetches prices, and delivers messages. All work is durable: the webhook only stores an update
  (the inbox), a worker applies it in one transaction and queues its replies (the reply outbox), another
  worker sends them; the cron endpoint and the price alerts queue notifications (the notification
  outbox), a third worker sends these. A worker claims a row with a lease and a token and finalizes it
  with an update that checks both, so a crashed or slow worker is superseded and loses its say.

  \<^bold>\<open>Theories and code\<close> (paths under \<^verbatim>\<open>src/\<close>; \<^verbatim>\<open>app/\<close> is \<^verbatim>\<open>internal/app/\<close>).
  \<^item> Foundations. \<open>Prelude\<close>: time, \<^verbatim>\<open>int64\<close>, SQL statements on lists of rows. \<open>Go_Strings\<close>, \<open>Float64\<close>,
    \<open>Parse_Float\<close>: the part of Go's standard library the program uses, on bytes and on IEEE numbers.
    \<open>Go_Errors\<close>: error values, classification of Telegram errors, redaction of the token
    (\<^verbatim>\<open>app/telegram_errors.go\<close>). \<open>Policy\<close>: \<^verbatim>\<open>internal/workers/policy.go\<close>. \<open>Schema\<close>: the tables of \<^verbatim>\<open>migrations/\<close>,
    message texts, transactions with their faults. \<open>Lease\<close>: the contract the three queues share, a locale.
  \<^item> Prices. \<open>Price_Cache\<close>, \<open>Price_Feed\<close>: \<^verbatim>\<open>app/pricing.go\<close>, the cache of \<^verbatim>\<open>app/app.go\<close>.
  \<^item> Queues. \<open>Notification_Outbox\<close> with \<open>Notification_Facts\<close>: \<^verbatim>\<open>app/notification_outbox.go\<close>; \<open>Reply_Outbox\<close>
    with \<open>Reply_Facts\<close>: \<^verbatim>\<open>app/telegram_reply_outbox.go\<close> and the reply functions of \<^verbatim>\<open>app/app.go\<close>; \<open>Inbox\<close>
    with \<open>Update_Facts\<close>: \<^verbatim>\<open>app/telegram_inbox.go\<close>; \<open>Sharding\<close>: its shards and lock keys; \<open>Finalization\<close>:
    \<^verbatim>\<open>app/sent_finalization.go\<close>; \<open>Retention\<close>: \<^verbatim>\<open>app/retention.go\<close>.
  \<^item> Updates. \<open>Mutation_Order\<close> with \<open>Setting_Order\<close>: \<^verbatim>\<open>app/telegram_mutation_order.go\<close>; \<open>Handlers\<close>:
    \<^verbatim>\<open>app/telegram_handlers.go\<close>, \<^verbatim>\<open>app/price_alert_handlers.go\<close> and the keyboards of \<^verbatim>\<open>internal/telegram/\<close>;
    \<open>Price_Alerts\<close> with \<open>Alert_Facts\<close>, \<open>Alert_Percent\<close>, \<open>Alert_Target\<close>, \<open>Alert_Progress\<close>: \<^verbatim>\<open>app/price_alerts.go\<close>;
    \<open>Catalogue\<close> with \<open>Catalogue_Facts\<close>, \<open>Message_Facts\<close>: the translations of \<^verbatim>\<open>internal/telegram/\<close>.
  \<^item> Process. \<open>Advisory_Lock\<close>: \<^verbatim>\<open>internal/storage/advisory_lock.go\<close>, \<^verbatim>\<open>migrations.go\<close> and the lock helpers;
    \<open>Storage\<close>: \<^verbatim>\<open>postgres.go\<close>, \<^verbatim>\<open>schema.go\<close>; \<open>Http_Server\<close>: \<^verbatim>\<open>app/http_handlers.go\<close>, \<^verbatim>\<open>internal/httpserver/\<close>;
    \<open>Config\<close>: \<^verbatim>\<open>internal/config/\<close>; \<open>Metrics\<close>: \<^verbatim>\<open>internal/metrics/\<close>; \<open>Bot_Menu\<close>: \<^verbatim>\<open>app/telegram_menu.go\<close>;
    \<open>Workers\<close>: the loops of the goroutines; \<open>Run\<close>: \<^verbatim>\<open>app/run.go\<close>, \<^verbatim>\<open>cmd/cryptopulse/main.go\<close>.
  \<^item> Time. \<open>Contexts\<close>: contexts with deadlines and cancellation (\<^verbatim>\<open>app/context.go\<close>); \<open>Delivery_Timing\<close>: the
    timeouts of \<^verbatim>\<open>policy.go\<close> and of the HTTP clients of \<^verbatim>\<open>app/run.go\<close>, the instants of a delivery, and the
    locale of a send under a lease. \<open>Direct_Paths\<close>: the reply functions of \<^verbatim>\<open>app/app.go\<close> with both their
    branches, \<^verbatim>\<open>evaluatePriceAlerts\<close>.
  \<^item> The whole. \<open>Database_Invariant\<close>: the invariant of all tables; \<open>Migrations\<close>: what \<^verbatim>\<open>migrations/001\<close>, \<^verbatim>\<open>009\<close> and
    \<^verbatim>\<open>012\<close> do to the rows of an older deployment; \<open>System\<close>: the transactions of the program as a step
    relation \<open>db_step\<close> with the states it reaches from a migrated database; \<open>Constraints\<close>: no transaction
    runs into a \<^verbatim>\<open>CHECK\<close> or \<^verbatim>\<open>NOT NULL\<close> constraint of the schema. The theories named \<open>..._Properties\<close> hold the claims.

  \<^bold>\<open>State and operations.\<close> The database is a record of lists of rows, one row record per table. An
  operation of the code is a definition of the same name that takes the database and what it meets
  outside (clocks, tokens, errors of statements, locked rows, answers of Telegram, JSON decoders) as
  arguments and returns its result, an error or a value, with the new database. A transaction is its body
  under \<open>run_tx\<close>, which may abort it or lose the acknowledgement of its commit. Writes of other
  goroutines between two statements of one are arguments, too (\<open>de_others\<close>), restricted to transactions
  of the program where a claim needs it (\<open>honest\<close>). Goroutines are lists of the turns they have taken.

  \<^bold>\<open>What is shown.\<close> Queues: a claim is exclusive for its lease, a superseded worker changes nothing, a
  message is sent only under a current claim, whose lease outlives the request, confirmed and failed sends end in the right state, finished
  rows stay finished, the replies and updates of a chat keep their order, an update is stored and
  processed once, the cleaner removes exactly what has expired. Settings: the version table implements
  last-writer-wins registers, so reordered and repeated updates end in the same setting. Alerts:
  percentages are read exactly through \<^verbatim>\<open>float64\<close>, targets are within a relative error of \<open>2 ^ -51\<close> and on the
  right side, crossings are recorded and processed completely, an alert fires once, a canceled one never.
  Front end: who may change the database, what a reply 200 of the webhook means, that the shutdown
  drains the producers and closes the pools last, that no advisory lock leaks. Texts: no translation is
  missing and no format lacks an argument. Upgrades: old data is repaired or refused, and commands
  processed before keep their order. System: every goroutine and request only takes steps of
  \<open>db_step\<close>, and every reachable database is consistent and satisfies the constraints of the schema.

  \<^bold>\<open>Loops and bounds.\<close> Recursion is structural or has a measure, except \<open>drain_from\<close> of \<open>Retention\<close>, a
  \<^theory_text>\<open>partial_function\<close>, for which \<open>drain_from_returns\<close> shows that it returns on every database that satisfies
  the invariant, and \<open>process_crossings_loop\<close>, whose measure is the number of candidates left. No fuel is
  used. Identifiers and counters are integers; \<^verbatim>\<open>int64\<close> wraps where the code can reach the bounds (retry
  delays, lock keys, time differences).

  \<^bold>\<open>Library code\<close> is a parameter: the token bucket, the JSON decoder, the driver errors, goose and
  PostgreSQL's \<^verbatim>\<open>jsonb\<close> operators in the migrations, the page of the metrics. Of the HTTP clients and of the
  driver the timing relies on their timeouts: a call that returns without an error returns before its
  context or client timeout is over; the instants are those of one clock. PostgreSQL is modelled as far
  as the statements of the program use it; unique indexes and checks are tested where an insert can meet
  them.

  \<^bold>\<open>Not modelled.\<close> Logging and the counter \<^verbatim>\<open>DBOperationsTotal\<close>, which have no influence on the state.
  Outside \<open>Contexts\<close> and \<open>Delivery_Timing\<close> a context appears as the errors it causes. The
  printing of times in the Kyiv zone and of floats (\<^verbatim>\<open>%.8g\<close>): texts keep the value and the format. The
  downward migrations, which the program never runs, and the embedding of the migration files. The poll
  intervals of the workers: a turn of a worker comes at some time.
\<close>

end
